(* ===== verification/Rust_Strings.thy ===== *)
theory Rust_Strings
  imports Rust_Base "HOL-Library.Sublist"
begin

text \<open>
  The \<open>str\<close>, \<open>Path\<close> and number-parsing functions of the Rust standard library that the
  sources use, on \<open>string\<close>s that hold the UTF-8 bytes of a Rust \<open>String\<close>. White space
  is Unicode's: \<open>ws_len\<close> recognises the UTF-8 encoding of every \<open>White_Space\<close> code
  point. The lemmas are the round trip of decimal numbers and the facts on splitting and
  trimming that the parsers of the components share.
\<close>

named_theorems str_simps

section \<open>White space\<close>

text \<open>The length of the white-space character a string starts with, 0 for none.\<close>

definition ws_len :: "string \<Rightarrow> nat" where
  "ws_len s =
     (case map of_char s of
        [] \<Rightarrow> 0
      | (a :: nat) # r \<Rightarrow>
          if (9 \<le> a \<and> a \<le> 13) \<or> a = 32 then 1
          else if a = 0xC2 then (case r of b # _ \<Rightarrow> if b = 0x85 \<or> b = 0xA0 then 2 else 0 | _ \<Rightarrow> 0)
          else if a = 0xE1 then (case r of b # c # _ \<Rightarrow> if b = 0x9A \<and> c = 0x80 then 3 else 0 | _ \<Rightarrow> 0)
          else if a = 0xE2 then
            (case r of b # c # _ \<Rightarrow>
                 if (b = 0x80 \<and> ((0x80 \<le> c \<and> c \<le> 0x8A) \<or> c = 0xA8 \<or> c = 0xA9 \<or> c = 0xAF))
                    \<or> (b = 0x81 \<and> c = 0x9F) then 3 else 0
             | _ \<Rightarrow> 0)
          else if a = 0xE3 then (case r of b # c # _ \<Rightarrow> if b = 0x80 \<and> c = 0x80 then 3 else 0 | _ \<Rightarrow> 0)
          else 0)"

lemma ws_len_Nil [simp, str_simps]: "ws_len [] = 0"
  by (simp add: ws_len_def)

lemma ws_len_pos_nonempty: "0 < ws_len s \<Longrightarrow> s \<noteq> []"
  by auto

lemma drop_ws_shorter: "ws_len s \<noteq> 0 \<Longrightarrow> length (drop (ws_len s) s) < length s"
  using ws_len_pos_nonempty [of s] by (cases s) auto

text \<open>The length of the white-space character a string ends with, 0 for none.\<close>

definition ws_end_len :: "string \<Rightarrow> nat" where
  "ws_end_len s =
     (let n = length s
      in if 1 \<le> n \<and> ws_len (drop (n - 1) s) = 1 then 1
         else if 2 \<le> n \<and> ws_len (drop (n - 2) s) = 2 then 2
         else if 3 \<le> n \<and> ws_len (drop (n - 3) s) = 3 then 3
         else 0)"

function trim_start :: "string \<Rightarrow> string" where
  "trim_start s = (if ws_len s = 0 then s else trim_start (drop (ws_len s) s))"
  by pat_completeness auto
termination
  by (relation "measure length") (use drop_ws_shorter in simp_all)

function trim_end :: "string \<Rightarrow> string" where
  "trim_end s = (if ws_end_len s = 0 then s else trim_end (take (length s - ws_end_len s) s))"
  by pat_completeness auto
termination
  by (relation "measure length") (auto simp: ws_end_len_def Let_def split: if_splits)

declare trim_start.simps [simp del] trim_end.simps [simp del]

definition trim :: "string \<Rightarrow> string" where
  "trim s = trim_end (trim_start s)"

definition flush_word :: "string \<Rightarrow> string list" where
  "flush_word w = (if w = [] then [] else [w])"

function split_ws_aux :: "string \<Rightarrow> string \<Rightarrow> string list" where
  "split_ws_aux w s =
     (if s = [] then flush_word w
      else if 0 < ws_len s then flush_word w @ split_ws_aux [] (drop (ws_len s) s)
      else split_ws_aux (w @ [hd s]) (tl s))"
  by pat_completeness auto
termination
  by (relation "measure (\<lambda>(w, s). length s)") auto

declare split_ws_aux.simps [simp del]

definition split_whitespace :: "string \<Rightarrow> string list" where
  "split_whitespace s = split_ws_aux [] s"

section \<open>Splitting and matching\<close>

fun split_inclusive_nl :: "string \<Rightarrow> string list" where
  "split_inclusive_nl [] = []"
| "split_inclusive_nl (c # cs) =
     (if c = CHR 0x0A then [c] # split_inclusive_nl cs
      else case split_inclusive_nl cs of [] \<Rightarrow> [[c]] | l # ls \<Rightarrow> (c # l) # ls)"

definition strip_suffix :: "string \<Rightarrow> string \<Rightarrow> string option" where
  "strip_suffix p s =
     (if length p \<le> length s \<and> drop (length s - length p) s = p
      then Some (take (length s - length p) s) else None)"

definition strip_prefix :: "string \<Rightarrow> string \<Rightarrow> string option" where
  "strip_prefix p s = (if take (length p) s = p then Some (drop (length p) s) else None)"

definition starts_with :: "string \<Rightarrow> string \<Rightarrow> bool" where
  "starts_with p s = (take (length p) s = p)"

definition ends_with :: "string \<Rightarrow> string \<Rightarrow> bool" where
  "ends_with p s = (strip_suffix p s \<noteq> None)"

definition strip_line_ending :: "string \<Rightarrow> string" where
  "strip_line_ending l =
     (case strip_suffix [CHR 0x0A] l of None \<Rightarrow> l
      | Some l1 \<Rightarrow> (case strip_suffix [CHR 0x0D] l1 of None \<Rightarrow> l1 | Some l2 \<Rightarrow> l2))"

definition lines :: "string \<Rightarrow> string list" where
  "lines s = map strip_line_ending (split_inclusive_nl s)"

fun split_on :: "char \<Rightarrow> string \<Rightarrow> string list" where
  "split_on d [] = [[]]"
| "split_on d (c # cs) =
     (if c = d then [] # split_on d cs
      else case split_on d cs of [] \<Rightarrow> [[c]] | l # ls \<Rightarrow> (c # l) # ls)"

fun split_once :: "char \<Rightarrow> string \<Rightarrow> (string \<times> string) option" where
  "split_once d [] = None"
| "split_once d (c # cs) =
     (if c = d then Some ([], cs)
      else map_option (\<lambda>(a, b). (c # a, b)) (split_once d cs))"

fun contains_str :: "string \<Rightarrow> string \<Rightarrow> bool" where
  "contains_str p [] = (p = [])"
| "contains_str p (c # cs) = (starts_with p (c # cs) \<or> contains_str p cs)"

definition trim_start_matches :: "char \<Rightarrow> string \<Rightarrow> string" where
  "trim_start_matches c s = dropWhile (\<lambda>x. x = c) s"

definition trim_end_matches :: "char \<Rightarrow> string \<Rightarrow> string" where
  "trim_end_matches c s = rev (dropWhile (\<lambda>x. x = c) (rev s))"

fun join_with :: "string \<Rightarrow> string list \<Rightarrow> string" where
  "join_with sep [] = []"
| "join_with sep [s] = s"
| "join_with sep (s # t # ts) = s @ sep @ join_with sep (t # ts)"

definition is_ascii_digit :: "char \<Rightarrow> bool" where
  "is_ascii_digit c = (let n = of_char c :: nat in 48 \<le> n \<and> n \<le> 57)"

definition to_ascii_lower :: "char \<Rightarrow> char" where
  "to_ascii_lower c = (let n = of_char c :: nat in if 65 \<le> n \<and> n \<le> 90 then char_of (n + 32) else c)"

section \<open>Numbers\<close>

definition digit_val :: "nat \<Rightarrow> char \<Rightarrow> nat option" where
  "digit_val radix c =
     (let n = of_char c :: nat;
          d = (if 48 \<le> n \<and> n \<le> 57 then Some (n - 48)
               else if 97 \<le> n \<and> n \<le> 122 then Some (n - 97 + 10)
               else if 65 \<le> n \<and> n \<le> 90 then Some (n - 65 + 10)
               else None)
      in case d of None \<Rightarrow> None | Some v \<Rightarrow> if v < radix then Some v else None)"

fun digits_val :: "nat \<Rightarrow> nat \<Rightarrow> string \<Rightarrow> nat option" where
  "digits_val radix acc [] = Some acc"
| "digits_val radix acc (c # cs) =
     (case digit_val radix c of None \<Rightarrow> None
      | Some d \<Rightarrow> digits_val radix (acc * radix + d) cs)"

text \<open>
  \<open>from_str_radix\<close> and \<open>FromStr\<close> of an unsigned type with largest value \<open>hi\<close>: one
  leading \<open>+\<close> is accepted, an empty digit string and an overflow are errors.
\<close>

definition parse_unsigned :: "nat \<Rightarrow> nat \<Rightarrow> string \<Rightarrow> nat option" where
  "parse_unsigned radix hi s =
     (let ds = (case s of c # cs \<Rightarrow> if c = CHR ''+'' then cs else s | [] \<Rightarrow> [])
      in if ds = [] then None
         else case digits_val radix 0 ds of None \<Rightarrow> None
              | Some n \<Rightarrow> if n \<le> hi then Some n else None)"

definition parse_u16_radix :: "nat \<Rightarrow> string \<Rightarrow> u16 option" where
  "parse_u16_radix radix s = map_option of_nat (parse_unsigned radix (2 ^ 16 - 1) s)"

definition parse_u8_radix :: "nat \<Rightarrow> string \<Rightarrow> u8 option" where
  "parse_u8_radix radix s = map_option of_nat (parse_unsigned radix (2 ^ 8 - 1) s)"

definition parse_u16 :: "string \<Rightarrow> u16 option" where
  "parse_u16 = parse_u16_radix 10"

definition parse_u32 :: "string \<Rightarrow> u32 option" where
  "parse_u32 s = map_option of_nat (parse_unsigned 10 (2 ^ 32 - 1) s)"

definition parse_u64 :: "string \<Rightarrow> u64 option" where
  "parse_u64 s = map_option of_nat (parse_unsigned 10 (2 ^ 64 - 1) s)"

definition parse_i64 :: "string \<Rightarrow> int option" where
  "parse_i64 s =
     (case s of
        c # cs \<Rightarrow>
          if c = CHR ''-'' then
            (if cs = [] then None
             else case digits_val 10 0 cs of None \<Rightarrow> None
                  | Some n \<Rightarrow> if n \<le> 2 ^ 63 then Some (- int n) else None)
          else map_option int (parse_unsigned 10 (2 ^ 63 - 1) s)
      | [] \<Rightarrow> None)"

fun show_nat :: "nat \<Rightarrow> string" where
  "show_nat n = (if n < 10 then [char_of (48 + n)] else show_nat (n div 10) @ [char_of (48 + n mod 10)])"

declare show_nat.simps [simp del]

definition show_int :: "int \<Rightarrow> string" where
  "show_int i = (if i < 0 then CHR ''-'' # show_nat (nat (- i)) else show_nat (nat i))"

section \<open>Paths\<close>

text \<open>\<open>Path::join\<close>: an absolute argument replaces the path.\<close>

definition path_join :: "path \<Rightarrow> path \<Rightarrow> path" where
  "path_join a b =
     (if starts_with ''/'' b then b
      else if a = [] \<or> last a = CHR ''/'' then a @ b
      else a @ CHR ''/'' # b)"

text \<open>
  \<open>Path::components\<close>: repeated separators and \<open>.\<close> vanish, except a leading \<open>.\<close> of a
  relative path.
\<close>

datatype path_component = RootDir | CurDir | ParentDir | Normal string

definition component_of :: "string \<Rightarrow> path_component list" where
  "component_of s =
     (if s = [] \<or> s = ''.'' then [] else if s = ''..'' then [ParentDir] else [Normal s])"

definition components :: "path \<Rightarrow> path_component list" where
  "components p =
     (case p of
        [] \<Rightarrow> []
      | c # cs \<Rightarrow>
          if c = CHR ''/'' then RootDir # concat (map component_of (split_on (CHR ''/'') cs))
          else case split_on (CHR ''/'') p of
                 [] \<Rightarrow> []
               | x # xs \<Rightarrow> (if x = ''.'' then [CurDir] else component_of x)
                             @ concat (map component_of xs))"

text \<open>\<open>Path::ends_with\<close> and \<open>Path::starts_with\<close> compare whole components.\<close>

definition path_ends_with :: "path \<Rightarrow> path \<Rightarrow> bool" where
  "path_ends_with p q =
     (let ps = components p; qs = components q
      in length qs \<le> length ps \<and> drop (length ps - length qs) ps = qs)"

definition path_starts_with :: "path \<Rightarrow> path \<Rightarrow> bool" where
  "path_starts_with p q = (let qs = components q in take (length qs) (components p) = qs)"

fun component_text :: "path_component \<Rightarrow> string" where
  "component_text RootDir = ''/''"
| "component_text CurDir = ''.''"
| "component_text ParentDir = ''..''"
| "component_text (Normal s) = s"

fun components_path :: "path_component list \<Rightarrow> path" where
  "components_path [] = []"
| "components_path (c # cs) = fold (\<lambda>x p. path_join p (component_text x)) cs (component_text c)"

definition is_absolute :: "path \<Rightarrow> bool" where
  "is_absolute p = starts_with ''/'' p"

text \<open>\<open>Path::file_name\<close> and \<open>Path::parent\<close>, by the last component.\<close>

definition file_name :: "path \<Rightarrow> string option" where
  "file_name p =
     (case rev (components p) of Normal s # _ \<Rightarrow> Some s | _ \<Rightarrow> None)"

definition path_parent :: "path \<Rightarrow> path option" where
  "path_parent p =
     (case rev (components p) of
        [] \<Rightarrow> None
      | RootDir # _ \<Rightarrow> None
      | _ # cs \<Rightarrow> Some (components_path (rev cs)))"

text \<open>\<open>env::split_paths\<close> on Unix: the pieces between colons, empty ones included.\<close>

definition split_paths :: "string \<Rightarrow> path list" where
  "split_paths s = split_on (CHR '':'') s"

section \<open>Lemmas\<close>

lemma char_of_small_eq: "n < 256 \<Longrightarrow> char_of n = c \<longleftrightarrow> n = (of_char c :: nat)"
  by (auto simp: char_of_eq_iff take_bit_nat_eq_self)

lemma eq_char_of_small: "n < 256 \<Longrightarrow> c = char_of n \<longleftrightarrow> n = (of_char c :: nat)"
  using char_of_small_eq [of n c] by auto

lemma digit_val_show: "d < 10 \<Longrightarrow> digit_val 10 (char_of (48 + d)) = Some d"
  by (simp add: digit_val_def)

lemma digits_val_append:
  "digits_val r acc (s @ t) = (case digits_val r acc s of None \<Rightarrow> None | Some n \<Rightarrow> digits_val r n t)"
  by (induction s arbitrary: acc) (simp_all split: option.splits)

lemma digits_val_show_nat: "digits_val 10 0 (show_nat n) = Some n"
proof (induction n rule: show_nat.induct)
  case (1 n)
  show ?case
    by (cases "n < 10")
      (simp_all add: show_nat.simps [of n] digits_val_append digit_val_show 1 del: char_of_nat)
qed

lemma show_nat_nonempty [simp]: "show_nat n \<noteq> []"
  by (subst show_nat.simps) simp

lemma set_show_nat: "c \<in> set (show_nat n) \<Longrightarrow> \<exists>d < 10. c = char_of (48 + d :: nat)"
proof (induction n rule: show_nat.induct)
  case (1 n)
  show ?case
  proof (cases "n < 10")
    case True
    with "1.prems" show ?thesis by (auto simp: show_nat.simps [of n])
  next
    case False
    with "1.prems" have "c \<in> set (show_nat (n div 10)) \<or> c = char_of (48 + n mod 10)"
      by (auto simp: show_nat.simps [of n])
    with False "1.IH" show ?thesis by (auto intro: exI [of _ "n mod 10"])
  qed
qed

text \<open>A decimal number with a trailing newline, as pid files hold it, trims to the number.\<close>

lemma ws_len_digits:
  assumes "\<And>c. c \<in> set s \<Longrightarrow> \<exists>d < 10. c = char_of (48 + d :: nat)"
  shows "ws_len (s @ t) = (if s = [] then ws_len t else 0)"
proof (cases s)
  case (Cons c cs)
  with assms obtain d where "d < 10" "c = char_of (48 + d :: nat)" by auto
  with Cons show ?thesis by (simp add: ws_len_def)
qed simp

lemma ws_end_len_show_nat: "ws_end_len (show_nat n) = 0"
proof -
  have "ws_len (drop k (show_nat n)) = 0" for k
  proof -
    have "\<exists>d < 10. c = char_of (48 + d :: nat)" if "c \<in> set (drop k (show_nat n))" for c
      using in_set_dropD [OF that] by (rule set_show_nat)
    then have "ws_len (drop k (show_nat n) @ []) = (if drop k (show_nat n) = [] then ws_len [] else 0)"
      by (rule ws_len_digits)
    then show ?thesis by (simp only: append_Nil2 ws_len_Nil if_cancel)
  qed
  then show ?thesis by (simp add: ws_end_len_def)
qed

lemma trim_show_nat_nl: "trim (show_nat n @ [CHR 0x0A]) = show_nat n"
proof -
  have "ws_end_len (show_nat n @ [CHR 0x0A]) = 1"
    by (simp add: ws_end_len_def ws_len_def Let_def)
  then have "trim_end (show_nat n @ [CHR 0x0A]) = show_nat n"
    by (subst trim_end.simps) (simp add: trim_end.simps [of "show_nat n"] ws_end_len_show_nat)
  moreover have "trim_start (show_nat n @ [CHR 0x0A]) = show_nat n @ [CHR 0x0A]"
    using ws_len_digits [of "show_nat n" "[CHR 0x0A]"] set_show_nat [of _ n]
    by (subst trim_start.simps) simp
  ultimately show ?thesis by (simp add: trim_def)
qed

lemma show_nat_no_plus: "show_nat n \<noteq> CHR ''+'' # cs"
proof
  assume "show_nat n = CHR ''+'' # cs"
  then have "CHR ''+'' \<in> set (show_nat n)" by simp
  then show False using set_show_nat [of "CHR ''+''" n] by (auto simp: eq_char_of_small)
qed

lemma parse_unsigned_show_nat: "n \<le> hi \<Longrightarrow> parse_unsigned 10 hi (show_nat n) = Some n"
proof -
  assume "n \<le> hi"
  obtain c cs where s: "show_nat n = c # cs" by (cases "show_nat n") simp_all
  with show_nat_no_plus [of n cs] have "c \<noteq> CHR ''+''" by auto
  with \<open>n \<le> hi\<close> s digits_val_show_nat [of n] show ?thesis
    by (simp add: parse_unsigned_def Let_def del: digits_val.simps)
qed

lemma parse_u32_show: "parse_u32 (show_nat (unat w)) = Some w"
proof -
  have "unat w < 2 ^ LENGTH(32)" by (rule unsigned_less)
  then have "unat w \<le> 2 ^ 32 - 1" by simp
  then show ?thesis by (simp add: parse_u32_def parse_unsigned_show_nat)
qed

lemma parse_u64_show: "parse_u64 (show_nat (unat w)) = Some w"
proof -
  have "unat w < 2 ^ LENGTH(64)" by (rule unsigned_less)
  then have "unat w \<le> 2 ^ 64 - 1" by simp
  then show ?thesis by (simp add: parse_u64_def parse_unsigned_show_nat)
qed

lemma show_nat_not_in: "\<not> is_ascii_digit c \<Longrightarrow> c \<notin> set (show_nat n)"
  using set_show_nat [of c n] by (auto simp: is_ascii_digit_def)

lemma split_on_none: "d \<notin> set s \<Longrightarrow> split_on d s = [s]"
  by (induction s) auto

lemma split_on_first: "d \<notin> set a \<Longrightarrow> split_on d (a @ d # b) = a # split_on d b"
  by (induction a) auto

lemma split_once_first: "d \<notin> set a \<Longrightarrow> split_once d (a @ d # b) = Some (a, b)"
  by (induction a) auto

lemma length_show_nat: "n < 10 ^ Suc k \<Longrightarrow> length (show_nat n) \<le> Suc k"
proof (induction n arbitrary: k rule: show_nat.induct)
  case (1 n)
  show ?case
  proof (cases "n < 10")
    case False
    then obtain j where j: "k = Suc j" using "1.prems" by (cases k) auto
    with "1.prems" have "n div 10 < 10 ^ Suc j" by (simp add: less_mult_imp_div_less)
    with "1.IH" [OF False] j False show ?thesis by (simp add: show_nat.simps [of n])
  qed (simp add: show_nat.simps [of n])
qed

lemma parse_i64_show_int:
  assumes "- (2 ^ 63) \<le> i" and "i < 2 ^ 63"
  shows "parse_i64 (show_int i) = Some i"
proof (cases "i < 0")
  case True
  with assms show ?thesis by (simp add: parse_i64_def show_int_def digits_val_show_nat)
next
  case False
  obtain c cs where s: "show_nat (nat i) = c # cs" by (cases "show_nat (nat i)") simp_all
  then have "c \<noteq> CHR ''-''" using show_nat_not_in [of "CHR ''-''" "nat i"] by (auto simp: is_ascii_digit_def)
  moreover have "parse_unsigned 10 (2 ^ 63 - 1) (show_nat (nat i)) = Some (nat i)"
    using assms(2) False by (intro parse_unsigned_show_nat) auto
  ultimately show ?thesis using False s by (simp add: parse_i64_def show_int_def)
qed

section \<open>Words and lines\<close>

text \<open>
  Printable ASCII words survive splitting: the tables of \<open>/proc\<close> and the kernel command line
  are such words between single spaces.
\<close>

definition graphic :: "char \<Rightarrow> bool" where
  "graphic c = (let n = of_char c :: nat in 33 \<le> n \<and> n \<le> 126)"

definition word :: "string \<Rightarrow> bool" where
  "word w \<longleftrightarrow> w \<noteq> [] \<and> list_all graphic w"

lemma ws_len_graphic: "graphic c \<Longrightarrow> ws_len (c # s) = 0"
  by (simp add: ws_len_def graphic_def Let_def)

lemma split_ws_aux_word: "list_all graphic w \<Longrightarrow> split_ws_aux acc (w @ s) = split_ws_aux (acc @ w) s"
proof (induction w arbitrary: acc)
  case (Cons c w)
  then show ?case by (subst split_ws_aux.simps) (simp add: ws_len_graphic)
qed simp

lemma split_ws_aux_Nil [simp]: "split_ws_aux acc [] = flush_word acc"
  by (subst split_ws_aux.simps) simp

lemma split_ws_aux_space: "split_ws_aux acc (CHR 0x20 # s) = flush_word acc @ split_ws_aux [] s"
  by (subst split_ws_aux.simps) (simp add: ws_len_def)

lemma split_whitespace_words:
  "list_all word ws \<Longrightarrow> split_whitespace (join_with '' '' ws) = ws"
  unfolding split_whitespace_def
proof (induction "'' ''" ws rule: join_with.induct)
  case (2 s)
  then show ?case using split_ws_aux_word [of s "[]" "[]"] by (simp add: word_def flush_word_def)
next
  case (3 s t ts)
  then show ?case
    using split_ws_aux_word [of s "[]" "CHR 0x20 # join_with '' '' (t # ts)"]
    by (simp add: split_ws_aux_space word_def flush_word_def)
qed (simp add: flush_word_def)

definition plain_line :: "string \<Rightarrow> bool" where
  "plain_line l \<longleftrightarrow> CHR 0x0A \<notin> set l \<and> (l = [] \<or> last l \<noteq> CHR 0x0D)"

lemma split_inclusive_nl_line:
  "CHR 0x0A \<notin> set l \<Longrightarrow> split_inclusive_nl (l @ CHR 0x0A # s) = (l @ [CHR 0x0A]) # split_inclusive_nl s"
  by (induction l) auto

lemma strip_line_ending_plain: "plain_line l \<Longrightarrow> strip_line_ending (l @ [CHR 0x0A]) = l"
proof -
  assume "plain_line l"
  then have "strip_suffix [CHR 0x0D] l = None"
    by (cases l rule: rev_cases) (auto simp: strip_suffix_def plain_line_def)
  then show ?thesis by (simp add: strip_line_ending_def strip_suffix_def [of "[CHR 0x0A]"])
qed

lemma lines_concat:
  "list_all plain_line ls \<Longrightarrow> lines (concat (map (\<lambda>l. l @ [CHR 0x0A]) ls)) = ls"
  unfolding lines_def
proof (induction ls)
  case (Cons l ls)
  then have "CHR 0x0A \<notin> set l" by (simp add: plain_line_def)
  from split_inclusive_nl_line [OF this, of "concat (map (\<lambda>l. l @ [CHR 0x0A]) ls)"] Cons
  show ?case by (simp add: strip_line_ending_plain)
qed simp

lemma list_all_join: "list_all word ws \<Longrightarrow> plain_line (join_with '' '' ws)"
proof -
  have nl: "graphic c \<Longrightarrow> c \<noteq> CHR 0x0A \<and> c \<noteq> CHR 0x0D" for c by (auto simp: graphic_def Let_def)
  have word_nl: "word w \<Longrightarrow> CHR 0x0A \<notin> set w \<and> w \<noteq> [] \<and> last w \<noteq> CHR 0x0D" for w
    using nl by (auto simp: word_def list_all_iff dest: last_in_set)
  have "list_all word ws \<Longrightarrow> CHR 0x0A \<notin> set (join_with '' '' ws)
      \<and> (ws \<noteq> [] \<longrightarrow> join_with '' '' ws \<noteq> [] \<and> last (join_with '' '' ws) \<noteq> CHR 0x0D)"
    using word_nl by (induction "'' ''" ws rule: join_with.induct) auto
  then show "list_all word ws \<Longrightarrow> plain_line (join_with '' '' ws)"
    by (cases ws) (auto simp: plain_line_def)
qed


section \<open>Slices and padded columns\<close>

text \<open>
  \<open>&s[a..b]\<close>: the range must be ordered, inside the string and on character boundaries of its
  UTF-8 bytes; otherwise the program panics, which is \<open>None\<close>.
\<close>

definition is_char_boundary :: "nat \<Rightarrow> string \<Rightarrow> bool" where
  "is_char_boundary i s =
     (i = length s \<or> (i < length s \<and> (let n = of_char (s ! i) :: nat in n < 128 \<or> 192 \<le> n)))"

definition str_slice :: "nat \<Rightarrow> nat \<Rightarrow> string \<Rightarrow> string option" where
  "str_slice a b s =
     (if a \<le> b \<and> is_char_boundary a s \<and> is_char_boundary b s then Some (take (b - a) (drop a s)) else None)"

lemma graphic_boundary: "list_all graphic s \<Longrightarrow> i \<le> length s \<Longrightarrow> is_char_boundary i s"
  by (cases "i = length s")
    (auto simp: is_char_boundary_def graphic_def Let_def list_all_length dest!: spec [of _ i])

lemma str_slice_graphic:
  "list_all graphic s \<Longrightarrow> a \<le> b \<Longrightarrow> b \<le> length s \<Longrightarrow> str_slice a b s = Some (take (b - a) (drop a s))"
  by (simp add: str_slice_def graphic_boundary)

text \<open>A line of words, each but the first after one or more spaces, as the kernel prints its tables.\<close>

definition spaces :: "nat \<Rightarrow> string" where
  "spaces n = replicate n (CHR 0x20)"

definition padded :: "(nat \<times> string) list \<Rightarrow> string" where
  "padded ws = concat (map (\<lambda>(n, w). spaces (Suc n) @ w) ws)"

lemma split_ws_aux_spaces: "split_ws_aux [] (spaces n @ s) = split_ws_aux [] s"
  by (induction n) (simp_all add: spaces_def split_ws_aux_space flush_word_def)

lemma split_ws_aux_padded:
  "list_all (\<lambda>(n, w). word w) ws \<Longrightarrow> split_ws_aux acc (padded ws) = flush_word acc @ map snd ws"
proof (induction ws arbitrary: acc)
  case (Cons p ws)
  obtain n w where p: "p = (n, w)" by (cases p)
  with Cons.prems have w: "w \<noteq> []" "list_all graphic w" by (simp_all add: word_def)
  have "padded (p # ws) = CHR 0x20 # (spaces n @ (w @ padded ws))"
    by (simp add: padded_def p spaces_def)
  then show ?case
    using Cons split_ws_aux_word [OF w(2), of "[]" "padded ws"] w(1)
    by (simp add: split_ws_aux_space split_ws_aux_spaces flush_word_def p)
qed (simp add: padded_def)

lemma split_whitespace_padded:
  assumes "list_all (\<lambda>(n, w). word w) ws"
  shows "split_whitespace (padded ws) = map snd ws"
  using split_ws_aux_padded [OF assms, of "[]"] by (simp add: split_whitespace_def flush_word_def)

lemma padded_plain:
  assumes "list_all (\<lambda>(n, w). word w) ws"
  shows "plain_line (padded ws)"
proof -
  have nl: "graphic c \<Longrightarrow> c \<noteq> CHR 0x0A \<and> c \<noteq> CHR 0x0D" for c by (auto simp: graphic_def Let_def)
  have "c \<noteq> CHR 0x0A \<and> c \<noteq> CHR 0x0D" if "c \<in> set (padded ws)" for c
    using assms that by (fastforce simp: padded_def spaces_def list_all_iff word_def dest: nl)
  then show ?thesis by (auto simp: plain_line_def dest: last_in_set)
qed

text \<open>Upper-case hexadecimal of a fixed width, the kernel's \<open>%04X\<close>.\<close>

definition hex_upper :: "nat \<Rightarrow> char" where
  "hex_upper n = (if n < 10 then char_of (48 + n) else char_of (55 + n))"

fun hex_upper_fixed :: "nat \<Rightarrow> nat \<Rightarrow> string" where
  "hex_upper_fixed 0 n = []"
| "hex_upper_fixed (Suc k) n = hex_upper_fixed k (n div 16) @ [hex_upper (n mod 16)]"

lemma hex_upper_props:
  assumes "d < 16"
  shows "digit_val 16 (hex_upper d) = Some d" and "graphic (hex_upper d)"
    and "hex_upper d \<noteq> CHR ''+''" and "hex_upper d \<noteq> CHR '':''"
  using assms by (auto simp: hex_upper_def digit_val_def graphic_def Let_def char_of_small_eq)

lemma length_hex_upper_fixed [simp]: "length (hex_upper_fixed k n) = k"
  by (induction k arbitrary: n) simp_all

lemma digits_val_hex_upper: "n < 16 ^ k \<Longrightarrow> digits_val 16 0 (hex_upper_fixed k n) = Some n"
proof (induction k arbitrary: n)
  case (Suc k)
  from Suc.prems have "n div 16 < 16 ^ k" by (simp add: less_mult_imp_div_less)
  from Suc.IH [OF this] show ?case
    using hex_upper_props(1) [of "n mod 16"] by (simp add: digits_val_append)
qed simp

lemma set_hex_upper_fixed: "c \<in> set (hex_upper_fixed k n) \<Longrightarrow> \<exists>d < 16. c = hex_upper d"
  by (induction k arbitrary: n) (auto intro: exI [of _ "_ mod 16"])

lemma parse_u16_hex_upper:
  "parse_u16_radix 16 (hex_upper_fixed 4 (unat (p :: u16))) = Some p"
proof -
  have p: "unat p < 16 ^ 4" using unsigned_less [of p, where ?'a = nat] by simp
  let ?s = "hex_upper_fixed 4 (unat p)"
  obtain c cs where s: "?s = c # cs" by (cases ?s) (use length_hex_upper_fixed [of 4 "unat p"] in auto)
  then have "c \<noteq> CHR ''+''" using set_hex_upper_fixed [of c 4 "unat p"] hex_upper_props(3) by auto
  then have "parse_unsigned 16 (2 ^ 16 - 1) ?s = Some (unat p)"
    using s p digits_val_hex_upper [OF p] by (simp add: parse_unsigned_def Let_def del: digits_val.simps)
  then show ?thesis by (simp add: parse_u16_radix_def)
qed


section \<open>Trimming words\<close>

lemma ws_len_drop_graphic: "list_all graphic s \<Longrightarrow> ws_len (drop k s) = 0"
proof (cases "drop k s")
  case (Cons c r)
  assume "list_all graphic s"
  moreover have "c \<in> set s" using Cons by (metis in_set_dropD list.set_intros(1))
  ultimately show ?thesis using Cons by (simp add: ws_len_graphic list_all_iff)
qed simp

lemma trim_graphic: "list_all graphic s \<Longrightarrow> trim s = s"
proof -
  assume "list_all graphic s"
  then have "ws_len (drop k s) = 0" for k by (rule ws_len_drop_graphic)
  then have "ws_len s = 0" "ws_end_len s = 0" by (simp_all add: ws_end_len_def) (metis drop0)
  then show ?thesis by (simp add: trim_def trim_start.simps [of s] trim_end.simps [of s])
qed

lemma show_nat_graphic: "list_all graphic (show_nat n)"
  using set_show_nat [of _ n] by (fastforce simp: list_all_iff graphic_def)

end
