(* ===== verification/Host_OS.thy ===== *)
theory Host_OS
  imports Rust_Strings "HOL-Library.AList" "HOL-Library.Char_ord" "HOL-Library.List_Lexorder"
    "HOL-Library.Product_Lexorder" "HOL-Library.Code_Target_Nat"
begin

text \<open>
  The operating system as the host side uses it through \<open>std::fs\<close>, \<open>std::process\<close> and
  \<open>std::thread::sleep\<close>: a world of files, child processes and a clock in nanoseconds. The
  outcomes of the next fallible calls are lists carried by the world (\<open>None\<close> and the end of
  the list succeed), so a theorem holds for every pattern of failures. What other programs
  do while a thread sleeps is the parameter \<open>env\<close>. Paths are compared as written.
\<close>

datatype node = Dir | Regular string | Socket

text \<open>
  A child is live, ended and not yet waited for, or reaped; \<open>pr_exit\<close> is the code it ends
  with, \<open>None\<close> when a signal ended it.
\<close>

datatype run_state = Live | Zombie | Reaped

record process =
  pr_label :: string
  pr_run :: run_state
  pr_exit :: "int option"

record world =
  os_files :: "(path \<times> node) list"
  os_procs :: "(u32 \<times> process) list"
  os_pids :: "(u32 \<times> int option) list"
  os_fs_faults :: "io_error option list"
  os_spawn_faults :: "io_error option list"
  os_proc_faults :: "io_error option list"
  os_clock :: nat

definition take_fault :: "io_error option list \<Rightarrow> io_error option \<times> io_error option list" where
  "take_fault fs = (case fs of [] \<Rightarrow> (None, []) | f # r \<Rightarrow> (f, r))"

lemma take_fault_Nil [simp]: "take_fault [] = (None, [])"
  by (simp add: take_fault_def)

section \<open>Files\<close>

definition lookup_file :: "path \<Rightarrow> world \<Rightarrow> node option" where
  "lookup_file p w = map_of (os_files w) p"

definition put_file :: "path \<Rightarrow> node \<Rightarrow> world \<Rightarrow> world" where
  "put_file p n w = w\<lparr>os_files := AList.update p n (os_files w)\<rparr>"

definition drop_file :: "path \<Rightarrow> world \<Rightarrow> world" where
  "drop_file p w = w\<lparr>os_files := AList.delete p (os_files w)\<rparr>"

definition path_exists :: "path \<Rightarrow> world \<Rightarrow> bool" where
  "path_exists p w = (lookup_file p w \<noteq> None)"

definition fs_call :: "(world \<Rightarrow> 'a io_result \<times> world) \<Rightarrow> world \<Rightarrow> 'a io_result \<times> world" where
  "fs_call f w =
     (case take_fault (os_fs_faults w) of
        (Some e, fs) \<Rightarrow> (Err e, w\<lparr>os_fs_faults := fs\<rparr>)
      | (None, fs) \<Rightarrow> f (w\<lparr>os_fs_faults := fs\<rparr>))"

definition not_found :: io_error where
  "not_found = IoError NotFound (Some 2) ''No such file or directory''"

definition file_exists_error :: io_error where
  "file_exists_error = IoError AlreadyExists (Some 17) ''File exists''"

definition ancestors :: "path \<Rightarrow> path list" where
  "ancestors p = map (\<lambda>k. components_path (take (Suc k) (components p))) [0..<length (components p) - 1] @ [p]"

definition blocks_dir :: "world \<Rightarrow> path \<Rightarrow> bool" where
  "blocks_dir w p = (case lookup_file p w of None \<Rightarrow> False | Some n \<Rightarrow> n \<noteq> Dir)"

definition create_dir_all :: "path \<Rightarrow> world \<Rightarrow> unit io_result \<times> world" where
  "create_dir_all p =
     fs_call (\<lambda>w. if list_ex (blocks_dir w) (ancestors p) then (Err file_exists_error, w)
                  else (Ok (), fold (\<lambda>a. put_file a Dir) (ancestors p) w))"

definition fs_metadata :: "path \<Rightarrow> world \<Rightarrow> node io_result \<times> world" where
  "fs_metadata p = fs_call (\<lambda>w. (ok_or not_found (lookup_file p w), w))"

definition fs_write :: "path \<Rightarrow> string \<Rightarrow> world \<Rightarrow> unit io_result \<times> world" where
  "fs_write p s = fs_call (\<lambda>w. (Ok (), put_file p (Regular s) w))"

definition read_to_string :: "path \<Rightarrow> world \<Rightarrow> string io_result \<times> world" where
  "read_to_string p =
     fs_call (\<lambda>w. (case lookup_file p w of
                     Some (Regular s) \<Rightarrow> Ok s
                   | None \<Rightarrow> Err not_found
                   | _ \<Rightarrow> Err (IoError OtherKind (Some 21) ''Is a directory''), w))"

definition remove_file :: "path \<Rightarrow> world \<Rightarrow> unit io_result \<times> world" where
  "remove_file p =
     fs_call (\<lambda>w. if path_exists p w then (Ok (), drop_file p w) else (Err not_found, w))"

text \<open>The entries of a directory, in the unspecified order \<open>read_dir\<close> yields them.\<close>

definition read_dir :: "path \<Rightarrow> world \<Rightarrow> path list io_result \<times> world" where
  "read_dir d =
     fs_call (\<lambda>w. if lookup_file d w \<noteq> Some Dir then (Err not_found, w)
                  else (Ok (filter (\<lambda>p. path_parent p = Some d) (map fst (os_files w))), w))"

text \<open>\<open>remove_dir_all\<close>: the directory and everything below it.\<close>

definition below :: "path \<Rightarrow> path \<Rightarrow> bool" where
  "below d p = (p = d \<or> starts_with (d @ ''/'') p)"

definition remove_dir_all :: "path \<Rightarrow> world \<Rightarrow> unit io_result \<times> world" where
  "remove_dir_all d =
     fs_call (\<lambda>w. if path_exists d w
                  then (Ok (), w\<lparr>os_files := filter (\<lambda>(p, n). \<not> below d p) (os_files w)\<rparr>)
                  else (Err not_found, w))"

text \<open>\<open>Path::file_stem\<close> and \<open>Path::extension\<close> split the file name at its last dot.\<close>

definition rsplit_dot :: "string \<Rightarrow> (string \<times> string) option" where
  "rsplit_dot s =
     (let r = rev s; e = takeWhile (\<lambda>c. c \<noteq> CHR ''.'') r; b = dropWhile (\<lambda>c. c \<noteq> CHR ''.'') r
      in if length b \<le> 1 then None else Some (rev (tl b), rev e))"

definition file_stem :: "path \<Rightarrow> string option" where
  "file_stem p =
     (case file_name p of None \<Rightarrow> None
      | Some n \<Rightarrow> (case rsplit_dot n of None \<Rightarrow> Some n | Some (a, b) \<Rightarrow> Some a))"

definition extension :: "path \<Rightarrow> string option" where
  "extension p =
     (case file_name p of None \<Rightarrow> None | Some n \<Rightarrow> map_option snd (rsplit_dot n))"

text \<open>\<open>Path::is_file\<close>, and \<open>Display\<close> of an \<open>io::Error\<close>.\<close>

definition path_is_file :: "world \<Rightarrow> path \<Rightarrow> bool" where
  "path_is_file w p = (case lookup_file p w of Some (Regular s) \<Rightarrow> True | _ \<Rightarrow> False)"

definition path_is_dir :: "world \<Rightarrow> path \<Rightarrow> bool" where
  "path_is_dir w p = (lookup_file p w = Some Dir)"

definition io_error_text :: "io_error \<Rightarrow> string" where
  "io_error_text e =
     (case raw_os_error e of
        None \<Rightarrow> io_message e
      | Some n \<Rightarrow> io_message e @ '' (os error '' @ show_int n @ '')'')"

section \<open>The order of paths\<close>

text \<open>\<open>Ord\<close> of \<open>Path\<close> compares components: the kind first, then the bytes of the name.\<close>

definition component_rank :: "path_component \<Rightarrow> nat \<times> string" where
  "component_rank c =
     (case c of RootDir \<Rightarrow> (0, []) | CurDir \<Rightarrow> (1, []) | ParentDir \<Rightarrow> (2, []) | Normal s \<Rightarrow> (3, s))"

lemma component_rank_inj: "component_rank c = component_rank d \<longleftrightarrow> c = d"
  by (cases c; cases d) (simp_all add: component_rank_def)

instantiation path_component :: linorder
begin

definition less_eq_path_component :: "path_component \<Rightarrow> path_component \<Rightarrow> bool" where
  "less_eq_path_component c d = (component_rank c \<le> component_rank d)"

definition less_path_component :: "path_component \<Rightarrow> path_component \<Rightarrow> bool" where
  "less_path_component c d = (component_rank c < component_rank d)"

instance
  by standard (auto simp: less_eq_path_component_def less_path_component_def component_rank_inj
      not_le [symmetric] linear dest: order.trans)

end

section \<open>Processes\<close>

definition lookup_proc :: "u32 \<Rightarrow> world \<Rightarrow> process option" where
  "lookup_proc pid w = map_of (os_procs w) pid"

definition put_proc :: "u32 \<Rightarrow> process \<Rightarrow> world \<Rightarrow> world" where
  "put_proc pid p w = w\<lparr>os_procs := AList.update pid p (os_procs w)\<rparr>"

text \<open>
  \<open>Command::spawn\<close> of a program under a label. \<open>os_pids\<close> lists the process ids the
  kernel hands out next, each with the code that process would end with.
\<close>

definition spawn_process :: "string \<Rightarrow> world \<Rightarrow> u32 io_result \<times> world" where
  "spawn_process label w =
     (case take_fault (os_spawn_faults w) of
        (Some e, fs) \<Rightarrow> (Err e, w\<lparr>os_spawn_faults := fs\<rparr>)
      | (None, fs) \<Rightarrow>
          (case os_pids w of
             [] \<Rightarrow> (Err (IoError WouldBlock (Some 11) ''Resource temporarily unavailable''),
                    w\<lparr>os_spawn_faults := fs\<rparr>)
           | (pid, code) # pids \<Rightarrow>
               (Ok pid, put_proc pid \<lparr>pr_label = label, pr_run = Live, pr_exit = code\<rparr>
                          (w\<lparr>os_spawn_faults := fs, os_pids := pids\<rparr>))))"

definition proc_call :: "(world \<Rightarrow> 'a io_result \<times> world) \<Rightarrow> world \<Rightarrow> 'a io_result \<times> world" where
  "proc_call f w =
     (case take_fault (os_proc_faults w) of
        (Some e, fs) \<Rightarrow> (Err e, w\<lparr>os_proc_faults := fs\<rparr>)
      | (None, fs) \<Rightarrow> f (w\<lparr>os_proc_faults := fs\<rparr>))"

definition no_child :: io_error where
  "no_child = IoError OtherKind (Some 10) ''No child processes''"

definition try_wait :: "u32 \<Rightarrow> world \<Rightarrow> int option option io_result \<times> world" where
  "try_wait pid =
     proc_call (\<lambda>w. case lookup_proc pid w of
         None \<Rightarrow> (Err no_child, w)
       | Some p \<Rightarrow> if pr_run p = Live then (Ok None, w)
                   else (Ok (Some (pr_exit p)), put_proc pid (p\<lparr>pr_run := Reaped\<rparr>) w))"

text \<open>\<open>Child::kill\<close> delivers SIGKILL, which cannot be handled: a live child ends.\<close>

definition child_kill :: "u32 \<Rightarrow> world \<Rightarrow> unit io_result \<times> world" where
  "child_kill pid =
     proc_call (\<lambda>w. case lookup_proc pid w of
         None \<Rightarrow> (Err no_child, w)
       | Some p \<Rightarrow> (Ok (), if pr_run p = Live
                            then put_proc pid (p\<lparr>pr_run := Zombie, pr_exit := None\<rparr>) w else w))"

text \<open>\<open>Child::wait\<close> returns once the child has ended.\<close>

definition child_wait :: "u32 \<Rightarrow> world \<Rightarrow> int option io_result \<times> world" where
  "child_wait pid =
     proc_call (\<lambda>w. case lookup_proc pid w of
         None \<Rightarrow> (Err no_child, w)
       | Some p \<Rightarrow> (Ok (pr_exit p), put_proc pid (p\<lparr>pr_run := Reaped\<rparr>) w))"

section \<open>Time\<close>

definition millis :: "nat \<Rightarrow> nat" where
  "millis n = n * 1000000"

definition secs :: "nat \<Rightarrow> nat" where
  "secs n = n * 1000000000"

text \<open>Other programs run while the thread sleeps; at least the requested time passes.\<close>

definition sleep :: "(world \<Rightarrow> world) \<Rightarrow> nat \<Rightarrow> world \<Rightarrow> world" where
  "sleep env d w =
     (let w' = env w in w'\<lparr>os_clock := max (os_clock w') (os_clock w + d + 1)\<rparr>)"

lemma sleep_clock: "os_clock w + d < os_clock (sleep env d w)"
  by (simp add: sleep_def Let_def)

section \<open>Lemmas\<close>

named_theorems os_simps

text \<open>The state of every process; \<open>None\<close> for a process id that was never handed out.\<close>

definition run_of :: "world \<Rightarrow> u32 \<Rightarrow> run_state option" where
  "run_of w pid = map_option pr_run (lookup_proc pid w)"

lemma lookup_put_file [simp, os_simps]:
  "lookup_file q (put_file p n w) = (if q = p then Some n else lookup_file q w)"
  by (simp add: lookup_file_def put_file_def update_conv)

lemma lookup_drop_file [simp, os_simps]:
  "lookup_file q (drop_file p w) = (if q = p then None else lookup_file q w)"
  by (simp add: lookup_file_def drop_file_def delete_conv)

lemma lookup_put_proc [simp, os_simps]:
  "lookup_proc q (put_proc p n w) = (if q = p then Some n else lookup_proc q w)"
  by (simp add: lookup_proc_def put_proc_def update_conv)

lemma lookup_more [simp, os_simps]:
  "lookup_file q (w\<lparr>os_fs_faults := f\<rparr>) = lookup_file q w"
  "lookup_file q (w\<lparr>os_spawn_faults := f\<rparr>) = lookup_file q w"
  "lookup_file q (w\<lparr>os_proc_faults := f\<rparr>) = lookup_file q w"
  "lookup_file q (w\<lparr>os_pids := ps\<rparr>) = lookup_file q w"
  "lookup_file q (put_proc r n w) = lookup_file q w"
  "lookup_proc r (w\<lparr>os_fs_faults := f\<rparr>) = lookup_proc r w"
  "lookup_proc r (w\<lparr>os_spawn_faults := f\<rparr>) = lookup_proc r w"
  "lookup_proc r (w\<lparr>os_proc_faults := f\<rparr>) = lookup_proc r w"
  "lookup_proc r (w\<lparr>os_pids := ps\<rparr>) = lookup_proc r w"
  "lookup_proc r (put_file p m w) = lookup_proc r w"
  "lookup_proc r (drop_file p w) = lookup_proc r w"
  by (simp_all add: lookup_file_def lookup_proc_def put_proc_def put_file_def drop_file_def)

lemma fault_fields [simp, os_simps]:
  "os_proc_faults (put_proc p n w) = os_proc_faults w"
  "os_proc_faults (put_file q m w) = os_proc_faults w"
  "os_proc_faults (drop_file q w) = os_proc_faults w"
  "os_fs_faults (put_proc p n w) = os_fs_faults w"
  "os_fs_faults (put_file q m w) = os_fs_faults w"
  "os_fs_faults (drop_file q w) = os_fs_faults w"
  "os_procs (put_file q m w) = os_procs w"
  "os_procs (drop_file q w) = os_procs w"
  "os_files (put_proc p n w) = os_files w"
  "os_pids (put_proc p n w) = os_pids w"
  "os_pids (put_file q m w) = os_pids w"
  "os_pids (drop_file q w) = os_pids w"
  by (simp_all add: put_proc_def put_file_def drop_file_def)

text \<open>
  A file-system call touches neither the processes nor the faults of the process calls: the
  relation \<open>same_procs\<close> carries that through the proofs.
\<close>

definition same_procs :: "world \<Rightarrow> world \<Rightarrow> bool" where
  "same_procs w w' \<longleftrightarrow> os_procs w' = os_procs w \<and> os_proc_faults w' = os_proc_faults w
     \<and> os_pids w' = os_pids w \<and> os_spawn_faults w' = os_spawn_faults w"

lemma same_procs_refl [simp]: "same_procs w w"
  by (simp add: same_procs_def)

lemma same_procs_trans: "same_procs w w' \<Longrightarrow> same_procs w' w'' \<Longrightarrow> same_procs w w''"
  by (simp add: same_procs_def)

lemma same_procs_run: "same_procs w w' \<Longrightarrow> run_of w' = run_of w"
  by (rule ext) (simp add: same_procs_def run_of_def lookup_proc_def)

lemma fs_call_same:
  assumes "\<And>v. same_procs v (snd (f v))"
  shows "same_procs w (snd (fs_call f w))"
proof -
  have "same_procs w (snd (f (w\<lparr>os_fs_faults := fs\<rparr>)))" for fs
    using assms [of "w\<lparr>os_fs_faults := fs\<rparr>"] by (simp add: same_procs_def)
  then show ?thesis
    by (auto simp: fs_call_def same_procs_def split: prod.split option.split)
qed

lemma same_procs_files [simp]:
  "same_procs w (put_file p n w)" "same_procs w (drop_file p w)"
  by (simp_all add: same_procs_def put_file_def drop_file_def)

lemma fold_put_file_same: "same_procs w (fold (\<lambda>a. put_file a n) ps w)"
  by (induction ps arbitrary: w) (auto intro: same_procs_trans same_procs_files)

lemma fs_same_procs:
  "same_procs w (snd (create_dir_all p w))"
  "same_procs w (snd (fs_metadata p w))"
  "same_procs w (snd (fs_write p s w))"
  "same_procs w (snd (read_to_string p w))"
  "same_procs w (snd (remove_file p w))"
  "same_procs w (snd (read_dir p w))"
  unfolding create_dir_all_def fs_metadata_def fs_write_def read_to_string_def remove_file_def
    read_dir_def
  by (rule fs_call_same; simp add: fold_put_file_same)+

end
