(* ===== verification/Rust_IO.thy ===== *)
theory Rust_IO
  imports Rust_Base
begin

text \<open>
  Readers and writers as the sources use them through \<open>std::io::Read\<close> and
  \<open>std::io::Write\<close>. A reader is the list of what its next \<open>read\<close> calls will
  deliver, so a theorem about a reader holds for every way the kernel may cut the byte
  stream; a writer collects the bytes it accepted and carries the faults of its next
  writes. The last section is the interface of a message channel: a locale that states
  what encoding and decoding promise each other, with the stream lemma its clients use.
\<close>

section \<open>Readers\<close>

datatype read_event = Chunk "byte list" | Fail io_error

type_synonym reader = "read_event list"

definition eof_error :: io_error where
  "eof_error = IoError UnexpectedEof None ''failed to fill whole buffer''"

text \<open>One \<open>read\<close> into a buffer of \<open>n\<close> bytes; the end of the list is the end of file.\<close>

fun read_some :: "nat \<Rightarrow> reader \<Rightarrow> byte list io_result \<times> reader" where
  "read_some n [] = (Ok [], [])"
| "read_some n (Fail e # es) = (Err e, es)"
| "read_some n (Chunk bs # es) =
     (if length bs \<le> n then (Ok bs, es) else (Ok (take n bs), Chunk (drop n bs) # es))"

text \<open>
  \<open>read_exact\<close> on a buffer of \<open>n\<close> bytes: reads until the buffer is full, retries an
  interrupted read, and fails on the end of file or on any other error. What it had
  already taken from the stream is then lost.
\<close>

fun read_exact :: "nat \<Rightarrow> reader \<Rightarrow> byte list io_result \<times> reader" where
  "read_exact 0 es = (Ok [], es)"
| "read_exact (Suc n) [] = (Err eof_error, [])"
| "read_exact (Suc n) (Fail e # es) =
     (if io_kind e = Interrupted then read_exact (Suc n) es else (Err e, es))"
| "read_exact (Suc n) (Chunk bs # es) =
     (if bs = [] then (Err eof_error, es)
      else if Suc n < length bs then (Ok (take (Suc n) bs), Chunk (drop (Suc n) bs) # es)
      else if Suc n = length bs then (Ok bs, es)
      else case read_exact (Suc n - length bs) es of
             (Ok rest, es') \<Rightarrow> (Ok (bs @ rest), es')
           | (Err e, es') \<Rightarrow> (Err e, es'))"

text \<open>The same function without patterns on numbers, for evaluation.\<close>

lemma read_exact_code [code]:
  "read_exact n es =
     (if n = 0 then (Ok [], es)
      else case es of
        [] \<Rightarrow> (Err eof_error, [])
      | Fail e # r \<Rightarrow> if io_kind e = Interrupted then read_exact n r else (Err e, r)
      | Chunk bs # r \<Rightarrow>
          if bs = [] then (Err eof_error, r)
          else if n < length bs then (Ok (take n bs), Chunk (drop n bs) # r)
          else if n = length bs then (Ok bs, r)
          else case read_exact (n - length bs) r of
                 (Ok rest, r') \<Rightarrow> (Ok (bs @ rest), r')
               | (Err e, r') \<Rightarrow> (Err e, r'))"
  by (cases "(n, es)" rule: read_exact.cases) simp_all

text \<open>
  A clean reader delivers data only (interrupted reads aside); \<open>bytes_of\<close> is the byte
  stream it delivers, however it is cut.
\<close>

fun clean_event :: "read_event \<Rightarrow> bool" where
  "clean_event (Chunk bs) = (bs \<noteq> [])"
| "clean_event (Fail e) = (io_kind e = Interrupted)"

definition clean :: "reader \<Rightarrow> bool" where
  "clean es = list_all clean_event es"

fun event_bytes :: "read_event \<Rightarrow> byte list" where
  "event_bytes (Chunk bs) = bs"
| "event_bytes (Fail e) = []"

definition bytes_of :: "reader \<Rightarrow> byte list" where
  "bytes_of es = concat (map event_bytes es)"

lemma clean_simps [simp, io_simps]:
  "clean []" "clean (e # es) \<longleftrightarrow> clean_event e \<and> clean es"
  by (simp_all add: clean_def)

lemma bytes_of_simps [simp, io_simps]:
  "bytes_of [] = []" "bytes_of (e # es) = event_bytes e @ bytes_of es"
  by (simp_all add: bytes_of_def)

lemma clean_bytes_Nil: "clean es \<Longrightarrow> bytes_of es \<noteq> [] \<Longrightarrow> es \<noteq> []"
  by auto

lemma read_exact_clean:
  assumes "clean es" and "n \<le> length (bytes_of es)"
  shows "\<exists>es'. read_exact n es = (Ok (take n (bytes_of es)), es') \<and> clean es'
           \<and> bytes_of es' = drop n (bytes_of es)"
  using assms
proof (induction n es rule: read_exact.induct)
  case (1 es)
  then show ?case by simp
next
  case (2 n)
  then show ?case by simp
next
  case (3 n e es)
  then show ?case by simp
next
  case (4 n bs es)
  show ?case
  proof (cases "length bs < Suc n")
    case False
    with "4.prems" show ?thesis by auto
  next
    case True
    with "4.prems" have "bs \<noteq> []" "\<not> Suc n < length bs" "Suc n \<noteq> length bs"
      and "clean es" and "Suc n - length bs \<le> length (bytes_of es)"
      by auto
    from "4.IH" [OF this] obtain es' where
      "read_exact (Suc n - length bs) es = (Ok (take (Suc n - length bs) (bytes_of es)), es')"
      "clean es'" "bytes_of es' = drop (Suc n - length bs) (bytes_of es)"
      by blast
    with True \<open>bs \<noteq> []\<close> show ?thesis by auto
  qed
qed

lemma read_exact_short:
  assumes "clean es" and "length (bytes_of es) < n"
  shows "\<exists>es'. read_exact n es = (Err eof_error, es')"
  using assms
proof (induction n es rule: read_exact.induct)
  case (4 n bs es)
  then have "bs \<noteq> []" "\<not> Suc n < length bs" "Suc n \<noteq> length bs"
    and "clean es" and "length (bytes_of es) < Suc n - length bs"
    by auto
  from "4.IH" [OF this] this show ?case by auto
qed auto

lemma read_exact_length:
  "read_exact n es = (Ok bs, es') \<Longrightarrow> length bs = n"
proof (induction n es arbitrary: bs es' rule: read_exact.induct)
  case (4 n cs es)
  show ?case
  proof (cases "length cs < Suc n \<and> cs \<noteq> []")
    case False
    with "4.prems" show ?thesis by (auto split: if_splits)
  next
    case True
    with "4.prems" obtain rest where
      "read_exact (Suc n - length cs) es = (Ok rest, es')" "bs = cs @ rest"
      by (auto split: prod.splits result.splits)
    with "4.IH" True show ?thesis by simp
  qed
qed (auto split: if_splits)

section \<open>Writers\<close>

text \<open>
  \<open>w_faults\<close> are the outcomes of the next \<open>write_all\<close> calls: \<open>Some (k, e)\<close> accepts
  \<open>k\<close> bytes and then fails with \<open>e\<close>, \<open>None\<close> and the end of the list succeed. In
  the same way \<open>w_flushes\<close> are the outcomes of the next \<open>flush\<close> calls.
\<close>

record writer =
  w_out :: "byte list"
  w_faults :: "(nat \<times> io_error) option list"
  w_flushes :: "io_error option list"

definition write_all :: "byte list \<Rightarrow> writer \<Rightarrow> unit io_result \<times> writer" where
  "write_all bs w =
     (if bs = [] then (Ok (), w)
      else case w_faults w of
        [] \<Rightarrow> (Ok (), w\<lparr>w_out := w_out w @ bs\<rparr>)
      | None # fs \<Rightarrow> (Ok (), w\<lparr>w_out := w_out w @ bs, w_faults := fs\<rparr>)
      | Some (k, e) # fs \<Rightarrow> (Err e, w\<lparr>w_out := w_out w @ take k bs, w_faults := fs\<rparr>))"

definition flush :: "writer \<Rightarrow> unit io_result \<times> writer" where
  "flush w =
     (case w_flushes w of
        [] \<Rightarrow> (Ok (), w)
      | None # fs \<Rightarrow> (Ok (), w\<lparr>w_flushes := fs\<rparr>)
      | Some e # fs \<Rightarrow> (Err e, w\<lparr>w_flushes := fs\<rparr>))"

abbreviation sink :: "byte list \<Rightarrow> writer" where
  "sink bs \<equiv> \<lparr>w_out = bs, w_faults = [], w_flushes = []\<rparr>"

lemma write_all_sink [simp, io_simps]: "write_all bs (sink out) = (Ok (), sink (out @ bs))"
  by (simp add: write_all_def)

lemma flush_sink [simp, io_simps]: "flush (sink out) = (Ok (), sink out)"
  by (simp add: flush_def)

lemma flush_out: "flush w = (r, w') \<Longrightarrow> w_out w' = w_out w"
  by (auto simp: flush_def split: list.splits option.splits)

lemma write_all_Ok_out:
  "write_all bs w = (Ok (), w') \<Longrightarrow> w_out w' = w_out w @ bs"
  by (auto simp: write_all_def split: if_splits list.splits option.splits)


section \<open>Bytes taken by a successful read\<close>

lemma read_exact_bytes:
  "read_exact n es = (Ok bs, es') \<Longrightarrow> bytes_of es = bs @ bytes_of es'"
proof (induction n es arbitrary: bs es' rule: read_exact.induct)
  case (4 n cs es)
  show ?case
  proof (cases "length cs < Suc n \<and> cs \<noteq> []")
    case False
    with "4.prems" show ?thesis by (auto split: if_splits)
  next
    case True
    with "4.prems" obtain rest where
      "read_exact (Suc n - length cs) es = (Ok rest, es')" "bs = cs @ rest"
      by (auto split: prod.splits result.splits)
    with "4.IH" True show ?thesis by simp
  qed
qed (auto split: if_splits)

text \<open>The size of a reader bounds the number of reads that return data from it.\<close>

definition reader_size :: "reader \<Rightarrow> nat" where
  "reader_size r = (\<Sum>e \<leftarrow> r. Suc (length (event_bytes e)))"

lemma reader_size_simps [simp]:
  "reader_size [] = 0" "reader_size (e # r) = Suc (length (event_bytes e)) + reader_size r"
  by (simp_all add: reader_size_def)

lemma read_some_smaller: "read_some n r = (Ok bs, r') \<Longrightarrow> bs \<noteq> [] \<Longrightarrow> reader_size r' < reader_size r"
  by (cases "(n, r)" rule: read_some.cases) (auto split: if_splits)

lemma read_some_length: "read_some n r = (Ok bs, r') \<Longrightarrow> length bs \<le> n"
  by (cases "(n, r)" rule: read_some.cases) (auto split: if_splits)

text \<open>A reader that delivers data until its end, without any failing read.\<close>

definition data_only :: "reader \<Rightarrow> bool" where
  "data_only r \<longleftrightarrow> (\<forall>e \<in> set r. \<exists>bs. e = Chunk bs \<and> bs \<noteq> [])"

lemma read_some_data:
  assumes "data_only r" and "0 < n"
  shows "\<exists>bs r'. read_some n r = (Ok bs, r') \<and> bytes_of r = bs @ bytes_of r' \<and> data_only r'
    \<and> (bs = [] \<longrightarrow> bytes_of r = [])"
  using assms by (cases "(n, r)" rule: read_some.cases) (auto simp: data_only_def)


text \<open>
  The copy loops of the relays: read into a buffer of \<open>n\<close> bytes, stop at the end of the
  stream or on any error, write everything read, stop when that fails.
\<close>

function copy_loop :: "nat \<Rightarrow> reader \<Rightarrow> writer \<Rightarrow> writer" where
  "copy_loop n r w =
     (case read_some n r of
        (Err _, _) \<Rightarrow> w
      | (Ok bs, r1) \<Rightarrow>
          if bs = [] then w
          else (case write_all bs w of (Err _, w1) \<Rightarrow> w1 | (Ok _, w1) \<Rightarrow> copy_loop n r1 w1))"
  by pat_completeness auto
termination
  by (relation "measure (\<lambda>(n, r, w). reader_size r)") (auto dest: sym read_some_smaller)

declare copy_loop.simps [simp del]

lemma write_all_no_faults: "w_faults w = [] \<Longrightarrow> write_all bs w = (Ok (), w\<lparr>w_out := w_out w @ bs\<rparr>)"
  by (cases w) (simp add: write_all_def)

lemma copy_loop_copies:
  assumes "0 < n" and "data_only r" and "w_faults w = []"
  shows "copy_loop n r w = w\<lparr>w_out := w_out w @ bytes_of r\<rparr>"
  using assms
proof (induction n r w rule: copy_loop.induct)
  case (1 n r w)
  from read_some_data [OF "1.prems"(2,1)] obtain bs r' where r': "read_some n r = (Ok bs, r')"
    "bytes_of r = bs @ bytes_of r'" "data_only r'" "bs = [] \<longrightarrow> bytes_of r = []" by blast
  have w: "write_all bs w = (Ok (), w\<lparr>w_out := w_out w @ bs\<rparr>)"
    by (rule write_all_no_faults [OF "1.prems"(3)])
  show ?case
  proof (cases "bs = []")
    case True
    with r' show ?thesis by (subst copy_loop.simps) simp
  next
    case False
    from "1.IH" [OF r'(1) [symmetric] refl False w [symmetric] refl] "1.prems" r' False w
    show ?thesis by (subst copy_loop.simps) simp
  qed
qed

section \<open>The interface of a message channel\<close>

text \<open>Reading \<open>n\<close> messages one after the other, as the read loops of the program do.\<close>

fun receive :: "(reader \<Rightarrow> 'v io_result \<times> reader) \<Rightarrow> nat \<Rightarrow> reader \<Rightarrow> 'v list io_result \<times> reader" where
  "receive dec 0 es = (Ok [], es)"
| "receive dec (Suc n) es =
     (case dec es of
        (Err e, es') \<Rightarrow> (Err e, es')
      | (Ok v, es') \<Rightarrow> (case receive dec n es' of
                           (Ok vs, es'') \<Rightarrow> (Ok (v # vs), es'')
                         | (Err e, es'') \<Rightarrow> (Err e, es'')))"

text \<open>
  \<open>enc m\<close> are the bytes the sender of message \<open>m\<close> puts on the stream, \<open>dec\<close> is the
  receiver, \<open>fits m\<close> the condition under which a message may be sent, \<open>view m\<close> what the
  receiver sees of it. The one law is that the receiver takes exactly the bytes of the
  message, however the stream is cut; its clients are the sequences of messages.
\<close>

locale message_channel =
  fixes enc :: "'m \<Rightarrow> byte list"
    and dec :: "reader \<Rightarrow> 'v io_result \<times> reader"
    and fits :: "'m \<Rightarrow> bool"
    and view :: "'m \<Rightarrow> 'v"
  assumes dec_enc: "\<lbrakk>clean es; bytes_of es = enc m @ rest; fits m\<rbrakk>
    \<Longrightarrow> \<exists>es'. dec es = (Ok (view m), es') \<and> clean es' \<and> bytes_of es' = rest"
begin

lemma receive_stream:
  assumes "clean es" and "bytes_of es = concat (map enc ms) @ rest" and "list_all fits ms"
  shows "\<exists>es'. receive dec (length ms) es = (Ok (map view ms), es') \<and> clean es' \<and> bytes_of es' = rest"
  using assms
proof (induction ms arbitrary: es)
  case Nil
  then show ?case by simp
next
  case (Cons m ms)
  then have "bytes_of es = enc m @ (concat (map enc ms) @ rest)" and "fits m"
    by simp_all
  with \<open>clean es\<close> obtain es1 where es1: "dec es = (Ok (view m), es1)" "clean es1"
      "bytes_of es1 = concat (map enc ms) @ rest"
    using dec_enc by blast
  with Cons.IH [of es1] Cons.prems obtain es2 where
    "receive dec (length ms) es1 = (Ok (map view ms), es2)" "clean es2" "bytes_of es2 = rest"
    by auto
  with es1 show ?case by simp
qed

end

end
