(* ===== verification/Frame_Protocol.thy ===== *)
theory Frame_Protocol
  imports Rust_IO
begin

text \<open>
  The vsock wire protocol between the host and the guest agent: the message types, the
  frame reader and writer of the agent (fendd/src/protocol.rs) and the three host copies
  (linux/src/session.rs, linux/src/smoke.rs, fendd/src/bin/fend-vsock-smoke.rs). A frame
  is one type byte, a big-endian 32-bit length and the payload. The lemmas show that the
  copies agree, that whatever one side writes the other side reads back for every cut of
  the stream, and which inputs are refused.
\<close>

section \<open>Message types\<close>

datatype message_type =
    ExecuteCommand | ForwardSignal | OutputData | ExitStatus | PortEvent | Ready
  | InputData | WindowSize | NetworkEvent

fun message_type_as_u8 :: "message_type \<Rightarrow> u8" where
  "message_type_as_u8 ExecuteCommand = 1"
| "message_type_as_u8 ForwardSignal = 2"
| "message_type_as_u8 OutputData = 3"
| "message_type_as_u8 ExitStatus = 4"
| "message_type_as_u8 PortEvent = 5"
| "message_type_as_u8 Ready = 6"
| "message_type_as_u8 InputData = 7"
| "message_type_as_u8 WindowSize = 8"
| "message_type_as_u8 NetworkEvent = 9"

definition message_type_from_u8 :: "u8 \<Rightarrow> message_type option" where
  "message_type_from_u8 v =
     (if v = 1 then Some ExecuteCommand
      else if v = 2 then Some ForwardSignal
      else if v = 3 then Some OutputData
      else if v = 4 then Some ExitStatus
      else if v = 5 then Some PortEvent
      else if v = 6 then Some Ready
      else if v = 7 then Some InputData
      else if v = 8 then Some WindowSize
      else if v = 9 then Some NetworkEvent
      else None)"

definition MAX_PAYLOAD :: nat where
  "MAX_PAYLOAD = 16 * 1024 * 1024"

definition VSOCK_PORT :: u32 where "VSOCK_PORT = 1024"
definition VSOCK_PORT_EVENTS :: u32 where "VSOCK_PORT_EVENTS = 1025"
definition VSOCK_PORT_FORWARD :: u32 where "VSOCK_PORT_FORWARD = 1026"
definition VSOCK_PORT_NETWORK_EVENTS :: u32 where "VSOCK_PORT_NETWORK_EVENTS = 1027"

section \<open>Payloads\<close>

text \<open>
  The messages of the agent, after the host's requests are parsed from JSON and before its
  own are printed. Environments are association lists without duplicate keys, in an order
  the code leaves unspecified (\<open>HashMap\<close>).
\<close>

record execute_command =
  ec_id :: u64
  ec_cmd :: string
  ec_args :: "string list"
  ec_env :: "(string \<times> string) list"
  ec_cwd :: string
  ec_tty :: bool

record forward_signal =
  fs_id :: u64
  fs_signal :: int

record input_data =
  in_id :: u64
  in_data :: string

record window_size_msg =
  ws_id :: u64
  ws_rows :: u16
  ws_cols :: u16

record output_data =
  od_id :: u64
  od_stream :: string
  od_data :: string

record exit_status_msg =
  es_id :: u64
  es_code :: int

record port_event_msg =
  pe_port :: u16
  pe_event :: string

record network_event_msg =
  ne_remote :: string
  ne_port :: u16
  ne_state :: string

section \<open>Frames of the guest agent\<close>

definition invalid_data :: "string \<Rightarrow> io_error" where
  "invalid_data msg = IoError InvalidData None msg"

definition read_frame :: "reader \<Rightarrow> (message_type \<times> byte list) io_result \<times> reader" where
  "read_frame r =
     (case read_exact 5 r of
        (Err e, r1) \<Rightarrow> (Err e, r1)
      | (Ok header, r1) \<Rightarrow>
          (case message_type_from_u8 (header ! 0) of
             None \<Rightarrow> (Err (invalid_data ''unknown message type''), r1)
           | Some msg_type \<Rightarrow>
               (let len = unat (u32_from_be_bytes (header ! 1) (header ! 2) (header ! 3) (header ! 4))
                in if MAX_PAYLOAD < len then (Err (invalid_data ''payload too large''), r1)
                   else if 0 < len
                   then (case read_exact len r1 of
                           (Err e, r2) \<Rightarrow> (Err e, r2)
                         | (Ok payload, r2) \<Rightarrow> (Ok (msg_type, payload), r2))
                   else (Ok (msg_type, []), r1))))"

definition write_frame :: "message_type \<Rightarrow> byte list \<Rightarrow> writer \<Rightarrow> unit io_result \<times> writer" where
  "write_frame msg_type payload w =
     (let header = message_type_as_u8 msg_type # u32_to_be_bytes (of_nat (length payload))
      in case write_all header w of
           (Err e, w1) \<Rightarrow> (Err e, w1)
         | (Ok _, w1) \<Rightarrow>
             (case (if payload \<noteq> [] then write_all payload w1 else (Ok (), w1)) of
                (Err e, w2) \<Rightarrow> (Err e, w2)
              | (Ok _, w2) \<Rightarrow> flush w2))"

section \<open>Frames of the host\<close>

text \<open>The host keeps the type byte as it came; its readers check it at their use.\<close>

record frame =
  kind :: u8
  payload :: "byte list"

definition session_read_frame :: "reader \<Rightarrow> frame io_result \<times> reader" where
  "session_read_frame r =
     (case read_exact 5 r of
        (Err e, r1) \<Rightarrow> (Err e, r1)
      | (Ok header, r1) \<Rightarrow>
          (let len = unat (u32_from_be_bytes (header ! 1) (header ! 2) (header ! 3) (header ! 4))
           in if MAX_PAYLOAD < len then (Err (invalid_data ''payload too large''), r1)
              else if 0 < len
              then (case read_exact len r1 of
                      (Err e, r2) \<Rightarrow> (Err e, r2)
                    | (Ok body, r2) \<Rightarrow> (Ok \<lparr>kind = header ! 0, payload = body\<rparr>, r2))
              else (Ok \<lparr>kind = header ! 0, payload = []\<rparr>, r1)))"

definition session_write_frame :: "u8 \<Rightarrow> byte list \<Rightarrow> writer \<Rightarrow> unit io_result \<times> writer" where
  "session_write_frame k body w =
     (let header = k # u32_to_be_bytes (of_nat (length body))
      in case write_all header w of
           (Err e, w1) \<Rightarrow> (Err e, w1)
         | (Ok _, w1) \<Rightarrow>
             (case (if body \<noteq> [] then write_all body w1 else (Ok (), w1)) of
                (Err e, w2) \<Rightarrow> (Err e, w2)
              | (Ok _, w2) \<Rightarrow> flush w2))"

definition smoke_read_frame :: "reader \<Rightarrow> frame io_result \<times> reader" where
  "smoke_read_frame r =
     (case read_exact 5 r of
        (Err e, r1) \<Rightarrow> (Err e, r1)
      | (Ok header, r1) \<Rightarrow>
          (let len = unat (u32_from_be_bytes (header ! 1) (header ! 2) (header ! 3) (header ! 4))
           in if MAX_PAYLOAD < len then (Err (invalid_data ''payload too large''), r1)
              else (case read_exact len r1 of
                      (Err e, r2) \<Rightarrow> (Err e, r2)
                    | (Ok body, r2) \<Rightarrow> (Ok \<lparr>kind = header ! 0, payload = body\<rparr>, r2))))"

definition smoke_write_frame :: "u8 \<Rightarrow> byte list \<Rightarrow> writer \<Rightarrow> unit io_result \<times> writer" where
  "smoke_write_frame k body w =
     (let header = k # u32_to_be_bytes (of_nat (length body))
      in case write_all header w of
           (Err e, w1) \<Rightarrow> (Err e, w1)
         | (Ok _, w1) \<Rightarrow>
             (case write_all body w1 of
                (Err e, w2) \<Rightarrow> (Err e, w2)
              | (Ok _, w2) \<Rightarrow> flush w2))"

definition vsock_smoke_read_frame :: "reader \<Rightarrow> frame io_result \<times> reader" where
  "vsock_smoke_read_frame r =
     (case read_exact 5 r of
        (Err e, r1) \<Rightarrow> (Err e, r1)
      | (Ok header, r1) \<Rightarrow>
          (let len = unat (u32_from_be_bytes (header ! 1) (header ! 2) (header ! 3) (header ! 4))
           in if MAX_PAYLOAD < len then (Err (invalid_data ''payload too large''), r1)
              else (case read_exact len r1 of
                      (Err e, r2) \<Rightarrow> (Err e, r2)
                    | (Ok body, r2) \<Rightarrow> (Ok \<lparr>kind = header ! 0, payload = body\<rparr>, r2))))"

definition vsock_smoke_write_frame :: "u8 \<Rightarrow> byte list \<Rightarrow> writer \<Rightarrow> unit io_result \<times> writer" where
  "vsock_smoke_write_frame k body w =
     (let header = k # u32_to_be_bytes (of_nat (length body))
      in case write_all header w of
           (Err e, w1) \<Rightarrow> (Err e, w1)
         | (Ok _, w1) \<Rightarrow>
             (case write_all body w1 of
                (Err e, w2) \<Rightarrow> (Err e, w2)
              | (Ok _, w2) \<Rightarrow> flush w2))"

section \<open>What is on the wire\<close>

definition frame_bytes :: "u8 \<Rightarrow> byte list \<Rightarrow> byte list" where
  "frame_bytes k body = k # u32_to_be_bytes (of_nat (length body)) @ body"

lemma message_type_round_trip [simp]:
  "message_type_from_u8 (message_type_as_u8 t) = Some t"
  by (cases t) (simp_all add: message_type_from_u8_def)

lemma message_type_as_u8_inverse:
  "message_type_from_u8 v = Some t \<Longrightarrow> message_type_as_u8 t = v"
  by (auto simp: message_type_from_u8_def split: if_splits)

lemma message_type_from_u8_None_iff:
  "message_type_from_u8 v = None \<longleftrightarrow> v = 0 \<or> 9 < v"
proof -
  have "v \<in> {0..9} \<or> 9 < v" by auto
  moreover have "{0..9} = {0, 1, 2, 3, 4, 5, 6, 7, 8, 9 :: u8}"
    by (simp add: set_eq_iff) unat_arith
  ultimately show ?thesis
    by (auto simp: message_type_from_u8_def)
qed

lemma write_frame_session:
  "write_frame t p w = session_write_frame (message_type_as_u8 t) p w"
  by (simp add: write_frame_def session_write_frame_def)

lemma write_all_Nil [simp, io_simps]: "write_all [] w = (Ok (), w)"
  by (simp add: write_all_def)

lemma smoke_write_frame_session: "smoke_write_frame = session_write_frame"
  by (intro ext) (auto simp: smoke_write_frame_def session_write_frame_def Let_def
      split: prod.splits result.splits)

lemma smoke_read_frame_session: "smoke_read_frame = session_read_frame"
  by (intro ext) (auto simp: smoke_read_frame_def session_read_frame_def Let_def
      split: prod.splits result.splits)

lemma session_write_frame_sink [io_simps]:
  "session_write_frame k p (sink out) = (Ok (), sink (out @ frame_bytes k p))"
  by (simp add: session_write_frame_def frame_bytes_def Let_def)

lemma session_write_frame_Ok_out:
  "session_write_frame k p w = (Ok (), w') \<Longrightarrow> w_out w' = w_out w @ frame_bytes k p"
  by (auto simp: session_write_frame_def frame_bytes_def Let_def
      split: prod.splits result.splits if_splits dest!: write_all_Ok_out flush_out)

text \<open>
  The two halves of a frame on a clean stream: the header is five bytes and determines
  the length, and the body is the next \<open>length\<close> bytes.
\<close>

lemma frame_header_split:
  assumes "clean r" and "bytes_of r = frame_bytes k body @ rest"
  shows "\<exists>r1. read_exact 5 r = (Ok (k # u32_to_be_bytes (of_nat (length body))), r1)
           \<and> clean r1 \<and> bytes_of r1 = body @ rest"
  using read_exact_clean [OF assms(1), of 5] assms(2)
  by (auto simp: frame_bytes_def)

lemma frame_body_split:
  assumes "clean r" and "bytes_of r = body @ rest"
  shows "\<exists>r1. read_exact (length body) r = (Ok body, r1) \<and> clean r1 \<and> bytes_of r1 = rest"
  using read_exact_clean [OF assms(1), of "length body"] assms(2) by auto

lemma MAX_PAYLOAD_u32: "n \<le> MAX_PAYLOAD \<Longrightarrow> unat (of_nat n :: u32) = n"
  by (rule unat_of_nat_u32) (simp add: MAX_PAYLOAD_def)

lemma session_read_frame_ok:
  assumes "clean r" and "bytes_of r = frame_bytes k body @ rest" and "length body \<le> MAX_PAYLOAD"
  shows "\<exists>r'. session_read_frame r = (Ok \<lparr>kind = k, payload = body\<rparr>, r')
           \<and> clean r' \<and> bytes_of r' = rest"
proof -
  from frame_header_split [OF assms(1,2)] obtain r1 where r1:
    "read_exact 5 r = (Ok (k # u32_to_be_bytes (of_nat (length body))), r1)"
    "clean r1" "bytes_of r1 = body @ rest"
    by blast
  from frame_body_split [OF r1(2,3)] obtain r2 where
    "read_exact (length body) r1 = (Ok body, r2)" "clean r2" "bytes_of r2 = rest"
    by blast
  with r1 assms(3) show ?thesis
    by (auto simp: session_read_frame_def u32_to_be_bytes_def MAX_PAYLOAD_u32 Let_def)
qed

lemma session_read_frame_guest:
  "read_frame r =
     (case session_read_frame r of
        (Err e, r') \<Rightarrow> read_frame r
      | (Ok f, r') \<Rightarrow> (case message_type_from_u8 (kind f) of
                          None \<Rightarrow> read_frame r
                        | Some t \<Rightarrow> (Ok (t, payload f), r')))"
  by (auto simp: read_frame_def session_read_frame_def Let_def
      split: prod.splits result.splits option.splits)

lemma read_frame_ok:
  assumes "clean r" and "bytes_of r = frame_bytes (message_type_as_u8 t) body @ rest"
    and "length body \<le> MAX_PAYLOAD"
  shows "\<exists>r'. read_frame r = (Ok (t, body), r') \<and> clean r' \<and> bytes_of r' = rest"
proof -
  from session_read_frame_ok [OF assms] obtain r' where
    "session_read_frame r = (Ok \<lparr>kind = message_type_as_u8 t, payload = body\<rparr>, r')"
    "clean r'" "bytes_of r' = rest"
    by blast
  then show ?thesis by (subst session_read_frame_guest) simp
qed

lemma read_frame_payload_bound:
  "read_frame r = (Ok (t, p), r') \<Longrightarrow> length p \<le> MAX_PAYLOAD"
  by (auto simp: read_frame_def Let_def dest: read_exact_length
      split: prod.splits result.splits option.splits if_splits)

lemma session_read_frame_oversize:
  assumes "clean r" and "length (bytes_of r) \<ge> 5"
    and "MAX_PAYLOAD < unat (u32_from_be_bytes (bytes_of r ! 1) (bytes_of r ! 2) (bytes_of r ! 3) (bytes_of r ! 4))"
  shows "\<exists>r'. session_read_frame r = (Err (invalid_data ''payload too large''), r')
           \<and> bytes_of r' = drop 5 (bytes_of r)"
  using read_exact_clean [OF assms(1,2)] assms(3)
  by (auto simp: session_read_frame_def)

section \<open>The two directions as message channels\<close>

text \<open>Guest to host: the agent writes, the attached session reads.\<close>

interpretation to_host: message_channel
  "\<lambda>(t, p). frame_bytes (message_type_as_u8 t) p" session_read_frame
  "\<lambda>(t, p). length p \<le> MAX_PAYLOAD" "\<lambda>(t, p). \<lparr>kind = message_type_as_u8 t, payload = p\<rparr>"
proof unfold_locales
  fix es rest and m :: "message_type \<times> byte list"
  assume "clean es" "bytes_of es = (case m of (t, p) \<Rightarrow> frame_bytes (message_type_as_u8 t) p) @ rest"
    "case m of (t, p) \<Rightarrow> length p \<le> MAX_PAYLOAD"
  then show "\<exists>es'. session_read_frame es =
      (Ok (case m of (t, p) \<Rightarrow> \<lparr>kind = message_type_as_u8 t, payload = p\<rparr>), es')
        \<and> clean es' \<and> bytes_of es' = rest"
    using session_read_frame_ok by (cases m) simp
qed

text \<open>Host to guest: the session writes a known type, the agent reads.\<close>

interpretation to_guest: message_channel
  "\<lambda>(t, p). frame_bytes (message_type_as_u8 t) p" read_frame
  "\<lambda>(t, p). length p \<le> MAX_PAYLOAD" "\<lambda>m. m"
proof unfold_locales
  fix es rest and m :: "message_type \<times> byte list"
  assume "clean es" "bytes_of es = (case m of (t, p) \<Rightarrow> frame_bytes (message_type_as_u8 t) p) @ rest"
    "case m of (t, p) \<Rightarrow> length p \<le> MAX_PAYLOAD"
  then show "\<exists>es'. read_frame es = (Ok m, es') \<and> clean es' \<and> bytes_of es' = rest"
    using read_frame_ok by (cases m) simp
qed

section \<open>Properties of the wire\<close>

text \<open>The frames of a list of messages, one \<open>write_frame\<close> after the other.\<close>

fun write_frames :: "(message_type \<times> byte list) list \<Rightarrow> writer \<Rightarrow> unit io_result \<times> writer" where
  "write_frames [] w = (Ok (), w)"
| "write_frames ((t, p) # ms) w =
     (case write_frame t p w of (Err e, w1) \<Rightarrow> (Err e, w1) | (Ok _, w1) \<Rightarrow> write_frames ms w1)"

lemma write_frames_Ok_out:
  "write_frames ms w = (Ok (), w') \<Longrightarrow>
     w_out w' = w_out w @ concat (map (\<lambda>(t, p). frame_bytes (message_type_as_u8 t) p) ms)"
  by (induction ms w rule: write_frames.induct)
    (auto simp: write_frame_session split: prod.splits result.splits dest!: session_write_frame_Ok_out)

text \<open>
  (C15) Guest to host. If the agent's sequence of \<open>write_frame\<close> calls succeeds on any
  writer and every payload is at most 16 MiB, then a host session that reads the appended
  bytes, cut into reads in any way, gets exactly those types and payloads in that order and
  is left at the first byte after the last frame.
\<close>

theorem frames_reach_host:
  assumes "write_frames ms w = (Ok (), w')"
    and "list_all (\<lambda>(t, p). length p \<le> MAX_PAYLOAD) ms"
    and "clean r" and "w_out w @ bytes_of r = w_out w' @ rest"
  shows "\<exists>r'. receive session_read_frame (length ms) r
             = (Ok (map (\<lambda>(t, p). \<lparr>kind = message_type_as_u8 t, payload = p\<rparr>) ms), r')
           \<and> clean r' \<and> bytes_of r' = rest"
  using to_host.receive_stream [OF assms(3) _ assms(2)] write_frames_Ok_out [OF assms(1)] assms(4)
  by simp

lemma frames_reach_host_witness:
  "\<exists>r'. receive session_read_frame (Suc (Suc 0))
            [Chunk [6, 0, 0], Fail (IoError Interrupted None ''''), Chunk [0, 0, 4, 0, 0, 0, 2, 104], Chunk [105, 9]]
          = (Ok [\<lparr>kind = 6, payload = []\<rparr>, \<lparr>kind = 4, payload = [104, 105]\<rparr>], r')
        \<and> clean r' \<and> bytes_of r' = [9]"
  using frames_reach_host [of "[(Ready, []), (ExitStatus, [104, 105])]" "sink []"
      "sink [6, 0, 0, 0, 0, 4, 0, 0, 0, 2, 104, 105]"
      "[Chunk [6, 0, 0], Fail (IoError Interrupted None ''''), Chunk [0, 0, 4, 0, 0, 0, 2, 104], Chunk [105, 9]]"
      "[9]"]
  by (simp add: write_frame_def u32_to_be_bytes_def MAX_PAYLOAD_def del: receive.simps)

text \<open>
  Host to guest. What a session writes with its own copy of \<open>write_frame\<close> under a
  known message type, the agent's \<open>read_frame\<close> returns with that type and payload, however
  the stream is cut.
\<close>

theorem frame_reaches_guest:
  assumes "session_write_frame (message_type_as_u8 t) p w = (Ok (), w')"
    and "length p \<le> MAX_PAYLOAD"
    and "clean r" and "w_out w @ bytes_of r = w_out w' @ rest"
  shows "\<exists>r'. read_frame r = (Ok (t, p), r') \<and> clean r' \<and> bytes_of r' = rest"
  using to_guest.dec_enc [of r "(t, p)" rest] session_write_frame_Ok_out [OF assms(1)] assms(2-4)
  by simp

lemma frame_reaches_guest_witness:
  "\<exists>r'. read_frame [Chunk [1, 0, 0, 0, 1], Chunk [123, 2]] = (Ok (ExecuteCommand, [123]), r')
        \<and> clean r' \<and> bytes_of r' = [2]"
  using frame_reaches_guest [of ExecuteCommand "[123]" "sink [0]" "sink [0, 1, 0, 0, 0, 1, 123]"
      "[Chunk [1, 0, 0, 0, 1], Chunk [123, 2]]" "[2]"]
  by (simp add: session_write_frame_def u32_to_be_bytes_def MAX_PAYLOAD_def)

lemma read_frame_header_cases:
  assumes "clean r" and "length (bytes_of r) \<ge> 5"
  obtains r1 where "read_exact 5 r = (Ok (take 5 (bytes_of r)), r1)" "clean r1"
    "bytes_of r1 = drop 5 (bytes_of r)"
  using read_exact_clean [OF assms] by blast

definition header_len :: "byte list \<Rightarrow> nat" where
  "header_len bs = unat (u32_from_be_bytes (bs ! 1) (bs ! 2) (bs ! 3) (bs ! 4))"

text \<open>
  (C16) The agent's reader on an arbitrary clean stream with at least a header, decided by
  the header alone: an unknown type byte (0 or above 9) and a length above 16 MiB are
  refused without reading the body, a body cut short by the end of the stream is an error,
  and otherwise the result is the whole body.
\<close>

theorem read_frame_decides:
  assumes "clean r" and "length (bytes_of r) \<ge> 5"
  shows "fst (read_frame r) =
    (if bytes_of r ! 0 = 0 \<or> 9 < bytes_of r ! 0 then Err (invalid_data ''unknown message type'')
     else if MAX_PAYLOAD < header_len (bytes_of r) then Err (invalid_data ''payload too large'')
     else if length (bytes_of r) < 5 + header_len (bytes_of r) then Err eof_error
     else Ok (the (message_type_from_u8 (bytes_of r ! 0)),
              take (header_len (bytes_of r)) (drop 5 (bytes_of r))))"
proof -
  obtain r1 where r1: "read_exact 5 r = (Ok (take 5 (bytes_of r)), r1)" "clean r1"
    "bytes_of r1 = drop 5 (bytes_of r)"
    using read_frame_header_cases [OF assms] .
  let ?n = "header_len (bytes_of r)"
  show ?thesis
  proof (cases "message_type_from_u8 (bytes_of r ! 0)")
    case None
    then have "bytes_of r ! 0 = 0 \<or> 9 < bytes_of r ! 0" by (simp only: message_type_from_u8_None_iff)
    with None r1 show ?thesis by (simp add: read_frame_def)
  next
    case (Some t)
    then have known: "\<not> (bytes_of r ! 0 = 0 \<or> 9 < bytes_of r ! 0)"
      by (metis message_type_from_u8_None_iff option.distinct(1))
    have rf: "read_frame r =
        (if MAX_PAYLOAD < ?n then (Err (invalid_data ''payload too large''), r1)
         else if 0 < ?n
         then (case read_exact ?n r1 of (Err e, r2) \<Rightarrow> (Err e, r2) | (Ok p, r2) \<Rightarrow> (Ok (t, p), r2))
         else (Ok (t, []), r1))"
      by (simp add: read_frame_def r1(1) Some header_len_def Let_def)
    show ?thesis
    proof (cases "?n \<le> length (bytes_of r1)")
      case True
      with r1(3) assms(2) have "\<not> length (bytes_of r) < 5 + ?n" by simp
      with read_exact_clean [OF r1(2) True] show ?thesis
        by (auto simp: rf known Some r1(3))
    next
      case False
      with r1(3) assms(2) have "length (bytes_of r) < 5 + ?n" "0 < ?n" by simp_all
      with read_exact_short [OF r1(2), of ?n] False show ?thesis
        by (auto simp: rf known)
    qed
  qed
qed

lemma read_frame_decides_witness:
  "fst (read_frame [Chunk [3, 0, 0, 0, 2, 7]]) = Err eof_error
   \<and> fst (read_frame [Chunk [10, 0], Chunk [0, 0, 0]]) = Err (invalid_data ''unknown message type'')
   \<and> fst (read_frame [Chunk [3, 1, 0, 0, 1]]) = Err (invalid_data ''payload too large'')"
  using read_frame_decides [of "[Chunk [3, 0, 0, 0, 2, 7]]"]
    read_frame_decides [of "[Chunk [10, 0], Chunk [0, 0, 0]]"]
    read_frame_decides [of "[Chunk [3, 1, 0, 0, 1]]"]
  by (simp add: header_len_def u32_from_be_bytes_def MAX_PAYLOAD_def)

text \<open>
  The host's three copies of the frame codec are the same function of stream and
  writer, faults included, and the agent's writer is the host's at the type's byte.
\<close>

theorem frame_copies_agree:
  "smoke_read_frame = session_read_frame \<and> vsock_smoke_read_frame = session_read_frame
   \<and> smoke_write_frame = session_write_frame \<and> vsock_smoke_write_frame = session_write_frame
   \<and> write_frame t = session_write_frame (message_type_as_u8 t)"
proof -
  have "vsock_smoke_read_frame = smoke_read_frame" "vsock_smoke_write_frame = smoke_write_frame"
    by (intro ext, simp add: vsock_smoke_read_frame_def smoke_read_frame_def
        vsock_smoke_write_frame_def smoke_write_frame_def)+
  then show ?thesis
    by (simp add: smoke_read_frame_session smoke_write_frame_session write_frame_session fun_eq_iff)
qed

text \<open>
  The message types are numbered 1 to 9 without gaps: decoding and encoding are
  inverse, and exactly the bytes 0 and 10 to 255 are refused.
\<close>

theorem message_type_codes:
  "(message_type_from_u8 v = Some t \<longleftrightarrow> message_type_as_u8 t = v)
   \<and> (message_type_from_u8 v = None \<longleftrightarrow> v = 0 \<or> 9 < v)"
  using message_type_as_u8_inverse message_type_from_u8_None_iff by auto

end
