(* ===== verification/Base64.thy ===== *)
theory Base64
  imports Rust_Base
begin

text \<open>
  The base64 codecs: the encoder and decoder of the guest agent (fendd/src/protocol.rs),
  the encoder of the launch plan (linux/src/qemu.rs) and the streaming decoder of the
  host, which exists in three copies (linux/src/session.rs, linux/src/smoke.rs,
  fendd/src/bin/fend-vsock-smoke.rs). The lemmas show that every decoder inverts every
  encoder on all byte strings, the length of the encoding, and where the two decoders
  differ on input no encoder produces.
\<close>

section \<open>Strings and bytes\<close>

definition as_bytes :: "string \<Rightarrow> byte list" where
  "as_bytes s = map of_char s"

definition bytes_to_string :: "byte list \<Rightarrow> string" where
  "bytes_to_string bs = map (\<lambda>b. char_of (unat b)) bs"

definition B64 :: string where
  "B64 = ''ABCDEFGHIJKLMNOPQRSTUVWXYZabcdefghijklmnopqrstuvwxyz0123456789+/''"

section \<open>Encoders\<close>

definition chunk_word :: "byte list \<Rightarrow> u32" where
  "chunk_word chunk =
     (let b0 = ucast (chunk ! 0);
          b1 = ucast (if 1 < length chunk then chunk ! 1 else 0);
          b2 = ucast (if 2 < length chunk then chunk ! 2 else 0)
      in push_bit 16 b0 OR push_bit 8 b1 OR b2)"

definition b64_char :: "u32 \<Rightarrow> char" where
  "b64_char i = B64 ! unat (i AND 0x3F)"

definition encode_chunk :: "byte list \<Rightarrow> string" where
  "encode_chunk chunk =
     (let n = chunk_word chunk
      in [b64_char (drop_bit 18 n), b64_char (drop_bit 12 n),
          if 1 < length chunk then b64_char (drop_bit 6 n) else CHR ''='',
          if 2 < length chunk then b64_char n else CHR ''=''])"

definition base64_encode :: "byte list \<Rightarrow> string" where
  "base64_encode input = concat (map encode_chunk (chunks 3 input))"

text \<open>The launch plan has its own copy of the encoder, with the same table.\<close>

definition qemu_base64 :: "byte list \<Rightarrow> string" where
  "qemu_base64 input =
     concat (map (\<lambda>chunk.
       (let b0 = ucast (chunk ! 0);
            b1 = ucast (if 1 < length chunk then chunk ! 1 else 0);
            b2 = ucast (if 2 < length chunk then chunk ! 2 else 0);
            n = push_bit 16 b0 OR push_bit 8 b1 OR b2 :: u32
        in [B64 ! unat (drop_bit 18 n AND 0x3F), B64 ! unat (drop_bit 12 n AND 0x3F),
            if 1 < length chunk then B64 ! unat (drop_bit 6 n AND 0x3F) else CHR ''='',
            if 2 < length chunk then B64 ! unat (n AND 0x3F) else CHR ''=''])) (chunks 3 input))"

section \<open>The decoder of the guest agent\<close>

definition b64_val :: "byte \<Rightarrow> u8 option" where
  "b64_val c =
     (if 65 \<le> c \<and> c \<le> 90 then Some (c - 65)
      else if 97 \<le> c \<and> c \<le> 122 then Some (c - 97 + 26)
      else if 48 \<le> c \<and> c \<le> 57 then Some (c - 48 + 52)
      else if c = 43 then Some 62
      else if c = 47 then Some 63
      else None)"

abbreviation pad_byte :: byte where
  "pad_byte \<equiv> 61"

definition decode_chunk :: "byte list \<Rightarrow> byte list option" where
  "decode_chunk chunk =
     (case b64_val (chunk ! 0) of None \<Rightarrow> None
      | Some a \<Rightarrow> (case b64_val (chunk ! 1) of None \<Rightarrow> None
      | Some b \<Rightarrow>
          (let o0 = push_bit 2 a OR drop_bit 4 b
           in if chunk ! 2 \<noteq> pad_byte
              then (case b64_val (chunk ! 2) of None \<Rightarrow> None
                    | Some c \<Rightarrow>
                        (let o1 = push_bit 4 b OR drop_bit 2 c
                         in if chunk ! 3 \<noteq> pad_byte
                            then (case b64_val (chunk ! 3) of None \<Rightarrow> None
                                  | Some d \<Rightarrow> Some [o0, o1, push_bit 6 c OR d])
                            else Some [o0, o1]))
              else Some [o0])))"

fun decode_chunks :: "byte list list \<Rightarrow> byte list option" where
  "decode_chunks [] = Some []"
| "decode_chunks (c # cs) =
     (case decode_chunk c of None \<Rightarrow> None
      | Some ds \<Rightarrow> map_option (\<lambda>rest. ds @ rest) (decode_chunks cs))"

definition base64_decode :: "string \<Rightarrow> byte list option" where
  "base64_decode input =
     (let bytes = as_bytes input
      in if bytes = [] then Some []
         else if length bytes mod 4 \<noteq> 0 then None
         else decode_chunks (chunks 4 bytes))"

section \<open>The streaming decoder of the host\<close>

definition is_ascii_whitespace :: "byte \<Rightarrow> bool" where
  "is_ascii_whitespace b = (b = 32 \<or> b = 9 \<or> b = 10 \<or> b = 12 \<or> b = 13)"

text \<open>One full group of four; \<open>=\<close> counts as zero bits in the last two places.\<close>

definition session_decode_quad :: "byte list \<Rightarrow> byte list option" where
  "session_decode_quad chunk =
     (let pad = (if chunk ! 2 = pad_byte then 1 else 0) + (if chunk ! 3 = pad_byte then 1 else (0 :: nat))
      in case b64_val (chunk ! 0) of None \<Rightarrow> None
      | Some n0 \<Rightarrow> (case b64_val (chunk ! 1) of None \<Rightarrow> None
      | Some n1 \<Rightarrow> (case (if chunk ! 2 = pad_byte then Some 0 else b64_val (chunk ! 2)) of None \<Rightarrow> None
      | Some n2 \<Rightarrow> (case (if chunk ! 3 = pad_byte then Some 0 else b64_val (chunk ! 3)) of None \<Rightarrow> None
      | Some n3 \<Rightarrow>
          (let decoded = push_bit 18 (ucast n0) OR push_bit 12 (ucast n1)
                         OR push_bit 6 (ucast n2) OR ucast n3 :: u32
           in Some (ucast (drop_bit 16 decoded AND 0xFF)
                    # (if pad < 2 then [ucast (drop_bit 8 decoded AND 0xFF)] else [])
                    @ (if pad = 0 then [ucast (decoded AND 0xFF)] else [])))))))"

definition smoke_decode_quad :: "byte list \<Rightarrow> byte list option" where
  "smoke_decode_quad chunk =
     (let pad = (if chunk ! 2 = pad_byte then 1 else 0) + (if chunk ! 3 = pad_byte then 1 else (0 :: nat))
      in case b64_val (chunk ! 0) of None \<Rightarrow> None
      | Some n0 \<Rightarrow> (case b64_val (chunk ! 1) of None \<Rightarrow> None
      | Some n1 \<Rightarrow> (case (if chunk ! 2 = pad_byte then Some 0 else b64_val (chunk ! 2)) of None \<Rightarrow> None
      | Some n2 \<Rightarrow> (case (if chunk ! 3 = pad_byte then Some 0 else b64_val (chunk ! 3)) of None \<Rightarrow> None
      | Some n3 \<Rightarrow>
          (let decoded = push_bit 18 (ucast n0) OR push_bit 12 (ucast n1)
                         OR push_bit 6 (ucast n2) OR ucast n3 :: u32
           in Some (ucast (drop_bit 16 decoded AND 0xFF)
                    # (if pad < 2 then [ucast (drop_bit 8 decoded AND 0xFF)] else [])
                    @ (if pad < 1 then [ucast (decoded AND 0xFF)] else [])))))))"

text \<open>
  The loop over the bytes of the input: \<open>chunk\<close> holds the \<open>count\<close> bytes gathered so
  far, \<open>out\<close> the decoded ones; input may end on a group boundary only.
\<close>

fun decode_stream ::
  "(byte list \<Rightarrow> byte list option) \<Rightarrow> byte list \<Rightarrow> byte list \<Rightarrow> byte list \<Rightarrow> byte list option" where
  "decode_stream quad [] chunk out = (if chunk = [] then Some out else None)"
| "decode_stream quad (b # bs) chunk out =
     (let chunk' = chunk @ [b]
      in if length chunk' \<noteq> 4 then decode_stream quad bs chunk' out
         else (case quad chunk' of None \<Rightarrow> None
               | Some ds \<Rightarrow> decode_stream quad bs [] (out @ ds)))"

definition session_base64_decode :: "string \<Rightarrow> byte list option" where
  "session_base64_decode input =
     decode_stream session_decode_quad
       (filter (\<lambda>b. \<not> is_ascii_whitespace b) (as_bytes input)) [] []"

definition smoke_base64_decode :: "string \<Rightarrow> byte list option" where
  "smoke_base64_decode input =
     decode_stream smoke_decode_quad
       (filter (\<lambda>b. \<not> is_ascii_whitespace b) (as_bytes input)) [] []"

definition vsock_smoke_base64_decode :: "string \<Rightarrow> byte list option" where
  "vsock_smoke_base64_decode input =
     decode_stream smoke_decode_quad
       (filter (\<lambda>b. \<not> is_ascii_whitespace b) (as_bytes input)) [] []"

section \<open>Sextets\<close>

lemma as_bytes_simps [simp]:
  "as_bytes [] = []" "as_bytes (c # s) = of_char c # as_bytes s"
  "as_bytes (s @ t) = as_bytes s @ as_bytes t" "length (as_bytes s) = length s"
  by (simp_all add: as_bytes_def)

text \<open>The table and \<open>b64_val\<close> are inverse on the 64 sextets; no table entry is padding or space.\<close>

lemma sextet_less: "unat (i AND 0x3F :: u32) < 64"
proof -
  have "i AND 0x3F \<le> (0x3F :: u32)" by (rule word_and_le1)
  then have "unat (i AND 0x3F) \<le> unat (0x3F :: u32)" by (simp only: word_le_nat_alt)
  then show ?thesis by simp
qed

lemma b64_table:
  "\<forall>k \<in> set [0..<64]. b64_val (of_char (B64 ! k)) = Some (of_nat k)
     \<and> of_char (B64 ! k) \<noteq> (pad_byte :: byte) \<and> \<not> is_ascii_whitespace (of_char (B64 ! k))"
  by code_simp

lemma b64_char_val:
  "b64_val (of_char (b64_char i)) = Some (ucast (i AND 0x3F))
     \<and> of_char (b64_char i) \<noteq> (pad_byte :: byte) \<and> \<not> is_ascii_whitespace (of_char (b64_char i))"
proof -
  have "b64_val (of_char (b64_char i)) = Some (of_nat (unat (i AND 0x3F)))
     \<and> of_char (b64_char i) \<noteq> (pad_byte :: byte) \<and> \<not> is_ascii_whitespace (of_char (b64_char i))"
    unfolding b64_char_def by (rule bspec [OF b64_table]) (simp add: sextet_less)
  then show ?thesis by simp
qed

lemmas b64_char_plain [simp] = b64_char_val [THEN conjunct2, THEN conjunct1]
  b64_char_val [THEN conjunct2, THEN conjunct2]

section \<open>Groups\<close>

text \<open>
  Regrouping bits: three bytes become four sextets and back. Each equation is read bit by
  bit, from the bits of a joined word and of a sextet.
\<close>

lemma byte_eqI: "(\<And>k. k < 8 \<Longrightarrow> bit a k = bit b k) \<Longrightarrow> a = (b :: byte)"
  by (rule bit_word_eqI) simp

definition join3 :: "byte \<Rightarrow> byte \<Rightarrow> byte \<Rightarrow> u32" where
  "join3 b0 b1 b2 = push_bit 16 (ucast b0) OR push_bit 8 (ucast b1) OR ucast b2"

definition sextet :: "u32 \<Rightarrow> byte" where
  "sextet i = ucast (i AND 0x3F)"

lemma mask6: "(0x3F :: u32) = mask 6"
  by (simp add: mask_eq_exp_minus_1)

lemma bit_byte_less: "bit (b :: byte) k \<Longrightarrow> k < 8"
  by (drule bit_imp_le_length) simp

lemma bit_sextet: "bit (sextet i) k \<longleftrightarrow> k < 6 \<and> bit i k"
  unfolding sextet_def mask6 by (auto simp: bit_simps)

lemma bit_join3:
  "bit (join3 b0 b1 b2) k \<longleftrightarrow>
     (16 \<le> k \<and> bit b0 (k - 16)) \<or> (8 \<le> k \<and> k < 16 \<and> bit b1 (k - 8)) \<or> (k < 8 \<and> bit b2 k)"
  unfolding join3_def by (auto simp: bit_simps dest: bit_byte_less)

lemmas regroup_bits = bit_or_iff bit_push_bit_iff bit_drop_bit_eq o_def bit_sextet bit_join3

lemma Suc_diff_cancel:
  "2 \<le> k \<Longrightarrow> Suc (Suc (k - 2)) = k" "4 \<le> k \<Longrightarrow> Suc (Suc (Suc (Suc (k - 4)))) = k"
  by simp_all

lemma regroup_first:
  "push_bit 2 (sextet (drop_bit 18 (join3 b0 b1 b2))) OR drop_bit 4 (sextet (drop_bit 12 (join3 b0 b1 b2))) = b0"
proof (rule byte_eqI)
  fix k :: nat assume "k < 8"
  then show "bit (push_bit 2 (sextet (drop_bit 18 (join3 b0 b1 b2))) OR
      drop_bit 4 (sextet (drop_bit 12 (join3 b0 b1 b2)))) k = bit b0 k"
    by (cases "2 \<le> k") (auto simp: regroup_bits Suc_diff_cancel dest: bit_byte_less)
qed

lemma regroup_second:
  "push_bit 4 (sextet (drop_bit 12 (join3 b0 b1 b2))) OR drop_bit 2 (sextet (drop_bit 6 (join3 b0 b1 b2))) = b1"
proof (rule byte_eqI)
  fix k :: nat assume "k < 8"
  then show "bit (push_bit 4 (sextet (drop_bit 12 (join3 b0 b1 b2))) OR
      drop_bit 2 (sextet (drop_bit 6 (join3 b0 b1 b2)))) k = bit b1 k"
    by (cases "4 \<le> k") (auto simp: regroup_bits Suc_diff_cancel dest: bit_byte_less)
qed

lemma regroup_third:
  "push_bit 6 (sextet (drop_bit 6 (join3 b0 b1 b2))) OR sextet (join3 b0 b1 b2) = b2"
proof (rule byte_eqI)
  fix k :: nat assume "k < 8"
  then show "bit (push_bit 6 (sextet (drop_bit 6 (join3 b0 b1 b2))) OR sextet (join3 b0 b1 b2)) k = bit b2 k"
    by (cases "6 \<le> k") (auto simp: regroup_bits dest: bit_byte_less)
qed

text \<open>The host joins the four sextets to the word again and takes its three bytes.\<close>

definition join4 :: "byte \<Rightarrow> byte \<Rightarrow> byte \<Rightarrow> byte \<Rightarrow> u32" where
  "join4 n0 n1 n2 n3 = push_bit 18 (ucast n0) OR push_bit 12 (ucast n1) OR push_bit 6 (ucast n2) OR ucast n3"

lemma bit_join4:
  "bit (join4 n0 n1 n2 n3) k \<longleftrightarrow>
     (18 \<le> k \<and> bit n0 (k - 18)) \<or> (12 \<le> k \<and> bit n1 (k - 12)) \<or> (6 \<le> k \<and> bit n2 (k - 6)) \<or> bit n3 k"
  unfolding join4_def by (auto simp: bit_simps dest: bit_byte_less)

lemma join4_sextets:
  "join4 (sextet (drop_bit 18 (join3 b0 b1 b2))) (sextet (drop_bit 12 (join3 b0 b1 b2)))
     (sextet (drop_bit 6 (join3 b0 b1 b2))) (sextet (join3 b0 b1 b2)) = join3 b0 b1 b2"
proof (rule bit_word_eqI)
  let ?w = "join3 b0 b1 b2"
  fix k assume "k < LENGTH(32)"
  have top: "\<not> bit ?w k" if "\<not> k < 24" using that by (auto simp: bit_join3 dest: bit_byte_less)
  consider "k < 6" | "6 \<le> k" "k < 12" | "12 \<le> k" "k < 18" | "18 \<le> k" by linarith
  then show "bit (join4 (sextet (drop_bit 18 ?w)) (sextet (drop_bit 12 ?w))
      (sextet (drop_bit 6 ?w)) (sextet ?w)) k = bit ?w k"
  proof cases
    case 4
    with top show ?thesis by (cases "k < 24") (auto simp: bit_join4 bit_sextet bit_drop_bit_eq)
  qed (auto simp: bit_join4 bit_sextet bit_drop_bit_eq)
qed

lemma mask8: "(0xFF :: u32) = mask 8"
  by (simp add: mask_eq_exp_minus_1)

lemma join3_bytes:
  "ucast (drop_bit 16 (join3 b0 b1 b2) AND 0xFF) = b0"
  "ucast (drop_bit 8 (join3 b0 b1 b2) AND 0xFF) = b1"
  "ucast (join3 b0 b1 b2 AND 0xFF) = b2"
  unfolding mask8
  by (rule byte_eqI; auto simp: bit_and_iff bit_mask_iff bit_ucast_iff bit_drop_bit_eq o_def bit_join3
      dest: bit_byte_less)+

lemma sextet_pad:
  "sextet (join3 b0 b1 0) = 0" "sextet (drop_bit 6 (join3 b0 0 0)) = 0"
  by (rule byte_eqI; auto simp: bit_sextet bit_drop_bit_eq o_def bit_join3)+

section \<open>Round trips\<close>

lemma b64_char_sextet [simp]: "b64_val (of_char (b64_char i)) = Some (sextet i)"
  using b64_char_val by (simp add: sextet_def)

lemma chunk_word_join3:
  "chunk_word [b0] = join3 b0 0 0" "chunk_word [b0, b1] = join3 b0 b1 0"
  "chunk_word [b0, b1, b2] = join3 b0 b1 b2"
  by (simp_all add: chunk_word_def join3_def)

lemma chunk3_cases:
  assumes "c \<noteq> []" and "length c \<le> 3"
  obtains b0 where "c = [b0]" | b0 b1 where "c = [b0, b1]" | b0 b1 b2 where "c = [b0, b1, b2]"
proof -
  from assms have "0 < length c" by simp
  with assms(2) have "length c = 1 \<or> length c = 2 \<or> length c = 3" by linarith
  then show ?thesis
    using that by (auto simp: length_Suc_conv numeral_eq_Suc)
qed

lemma length_encode_chunk [simp]: "length (encode_chunk c) = 4"
  by (simp add: encode_chunk_def Let_def)

lemma decode_encode_chunk:
  assumes "c \<noteq> []" and "length c \<le> 3"
  shows "decode_chunk (as_bytes (encode_chunk c)) = Some c"
  using assms
  by (rule chunk3_cases)
    (simp_all add: encode_chunk_def decode_chunk_def Let_def chunk_word_join3
      regroup_first regroup_second regroup_third)

lemma session_decode_encode_chunk:
  assumes "c \<noteq> []" and "length c \<le> 3"
  shows "session_decode_quad (as_bytes (encode_chunk c)) = Some c"
  using assms
proof (rule chunk3_cases)
  fix b0 assume "c = [b0]"
  then show ?thesis
    using join4_sextets [of b0 0 0]
    by (simp add: encode_chunk_def session_decode_quad_def Let_def chunk_word_join3 sextet_pad
        join4_def [symmetric, where ?n2.0 = 0 and ?n3.0 = 0, simplified] join3_bytes)
next
  fix b0 b1 assume "c = [b0, b1]"
  then show ?thesis
    using join4_sextets [of b0 b1 0]
    by (simp add: encode_chunk_def session_decode_quad_def Let_def chunk_word_join3 sextet_pad
        join4_def [symmetric, where ?n3.0 = 0, simplified] join3_bytes)
next
  fix b0 b1 b2 assume "c = [b0, b1, b2]"
  then show ?thesis
    by (simp add: encode_chunk_def session_decode_quad_def Let_def chunk_word_join3
        join4_def [symmetric] join4_sextets join3_bytes)
qed

lemma smoke_decode_quad_session: "smoke_decode_quad = session_decode_quad"
  by (rule ext) (unfold smoke_decode_quad_def session_decode_quad_def less_one, rule refl)

lemma chunks_map_concat:
  "\<forall>c \<in> set cs. length (f c) = n \<Longrightarrow> 0 < n \<Longrightarrow> chunks n (concat (map f cs)) = map f cs"
  by (induction cs) (simp_all add: chunks_append)

lemma decode_chunks_map:
  "\<forall>c \<in> set cs. decode_chunk (f c) = Some c \<Longrightarrow> decode_chunks (map f cs) = Some (concat cs)"
  by (induction cs) auto

lemma as_bytes_concat: "as_bytes (concat ss) = concat (map as_bytes ss)"
  by (induction ss) simp_all

lemma length_concat_const:
  "\<forall>x \<in> set xs. length (f x) = n \<Longrightarrow> length (concat (map f xs)) = n * length xs"
  by (induction xs) auto

lemma base64_encode_length: "length (base64_encode bs) = 4 * length (chunks 3 bs)"
  unfolding base64_encode_def by (rule length_concat_const) simp

lemma length_chunks: "0 < n \<Longrightarrow> length (chunks n xs) = (length xs + n - 1) div n"
proof (induction n xs rule: chunks.induct)
  case (1 n xs)
  show ?case
  proof (cases "length xs \<le> n")
    case True
    show ?thesis
    proof (cases "xs = []")
      case True
      with "1.prems" show ?thesis by simp
    next
      case False
      then have "0 < length xs" by simp
      with True have "length xs + n - 1 = n + (length xs - 1)" and "length xs - 1 < n"
        by linarith+
      then have "(length xs + n - 1) div n = 1" using "1.prems" by (simp only: div_add_self1) simp
      with True False show ?thesis by (simp add: chunks_short)
    qed
  next
    case False
    then have "length (chunks n xs) = Suc ((length xs - n + n - 1) div n)"
      using "1" by (subst chunks.simps) auto
    also have "\<dots> = (length xs + n - 1) div n"
      using False "1.prems" by (subst (2) le_div_geq) auto
    finally show ?thesis .
  qed
qed

lemma base64_decode_encode_aux: "base64_decode (base64_encode bs) = Some bs"
proof (cases "bs = []")
  case True
  then show ?thesis by (simp add: base64_encode_def base64_decode_def)
next
  case False
  have groups: "\<forall>c \<in> set (chunks 3 bs). decode_chunk (as_bytes (encode_chunk c)) = Some c"
    by (auto dest!: chunks_bounds intro: decode_encode_chunk)
  have "as_bytes (base64_encode bs) = concat (map (\<lambda>c. as_bytes (encode_chunk c)) (chunks 3 bs))"
    by (simp add: base64_encode_def as_bytes_concat o_def)
  then have "chunks 4 (as_bytes (base64_encode bs)) = map (\<lambda>c. as_bytes (encode_chunk c)) (chunks 3 bs)"
    by (simp add: chunks_map_concat)
  moreover have "length (base64_encode bs) mod 4 = 0"
    by (simp add: base64_encode_length)
  ultimately show ?thesis
    using decode_chunks_map [OF groups] by (auto simp: base64_decode_def Let_def as_bytes_def)
qed

lemma decode_stream_groups:
  assumes "\<forall>c \<in> set cs. length (f c) = 4 \<and> quad (f c) = Some c"
  shows "decode_stream quad (concat (map f cs)) [] out = Some (out @ concat cs)"
  using assms
proof (induction cs arbitrary: out)
  case Nil
  then show ?case by simp
next
  case (Cons c cs)
  then obtain x0 x1 x2 x3 where "f c = [x0, x1, x2, x3]" and "quad (f c) = Some c"
    by (auto simp: length_Suc_conv numeral_eq_Suc)
  with Cons show ?case by simp
qed

lemma encode_chunk_no_space: "b \<in> set (as_bytes (encode_chunk c)) \<Longrightarrow> \<not> is_ascii_whitespace b"
  by (auto simp: encode_chunk_def Let_def is_ascii_whitespace_def [of 61] split: if_splits)

lemma session_base64_decode_encode_aux: "session_base64_decode (base64_encode bs) = Some bs"
proof -
  have bytes: "as_bytes (base64_encode bs) = concat (map (\<lambda>c. as_bytes (encode_chunk c)) (chunks 3 bs))"
    by (simp add: base64_encode_def as_bytes_concat o_def)
  then have "filter (\<lambda>b. \<not> is_ascii_whitespace b) (as_bytes (base64_encode bs)) = as_bytes (base64_encode bs)"
    by (auto simp: filter_id_conv dest: encode_chunk_no_space)
  moreover have "decode_stream session_decode_quad (as_bytes (base64_encode bs)) [] [] = Some ([] @ concat (chunks 3 bs))"
    unfolding bytes
    by (rule decode_stream_groups) (auto dest!: chunks_bounds intro: session_decode_encode_chunk)
  ultimately show ?thesis by (simp add: session_base64_decode_def)
qed

lemma qemu_base64_encode: "qemu_base64 = base64_encode"
  by (rule ext) (unfold qemu_base64_def base64_encode_def encode_chunk_def [abs_def]
      chunk_word_def b64_char_def Let_def, rule refl)

section \<open>Properties of the codec\<close>

text \<open>
  (C24) Every decoder inverts every encoder: whatever bytes the agent encodes, the host
  decodes on each of its three paths and the agent decodes itself, and what the launcher
  encodes for the guest's command line the agent decodes.
\<close>

theorem base64_round_trips:
  "base64_decode (base64_encode bs) = Some bs
   \<and> session_base64_decode (base64_encode bs) = Some bs
   \<and> smoke_base64_decode (base64_encode bs) = Some bs
   \<and> vsock_smoke_base64_decode (base64_encode bs) = Some bs
   \<and> base64_decode (qemu_base64 bs) = Some bs"
  using base64_decode_encode_aux session_base64_decode_encode_aux
  by (simp add: smoke_base64_decode_def vsock_smoke_base64_decode_def session_base64_decode_def
      smoke_decode_quad_session qemu_base64_encode)

lemma encode_chunk_alphabet:
  "c \<in> set (encode_chunk bs) \<Longrightarrow> c \<in> insert (CHR ''='') (set B64)"
proof -
  have "b64_char i \<in> set B64" for i
    unfolding b64_char_def by (rule nth_mem) (use sextet_less [of i] in \<open>simp add: B64_def\<close>)
  then show "c \<in> set (encode_chunk bs) \<Longrightarrow> c \<in> insert (CHR ''='') (set B64)"
    by (auto simp: encode_chunk_def Let_def split: if_splits)
qed

text \<open>
  The encoder's output has the length its capacity hint promises, four characters per
  started group of three bytes, and uses the alphabet and the padding character only: in
  particular no space, quote or newline that would break the kernel command line or JSON.
\<close>

theorem base64_encode_shape:
  "length (base64_encode bs) = 4 * ((length bs + 2) div 3)
   \<and> set (base64_encode bs) \<subseteq> insert (CHR ''='') (set B64)"
proof
  show "length (base64_encode bs) = 4 * ((length bs + 2) div 3)"
    by (simp add: base64_encode_length length_chunks)
  show "set (base64_encode bs) \<subseteq> insert (CHR ''='') (set B64)"
    using encode_chunk_alphabet by (auto simp: base64_encode_def)
qed

text \<open>
  The decoders differ outside the image of the encoders: the agent stops looking at a group
  once its third character is padding.
\<close>

lemma base64_decoders_diverge:
  "base64_decode ''AA=!'' = Some [0] \<and> session_base64_decode ''AA=!'' = None
   \<and> base64_decode ''AA=A'' = Some [0] \<and> session_base64_decode ''AA=A'' = Some [0, 0]"
  by code_simp

end
