(* ===== verification/Host_Smoke.thy ===== *)
theory Host_Smoke
  imports Frame_Protocol Base64 Rust_Strings
begin

text \<open>
  The host's smoke client (linux/src/smoke.rs): it connects to the agent of a VM, runs one
  command under a deadline and collects its output under a limit. Durations are in
  nanoseconds. \<open>serde_json\<close>'s \<open>Value\<close> is the type variable of the record \<open>json_api\<close>, whose
  fields are the functions of that library the sources call; \<open>fmt\<close> holds the two
  formatters of the standard library whose text is not fixed by the sources (\<open>{:?}\<close> of a
  string and the message of an I/O error).
\<close>

record 'v json_api =
  ja_from_slice :: "byte list \<Rightarrow> ('v, string) result"
  ja_get :: "'v \<Rightarrow> string \<Rightarrow> 'v option"
  ja_as_u64 :: "'v \<Rightarrow> u64 option"
  ja_as_i64 :: "'v \<Rightarrow> int option"
  ja_as_str :: "'v \<Rightarrow> string option"

record formatters =
  fm_debug :: "string \<Rightarrow> string"
  fm_io :: "io_error \<Rightarrow> string"

type_synonym duration = nat

definition as_secs :: "duration \<Rightarrow> nat" where "as_secs d = d div 1000000000"
definition as_millis :: "duration \<Rightarrow> nat" where "as_millis d = d div 1000000"
definition as_micros :: "duration \<Rightarrow> nat" where "as_micros d = d div 1000"

definition show_uword :: "'a :: len word \<Rightarrow> string" where
  "show_uword x = show_nat (unat x)"

section \<open>Configuration and errors\<close>

record smoke_config =
  sc_cid :: u32
  sc_port :: u32
  sc_timeout :: duration
  sc_max_output_bytes :: nat
  sc_cwd :: string
  sc_env :: "(string \<times> string) list"
  sc_command :: "string list"

record smoke_result =
  sr_exit_code :: int
  sr_stdout :: "byte list"
  sr_stderr :: "byte list"

datatype smoke_error =
    Smoke_InvalidConfig string
  | Smoke_Io io_error
  | Smoke_Json string
  | Smoke_Protocol string
  | Smoke_SessionTimeout duration
  | Smoke_OutputLimitExceeded string nat
  | Smoke_ConnectionTimeout u32 u32 duration string
  | Smoke_UnsupportedHost

definition connection_timeout_text :: "u32 \<Rightarrow> u32 \<Rightarrow> duration \<Rightarrow> string \<Rightarrow> string" where
  "connection_timeout_text cid port timeout last_error =
     ''timed out connecting to fendd on vsock cid '' @ show_uword cid @ '' port '' @ show_uword port
       @ '' after '' @ show_nat (as_secs timeout) @ ''s: '' @ last_error"

fun smoke_error_text :: "formatters \<Rightarrow> smoke_error \<Rightarrow> string" where
  "smoke_error_text fm (Smoke_InvalidConfig message) = message"
| "smoke_error_text fm (Smoke_Io e) = fm_io fm e"
| "smoke_error_text fm (Smoke_Json e) = e"
| "smoke_error_text fm (Smoke_Protocol message) = message"
| "smoke_error_text fm (Smoke_SessionTimeout timeout) =
     ''timed out waiting for smoke command after '' @ show_nat (as_secs timeout) @ ''s''"
| "smoke_error_text fm (Smoke_OutputLimitExceeded stream limit) =
     ''guest '' @ stream @ '' exceeded smoke output limit of '' @ show_nat limit @ '' bytes''"
| "smoke_error_text fm (Smoke_ConnectionTimeout cid port timeout last_error) =
     connection_timeout_text cid port timeout last_error"
| "smoke_error_text fm Smoke_UnsupportedHost = ''vsock smoke is only supported on Linux hosts''"

definition smoke_validate_config :: "smoke_config \<Rightarrow> (unit, smoke_error) result" where
  "smoke_validate_config config =
     (if sc_command config = [] then Err (Smoke_InvalidConfig ''smoke command cannot be empty'')
      else if sc_timeout config = 0 then Err (Smoke_InvalidConfig ''smoke timeout must be greater than 0'')
      else if sc_max_output_bytes config = 0
      then Err (Smoke_InvalidConfig ''smoke output limit must be greater than 0'')
      else Ok ())"

section \<open>Connecting\<close>

definition RETRY_INTERVAL :: duration where
  "RETRY_INTERVAL = 250 * 1000000"

definition USIZE_MAX :: nat where
  "USIZE_MAX = 2 ^ 64 - 1"

definition smoke_connection_attempts :: "duration \<Rightarrow> nat" where
  "smoke_connection_attempts timeout =
     (let attempts = as_millis timeout div as_millis RETRY_INTERVAL + 1
      in if attempts \<le> USIZE_MAX then attempts else USIZE_MAX)"

text \<open>
  The \<open>for\<close> loop from \<open>attempt\<close> with \<open>n\<close> attempts left; \<open>connect\<close> is the outcome of each
  attempt and the second component of the result counts the sleeps.
\<close>

fun smoke_connect_loop ::
  "formatters \<Rightarrow> (nat \<Rightarrow> ('s, smoke_error) result) \<Rightarrow> nat \<Rightarrow> nat \<Rightarrow> nat \<Rightarrow> string \<Rightarrow> ('s, smoke_error) result option \<times> string \<times> nat" where
  "smoke_connect_loop fm connect attempts attempt 0 last_error = (None, last_error, 0)"
| "smoke_connect_loop fm connect attempts attempt (Suc n) last_error =
     (case connect attempt of
        Ok stream \<Rightarrow> (Some (Ok stream), last_error, 0)
      | Err e \<Rightarrow>
          if e = Smoke_UnsupportedHost then (Some (Err Smoke_UnsupportedHost), last_error, 0)
          else (let (res, last, sleeps) =
                      smoke_connect_loop fm connect attempts (Suc attempt) n (smoke_error_text fm e)
                in (res, last, (if attempt + 1 < attempts then Suc sleeps else sleeps))))"

definition smoke_connect_vsock_with_retry ::
  "formatters \<Rightarrow> smoke_config \<Rightarrow> (nat \<Rightarrow> ('s, smoke_error) result) \<Rightarrow> ('s, smoke_error) result \<times> nat" where
  "smoke_connect_vsock_with_retry fm config connect =
     (let attempts = smoke_connection_attempts (sc_timeout config)
      in case smoke_connect_loop fm connect attempts 0 attempts ''unknown error'' of
           (Some res, _, sleeps) \<Rightarrow> (res, sleeps)
         | (None, last_error, sleeps) \<Rightarrow>
             (Err (Smoke_ConnectionTimeout (sc_cid config) (sc_port config) (sc_timeout config) last_error), sleeps))"

text \<open>\<open>duration_to_timeval\<close>: seconds and microseconds, at least one microsecond.\<close>

definition I64_MAX :: nat where
  "I64_MAX = 2 ^ 63 - 1"

definition smoke_duration_to_timeval :: "duration \<Rightarrow> nat \<times> nat" where
  "smoke_duration_to_timeval timeout =
     (let micros = max (as_micros timeout) 1;
          seconds = (if micros div 1000000 \<le> I64_MAX then micros div 1000000 else I64_MAX);
          useconds = (if seconds = I64_MAX then 999999 else micros mod 1000000)
      in (seconds, useconds))"

section \<open>Parsing replies\<close>

definition smoke_json_u64 :: "'v json_api \<Rightarrow> formatters \<Rightarrow> 'v \<Rightarrow> string \<Rightarrow> (u64, smoke_error) result" where
  "smoke_json_u64 ja fm v key =
     ok_or (Smoke_Protocol (''guest reply missing numeric '' @ fm_debug fm key))
       (Option.bind (ja_get ja v key) (ja_as_u64 ja))"

definition smoke_json_i32 :: "'v json_api \<Rightarrow> formatters \<Rightarrow> 'v \<Rightarrow> string \<Rightarrow> (int, smoke_error) result" where
  "smoke_json_i32 ja fm v key =
     and_then (ok_or (Smoke_Protocol (''guest reply missing numeric '' @ fm_debug fm key))
                 (Option.bind (ja_get ja v key) (ja_as_i64 ja)))
       (\<lambda>n. if - (2 ^ 31) \<le> n \<and> n < 2 ^ 31 then Ok n
            else Err (Smoke_Protocol (fm_debug fm key @ '' is out of range'')))"

definition smoke_json_string :: "'v json_api \<Rightarrow> formatters \<Rightarrow> 'v \<Rightarrow> string \<Rightarrow> (string, smoke_error) result" where
  "smoke_json_string ja fm v key =
     ok_or (Smoke_Protocol (''guest reply missing string '' @ fm_debug fm key))
       (Option.bind (ja_get ja v key) (ja_as_str ja))"

definition smoke_parse_output_data :: "'v json_api \<Rightarrow> formatters \<Rightarrow> byte list \<Rightarrow> (output_data, smoke_error) result" where
  "smoke_parse_output_data ja fm body =
     and_then (map_err Smoke_Json (ja_from_slice ja body)) (\<lambda>v.
     and_then (smoke_json_u64 ja fm v ''id'') (\<lambda>i.
     and_then (smoke_json_string ja fm v ''stream'') (\<lambda>stream.
     and_then (smoke_json_string ja fm v ''data'') (\<lambda>data.
       Ok \<lparr>od_id = i, od_stream = stream, od_data = data\<rparr>))))"

definition smoke_parse_exit_status :: "'v json_api \<Rightarrow> formatters \<Rightarrow> byte list \<Rightarrow> (exit_status_msg, smoke_error) result" where
  "smoke_parse_exit_status ja fm body =
     and_then (map_err Smoke_Json (ja_from_slice ja body)) (\<lambda>v.
     and_then (smoke_json_u64 ja fm v ''id'') (\<lambda>i.
     and_then (smoke_json_i32 ja fm v ''code'') (\<lambda>code.
       Ok \<lparr>es_id = i, es_code = code\<rparr>)))"

definition COMMAND_ID :: u64 where "COMMAND_ID = 1"

definition smoke_ensure_command_id :: "u64 \<Rightarrow> (unit, smoke_error) result" where
  "smoke_ensure_command_id i =
     (if i = COMMAND_ID then Ok ()
      else Err (Smoke_Protocol (''guest replied for unexpected command id '' @ show_uword i)))"

section \<open>The session\<close>

definition append_output :: "byte list \<Rightarrow> byte list \<Rightarrow> string \<Rightarrow> nat \<Rightarrow> (byte list, smoke_error) result" where
  "append_output buffer bytes stream limit =
     (if limit < min (length buffer + length bytes) USIZE_MAX then Err (Smoke_OutputLimitExceeded stream limit)
      else Ok (buffer @ bytes))"

definition io_or_timeout :: "io_error \<Rightarrow> duration \<Rightarrow> smoke_error" where
  "io_or_timeout e timeout =
     (if io_kind e = TimedOut \<or> io_kind e = WouldBlock then Smoke_SessionTimeout timeout else Smoke_Io e)"

text \<open>
  \<open>elapsed k\<close> is the time since the deadline was set when the \<open>k\<close>-th operation asks for
  what remains, \<open>set_timeout k\<close> the outcome of setting the socket timeout then.
\<close>

record smoke_clock =
  ck_elapsed :: "nat \<Rightarrow> duration"
  ck_set_timeout :: "nat \<Rightarrow> io_error option"

definition remaining :: "duration \<Rightarrow> duration \<Rightarrow> (duration, smoke_error) result" where
  "remaining timeout elapsed =
     (if elapsed \<le> timeout \<and> timeout - elapsed \<noteq> 0 then Ok (timeout - elapsed)
      else Err (Smoke_SessionTimeout timeout))"

definition read_frame_with_deadline ::
  "smoke_clock \<Rightarrow> duration \<Rightarrow> nat \<Rightarrow> reader \<Rightarrow> (frame, smoke_error) result \<times> reader" where
  "read_frame_with_deadline ck timeout k r =
     (case remaining timeout (ck_elapsed ck k) of
        Err e \<Rightarrow> (Err e, r)
      | Ok _ \<Rightarrow>
          (case ck_set_timeout ck k of
             Some e \<Rightarrow> (Err (Smoke_Io e), r)
           | None \<Rightarrow>
               (case smoke_read_frame r of (res, r1) \<Rightarrow> (map_err (\<lambda>e. io_or_timeout e timeout) res, r1))))"

definition write_frame_with_deadline ::
  "smoke_clock \<Rightarrow> duration \<Rightarrow> nat \<Rightarrow> u8 \<Rightarrow> byte list \<Rightarrow> writer \<Rightarrow> (unit, smoke_error) result \<times> writer" where
  "write_frame_with_deadline ck timeout k kd body w =
     (case remaining timeout (ck_elapsed ck k) of
        Err e \<Rightarrow> (Err e, w)
      | Ok _ \<Rightarrow>
          (case ck_set_timeout ck k of
             Some e \<Rightarrow> (Err (Smoke_Io e), w)
           | None \<Rightarrow>
               (case smoke_write_frame kd body w of (res, w1) \<Rightarrow> (map_err (\<lambda>e. io_or_timeout e timeout) res, w1))))"

text \<open>What one reply does: the buffers grow, the command has exited, or the session fails.\<close>

datatype 'e reply = Continue "byte list" "byte list" | Exited int | Failed 'e

definition smoke_reply ::
  "'v json_api \<Rightarrow> formatters \<Rightarrow> nat \<Rightarrow> frame \<Rightarrow> byte list \<Rightarrow> byte list \<Rightarrow> smoke_error reply" where
  "smoke_reply ja fm limit f out err =
     (if kind f = 3 then
        (case and_then (smoke_parse_output_data ja fm (payload f)) (\<lambda>m.
              map_ok (\<lambda>_. m) (smoke_ensure_command_id (od_id m))) of
           Err e \<Rightarrow> Failed e
         | Ok m \<Rightarrow>
             (case smoke_base64_decode (od_data m) of
                None \<Rightarrow> Failed (Smoke_Protocol ''guest sent invalid base64'')
              | Some bytes \<Rightarrow>
                  if od_stream m = ''stdout'' then
                    (case append_output out bytes ''stdout'' limit of
                       Err e \<Rightarrow> Failed e | Ok out1 \<Rightarrow> Continue out1 err)
                  else if od_stream m = ''stderr'' then
                    (case append_output err bytes ''stderr'' limit of
                       Err e \<Rightarrow> Failed e | Ok err1 \<Rightarrow> Continue out err1)
                  else Failed (Smoke_Protocol (''unknown output stream '' @ fm_debug fm (od_stream m)))))
      else if kind f = 4 then
        (case and_then (smoke_parse_exit_status ja fm (payload f)) (\<lambda>s.
              map_ok (\<lambda>_. s) (smoke_ensure_command_id (es_id s))) of
           Err e \<Rightarrow> Failed e
         | Ok s \<Rightarrow> Exited (es_code s))
      else Failed (Smoke_Protocol (''unexpected frame type '' @ show_uword (kind f))))"


lemma session_read_frame_smaller:
  "session_read_frame r = (Ok f, r') \<Longrightarrow> length (bytes_of r') < length (bytes_of r)"
proof -
  assume frame: "session_read_frame r = (Ok f, r')"
  then obtain h r1 where h: "read_exact 5 r = (Ok h, r1)"
    by (auto simp: session_read_frame_def split: prod.splits result.splits)
  with frame have "r' = r1 \<or> (\<exists>n p. read_exact n r1 = (Ok p, r'))"
    by (auto simp: session_read_frame_def Let_def split: prod.splits result.splits if_splits)
  then have "length (bytes_of r') \<le> length (bytes_of r1)" by (auto dest: read_exact_bytes)
  moreover have "length (bytes_of r) = 5 + length (bytes_of r1)"
    using read_exact_bytes [OF h] read_exact_length [OF h] by simp
  ultimately show ?thesis by simp
qed

lemma read_frame_with_deadline_smaller:
  "read_frame_with_deadline ck timeout k r = (Ok f, r') \<Longrightarrow> length (bytes_of r') < length (bytes_of r)"
  by (auto simp: read_frame_with_deadline_def smoke_read_frame_session dest: session_read_frame_smaller
      split: result.splits option.splits prod.splits)

function smoke_loop ::
  "'v json_api \<Rightarrow> formatters \<Rightarrow> smoke_clock \<Rightarrow> smoke_config \<Rightarrow> nat \<Rightarrow> reader \<Rightarrow> byte list \<Rightarrow> byte list
     \<Rightarrow> (smoke_result, smoke_error) result" where
  "smoke_loop ja fm ck config k r out err =
     (case read_frame_with_deadline ck (sc_timeout config) k r of
        (Err e, _) \<Rightarrow> Err e
      | (Ok f, r1) \<Rightarrow>
          (case smoke_reply ja fm (sc_max_output_bytes config) f out err of
             Failed e \<Rightarrow> Err e
           | Exited code \<Rightarrow> Ok \<lparr>sr_exit_code = code, sr_stdout = out, sr_stderr = err\<rparr>
           | Continue out1 err1 \<Rightarrow> smoke_loop ja fm ck config (Suc k) r1 out1 err1))"
  by pat_completeness auto
termination
  by (relation "measure (\<lambda>(ja, fm, ck, config, k, r, out, err). length (bytes_of r))")
    (auto dest: sym read_frame_with_deadline_smaller)

declare smoke_loop.simps [simp del]

text \<open>The command object of \<open>json!\<close>, with the printer of serde_json as \<open>to_vec\<close>.\<close>

definition host_command :: "smoke_config \<Rightarrow> bool \<Rightarrow> execute_command" where
  "host_command config tty =
     \<lparr>ec_id = COMMAND_ID, ec_cmd = hd (sc_command config), ec_args = tl (sc_command config),
      ec_env = sc_env config, ec_cwd = sc_cwd config, ec_tty = tty\<rparr>"

definition run_smoke_session_inner ::
  "'v json_api \<Rightarrow> (execute_command \<Rightarrow> (byte list, string) result) \<Rightarrow> formatters \<Rightarrow> smoke_clock \<Rightarrow> smoke_config
     \<Rightarrow> reader \<Rightarrow> writer \<Rightarrow> (smoke_result, smoke_error) result \<times> writer" where
  "run_smoke_session_inner ja to_vec fm ck config r w =
     (case smoke_validate_config config of
        Err e \<Rightarrow> (Err e, w)
      | Ok _ \<Rightarrow>
     (case read_frame_with_deadline ck (sc_timeout config) 0 r of
        (Err e, _) \<Rightarrow> (Err e, w)
      | (Ok ready, r1) \<Rightarrow>
          if kind ready \<noteq> 6
          then (Err (Smoke_Protocol (''expected Ready frame, got type '' @ show_uword (kind ready))), w)
          else (case to_vec (host_command config False) of
                  Err e \<Rightarrow> (Err (Smoke_Json e), w)
                | Ok body \<Rightarrow>
                    (case write_frame_with_deadline ck (sc_timeout config) 1 1 body w of
                       (Err e, w1) \<Rightarrow> (Err e, w1)
                     | (Ok _, w1) \<Rightarrow> (smoke_loop ja fm ck config 2 r1 [] [], w1)))))"

definition run_smoke ::
  "'v json_api \<Rightarrow> (execute_command \<Rightarrow> (byte list, string) result) \<Rightarrow> formatters \<Rightarrow> smoke_clock \<Rightarrow> smoke_config
     \<Rightarrow> (nat \<Rightarrow> (reader \<times> writer, smoke_error) result) \<Rightarrow> (smoke_result, smoke_error) result" where
  "run_smoke ja to_vec fm ck config connect =
     (case smoke_validate_config config of
        Err e \<Rightarrow> Err e
      | Ok _ \<Rightarrow>
          (case fst (smoke_connect_vsock_with_retry fm config connect) of
             Err e \<Rightarrow> Err e
           | Ok (r, w) \<Rightarrow> fst (run_smoke_session_inner ja to_vec fm ck config r w)))"

section \<open>Limits\<close>

lemma append_output_bounded:
  "append_output buffer bytes stream limit = Ok b \<Longrightarrow> limit < USIZE_MAX \<Longrightarrow> length b \<le> limit"
  by (auto simp: append_output_def min_def split: if_splits)

lemma smoke_reply_bounded:
  assumes "smoke_reply ja fm limit f out err = Continue out1 err1" and "limit < USIZE_MAX"
    and "length out \<le> limit" and "length err \<le> limit"
  shows "length out1 \<le> limit \<and> length err1 \<le> limit"
  using assms
  by (auto simp: smoke_reply_def dest: append_output_bounded split: if_splits result.splits option.splits)

lemma smoke_loop_bounded:
  "smoke_loop ja fm ck config k r out err = Ok res \<Longrightarrow> sc_max_output_bytes config < USIZE_MAX \<Longrightarrow>
   length out \<le> sc_max_output_bytes config \<Longrightarrow> length err \<le> sc_max_output_bytes config \<Longrightarrow>
   length (sr_stdout res) \<le> sc_max_output_bytes config \<and> length (sr_stderr res) \<le> sc_max_output_bytes config"
proof (induction ja fm ck config k r out err rule: smoke_loop.induct)
  case (1 ja fm ck config k r out err)
  from "1.prems"(1) obtain f r1 where f: "read_frame_with_deadline ck (sc_timeout config) k r = (Ok f, r1)"
    by (subst (asm) smoke_loop.simps) (auto split: prod.splits result.splits)
  with "1.prems"(1) have loop:
    "(case smoke_reply ja fm (sc_max_output_bytes config) f out err of
        Failed e \<Rightarrow> Err e
      | Exited code \<Rightarrow> Ok \<lparr>sr_exit_code = code, sr_stdout = out, sr_stderr = err\<rparr>
      | Continue out1 err1 \<Rightarrow> smoke_loop ja fm ck config (Suc k) r1 out1 err1) = Ok res"
    by (subst (asm) smoke_loop.simps) simp
  show ?case
  proof (cases "smoke_reply ja fm (sc_max_output_bytes config) f out err")
    case (Continue out1 err1)
    with loop smoke_reply_bounded [OF Continue] "1.IH" [OF f [symmetric] refl Continue] "1.prems" show ?thesis by simp
  next
    case (Exited code)
    with loop "1.prems" show ?thesis by auto
  qed (use loop in simp)
qed

text \<open>Retrying ends after the computed number of attempts.\<close>

lemma smoke_connect_loop_fails:
  "(\<And>i. \<exists>e. connect i = Err e \<and> e \<noteq> Smoke_UnsupportedHost) \<Longrightarrow> attempt + n = attempts \<Longrightarrow>
     \<exists>last. smoke_connect_loop fm connect attempts attempt n err = (None, last, n - 1)"
proof (induction n arbitrary: attempt err)
  case (Suc n)
  from Suc.prems(1) obtain e where "connect attempt = Err e" "e \<noteq> Smoke_UnsupportedHost" by blast
  with Suc.IH [OF Suc.prems(1), of "Suc attempt" "smoke_error_text fm e"] Suc.prems(2) show ?case
    by (cases n) auto
qed simp

end
