(* ===== verification/Host_Tools.thy ===== *)
theory Host_Tools
  imports Rust_Strings
begin

text \<open>
  Resolution of the virtiofsd helper (linux/src/tools.rs): the override variable, the
  search path and the known locations, and the command line of the two ways to run it. The
  file system enters as the predicate \<open>is_file\<close>; environment values are UTF-8.
\<close>

definition KNOWN_VIRTIOFSD_PATHS :: "path list" where
  "KNOWN_VIRTIOFSD_PATHS =
     [''/usr/lib/virtiofsd'', ''/usr/libexec/virtiofsd'', ''/usr/lib/qemu/virtiofsd'']"

datatype virtiofsd_mode = Direct | RootlessUnshare

record resolved_virtiofsd =
  vfsd_path :: path
  vfsd_mode :: virtiofsd_mode

definition virtiofsd_direct :: "path \<Rightarrow> resolved_virtiofsd" where
  "virtiofsd_direct p = \<lparr>vfsd_path = p, vfsd_mode = Direct\<rparr>"

definition requires_unshare :: "resolved_virtiofsd \<Rightarrow> bool" where
  "requires_unshare v = (vfsd_mode v = RootlessUnshare)"

definition display_value :: "resolved_virtiofsd \<Rightarrow> string" where
  "display_value v =
     (if requires_unshare v then vfsd_path v @ '' (rootless via unshare)'' else vfsd_path v)"

definition vfsd_command :: "resolved_virtiofsd \<Rightarrow> path \<Rightarrow> path \<Rightarrow> string \<times> string list" where
  "vfsd_command v socket source =
     (case vfsd_mode v of
        Direct \<Rightarrow>
          (vfsd_path v,
           [''--socket-path='' @ socket, ''--cache=auto'', ''-o'', ''source='' @ source])
      | RootlessUnshare \<Rightarrow>
          (''unshare'',
           [''-r'', ''--map-auto'', ''--'', vfsd_path v, ''--socket-path='' @ socket,
            ''--shared-dir'', source, ''--sandbox'', ''chroot'']))"

definition default_virtiofsd_mode :: "path \<Rightarrow> virtiofsd_mode" where
  "default_virtiofsd_mode p =
     (if path_ends_with p ''usr/lib/virtiofsd'' then RootlessUnshare else Direct)"

definition new_resolved_virtiofsd :: "path \<Rightarrow> resolved_virtiofsd" where
  "new_resolved_virtiofsd p = \<lparr>vfsd_path = p, vfsd_mode = default_virtiofsd_mode p\<rparr>"

definition locate_in_path :: "(path \<Rightarrow> bool) \<Rightarrow> string \<Rightarrow> string option \<Rightarrow> path option" where
  "locate_in_path is_file program path_value =
     (case path_value of
        None \<Rightarrow> None
      | Some v \<Rightarrow> find is_file (map (\<lambda>dir. path_join dir program) (split_paths v)))"

definition resolve_candidate ::
  "(path \<Rightarrow> bool) \<Rightarrow> string \<Rightarrow> string option \<Rightarrow> resolved_virtiofsd option" where
  "resolve_candidate is_file candidate path_value =
     map_option new_resolved_virtiofsd
       (if 1 < length (components candidate)
        then (if is_file candidate then Some candidate else None)
        else opt_or (locate_in_path is_file candidate path_value)
               (if is_file candidate then Some candidate else None))"

definition resolve_virtiofsd_with_paths ::
  "(path \<Rightarrow> bool) \<Rightarrow> string option \<Rightarrow> string option \<Rightarrow> path list \<Rightarrow> resolved_virtiofsd option" where
  "resolve_virtiofsd_with_paths is_file override_value path_value known_paths =
     (case (case override_value of Some v \<Rightarrow> if v \<noteq> [] then Some v else None | None \<Rightarrow> None) of
        Some candidate \<Rightarrow> resolve_candidate is_file candidate path_value
      | None \<Rightarrow>
          map_option new_resolved_virtiofsd
            (opt_or (locate_in_path is_file ''virtiofsd'' path_value) (find is_file known_paths)))"

definition resolve_virtiofsd ::
  "(path \<Rightarrow> bool) \<Rightarrow> (string \<Rightarrow> string option) \<Rightarrow> resolved_virtiofsd option" where
  "resolve_virtiofsd is_file var_os =
     resolve_virtiofsd_with_paths is_file (var_os ''FEND_VIRTIOFSD'') (var_os ''PATH'')
       KNOWN_VIRTIOFSD_PATHS"

section \<open>Lemmas\<close>

lemma find_is_file: "find P xs = Some x \<Longrightarrow> P x \<and> x \<in> set xs"
  by (auto simp: find_Some_iff)

lemma locate_in_path_is_file: "locate_in_path is_file prog pv = Some p \<Longrightarrow> is_file p"
  by (auto simp: locate_in_path_def dest: find_is_file split: option.splits)

lemma resolve_candidate_is_file:
  "resolve_candidate is_file c pv = Some v \<Longrightarrow> is_file (vfsd_path v)"
  by (auto simp: resolve_candidate_def new_resolved_virtiofsd_def opt_or_def
      dest: locate_in_path_is_file split: if_splits option.splits)

text \<open>
  Resolution of virtiofsd returns a file that exists, with the mode its path calls
  for, and a non-empty override variable is never bypassed: when it names nothing that
  exists, resolution fails although the search path or the known locations have one.
\<close>

theorem resolve_virtiofsd_sound:
  "(resolve_virtiofsd is_file var_os = Some v \<longrightarrow>
      is_file (vfsd_path v) \<and> vfsd_mode v = default_virtiofsd_mode (vfsd_path v))
   \<and> (var_os ''FEND_VIRTIOFSD'' = Some c \<longrightarrow> c \<noteq> [] \<longrightarrow>
        (resolve_virtiofsd is_file var_os = None \<longleftrightarrow>
           \<not> is_file c \<and> (1 < length (components c) \<or>
              locate_in_path is_file c (var_os ''PATH'') = None)))"
proof (intro conjI impI)
  assume v: "resolve_virtiofsd is_file var_os = Some v"
  then obtain p where "v = new_resolved_virtiofsd p"
    by (auto simp: resolve_virtiofsd_def resolve_virtiofsd_with_paths_def resolve_candidate_def
        split: option.splits if_splits)
  then show "vfsd_mode v = default_virtiofsd_mode (vfsd_path v)"
    by (simp add: new_resolved_virtiofsd_def)
  show "is_file (vfsd_path v)"
  proof (cases "case var_os ''FEND_VIRTIOFSD'' of Some v \<Rightarrow> if v \<noteq> [] then Some v else None | None \<Rightarrow> None")
    case None
    with v show ?thesis
      by (auto simp: resolve_virtiofsd_def resolve_virtiofsd_with_paths_def opt_or_def
          new_resolved_virtiofsd_def dest: find_is_file locate_in_path_is_file split: option.splits)
  next
    case (Some c)
    with v show ?thesis
      by (simp add: resolve_virtiofsd_def resolve_virtiofsd_with_paths_def resolve_candidate_is_file)
  qed
next
  assume "var_os ''FEND_VIRTIOFSD'' = Some c" "c \<noteq> []"
  then show "resolve_virtiofsd is_file var_os = None \<longleftrightarrow>
      \<not> is_file c \<and> (1 < length (components c) \<or> locate_in_path is_file c (var_os ''PATH'') = None)"
    by (auto simp: resolve_virtiofsd_def resolve_virtiofsd_with_paths_def resolve_candidate_def
        opt_or_def dest: locate_in_path_is_file split: option.splits)
qed

lemma resolve_virtiofsd_sound_witness:
  "resolve_virtiofsd (\<lambda>p. p = ''/usr/lib/virtiofsd'') (\<lambda>k. None)
     = Some \<lparr>vfsd_path = ''/usr/lib/virtiofsd'', vfsd_mode = RootlessUnshare\<rparr>
   \<and> default_virtiofsd_mode ''/usr/lib/virtiofsd'' = RootlessUnshare
   \<and> resolve_virtiofsd (\<lambda>p. p = ''/usr/lib/virtiofsd'')
        (\<lambda>k. if k = ''FEND_VIRTIOFSD'' then Some ''/opt/v'' else None) = None"
proof -
  have "resolve_virtiofsd (\<lambda>p. p = ''/usr/lib/virtiofsd'') (\<lambda>k. None)
      = Some \<lparr>vfsd_path = ''/usr/lib/virtiofsd'', vfsd_mode = RootlessUnshare\<rparr>"
    by code_simp
  moreover have "1 < length (components ''/opt/v'')" by code_simp
  ultimately show ?thesis
    using resolve_virtiofsd_sound [of "\<lambda>p. p = ''/usr/lib/virtiofsd''" "\<lambda>k. None"
        "\<lparr>vfsd_path = ''/usr/lib/virtiofsd'', vfsd_mode = RootlessUnshare\<rparr>" "[]"]
      resolve_virtiofsd_sound [of "\<lambda>p. p = ''/usr/lib/virtiofsd''"
        "\<lambda>k. if k = ''FEND_VIRTIOFSD'' then Some ''/opt/v'' else None" undefined "''/opt/v''"]
    by simp
qed

end
