(* ===== verification/Qemu_Plan.thy ===== *)
theory Qemu_Plan
  imports Host_Tools Base64
begin

text \<open>
  The launch planner (linux/src/qemu.rs): from a launch configuration to the QEMU command
  line, the three virtiofs shares and the kernel command line of the guest. Integers keep
  their widths; \<open>epoch\<close> is an \<open>i64\<close>.
\<close>

datatype network_mode = Passt | User | Off

definition network_qemu_args :: "network_mode \<Rightarrow> string list" where
  "network_qemu_args m =
     (case m of
        Passt \<Rightarrow> [''-netdev'', ''passt,id=net0'', ''-device'', ''virtio-net-pci,netdev=net0'']
      | User \<Rightarrow> [''-netdev'', ''user,id=net0'', ''-device'', ''virtio-net-pci,netdev=net0'']
      | Off \<Rightarrow> [])"

definition network_label :: "network_mode \<Rightarrow> string" where
  "network_label m = (case m of Passt \<Rightarrow> ''passt'' | User \<Rightarrow> ''user'' | Off \<Rightarrow> ''off'')"

record runtime_artifacts =
  ra_kernel :: path
  ra_initrd :: path
  ra_rootfs :: path

definition from_runtime_dir :: "path \<Rightarrow> runtime_artifacts" where
  "from_runtime_dir d =
     \<lparr>ra_kernel = path_join d ''vmlinuz'', ra_initrd = path_join d ''initrd'',
      ra_rootfs = path_join d ''rootfs.img''\<rparr>"

record share_plan =
  sp_name :: string
  sp_tag :: string
  sp_source :: path
  sp_socket :: path
  sp_log :: path
  sp_virtiofsd :: resolved_virtiofsd

definition virtiofsd_command :: "share_plan \<Rightarrow> string \<times> string list" where
  "virtiofsd_command s = vfsd_command (sp_virtiofsd s) (sp_socket s) (sp_source s)"

definition qemu_chardev_arg :: "share_plan \<Rightarrow> string" where
  "qemu_chardev_arg s = ''socket,id=char-'' @ sp_name s @ '',path='' @ sp_socket s"

definition qemu_device_arg :: "share_plan \<Rightarrow> string" where
  "qemu_device_arg s = ''vhost-user-fs-pci,chardev=char-'' @ sp_name s @ '',tag='' @ sp_tag s"

record launch_config =
  lc_artifacts :: runtime_artifacts
  lc_virtiofsd :: resolved_virtiofsd
  lc_workspace :: path
  lc_cache_dir :: path
  lc_tools_dir :: path
  lc_run_dir :: path
  lc_guest_cid :: u32
  lc_cpus :: u16
  lc_memory_mib :: u32
  lc_network :: network_mode
  lc_epoch :: int
  lc_guest_workspace :: string

definition new_launch_config ::
  "runtime_artifacts \<Rightarrow> path \<Rightarrow> path \<Rightarrow> path \<Rightarrow> path \<Rightarrow> int \<Rightarrow> launch_config" where
  "new_launch_config artifacts workspace cache_dir tools_dir run_dir epoch =
     \<lparr>lc_artifacts = artifacts, lc_virtiofsd = virtiofsd_direct ''virtiofsd'',
      lc_workspace = workspace, lc_cache_dir = cache_dir, lc_tools_dir = tools_dir,
      lc_run_dir = run_dir, lc_guest_cid = 42, lc_cpus = 2, lc_memory_mib = 2048,
      lc_network = Passt, lc_epoch = epoch, lc_guest_workspace = ''/workspace''\<rparr>"

record launch_plan =
  lp_qemu_program :: string
  lp_qemu_args :: "string list"
  lp_shares :: "share_plan list"
  lp_kernel_cmdline :: string
  lp_run_dir :: path
  lp_log_dir :: path

datatype plan_error =
    InvalidCpus u16
  | InvalidMemoryMiB u32
  | InvalidGuestCid u32
  | EmptyGuestWorkspace

definition show_word :: "'a::len word \<Rightarrow> string" where
  "show_word w = show_nat (unat w)"

fun plan_error_text :: "plan_error \<Rightarrow> string" where
  "plan_error_text (InvalidCpus cpus) = ''QEMU CPU count must be positive, got '' @ show_word cpus"
| "plan_error_text (InvalidMemoryMiB memory) =
     ''QEMU memory must be positive, got '' @ show_word memory @ '' MiB''"
| "plan_error_text (InvalidGuestCid cid) =
     ''QEMU guest CID must be greater than 2, got '' @ show_word cid"
| "plan_error_text EmptyGuestWorkspace = ''guest workspace path cannot be empty''"

definition validate :: "launch_config \<Rightarrow> (unit, plan_error) result" where
  "validate config =
     (if lc_cpus config = 0 then Err (InvalidCpus (lc_cpus config))
      else if lc_memory_mib config = 0 then Err (InvalidMemoryMiB (lc_memory_mib config))
      else if lc_guest_cid config \<le> 2 then Err (InvalidGuestCid (lc_guest_cid config))
      else if lc_guest_workspace config = [] then Err EmptyGuestWorkspace
      else Ok ())"

definition share ::
  "string \<Rightarrow> string \<Rightarrow> path \<Rightarrow> path \<Rightarrow> path \<Rightarrow> resolved_virtiofsd \<Rightarrow> share_plan" where
  "share name tag source run_dir log_dir virtiofsd =
     \<lparr>sp_name = name, sp_tag = tag, sp_source = source,
      sp_socket = path_join run_dir (name @ ''.sock''),
      sp_log = path_join log_dir (''virtiofsd-'' @ name @ ''.log''),
      sp_virtiofsd = virtiofsd\<rparr>"

definition kernel_cmdline :: "int \<Rightarrow> string \<Rightarrow> string" where
  "kernel_cmdline epoch guest_workspace =
     ''console=ttyS0 root=/dev/vda rootwait rw init=/usr/local/bin/fendd quiet fend.epoch=''
     @ show_int epoch @ '' fend.cwd='' @ qemu_base64 (as_bytes guest_workspace)"

definition build_launch_plan :: "launch_config \<Rightarrow> (launch_plan, plan_error) result" where
  "build_launch_plan config =
     (case validate config of
        Err e \<Rightarrow> Err e
      | Ok _ \<Rightarrow>
          (let log_dir = path_join (lc_run_dir config) ''logs'';
               mk = (\<lambda>name source. share name name source (lc_run_dir config) log_dir (lc_virtiofsd config));
               shares = [mk ''workspace'' (lc_workspace config),
                         mk ''cache'' (lc_cache_dir config),
                         mk ''tools'' (lc_tools_dir config)];
               cmdline = kernel_cmdline (lc_epoch config) (lc_guest_workspace config);
               base = [''-machine'', ''q35,accel=kvm'', ''-cpu'', ''host'',
                       ''-smp'', show_word (lc_cpus config), ''-m'', show_word (lc_memory_mib config),
                       ''-object'',
                       ''memory-backend-memfd,id=mem,size='' @ show_word (lc_memory_mib config) @ ''M,share=on'',
                       ''-numa'', ''node,memdev=mem'',
                       ''-kernel'', ra_kernel (lc_artifacts config),
                       ''-initrd'', ra_initrd (lc_artifacts config),
                       ''-append'', cmdline,
                       ''-drive'',
                       ''file='' @ ra_rootfs (lc_artifacts config) @ '',if=virtio,format=raw,cache=writeback'',
                       ''-snapshot'',
                       ''-device'',
                       ''vhost-vsock-pci,id=fend-vsock,guest-cid='' @ show_word (lc_guest_cid config)];
               args = base
                 @ concat (map (\<lambda>s. [''-chardev'', qemu_chardev_arg s, ''-device'', qemu_device_arg s]) shares)
                 @ network_qemu_args (lc_network config)
                 @ [''-nographic'', ''-serial'', ''mon:stdio'', ''-no-reboot'']
           in Ok \<lparr>lp_qemu_program = ''qemu-system-x86_64'', lp_qemu_args = args, lp_shares = shares,
                  lp_kernel_cmdline = cmdline, lp_run_dir = lc_run_dir config, lp_log_dir = log_dir\<rparr>))"

section \<open>Lemmas\<close>

lemma validate_Ok_iff:
  "validate config = Ok () \<longleftrightarrow>
     lc_cpus config \<noteq> 0 \<and> lc_memory_mib config \<noteq> 0 \<and> 2 < lc_guest_cid config
     \<and> lc_guest_workspace config \<noteq> []"
  by (simp add: validate_def not_le)

lemma build_launch_plan_Ok:
  "build_launch_plan config = Ok plan \<Longrightarrow> validate config = Ok ()"
  by (auto simp: build_launch_plan_def split: result.splits)

text \<open>
  The network device of a plan, independent of the other arguments: what follows the
  shares and precedes the console arguments.
\<close>

definition netdev_args :: "string list \<Rightarrow> string list" where
  "netdev_args args = drop 35 (take (length args - 4) args)"

lemma path_join_inj: "path_join d a = path_join d b \<Longrightarrow> \<not> starts_with ''/'' a \<Longrightarrow> \<not> starts_with ''/'' b \<Longrightarrow> a = b"
  by (auto simp: path_join_def split: if_splits)

text \<open>
  A plan is built exactly when the configuration has a CPU, memory, a guest CID above
  the reserved 0 to 2 and a guest workspace. The plan then shares the workspace, the cache
  and the tools directories and nothing else, on three distinct sockets in the run
  directory; it runs the root file system as a snapshot; the guest's CID and kernel command
  line are the configured ones; and the only network device is the configured one.
\<close>

theorem build_launch_plan_correct:
  "(is_ok (build_launch_plan config) \<longleftrightarrow>
      lc_cpus config \<noteq> 0 \<and> lc_memory_mib config \<noteq> 0 \<and> 2 < lc_guest_cid config
      \<and> lc_guest_workspace config \<noteq> [])
   \<and> (build_launch_plan config = Ok plan \<longrightarrow>
      map sp_source (lp_shares plan) = [lc_workspace config, lc_cache_dir config, lc_tools_dir config]
      \<and> distinct (map sp_socket (lp_shares plan))
      \<and> ''-snapshot'' \<in> set (lp_qemu_args plan)
      \<and> ''vhost-vsock-pci,id=fend-vsock,guest-cid='' @ show_nat (unat (lc_guest_cid config))
          \<in> set (lp_qemu_args plan)
      \<and> lp_kernel_cmdline plan = kernel_cmdline (lc_epoch config) (lc_guest_workspace config)
      \<and> netdev_args (lp_qemu_args plan) = network_qemu_args (lc_network config))"
proof (intro conjI impI)
  show "is_ok (build_launch_plan config) \<longleftrightarrow>
      lc_cpus config \<noteq> 0 \<and> lc_memory_mib config \<noteq> 0 \<and> 2 < lc_guest_cid config
      \<and> lc_guest_workspace config \<noteq> []"
    by (auto simp: build_launch_plan_def validate_def Let_def)
next
  assume plan: "build_launch_plan config = Ok plan"
  note defs = build_launch_plan_def build_launch_plan_Ok [OF plan] Let_def
  show "map sp_source (lp_shares plan) = [lc_workspace config, lc_cache_dir config, lc_tools_dir config]"
    "''-snapshot'' \<in> set (lp_qemu_args plan)"
    "''vhost-vsock-pci,id=fend-vsock,guest-cid='' @ show_nat (unat (lc_guest_cid config))
       \<in> set (lp_qemu_args plan)"
    "lp_kernel_cmdline plan = kernel_cmdline (lc_epoch config) (lc_guest_workspace config)"
    "netdev_args (lp_qemu_args plan) = network_qemu_args (lc_network config)"
    using plan by (auto simp: defs share_def show_word_def netdev_args_def)
  have "map sp_socket (lp_shares plan)
      = map (path_join (lc_run_dir config)) [''workspace.sock'', ''cache.sock'', ''tools.sock'']"
    using plan by (auto simp: defs share_def)
  then show "distinct (map sp_socket (lp_shares plan))"
    by (auto simp: starts_with_def dest: path_join_inj)
qed

lemma build_launch_plan_correct_witness:
  "\<exists>plan. build_launch_plan
        (new_launch_config (from_runtime_dir ''/r'') ''/w'' ''/c'' ''/t'' ''/run'' 7) = Ok plan
      \<and> map sp_source (lp_shares plan) = [''/w'', ''/c'', ''/t'']
      \<and> netdev_args (lp_qemu_args plan) = network_qemu_args Passt"
proof -
  let ?c = "new_launch_config (from_runtime_dir ''/r'') ''/w'' ''/c'' ''/t'' ''/run'' 7"
  from build_launch_plan_correct [of ?c] have "is_ok (build_launch_plan ?c)"
    by (simp add: new_launch_config_def)
  then obtain plan where "build_launch_plan ?c = Ok plan" by (auto simp: is_ok_iff)
  with build_launch_plan_correct [of ?c plan] show ?thesis
    by (simp add: new_launch_config_def)
qed

end
