(* ===== verification/Host_Cli.thy ===== *)
theory Host_Cli
  imports Host_Smoke Qemu_Plan "HOL-Library.Sublist" "HOL-Library.List_Lexorder" "HOL-Library.Char_ord"
begin

text \<open>
  The command line of the Linux host (linux/src/cli.rs): the commands and their options, the
  parser, the defaults taken from the environment, the launch and session configurations built
  from both, and the text of plans and reports. The parser of each command is the loop of the
  source: it takes an argument from the front, then the values of that option, and goes on
  with the rest.

  The process environment, the clock, the process id and the file test of the virtiofsd search
  are the fields of \<open>cli_env\<close>; environment values are UTF-8. A \<open>BTreeMap\<close> is the list of
  its entries in the order of the keys.
\<close>

section \<open>Commands, options, errors\<close>

datatype help_topic =
    Topic_General | Topic_Doctor | Topic_Setup | Topic_Plan | Topic_Launch | Topic_Run
  | Topic_Stop | Topic_Status | Topic_Smoke

record doctor_options =
  do_runtime_dir :: "path option"

record setup_options =
  so_runtime_dir :: "path option"
  so_work_dir :: "path option"
  so_rebuild_rootfs :: bool
  so_force_downloads :: bool
  so_skip_claude :: bool

record stop_options =
  st_run_dir :: "path option"
  st_timeout_secs :: "u64 option"
  st_project :: "path option"
  st_all :: bool

datatype command_network_mode = Net_On | Net_Off

type_synonym btree = "(string \<times> string) list"

record run_options =
  ro_runtime_dir :: "path option"
  ro_workspace :: "path option"
  ro_cache_dir :: "path option"
  ro_tools_dir :: "path option"
  ro_run_dir :: "path option"
  ro_guest_cid :: "u32 option"
  ro_cpus :: "u16 option"
  ro_memory_mib :: "u32 option"
  ro_vm_network :: "network_mode option"
  ro_timeout_secs :: "u64 option"
  ro_cwd :: "string option"
  ro_env :: btree
  ro_network :: "command_network_mode option"
  ro_command :: "string list"

record smoke_options =
  mo_cid :: "u32 option"
  mo_port :: "u32 option"
  mo_timeout_secs :: "u64 option"
  mo_cwd :: string
  mo_env :: btree
  mo_command :: "string list"

record plan_options =
  po_runtime_dir :: "path option"
  po_workspace :: "path option"
  po_cache_dir :: "path option"
  po_tools_dir :: "path option"
  po_run_dir :: "path option"
  po_guest_cid :: "u32 option"
  po_cpus :: "u16 option"
  po_memory_mib :: "u32 option"
  po_network :: "network_mode option"
  po_epoch :: "int option"
  po_guest_workspace :: string

datatype cli_command =
    Cli_Help help_topic
  | Cli_Version
  | Cli_Doctor doctor_options
  | Cli_Setup setup_options
  | Cli_Plan plan_options
  | Cli_Launch plan_options
  | Cli_Run run_options
  | Cli_Stop stop_options
  | Cli_Status
  | Cli_Smoke smoke_options

definition default_doctor_options :: doctor_options where
  "default_doctor_options = \<lparr>do_runtime_dir = None\<rparr>"

definition default_setup_options :: setup_options where
  "default_setup_options =
     \<lparr>so_runtime_dir = None, so_work_dir = None, so_rebuild_rootfs = False,
      so_force_downloads = False, so_skip_claude = False\<rparr>"

definition default_stop_options :: stop_options where
  "default_stop_options = \<lparr>st_run_dir = None, st_timeout_secs = None, st_project = None, st_all = False\<rparr>"

definition default_run_options :: run_options where
  "default_run_options =
     \<lparr>ro_runtime_dir = None, ro_workspace = None, ro_cache_dir = None, ro_tools_dir = None,
      ro_run_dir = None, ro_guest_cid = None, ro_cpus = None, ro_memory_mib = None,
      ro_vm_network = None, ro_timeout_secs = None, ro_cwd = None, ro_env = [],
      ro_network = None, ro_command = []\<rparr>"

definition default_smoke_options :: smoke_options where
  "default_smoke_options =
     \<lparr>mo_cid = None, mo_port = None, mo_timeout_secs = None, mo_cwd = ''/workspace'',
      mo_env = [], mo_command = []\<rparr>"

definition default_plan_options :: plan_options where
  "default_plan_options =
     \<lparr>po_runtime_dir = None, po_workspace = None, po_cache_dir = None, po_tools_dir = None,
      po_run_dir = None, po_guest_cid = None, po_cpus = None, po_memory_mib = None,
      po_network = None, po_epoch = None, po_guest_workspace = ''/workspace''\<rparr>"

datatype cli_error =
    UnknownCommand string
  | UnknownOption string
  | MissingValue string
  | MissingCommand
  | UnexpectedArgument string
  | InvalidEnv string
  | InvalidNetwork string
  | InvalidCommandNetwork string
  | InvalidNumber string string
  | HelpRequested help_topic

fun cli_error_text :: "formatters \<Rightarrow> cli_error \<Rightarrow> string" where
  "cli_error_text fm (UnknownCommand command) = ''unknown command: '' @ command"
| "cli_error_text fm (UnknownOption opt) = ''unknown option: '' @ opt"
| "cli_error_text fm (MissingValue opt) = ''missing value for '' @ opt"
| "cli_error_text fm MissingCommand = ''no command specified''"
| "cli_error_text fm (UnexpectedArgument argument) = ''unexpected argument: '' @ argument"
| "cli_error_text fm (InvalidEnv v) = ''invalid env value '' @ fm_debug fm v @ ''; use KEY=VALUE''"
| "cli_error_text fm (InvalidNetwork v) =
     ''invalid network mode '' @ fm_debug fm v @ ''; use passt, user, or off''"
| "cli_error_text fm (InvalidCommandNetwork v) =
     ''invalid command network mode '' @ fm_debug fm v @ ''; use on or off''"
| "cli_error_text fm (InvalidNumber opt v) =
     ''invalid numeric value for '' @ opt @ '': '' @ fm_debug fm v"
| "cli_error_text fm (HelpRequested _) = ''help requested''"

section \<open>Values of options\<close>

definition value_arg :: "string list \<Rightarrow> string \<Rightarrow> (string \<times> string list, cli_error) result" where
  "value_arg args opt = (case args of [] \<Rightarrow> Err (MissingValue opt) | v # rest \<Rightarrow> Ok (v, rest))"

definition value_path :: "string list \<Rightarrow> string \<Rightarrow> (path \<times> string list, cli_error) result" where
  "value_path args opt = value_arg args opt"

text \<open>The type parameter of the source is the parser of that type.\<close>

definition value_number ::
  "(string \<Rightarrow> 'n option) \<Rightarrow> string list \<Rightarrow> string \<Rightarrow> ('n \<times> string list, cli_error) result" where
  "value_number parse args opt =
     and_then (value_arg args opt) (\<lambda>(v, rest).
       case parse v of None \<Rightarrow> Err (InvalidNumber opt v) | Some n \<Rightarrow> Ok (n, rest))"

definition network_mode_from_str :: "string \<Rightarrow> (network_mode, cli_error) result" where
  "network_mode_from_str v =
     (if v = ''passt'' then Ok Passt else if v = ''user'' then Ok User else if v = ''off'' then Ok Off
      else Err (InvalidNetwork v))"

definition command_network_mode_from_str :: "string \<Rightarrow> (command_network_mode, cli_error) result" where
  "command_network_mode_from_str v =
     (if v = ''on'' then Ok Net_On else if v = ''off'' then Ok Net_Off
      else Err (InvalidCommandNetwork v))"

text \<open>\<open>BTreeMap::insert\<close>, and \<open>extend\<close> with the entries of another map.\<close>

fun btree_insert :: "string \<Rightarrow> string \<Rightarrow> btree \<Rightarrow> btree" where
  "btree_insert k v [] = [(k, v)]"
| "btree_insert k v ((j, w) # m) =
     (if k = j then (k, v) # m
      else if k < j then (k, v) # (j, w) # m
      else (j, w) # btree_insert k v m)"

definition btree_extend :: "btree \<Rightarrow> btree \<Rightarrow> btree" where
  "btree_extend m new = fold (\<lambda>(k, v) m. btree_insert k v m) new m"

text \<open>The value of \<open>--env\<close>, the same code in \<open>parse_run\<close> and \<open>parse_smoke\<close>.\<close>

definition parse_env_item :: "string \<Rightarrow> (string \<times> string, cli_error) result" where
  "parse_env_item item =
     (case split_once (CHR ''='') item of
        None \<Rightarrow> Err (InvalidEnv item)
      | Some (key, v) \<Rightarrow> if key = [] then Err (InvalidEnv item) else Ok (key, v))"

lemma and_then_cong [fundef_cong]:
  "m = m' \<Longrightarrow> (\<And>x. m' = Ok x \<Longrightarrow> f x = g x) \<Longrightarrow> and_then m f = and_then m' g"
  by (cases m') simp_all

lemma value_arg_shorter [termination_simp]:
  "value_arg args opt = Ok (v, rest) \<Longrightarrow> length rest < length args"
  by (auto simp: value_arg_def split: list.splits)

lemma value_path_shorter [termination_simp]:
  "value_path args opt = Ok (v, rest) \<Longrightarrow> length rest < length args"
  unfolding value_path_def by (rule value_arg_shorter)

lemma value_number_shorter [termination_simp]:
  "value_number parse args opt = Ok (n, rest) \<Longrightarrow> length rest < length args"
  by (auto simp: value_number_def dest!: value_arg_shorter split: option.splits)

section \<open>The parsers\<close>

function parse_doctor_loop :: "doctor_options \<Rightarrow> string list \<Rightarrow> (cli_command, cli_error) result" where
  "parse_doctor_loop options [] = Ok (Cli_Doctor options)"
| "parse_doctor_loop options (arg # args) =
     (if arg = ''-h'' \<or> arg = ''--help'' then Ok (Cli_Help Topic_Doctor)
      else if arg = ''--runtime-dir'' then
        and_then (value_path args ''--runtime-dir'')
          (\<lambda>(p, rest). parse_doctor_loop (options\<lparr>do_runtime_dir := Some p\<rparr>) rest)
      else if starts_with ''-'' arg then Err (UnknownOption arg)
      else Err (UnexpectedArgument arg))"
  by pat_completeness auto
termination by (relation "measure (length \<circ> snd)") (auto simp: termination_simp)

definition parse_doctor :: "string list \<Rightarrow> (cli_command, cli_error) result" where
  "parse_doctor = parse_doctor_loop default_doctor_options"

function parse_setup_loop :: "setup_options \<Rightarrow> string list \<Rightarrow> (cli_command, cli_error) result" where
  "parse_setup_loop options [] = Ok (Cli_Setup options)"
| "parse_setup_loop options (arg # args) =
     (if arg = ''-h'' \<or> arg = ''--help'' then Ok (Cli_Help Topic_Setup)
      else if arg = ''--runtime-dir'' then
        and_then (value_path args ''--runtime-dir'')
          (\<lambda>(p, rest). parse_setup_loop (options\<lparr>so_runtime_dir := Some p\<rparr>) rest)
      else if arg = ''--work-dir'' then
        and_then (value_path args ''--work-dir'')
          (\<lambda>(p, rest). parse_setup_loop (options\<lparr>so_work_dir := Some p\<rparr>) rest)
      else if arg = ''--rebuild-rootfs'' then parse_setup_loop (options\<lparr>so_rebuild_rootfs := True\<rparr>) args
      else if arg = ''--force-downloads'' then parse_setup_loop (options\<lparr>so_force_downloads := True\<rparr>) args
      else if arg = ''--skip-claude'' then parse_setup_loop (options\<lparr>so_skip_claude := True\<rparr>) args
      else if starts_with ''-'' arg then Err (UnknownOption arg)
      else Err (UnexpectedArgument arg))"
  by pat_completeness auto
termination by (relation "measure (length \<circ> snd)") (auto simp: termination_simp)

definition parse_setup :: "string list \<Rightarrow> (cli_command, cli_error) result" where
  "parse_setup = parse_setup_loop default_setup_options"

function parse_plan_loop ::
  "help_topic \<Rightarrow> plan_options \<Rightarrow> string list \<Rightarrow> (plan_options, cli_error) result" where
  "parse_plan_loop topic options [] = Ok options"
| "parse_plan_loop topic options (arg # args) =
     (if arg = ''-h'' \<or> arg = ''--help'' then Err (HelpRequested topic)
      else if arg = ''--runtime-dir'' then
        and_then (value_path args ''--runtime-dir'')
          (\<lambda>(p, rest). parse_plan_loop topic (options\<lparr>po_runtime_dir := Some p\<rparr>) rest)
      else if arg = ''--workspace'' then
        and_then (value_path args ''--workspace'')
          (\<lambda>(p, rest). parse_plan_loop topic (options\<lparr>po_workspace := Some p\<rparr>) rest)
      else if arg = ''--cache-dir'' then
        and_then (value_path args ''--cache-dir'')
          (\<lambda>(p, rest). parse_plan_loop topic (options\<lparr>po_cache_dir := Some p\<rparr>) rest)
      else if arg = ''--tools-dir'' then
        and_then (value_path args ''--tools-dir'')
          (\<lambda>(p, rest). parse_plan_loop topic (options\<lparr>po_tools_dir := Some p\<rparr>) rest)
      else if arg = ''--run-dir'' then
        and_then (value_path args ''--run-dir'')
          (\<lambda>(p, rest). parse_plan_loop topic (options\<lparr>po_run_dir := Some p\<rparr>) rest)
      else if arg = ''--cid'' then
        and_then (value_number parse_u32 args ''--cid'')
          (\<lambda>(n, rest). parse_plan_loop topic (options\<lparr>po_guest_cid := Some n\<rparr>) rest)
      else if arg = ''--cpus'' then
        and_then (value_number parse_u16 args ''--cpus'')
          (\<lambda>(n, rest). parse_plan_loop topic (options\<lparr>po_cpus := Some n\<rparr>) rest)
      else if arg = ''--memory-mib'' then
        and_then (value_number parse_u32 args ''--memory-mib'')
          (\<lambda>(n, rest). parse_plan_loop topic (options\<lparr>po_memory_mib := Some n\<rparr>) rest)
      else if arg = ''--network'' then
        and_then (value_arg args ''--network'') (\<lambda>(v, rest).
          and_then (network_mode_from_str v)
            (\<lambda>mode. parse_plan_loop topic (options\<lparr>po_network := Some mode\<rparr>) rest))
      else if arg = ''--epoch'' then
        and_then (value_number parse_i64 args ''--epoch'')
          (\<lambda>(n, rest). parse_plan_loop topic (options\<lparr>po_epoch := Some n\<rparr>) rest)
      else if arg = ''--guest-workspace'' then
        and_then (value_arg args ''--guest-workspace'')
          (\<lambda>(v, rest). parse_plan_loop topic (options\<lparr>po_guest_workspace := v\<rparr>) rest)
      else if starts_with ''-'' arg then Err (UnknownOption arg)
      else if po_workspace options \<noteq> None then Err (UnexpectedArgument arg)
      else parse_plan_loop topic (options\<lparr>po_workspace := Some arg\<rparr>) args)"
  by pat_completeness auto
termination by (relation "measure (length \<circ> snd \<circ> snd)") (auto simp: termination_simp)

definition parse_plan_options :: "string list \<Rightarrow> help_topic \<Rightarrow> (plan_options, cli_error) result" where
  "parse_plan_options args topic = parse_plan_loop topic default_plan_options args"

definition parse_plan :: "string list \<Rightarrow> (cli_command, cli_error) result" where
  "parse_plan args =
     (case parse_plan_options args Topic_Plan of
        Ok options \<Rightarrow> Ok (Cli_Plan options)
      | Err e \<Rightarrow> (case e of HelpRequested topic \<Rightarrow> Ok (Cli_Help topic) | _ \<Rightarrow> Err e))"

definition parse_launch :: "string list \<Rightarrow> (cli_command, cli_error) result" where
  "parse_launch args =
     (case parse_plan_options args Topic_Launch of
        Ok options \<Rightarrow> Ok (Cli_Launch options)
      | Err e \<Rightarrow> (case e of HelpRequested topic \<Rightarrow> Ok (Cli_Help topic) | _ \<Rightarrow> Err e))"

text \<open>After the loop of \<open>parse_run\<close>: a command is required.\<close>

definition finish_run :: "run_options \<Rightarrow> (cli_command, cli_error) result" where
  "finish_run options = (if ro_command options = [] then Err MissingCommand else Ok (Cli_Run options))"

function parse_run_loop :: "run_options \<Rightarrow> string list \<Rightarrow> (cli_command, cli_error) result" where
  "parse_run_loop options [] = finish_run options"
| "parse_run_loop options (arg # args) =
     (if arg = ''-h'' \<or> arg = ''--help'' then Ok (Cli_Help Topic_Run)
      else if arg = ''--runtime-dir'' then
        and_then (value_path args ''--runtime-dir'')
          (\<lambda>(p, rest). parse_run_loop (options\<lparr>ro_runtime_dir := Some p\<rparr>) rest)
      else if arg = ''--workspace'' then
        and_then (value_path args ''--workspace'')
          (\<lambda>(p, rest). parse_run_loop (options\<lparr>ro_workspace := Some p\<rparr>) rest)
      else if arg = ''--cache-dir'' then
        and_then (value_path args ''--cache-dir'')
          (\<lambda>(p, rest). parse_run_loop (options\<lparr>ro_cache_dir := Some p\<rparr>) rest)
      else if arg = ''--tools-dir'' then
        and_then (value_path args ''--tools-dir'')
          (\<lambda>(p, rest). parse_run_loop (options\<lparr>ro_tools_dir := Some p\<rparr>) rest)
      else if arg = ''--run-dir'' then
        and_then (value_path args ''--run-dir'')
          (\<lambda>(p, rest). parse_run_loop (options\<lparr>ro_run_dir := Some p\<rparr>) rest)
      else if arg = ''--cid'' then
        and_then (value_number parse_u32 args ''--cid'')
          (\<lambda>(n, rest). parse_run_loop (options\<lparr>ro_guest_cid := Some n\<rparr>) rest)
      else if arg = ''--cpus'' then
        and_then (value_number parse_u16 args ''--cpus'')
          (\<lambda>(n, rest). parse_run_loop (options\<lparr>ro_cpus := Some n\<rparr>) rest)
      else if arg = ''--memory-mib'' then
        and_then (value_number parse_u32 args ''--memory-mib'')
          (\<lambda>(n, rest). parse_run_loop (options\<lparr>ro_memory_mib := Some n\<rparr>) rest)
      else if arg = ''--vm-network'' then
        and_then (value_arg args ''--vm-network'') (\<lambda>(v, rest).
          and_then (network_mode_from_str v)
            (\<lambda>mode. parse_run_loop (options\<lparr>ro_vm_network := Some mode\<rparr>) rest))
      else if arg = ''--network'' then
        and_then (value_arg args ''--network'') (\<lambda>(v, rest).
          and_then (command_network_mode_from_str v)
            (\<lambda>mode. parse_run_loop (options\<lparr>ro_network := Some mode\<rparr>) rest))
      else if arg = ''--timeout'' then
        and_then (value_number parse_u64 args ''--timeout'')
          (\<lambda>(n, rest). parse_run_loop (options\<lparr>ro_timeout_secs := Some n\<rparr>) rest)
      else if arg = ''--cwd'' then
        and_then (value_arg args ''--cwd'')
          (\<lambda>(v, rest). parse_run_loop (options\<lparr>ro_cwd := Some v\<rparr>) rest)
      else if arg = ''--env'' then
        and_then (value_arg args ''--env'') (\<lambda>(item, rest).
          and_then (parse_env_item item)
            (\<lambda>(k, v). parse_run_loop (options\<lparr>ro_env := btree_insert k v (ro_env options)\<rparr>) rest))
      else if arg = ''--'' then finish_run (options\<lparr>ro_command := ro_command options @ args\<rparr>)
      else if starts_with ''-'' arg then Err (UnknownOption arg)
      else finish_run (options\<lparr>ro_command := ro_command options @ [arg] @ args\<rparr>))"
  by pat_completeness auto
termination by (relation "measure (length \<circ> snd)") (auto simp: termination_simp)

definition parse_run :: "string list \<Rightarrow> (cli_command, cli_error) result" where
  "parse_run = parse_run_loop default_run_options"

function parse_stop_loop :: "stop_options \<Rightarrow> string list \<Rightarrow> (cli_command, cli_error) result" where
  "parse_stop_loop options [] = Ok (Cli_Stop options)"
| "parse_stop_loop options (arg # args) =
     (if arg = ''-h'' \<or> arg = ''--help'' then Ok (Cli_Help Topic_Stop)
      else if arg = ''--run-dir'' then
        and_then (value_path args ''--run-dir'')
          (\<lambda>(p, rest). parse_stop_loop (options\<lparr>st_run_dir := Some p\<rparr>) rest)
      else if arg = ''--timeout'' then
        and_then (value_number parse_u64 args ''--timeout'')
          (\<lambda>(n, rest). parse_stop_loop (options\<lparr>st_timeout_secs := Some n\<rparr>) rest)
      else if arg = ''--project'' then
        and_then (value_path args ''--project'')
          (\<lambda>(p, rest). parse_stop_loop (options\<lparr>st_project := Some p\<rparr>) rest)
      else if arg = ''--all'' then parse_stop_loop (options\<lparr>st_all := True\<rparr>) args
      else if starts_with ''-'' arg then Err (UnknownOption arg)
      else Err (UnexpectedArgument arg))"
  by pat_completeness auto
termination by (relation "measure (length \<circ> snd)") (auto simp: termination_simp)

definition parse_stop :: "string list \<Rightarrow> (cli_command, cli_error) result" where
  "parse_stop = parse_stop_loop default_stop_options"

definition parse_status :: "string list \<Rightarrow> (cli_command, cli_error) result" where
  "parse_status args =
     (case args of
        [] \<Rightarrow> Ok Cli_Status
      | arg # _ \<Rightarrow>
          if arg = ''-h'' \<or> arg = ''--help'' then Ok (Cli_Help Topic_Status)
          else if starts_with ''-'' arg then Err (UnknownOption arg)
          else Err (UnexpectedArgument arg))"

function parse_smoke_loop :: "smoke_options \<Rightarrow> string list \<Rightarrow> (cli_command, cli_error) result" where
  "parse_smoke_loop options [] = Ok (Cli_Smoke options)"
| "parse_smoke_loop options (arg # args) =
     (if arg = ''-h'' \<or> arg = ''--help'' then Ok (Cli_Help Topic_Smoke)
      else if arg = ''--cid'' then
        and_then (value_number parse_u32 args ''--cid'')
          (\<lambda>(n, rest). parse_smoke_loop (options\<lparr>mo_cid := Some n\<rparr>) rest)
      else if arg = ''--port'' then
        and_then (value_number parse_u32 args ''--port'')
          (\<lambda>(n, rest). parse_smoke_loop (options\<lparr>mo_port := Some n\<rparr>) rest)
      else if arg = ''--timeout'' then
        and_then (value_number parse_u64 args ''--timeout'')
          (\<lambda>(n, rest). parse_smoke_loop (options\<lparr>mo_timeout_secs := Some n\<rparr>) rest)
      else if arg = ''--cwd'' then
        and_then (value_arg args ''--cwd'')
          (\<lambda>(v, rest). parse_smoke_loop (options\<lparr>mo_cwd := v\<rparr>) rest)
      else if arg = ''--env'' then
        and_then (value_arg args ''--env'') (\<lambda>(item, rest).
          and_then (parse_env_item item)
            (\<lambda>(k, v). parse_smoke_loop (options\<lparr>mo_env := btree_insert k v (mo_env options)\<rparr>) rest))
      else if arg = ''--'' then Ok (Cli_Smoke (options\<lparr>mo_command := mo_command options @ args\<rparr>))
      else if starts_with ''-'' arg then Err (UnknownOption arg)
      else Ok (Cli_Smoke (options\<lparr>mo_command := mo_command options @ [arg] @ args\<rparr>)))"
  by pat_completeness auto
termination by (relation "measure (length \<circ> snd)") (auto simp: termination_simp)

definition parse_smoke :: "string list \<Rightarrow> (cli_command, cli_error) result" where
  "parse_smoke = parse_smoke_loop default_smoke_options"

definition parse_args :: "string list \<Rightarrow> (cli_command, cli_error) result" where
  "parse_args args =
     (case args of
        [] \<Rightarrow> Ok (Cli_Help Topic_General)
      | command # rest \<Rightarrow>
          if command = ''-h'' \<or> command = ''--help'' \<or> command = ''help'' then Ok (Cli_Help Topic_General)
          else if command = ''-V'' \<or> command = ''--version'' \<or> command = ''version'' then Ok Cli_Version
          else if command = ''doctor'' then parse_doctor rest
          else if command = ''setup'' then parse_setup rest
          else if command = ''plan'' then parse_plan rest
          else if command = ''launch'' then parse_launch rest
          else if command = ''run'' then parse_run rest
          else if command = ''stop'' then parse_stop rest
          else if command = ''status'' then parse_status rest
          else if command = ''smoke'' then parse_smoke rest
          else parse_run (command # rest))"

section \<open>Defaults from the environment\<close>

record cli_env =
  ce_var_os :: "string \<Rightarrow> string option"
  ce_current_dir :: "path io_result"
  ce_since_epoch :: "u64 option"
  ce_pid :: u32
  ce_is_file :: "path \<Rightarrow> bool"

definition env_value :: "cli_env \<Rightarrow> string \<Rightarrow> string option" where
  "env_value ce name =
     (case ce_var_os ce name of None \<Rightarrow> None | Some v \<Rightarrow> if v = [] then None else Some v)"

definition env_path :: "cli_env \<Rightarrow> string \<Rightarrow> path option" where
  "env_path ce name = env_value ce name"

definition env_number ::
  "(string \<Rightarrow> 'n option) \<Rightarrow> cli_env \<Rightarrow> string \<Rightarrow> string \<Rightarrow> ('n option, cli_error) result" where
  "env_number parse ce name opt =
     (case env_value ce name of
        None \<Rightarrow> Ok None
      | Some v \<Rightarrow> (case parse v of None \<Rightarrow> Err (InvalidNumber opt v) | Some n \<Rightarrow> Ok (Some n)))"

definition env_network :: "cli_env \<Rightarrow> string \<Rightarrow> (network_mode option, cli_error) result" where
  "env_network ce name =
     (case env_value ce name of None \<Rightarrow> Ok None | Some v \<Rightarrow> map_ok Some (network_mode_from_str v))"

text \<open>\<open>as_secs() as i64\<close> reinterprets the bits.\<close>

definition current_epoch :: "cli_env \<Rightarrow> int" where
  "current_epoch ce = (case ce_since_epoch ce of Some secs \<Rightarrow> sint secs | None \<Rightarrow> 0)"

text \<open>\<open>std::env::temp_dir\<close>.\<close>

definition temp_dir_of :: "cli_env \<Rightarrow> path" where
  "temp_dir_of ce = unwrap_or (ce_var_os ce ''TMPDIR'') ''/tmp''"

record plan_defaults =
  pd_fend_home :: path
  pd_cwd :: path
  pd_temp_dir :: path
  pd_runtime_dir :: "path option"
  pd_cache_dir :: "path option"
  pd_tools_dir :: "path option"
  pd_run_dir :: "path option"
  pd_guest_cid :: "u32 option"
  pd_cpus :: "u16 option"
  pd_memory_mib :: "u32 option"
  pd_network :: "network_mode option"
  pd_epoch :: int

definition plan_defaults_from_env :: "cli_env \<Rightarrow> (plan_defaults, cli_error) result" where
  "plan_defaults_from_env ce =
     (let fend_home =
            unwrap_or (opt_or (env_path ce ''FEND_HOME'')
              (map_option (\<lambda>home. path_join home ''.fend'') (env_path ce ''HOME''))) ''.fend''
      in and_then (env_number parse_u32 ce ''FEND_QEMU_CID'' ''--cid'') (\<lambda>guest_cid.
         and_then (env_number parse_u16 ce ''FEND_QEMU_CPUS'' ''--cpus'') (\<lambda>cpus.
         and_then (env_number parse_u32 ce ''FEND_QEMU_MEMORY_MB'' ''--memory-mib'') (\<lambda>memory_mib.
         and_then (env_network ce ''FEND_QEMU_NETWORK'') (\<lambda>network.
           Ok \<lparr>pd_fend_home = fend_home,
               pd_cwd = (case ce_current_dir ce of Ok d \<Rightarrow> d | Err _ \<Rightarrow> ''.''),
               pd_temp_dir = temp_dir_of ce,
               pd_runtime_dir = env_path ce ''FEND_RUNTIME_DIR'',
               pd_cache_dir = env_path ce ''FEND_CACHE_DIR'',
               pd_tools_dir = env_path ce ''FEND_TOOLS_DIR'',
               pd_run_dir = env_path ce ''FEND_RUN_DIR'',
               pd_guest_cid = guest_cid, pd_cpus = cpus, pd_memory_mib = memory_mib,
               pd_network = network, pd_epoch = current_epoch ce\<rparr>)))))"

definition default_runtime_dir :: "plan_defaults \<Rightarrow> path" where
  "default_runtime_dir defaults = path_join (pd_fend_home defaults) ''runtime/linux-x86_64''"

definition resolve_doctor_runtime_dir :: "doctor_options \<Rightarrow> plan_defaults \<Rightarrow> path" where
  "resolve_doctor_runtime_dir options defaults =
     unwrap_or (opt_or (do_runtime_dir options) (pd_runtime_dir defaults)) (default_runtime_dir defaults)"

definition resolve_setup_runtime_dir :: "setup_options \<Rightarrow> plan_defaults \<Rightarrow> path" where
  "resolve_setup_runtime_dir options defaults =
     unwrap_or (opt_or (so_runtime_dir options) (pd_runtime_dir defaults)) (default_runtime_dir defaults)"

definition resolve_plan_runtime_dir :: "plan_options \<Rightarrow> plan_defaults \<Rightarrow> path" where
  "resolve_plan_runtime_dir options defaults =
     unwrap_or (opt_or (po_runtime_dir options) (pd_runtime_dir defaults)) (default_runtime_dir defaults)"

definition resolve_stop_run_dir :: "stop_options \<Rightarrow> plan_defaults \<Rightarrow> path" where
  "resolve_stop_run_dir options defaults =
     unwrap_or (opt_or (st_run_dir options) (pd_run_dir defaults)) (path_join (pd_temp_dir defaults) ''fend-linux'')"

section \<open>Configurations\<close>

definition build_launch_config :: "cli_env \<Rightarrow> plan_options \<Rightarrow> plan_defaults \<Rightarrow> launch_config" where
  "build_launch_config ce options defaults =
     (let runtime_dir = resolve_plan_runtime_dir options defaults;
          workspace = unwrap_or (po_workspace options) (pd_cwd defaults);
          cache_dir = unwrap_or (opt_or (po_cache_dir options) (pd_cache_dir defaults))
                        (path_join (pd_fend_home defaults) ''cache/npm'');
          tools_dir = unwrap_or (opt_or (po_tools_dir options) (pd_tools_dir defaults))
                        (path_join (pd_fend_home defaults) ''tools'');
          run_dir = unwrap_or (opt_or (po_run_dir options) (pd_run_dir defaults))
                      (path_join (pd_temp_dir defaults) ''fend-linux'');
          config = new_launch_config (from_runtime_dir runtime_dir) workspace cache_dir tools_dir run_dir
                     (unwrap_or (po_epoch options) (pd_epoch defaults));
          config1 = (case resolve_virtiofsd (ce_is_file ce) (ce_var_os ce) of
                       Some v \<Rightarrow> config\<lparr>lc_virtiofsd := v\<rparr> | None \<Rightarrow> config)
      in config1
           \<lparr>lc_guest_cid := unwrap_or (opt_or (po_guest_cid options) (pd_guest_cid defaults)) 42,
            lc_cpus := unwrap_or (opt_or (po_cpus options) (pd_cpus defaults)) 2,
            lc_memory_mib := unwrap_or (opt_or (po_memory_mib options) (pd_memory_mib defaults)) 2048,
            lc_network := unwrap_or (opt_or (po_network options) (pd_network defaults)) Passt,
            lc_guest_workspace := po_guest_workspace options\<rparr>)"

definition build_supervised_launch_config ::
  "cli_env \<Rightarrow> plan_options \<Rightarrow> plan_defaults \<Rightarrow> launch_config" where
  "build_supervised_launch_config ce options defaults =
     (let config = build_launch_config ce options defaults
      in if po_run_dir options = None \<and> pd_run_dir defaults = None
         then config\<lparr>lc_run_dir := path_join (pd_temp_dir defaults)
                (''fend-linux.'' @ show_word (ce_pid ce) @ ''.'' @ show_int (pd_epoch defaults))\<rparr>
         else config)"

text \<open>All arithmetic on 64 bits wraps; the final sum is on 32 bits.\<close>

definition autogenerated_guest_cid :: "int \<Rightarrow> u32 \<Rightarrow> u32" where
  "autogenerated_guest_cid epoch pid =
     (let seed = word_of_int epoch * (1103515245 :: u64) + ucast pid
      in 10000 + ucast (seed mod 50000))"

definition plan_options_of_run :: "run_options \<Rightarrow> plan_options" where
  "plan_options_of_run options =
     \<lparr>po_runtime_dir = ro_runtime_dir options, po_workspace = ro_workspace options,
      po_cache_dir = ro_cache_dir options, po_tools_dir = ro_tools_dir options,
      po_run_dir = ro_run_dir options, po_guest_cid = ro_guest_cid options,
      po_cpus = ro_cpus options, po_memory_mib = ro_memory_mib options,
      po_network = ro_vm_network options, po_epoch = None, po_guest_workspace = ''/workspace''\<rparr>"

definition build_run_launch_config :: "cli_env \<Rightarrow> run_options \<Rightarrow> plan_defaults \<Rightarrow> launch_config" where
  "build_run_launch_config ce options defaults =
     (let config = build_supervised_launch_config ce (plan_options_of_run options) defaults
      in if ro_guest_cid options = None \<and> pd_guest_cid defaults = None
         then config\<lparr>lc_guest_cid := autogenerated_guest_cid (pd_epoch defaults) (ce_pid ce)\<rparr>
         else config)"

definition DEFAULT_VSOCK_PORT :: u32 where "DEFAULT_VSOCK_PORT = 1024"
definition DEFAULT_SMOKE_TIMEOUT :: duration where "DEFAULT_SMOKE_TIMEOUT = 30 * 1000000000"
definition DEFAULT_MAX_OUTPUT_BYTES :: nat where "DEFAULT_MAX_OUTPUT_BYTES = 16 * 1024 * 1024"

definition duration_from_secs :: "u64 \<Rightarrow> duration" where
  "duration_from_secs s = unat s * 1000000000"

definition build_run_smoke_config :: "run_options \<Rightarrow> launch_config \<Rightarrow> smoke_config" where
  "build_run_smoke_config options config =
     (let env = (if ro_network options = Some Net_Off
                 then btree_insert ''FEND_NETWORK_MODE'' ''off'' (ro_env options) else ro_env options)
      in \<lparr>sc_cid = lc_guest_cid config, sc_port = DEFAULT_VSOCK_PORT,
          sc_timeout = unwrap_or (map_option duration_from_secs (ro_timeout_secs options)) DEFAULT_SMOKE_TIMEOUT,
          sc_max_output_bytes = DEFAULT_MAX_OUTPUT_BYTES,
          sc_cwd = unwrap_or (ro_cwd options) (lc_guest_workspace config),
          sc_env = env, sc_command = ro_command options\<rparr>)"

definition build_smoke_config :: "smoke_options \<Rightarrow> plan_defaults \<Rightarrow> smoke_config" where
  "build_smoke_config options defaults =
     (let command = (if mo_command options = [] then [''/bin/echo'', ''fend-linux-ok''] else mo_command options)
      in \<lparr>sc_cid = unwrap_or (opt_or (mo_cid options) (pd_guest_cid defaults)) 42,
          sc_port = unwrap_or (mo_port options) DEFAULT_VSOCK_PORT,
          sc_timeout = unwrap_or (map_option duration_from_secs (mo_timeout_secs options)) DEFAULT_SMOKE_TIMEOUT,
          sc_max_output_bytes = DEFAULT_MAX_OUTPUT_BYTES, sc_cwd = mo_cwd options,
          sc_env = mo_env options, sc_command = command\<rparr>)"

section \<open>Quoting and printing\<close>

definition is_ascii_alphanumeric :: "char \<Rightarrow> bool" where
  "is_ascii_alphanumeric c =
     (let n = of_char c :: nat in 48 \<le> n \<and> n \<le> 57 \<or> 65 \<le> n \<and> n \<le> 90 \<or> 97 \<le> n \<and> n \<le> 122)"

definition shell_safe :: "char \<Rightarrow> bool" where
  "shell_safe c \<longleftrightarrow> is_ascii_alphanumeric c \<or> c \<in> set ''_-./:=,+''"

text \<open>\<open>str::replace\<close> of one character, here \<open>'\<close> by \<open>'\''\<close>.\<close>

definition escape_quotes :: "string \<Rightarrow> string" where
  "escape_quotes s = concat (map (\<lambda>c. if c = CHR 0x27 then [CHR 0x27, CHR 0x5C, CHR 0x27, CHR 0x27] else [c]) s)"

definition shell_quote :: "string \<Rightarrow> string" where
  "shell_quote s =
     (if s = [] then [CHR 0x27, CHR 0x27]
      else if list_all shell_safe s then s
      else [CHR 0x27] @ escape_quotes s @ [CHR 0x27])"

definition shell_quote_path :: "path \<Rightarrow> string" where
  "shell_quote_path p = shell_quote p"

definition shell_command :: "string \<Rightarrow> string list \<Rightarrow> string" where
  "shell_command program args = join_with '' '' (map shell_quote (program # args))"

definition writeln :: "string \<Rightarrow> string" where
  "writeln s = s @ [CHR 0x0A]"

text \<open>The format \<open>{:<width}\<close>: at least \<open>width\<close> characters; the labels are ASCII.\<close>

definition pad_right :: "nat \<Rightarrow> string \<Rightarrow> string" where
  "pad_right width s = s @ spaces (width - length s)"

definition render_launch_plan :: "launch_plan \<Rightarrow> string" where
  "render_launch_plan plan =
     writeln ''fend linux launch plan'' @ writeln [] @ writeln ''virtiofsd''
     @ concat (map (\<lambda>s. case virtiofsd_command s of (program, args) \<Rightarrow>
         writeln (''  '' @ pad_right 9 (sp_name s) @ '' '' @ shell_command program args
                  @ '' > '' @ shell_quote_path (sp_log s) @ '' 2>&1'')) (lp_shares plan))
     @ writeln [] @ writeln ''qemu''
     @ writeln (''  '' @ shell_command (lp_qemu_program plan) (lp_qemu_args plan))"

definition render_launch_summary :: "launch_config \<Rightarrow> string" where
  "render_launch_summary config =
     (let runtime_dir = unwrap_or (path_parent (ra_kernel (lc_artifacts config))) ''.''
      in writeln ''fend linux launch''
         @ writeln (''  workspace  '' @ lc_workspace config)
         @ writeln (''  runtime    '' @ runtime_dir)
         @ writeln (''  run dir    '' @ lc_run_dir config)
         @ writeln (''  logs       '' @ path_join (lc_run_dir config) ''logs'')
         @ writeln (''  cid        '' @ show_word (lc_guest_cid config))
         @ writeln (''  network    '' @ network_label (lc_network config))
         @ writeln (''  stop       fend-linux stop --run-dir '' @ shell_quote_path (lc_run_dir config)))"

section \<open>Printed commands are shell words\<close>

text \<open>
  The reference for \<open>shell_quote\<close> is the word splitting of a POSIX shell: blanks separate words,
  single quotes keep everything up to the next one, a backslash keeps the next character, and a
  special character outside quotes makes the line more than a list of words (\<open>None\<close>). The
  accumulator is the word being read, \<open>None\<close> between words.
\<close>

definition sh_special :: "char \<Rightarrow> bool" where
  "sh_special c \<longleftrightarrow> c \<in> set ''|&;<>()$`*?[#~!{}'' \<or> c \<in> {CHR 0x22, CHR 0x0A}"

fun sh_scan :: "bool \<Rightarrow> string option \<Rightarrow> string \<Rightarrow> string list option" where
  "sh_scan quoted w [] =
     (if quoted then None else Some (case w of None \<Rightarrow> [] | Some v \<Rightarrow> [v]))"
| "sh_scan True w (c # cs) =
     (if c = CHR 0x27 then sh_scan False w cs else sh_scan True (Some (unwrap_or w [] @ [c])) cs)"
| "sh_scan False w (c # cs) =
     (if c = CHR 0x27 then sh_scan True (Some (unwrap_or w [])) cs
      else if c = CHR 0x5C then
        (case cs of
           [] \<Rightarrow> None
         | d # ds \<Rightarrow> if d = CHR 0x0A then sh_scan False w ds
                      else sh_scan False (Some (unwrap_or w [] @ [d])) ds)
      else if c = CHR 0x20 \<or> c = CHR 0x09 then
        map_option (\<lambda>ws. (case w of None \<Rightarrow> [] | Some v \<Rightarrow> [v]) @ ws) (sh_scan False None cs)
      else if sh_special c then None
      else sh_scan False (Some (unwrap_or w [] @ [c])) cs)"

definition sh_words :: "string \<Rightarrow> string list option" where
  "sh_words s = sh_scan False None s"

lemma shell_safe_plain:
  assumes "shell_safe c"
  shows "c \<noteq> CHR 0x27" "c \<noteq> CHR 0x5C" "c \<noteq> CHR 0x20" "c \<noteq> CHR 0x09" "\<not> sh_special c"
  using assms by (auto simp: shell_safe_def is_ascii_alphanumeric_def sh_special_def Let_def)

lemma sh_scan_safe:
  "list_all shell_safe s \<Longrightarrow> s \<noteq> [] \<Longrightarrow> sh_scan False w (s @ rest) = sh_scan False (Some (unwrap_or w [] @ s)) rest"
proof (induction s arbitrary: w)
  case (Cons c s)
  then show ?case by (cases "s = []") (simp_all add: shell_safe_plain)
qed simp

lemma sh_scan_escaped:
  "sh_scan True (Some w) (escape_quotes s @ rest) = sh_scan True (Some (w @ s)) rest"
  by (induction s arbitrary: w) (simp_all add: escape_quotes_def)

lemma sh_scan_quote: "sh_scan False None (shell_quote s @ rest) = sh_scan False (Some s) rest"
  using sh_scan_safe [of s None rest] sh_scan_escaped [of "[]" s "CHR 0x27 # rest"]
  by (simp add: shell_quote_def)

lemma sh_scan_join:
  "sh_scan False None (join_with '' '' (map shell_quote (w # ws))) = Some (w # ws)"
proof (induction ws arbitrary: w)
  case Nil
  then show ?case using sh_scan_quote [of w "[]"] by simp
next
  case (Cons v ws)
  then show ?case using sh_scan_quote [of w "CHR 0x20 # join_with '' '' (map shell_quote (v # ws))"] by simp
qed


section \<open>Guest CIDs\<close>

lemma unat_cid: "unat (autogenerated_guest_cid epoch pid)
    = 10000 + unat (word_of_int epoch * (1103515245 :: u64) + ucast pid) mod 50000"
proof -
  define seed where "seed = word_of_int epoch * (1103515245 :: u64) + ucast pid"
  have "unat (ucast (seed mod 50000) :: u32) = unat seed mod 50000"
    by (simp add: unsigned_ucast_eq unat_mod take_bit_nat_eq_self)
  then have "unat (10000 + ucast (seed mod 50000) :: u32) = 10000 + unat seed mod 50000"
    by (simp add: unat_word_ariths(1))
  then show ?thesis by (simp add: autogenerated_guest_cid_def seed_def Let_def)
qed

lemma unat_seed:
  fixes pid :: u32
  assumes "0 \<le> epoch" "epoch < 2 ^ 33"
  shows "unat (word_of_int epoch * (1103515245 :: u64) + ucast pid) = nat epoch * 1103515245 + unat pid"
proof -
  have p: "unat pid < 2 ^ 32" using unsigned_less [of pid] by simp
  have e: "nat epoch < 2 ^ 33" using assms by (simp add: nat_less_iff)
  then have "unat (word_of_int epoch :: u64) = nat epoch"
    using assms by (simp add: unsigned_of_int take_bit_int_eq_self)
  then show ?thesis using p e by (simp add: unat_word_ariths unsigned_ucast_eq take_bit_nat_eq_self)
qed

lemma mod_window: "p < p' \<Longrightarrow> p' < p + m \<Longrightarrow> (a + p) mod m \<noteq> (a + p') mod m" for a p p' m :: nat
proof
  assume "p < p'" "p' < p + m" "(a + p) mod m = (a + p') mod m"
  then have "m dvd (a + p') - (a + p)" using mod_eq_dvd_iff_nat [of "a + p" "a + p'" m] by simp
  then show False using \<open>p < p'\<close> \<open>p' < p + m\<close> by (auto dest: dvd_imp_le)
qed

text \<open>
  A CID made up for a run lies in [10000, 60000), so the planner accepts it (it refuses
  those up to 2), and two runs started in the same second by processes whose ids are less
  than 50000 apart get different ones, for every clock up to the year 2242.
\<close>

theorem autogenerated_cid_bounds:
  "(10000 \<le> unat (autogenerated_guest_cid epoch pid) \<and> unat (autogenerated_guest_cid epoch pid) < 60000)
   \<and> (0 \<le> epoch \<longrightarrow> epoch < 2 ^ 33 \<longrightarrow> unat pid < unat pid' \<longrightarrow> unat pid' < unat pid + 50000 \<longrightarrow>
        autogenerated_guest_cid epoch pid \<noteq> autogenerated_guest_cid epoch pid')"
proof (intro conjI impI)
  show "10000 \<le> unat (autogenerated_guest_cid epoch pid)" by (simp add: unat_cid)
  show "unat (autogenerated_guest_cid epoch pid) < 60000" by (simp add: unat_cid)
  assume "0 \<le> epoch" "epoch < 2 ^ 33" "unat pid < unat pid'" "unat pid' < unat pid + 50000"
  then have "unat (autogenerated_guest_cid epoch pid) \<noteq> unat (autogenerated_guest_cid epoch pid')"
    by (simp add: unat_cid unat_seed mod_window)
  then show "autogenerated_guest_cid epoch pid \<noteq> autogenerated_guest_cid epoch pid'" by auto
qed

lemma autogenerated_cid_bounds_witness:
  "autogenerated_guest_cid 1700000000 4242 \<noteq> autogenerated_guest_cid 1700000000 4243
   \<and> unat (autogenerated_guest_cid 1700000000 4242) < 60000"
  using autogenerated_cid_bounds [of 1700000000 4242 4243] by simp

section \<open>The command line of a run\<close>

lemma finish_run_Ok: "finish_run options = Ok (Cli_Run o') \<longleftrightarrow> o' = options \<and> ro_command options \<noteq> []"
  by (auto simp: finish_run_def)

lemma value_suffix:
  "value_arg args opt = Ok (v, rest) \<Longrightarrow> suffix rest args"
  "value_path args opt = Ok (v, rest) \<Longrightarrow> suffix rest args"
  "value_number parse args opt = Ok (n, rest) \<Longrightarrow> suffix rest args"
  by (auto simp: value_path_def value_number_def value_arg_def suffix_ConsI split: list.splits option.splits)

lemma parse_run_loop_command:
  "parse_run_loop options args = Ok (Cli_Run o') \<Longrightarrow> ro_command options = []
     \<Longrightarrow> ro_command o' \<noteq> [] \<and> suffix (ro_command o') args"
proof (induction args arbitrary: options rule: length_induct)
  case (1 args)
  show ?case
  proof (cases args)
    case Nil
    with "1.prems" show ?thesis by (simp add: finish_run_Ok)
  next
    case (Cons arg rest)
    have ih: "ro_command o' \<noteq> [] \<and> suffix (ro_command o') args"
      if "suffix b rest" "parse_run_loop options' b = Ok (Cli_Run o')" "ro_command options' = []" for b options'
    proof -
      have "length b < length args" using suffix_length_le [OF that(1)] Cons by simp
      with "1.IH" that(2,3) have "ro_command o' \<noteq> [] \<and> suffix (ro_command o') b" by blast
      then show ?thesis using that(1) Cons suffix_order.trans suffix_ConsI by metis
    qed
    have "suffix rest args" "suffix args args" using Cons by (simp_all add: suffix_ConsI)
    then show ?thesis
      using "1.prems" Cons
      by (auto simp: finish_run_Ok split: if_splits dest!: value_suffix dest: ih)
  qed
qed

text \<open>Only \<open>parse_run\<close> makes a run: a step of another parser ends otherwise or goes on.\<close>

definition no_run :: "(cli_command, cli_error) result \<Rightarrow> bool" where
  "no_run r = (case r of Ok (Cli_Run _) \<Rightarrow> False | _ \<Rightarrow> True)"

lemma no_run_simps [simp]:
  "no_run (Err e)" "no_run (Ok (Cli_Help t))" "no_run (Ok Cli_Version)" "no_run (Ok (Cli_Doctor od))" "no_run (Ok (Cli_Setup os))"
  "no_run (Ok (Cli_Stop ot))" "no_run (Ok (Cli_Smoke om))" "no_run (Ok Cli_Status)"
  "no_run (Ok (Cli_Plan op))" "no_run (Ok (Cli_Launch op))" "\<not> no_run (Ok (Cli_Run o'))"
  by (simp_all add: no_run_def)

lemma no_run_and_then: "(\<And>x. m = Ok x \<Longrightarrow> no_run (f x)) \<Longrightarrow> no_run (and_then m f)"
  by (cases m) simp_all

lemma no_run_if: "(c \<Longrightarrow> no_run a) \<Longrightarrow> (\<not> c \<Longrightarrow> no_run b) \<Longrightarrow> no_run (if c then a else b)"
  by simp

lemma no_run_prod: "(\<And>a b. (a, b) = x \<Longrightarrow> no_run (f a b)) \<Longrightarrow> no_run (case x of (a, b) \<Rightarrow> f a b)"
  by (cases x) simp

lemmas no_run_intros = no_run_if no_run_and_then no_run_prod

lemma parse_doctor_no_run: "no_run (parse_doctor_loop options args)"
proof (induction options args rule: parse_doctor_loop.induct)
  case (2 options arg args)
  show ?case
    unfolding parse_doctor_loop.simps
    by (intro no_run_intros) (simp; fail | rule "2.IH"; assumption)+
qed simp

lemma parse_setup_no_run: "no_run (parse_setup_loop options args)"
proof (induction options args rule: parse_setup_loop.induct)
  case (2 options arg args)
  show ?case
    unfolding parse_setup_loop.simps
    by (intro no_run_intros) (simp; fail | rule "2.IH"; assumption)+
qed simp

lemma parse_stop_no_run: "no_run (parse_stop_loop options args)"
proof (induction options args rule: parse_stop_loop.induct)
  case (2 options arg args)
  show ?case
    unfolding parse_stop_loop.simps
    by (intro no_run_intros) (simp; fail | rule "2.IH"; assumption)+
qed simp

lemma parse_smoke_no_run: "no_run (parse_smoke_loop options args)"
proof (induction options args rule: parse_smoke_loop.induct)
  case (2 options arg args)
  show ?case
    unfolding parse_smoke_loop.simps
    by (intro no_run_intros) (simp; fail | rule "2.IH"; assumption)+
qed simp

lemma parse_others_no_run: "no_run (parse_plan args)" "no_run (parse_launch args)" "no_run (parse_status args)"
  by (simp_all add: parse_plan_def parse_launch_def parse_status_def
      split: result.splits cli_error.splits list.splits)

lemmas parsers_no_run =
  parse_doctor_no_run parse_setup_no_run parse_stop_no_run parse_smoke_no_run parse_others_no_run

lemma parse_args_run:
  assumes "parse_args args = Ok (Cli_Run o')"
  shows "\<exists>rest. suffix rest args \<and> parse_run rest = Ok (Cli_Run o')"
proof -
  from assms have "\<not> no_run (parse_args args)" by simp
  then have "parse_args args = parse_run args \<or> parse_args args = parse_run (tl args)"
    by (cases args) (auto simp: parse_args_def parse_doctor_def parse_setup_def parse_stop_def
        parse_smoke_def parsers_no_run split: if_splits)
  with assms show ?thesis using suffix_tl by (metis suffix_order.refl)
qed

text \<open>
  The command of a run is opaque to the parser: whatever options come before it, it is the
  end of the command line, word for word and not empty.
\<close>

theorem run_command_opaque:
  "parse_args args = Ok (Cli_Run o') \<Longrightarrow> ro_command o' \<noteq> [] \<and> suffix (ro_command o') args"
  using parse_args_run [of args o'] parse_run_loop_command [of default_run_options _ o'] suffix_order.trans
  by (fastforce simp: parse_run_def default_run_options_def simp del: parse_run_loop.simps)

lemma run_command_opaque_witness:
  "parse_args [''--cwd'', ''/srv'', ''--env'', ''A=b'', ''--'', ''npm'', ''--help'']
     = Ok (Cli_Run (default_run_options
         \<lparr>ro_cwd := Some ''/srv'', ro_env := [(''A'', ''b'')], ro_command := [''npm'', ''--help'']\<rparr>))
   \<and> suffix [''npm'', ''--help''] [''--cwd'', ''/srv'', ''--env'', ''A=b'', ''--'', ''npm'', ''--help'']"
proof -
  have parsed: "parse_args [''--cwd'', ''/srv'', ''--env'', ''A=b'', ''--'', ''npm'', ''--help'']
     = Ok (Cli_Run (default_run_options
         \<lparr>ro_cwd := Some ''/srv'', ro_env := [(''A'', ''b'')], ro_command := [''npm'', ''--help'']\<rparr>))"
    by code_simp
  with run_command_opaque [OF parsed] show ?thesis by simp
qed

text \<open>The canonical command line of a set of options.\<close>

definition opt_arg :: "string \<Rightarrow> ('a \<Rightarrow> string) \<Rightarrow> 'a option \<Rightarrow> string list" where
  "opt_arg name print x = (case x of None \<Rightarrow> [] | Some v \<Rightarrow> [name, print v])"

definition command_network_label :: "command_network_mode \<Rightarrow> string" where
  "command_network_label m = (case m of Net_On \<Rightarrow> ''on'' | Net_Off \<Rightarrow> ''off'')"

definition env_args :: "btree \<Rightarrow> string list" where
  "env_args m = concat (map (\<lambda>(k, v). [''--env'', k @ ''='' @ v]) m)"

definition run_args :: "run_options \<Rightarrow> string list" where
  "run_args options =
     opt_arg ''--runtime-dir'' (\<lambda>p. p) (ro_runtime_dir options)
     @ opt_arg ''--workspace'' (\<lambda>p. p) (ro_workspace options)
     @ opt_arg ''--cache-dir'' (\<lambda>p. p) (ro_cache_dir options)
     @ opt_arg ''--tools-dir'' (\<lambda>p. p) (ro_tools_dir options)
     @ opt_arg ''--run-dir'' (\<lambda>p. p) (ro_run_dir options)
     @ opt_arg ''--cid'' show_word (ro_guest_cid options)
     @ opt_arg ''--cpus'' show_word (ro_cpus options)
     @ opt_arg ''--memory-mib'' show_word (ro_memory_mib options)
     @ opt_arg ''--vm-network'' network_label (ro_vm_network options)
     @ opt_arg ''--network'' command_network_label (ro_network options)
     @ opt_arg ''--timeout'' show_word (ro_timeout_secs options)
     @ opt_arg ''--cwd'' (\<lambda>p. p) (ro_cwd options)
     @ env_args (ro_env options)
     @ [''--''] @ ro_command options"

lemma network_labels:
  "network_mode_from_str (network_label m) = Ok m"
  "command_network_mode_from_str (command_network_label c) = Ok c"
  by (cases m; simp add: network_mode_from_str_def network_label_def)
     (cases c; simp add: command_network_mode_from_str_def command_network_label_def)

lemma parse_u16_show: "parse_u16 (show_nat (unat w)) = Some w"
proof -
  have "unat w < 2 ^ LENGTH(16)" by (rule unsigned_less)
  then have "unat w \<le> 2 ^ 16 - 1" by simp
  then show ?thesis by (simp add: parse_u16_def parse_u16_radix_def parse_unsigned_show_nat)
qed

lemmas run_values = value_path_def value_number_def value_arg_def network_labels
  show_word_def parse_u16_show parse_u32_show parse_u64_show

text \<open>Each printed option is one round of the loop.\<close>

lemma parse_run_options:
  "parse_run_loop r (opt_arg ''--runtime-dir'' (\<lambda>p. p) x @ rest)
     = parse_run_loop (r\<lparr>ro_runtime_dir := opt_or x (ro_runtime_dir r)\<rparr>) rest"
  "parse_run_loop r (opt_arg ''--workspace'' (\<lambda>p. p) x @ rest)
     = parse_run_loop (r\<lparr>ro_workspace := opt_or x (ro_workspace r)\<rparr>) rest"
  "parse_run_loop r (opt_arg ''--cache-dir'' (\<lambda>p. p) x @ rest)
     = parse_run_loop (r\<lparr>ro_cache_dir := opt_or x (ro_cache_dir r)\<rparr>) rest"
  "parse_run_loop r (opt_arg ''--tools-dir'' (\<lambda>p. p) x @ rest)
     = parse_run_loop (r\<lparr>ro_tools_dir := opt_or x (ro_tools_dir r)\<rparr>) rest"
  "parse_run_loop r (opt_arg ''--run-dir'' (\<lambda>p. p) x @ rest)
     = parse_run_loop (r\<lparr>ro_run_dir := opt_or x (ro_run_dir r)\<rparr>) rest"
  "parse_run_loop r (opt_arg ''--cid'' show_word cid @ rest)
     = parse_run_loop (r\<lparr>ro_guest_cid := opt_or cid (ro_guest_cid r)\<rparr>) rest"
  "parse_run_loop r (opt_arg ''--cpus'' show_word cpus @ rest)
     = parse_run_loop (r\<lparr>ro_cpus := opt_or cpus (ro_cpus r)\<rparr>) rest"
  "parse_run_loop r (opt_arg ''--memory-mib'' show_word memory @ rest)
     = parse_run_loop (r\<lparr>ro_memory_mib := opt_or memory (ro_memory_mib r)\<rparr>) rest"
  "parse_run_loop r (opt_arg ''--vm-network'' network_label mode @ rest)
     = parse_run_loop (r\<lparr>ro_vm_network := opt_or mode (ro_vm_network r)\<rparr>) rest"
  "parse_run_loop r (opt_arg ''--network'' command_network_label net @ rest)
     = parse_run_loop (r\<lparr>ro_network := opt_or net (ro_network r)\<rparr>) rest"
  "parse_run_loop r (opt_arg ''--timeout'' show_word secs @ rest)
     = parse_run_loop (r\<lparr>ro_timeout_secs := opt_or secs (ro_timeout_secs r)\<rparr>) rest"
  "parse_run_loop r (opt_arg ''--cwd'' (\<lambda>p. p) x @ rest)
     = parse_run_loop (r\<lparr>ro_cwd := opt_or x (ro_cwd r)\<rparr>) rest"
  by (simp_all add: opt_arg_def opt_or_def run_values split: option.splits)

lemma parse_run_env_item:
  "k \<noteq> [] \<Longrightarrow> CHR ''='' \<notin> set k \<Longrightarrow>
   parse_run_loop r (''--env'' # (k @ ''='' @ v) # rest)
     = parse_run_loop (r\<lparr>ro_env := btree_insert k v (ro_env r)\<rparr>) rest"
  using split_once_first [of "CHR ''=''" k v]
  by (simp add: value_arg_def parse_env_item_def)

lemma btree_insert_last: "\<forall>j \<in> set (map fst m). j < k \<Longrightarrow> btree_insert k v m = m @ [(k, v)]"
  by (induction m) auto

definition env_ok :: "btree \<Rightarrow> bool" where
  "env_ok m \<longleftrightarrow> sorted_wrt (<) (map fst m) \<and> (\<forall>k \<in> set (map fst m). k \<noteq> [] \<and> CHR ''='' \<notin> set k)"

lemma parse_run_env:
  "sorted_wrt (<) (map fst (ro_env r @ m)) \<Longrightarrow> \<forall>k \<in> set (map fst m). k \<noteq> [] \<and> CHR ''='' \<notin> set k \<Longrightarrow>
   parse_run_loop r (env_args m @ rest) = parse_run_loop (r\<lparr>ro_env := ro_env r @ m\<rparr>) rest"
proof (induction m arbitrary: r)
  case (Cons p m)
  obtain k v where p: "p = (k, v)" by (cases p)
  then have "btree_insert k v (ro_env r) = ro_env r @ [(k, v)]"
    using Cons.prems(1) by (auto intro!: btree_insert_last simp: sorted_wrt_append)
  then show ?case
    using Cons.IH [of "r\<lparr>ro_env := ro_env r @ [(k, v)]\<rparr>"] Cons.prems parse_run_env_item [of k r v "env_args m @ rest"]
    by (simp add: p env_args_def)
qed (simp add: env_args_def)

lemma opt_or_None: "opt_or x None = x"
  by (cases x) simp_all

lemma parse_run_args:
  assumes "ro_command options \<noteq> []" and "env_ok (ro_env options)"
  shows "parse_args (''run'' # run_args options) = Ok (Cli_Run options)"
proof -
  have "parse_run_loop default_run_options (run_args options)
      = parse_run_loop (options\<lparr>ro_command := []\<rparr>) ([''--''] @ ro_command options)"
    using assms(2)
    by (cases options) (simp add: run_args_def parse_run_options parse_run_env env_ok_def
        default_run_options_def opt_or_None del: parse_run_loop.simps)
  also have "\<dots> = Ok (Cli_Run options)" using assms(1) by (simp add: finish_run_def)
  finally show ?thesis by (simp add: parse_args_def parse_run_def del: parse_run_loop.simps)
qed

text \<open>
  (C27) Parsing the canonical command line of a set of run options gives back those options, for
  every path, number, network mode, environment and command (also one that looks like
  options), with the subcommand given.
\<close>

theorem run_options_round_trip:
  assumes "ro_command options \<noteq> []" and "env_ok (ro_env options)"
  shows "parse_args (''run'' # run_args options) = Ok (Cli_Run options)"
  using assms by (rule parse_run_args)

lemma run_options_round_trip_witness:
  "(let options = default_run_options\<lparr>ro_guest_cid := Some 77, ro_network := Some Net_Off,
        ro_env := [(''A'', ''x=y''), (''B'', [])], ro_command := [''npm'', ''--help'']\<rparr>
    in ro_command options \<noteq> [] \<and> env_ok (ro_env options)
       \<and> parse_args (''run'' # run_args options) = Ok (Cli_Run options))"
proof -
  have "env_ok [(''A'', ''x=y''), (''B'', [])]" by code_simp
  then show ?thesis
    using run_options_round_trip [of "default_run_options\<lparr>ro_guest_cid := Some 77, ro_network := Some Net_Off,
        ro_env := [(''A'', ''x=y''), (''B'', [])], ro_command := [''npm'', ''--help'']\<rparr>"]
    by (simp add: Let_def)
qed

lemma map_of_btree_insert [simp]: "map_of (btree_insert k v m) = (map_of m)(k \<mapsto> v)"
  by (induction k v m rule: btree_insert.induct) auto

lemma map_of_btree_extend: "distinct (map fst new) \<Longrightarrow> map_of (btree_extend m new) = map_of m ++ map_of new"
proof (induction new arbitrary: m)
  case (Cons p new)
  obtain k v where p: "p = (k, v)" by (cases p)
  with Cons.prems have "map_of new k = None" by (simp add: map_of_eq_None_iff)
  with Cons p show ?case
    by (auto simp: btree_extend_def map_add_def fun_eq_iff split: option.splits)
qed (simp add: btree_extend_def)

lemma run_network_off:
  "ro_network options = Some Net_Off \<Longrightarrow>
   map_of (sc_env (build_run_smoke_config options config)) ''FEND_NETWORK_MODE'' = Some ''off''"
  by (simp add: build_run_smoke_config_def)

section \<open>What the parser produces\<close>

lemma btree_insert_keys: "set (map fst (btree_insert k v m)) = insert k (set (map fst m))"
  by (induction k v m rule: btree_insert.induct) auto

lemma btree_insert_sorted: "sorted_wrt (<) (map fst m) \<Longrightarrow> sorted_wrt (<) (map fst (btree_insert k v m))"
proof (induction k v m rule: btree_insert.induct)
  case (2 k v j w m)
  have "k < j \<or> k = j \<or> j < k" by (rule less_linear)
  with 2 btree_insert_keys [of k v m] show ?case by auto
qed simp

lemma parse_env_item_key: "parse_env_item item = Ok (k, v) \<Longrightarrow> k \<noteq> [] \<and> CHR ''='' \<notin> set k"
proof -
  have "split_once (CHR ''='') item = Some (k, v) \<Longrightarrow> CHR ''='' \<notin> set k"
    by (induction item arbitrary: k) (auto split: if_splits option.splits)
  then show "parse_env_item item = Ok (k, v) \<Longrightarrow> ?thesis"
    by (auto simp: parse_env_item_def split: option.splits if_splits)
qed

lemma env_ok_insert: "env_ok m \<Longrightarrow> parse_env_item item = Ok (k, v) \<Longrightarrow> env_ok (btree_insert k v m)"
  using btree_insert_keys [of k v m] by (auto simp: env_ok_def btree_insert_sorted dest: parse_env_item_key)

lemma parse_run_loop_env:
  "parse_run_loop options args = Ok (Cli_Run o') \<Longrightarrow> env_ok (ro_env options) \<Longrightarrow> env_ok (ro_env o')"
proof (induction args arbitrary: options rule: length_induct)
  case (1 args)
  show ?case
  proof (cases args)
    case Nil
    with "1.prems" show ?thesis by (simp add: finish_run_Ok)
  next
    case (Cons arg rest)
    have ih: "env_ok (ro_env o')"
      if "suffix b rest" "parse_run_loop options' b = Ok (Cli_Run o')" "env_ok (ro_env options')" for b options'
    proof -
      have "length b < length args" using suffix_length_le [OF that(1)] Cons by simp
      with "1.IH" that(2,3) show ?thesis by blast
    qed
    show ?thesis
      using "1.prems" Cons
      by (auto simp: finish_run_Ok split: if_splits dest!: value_suffix dest: ih)
         (rule ih, assumption, assumption, simp add: env_ok_insert)
  qed
qed

text \<open>
  (C26) The options of every accepted run are well formed: the command is not empty, the
  environment is a map in key order whose keys are not empty and have no equals sign, and
  printing the options and parsing them again gives the same options.
\<close>

theorem parsed_run_wf:
  assumes "parse_args args = Ok (Cli_Run o')"
  shows "ro_command o' \<noteq> [] \<and> env_ok (ro_env o') \<and> parse_args (''run'' # run_args o') = Ok (Cli_Run o')"
proof -
  from parse_args_run [OF assms] obtain rest where run: "parse_run_loop default_run_options rest = Ok (Cli_Run o')"
    by (auto simp: parse_run_def simp del: parse_run_loop.simps)
  have "ro_command default_run_options = []" "env_ok (ro_env default_run_options)"
    by (simp_all add: default_run_options_def env_ok_def)
  with parse_run_loop_command [OF run] parse_run_loop_env [OF run] parse_run_args [of o'] show ?thesis by blast
qed

lemma parsed_run_wf_witness:
  "parse_args [''--env'', ''B=1'', ''--env'', ''A=x=y'', ''ls'']
     = Ok (Cli_Run (default_run_options\<lparr>ro_env := [(''A'', ''x=y''), (''B'', ''1'')], ro_command := [''ls'']\<rparr>))
   \<and> env_ok [(''A'', ''x=y''), (''B'', ''1'')]"
proof -
  have "parse_args [''--env'', ''B=1'', ''--env'', ''A=x=y'', ''ls'']
     = Ok (Cli_Run (default_run_options\<lparr>ro_env := [(''A'', ''x=y''), (''B'', ''1'')], ro_command := [''ls'']\<rparr>))"
    by code_simp
  with parsed_run_wf [OF this] show ?thesis by simp
qed

end
