(* ===== verification/Host_Doctor.thy ===== *)
theory Host_Doctor
  imports Host_Cli
begin

text \<open>
  The host checks (linux/src/doctor.rs) and the text of their report (render_doctor_report of
  linux/src/cli.rs). The probe collects facts of the host, \<open>doctor_env\<close>: the build target, the
  environment and file test shared with the command line, the text of files, the answers of
  \<open>open\<close> on the device files and the exit of programs. The evaluation is a function of the probe.
\<close>

section \<open>Data\<close>

datatype device_error = PermissionDenied_Device | NoDevice | OtherDeviceError int

record device_status_info =
  ds_path :: path
  ds_exists :: bool
  ds_readable :: bool
  ds_writable :: bool
  ds_error :: "device_error option"

definition device_label :: "device_status_info \<Rightarrow> string" where
  "device_label d =
     (if \<not> ds_exists d then ''missing''
      else if ds_readable d \<and> ds_writable d then ds_path d
      else case ds_error d of
             Some NoDevice \<Rightarrow> ''no driver (module not loaded?)''
           | Some (OtherDeviceError errno) \<Rightarrow> ''inaccessible (errno '' @ show_int errno @ '')''
           | Some PermissionDenied_Device \<Rightarrow> ''permission denied''
           | None \<Rightarrow> ''permission denied'')"

record distribution_info =
  di_id :: string
  di_version_id :: "string option"

record host_probe =
  hp_os :: string
  hp_arch :: string
  hp_distribution :: "distribution_info option"
  hp_runtime_dir :: path
  hp_kernel_exists :: bool
  hp_initrd_exists :: bool
  hp_rootfs_exists :: bool
  hp_qemu_available :: bool
  hp_virtiofsd :: "resolved_virtiofsd option"
  hp_unshare_available :: bool
  hp_subuid_configured :: "bool option"
  hp_subgid_configured :: "bool option"
  hp_passt_available :: bool
  hp_curl_available :: bool
  hp_strings_available :: bool
  hp_docker_available :: bool
  hp_kvm :: device_status_info
  hp_vhost_vsock :: device_status_info
  hp_cpu_virtualization_available :: "bool option"

record doctor_report =
  dr_title :: string
  dr_ok_message :: string
  dr_fields :: "(string \<times> string) list"
  dr_issues :: "string list"

record doctor_env =
  de_cli :: cli_env
  de_os :: string
  de_arch :: string
  de_read :: "path \<Rightarrow> string option"
  de_exists :: "path \<Rightarrow> bool"
  de_open_rw :: "path \<Rightarrow> unit io_result"
  de_succeeds :: "string \<Rightarrow> string list \<Rightarrow> bool option"

section \<open>Probing the host\<close>

definition command_exists :: "doctor_env \<Rightarrow> string \<Rightarrow> bool" where
  "command_exists de name =
     (case ce_var_os (de_cli de) ''PATH'' of
        None \<Rightarrow> False
      | Some path \<Rightarrow> list_ex (\<lambda>dir. ce_is_file (de_cli de) (path_join dir name)) (split_paths path))"

definition process_succeeds :: "doctor_env \<Rightarrow> string \<Rightarrow> string list \<Rightarrow> bool" where
  "process_succeeds de program args = unwrap_or (de_succeeds de program args) False"

definition EPERM :: int where "EPERM = 1"
definition ENXIO :: int where "ENXIO = 6"
definition EACCES :: int where "EACCES = 13"
definition ENODEV :: int where "ENODEV = 19"

definition device_status :: "doctor_env \<Rightarrow> path \<Rightarrow> device_status_info" where
  "device_status de path =
     (let exists = de_exists de path
      in if \<not> exists
         then \<lparr>ds_path = path, ds_exists = exists, ds_readable = False, ds_writable = False, ds_error = None\<rparr>
         else case de_open_rw de path of
                Ok _ \<Rightarrow> \<lparr>ds_path = path, ds_exists = exists, ds_readable = True, ds_writable = True, ds_error = None\<rparr>
              | Err err \<Rightarrow>
                  (let raw = unwrap_or (raw_os_error err) 0;
                       kind = (if raw = EACCES \<or> raw = EPERM then PermissionDenied_Device
                               else if raw = ENODEV \<or> raw = ENXIO then NoDevice
                               else OtherDeviceError raw)
                   in \<lparr>ds_path = path, ds_exists = exists, ds_readable = False, ds_writable = False,
                       ds_error = Some kind\<rparr>))"

definition non_empty :: "string option \<Rightarrow> string option" where
  "non_empty x = (case x of None \<Rightarrow> None | Some v \<Rightarrow> if v = [] then None else Some v)"

definition current_user_name :: "doctor_env \<Rightarrow> string option" where
  "current_user_name de =
     opt_or (non_empty (ce_var_os (de_cli de) ''USER'')) (non_empty (ce_var_os (de_cli de) ''LOGNAME''))"

definition subordinate_id_configured :: "doctor_env \<Rightarrow> path \<Rightarrow> bool" where
  "subordinate_id_configured de path =
     (case current_user_name de of
        None \<Rightarrow> False
      | Some user \<Rightarrow>
          (case de_read de path of
             None \<Rightarrow> False
           | Some contents \<Rightarrow> list_ex (\<lambda>line. starts_with (user @ '':'') line) (lines contents)))"

definition os_release_line ::
  "string \<Rightarrow> string option \<times> string option \<Rightarrow> string option \<times> string option" where
  "os_release_line line acc =
     (case split_once (CHR ''='') line of
        None \<Rightarrow> acc
      | Some (key, raw_value) \<Rightarrow>
          (let v = trim_end_matches (CHR 0x22) (trim_start_matches (CHR 0x22) (trim raw_value))
           in if key = ''ID'' then (Some v, snd acc)
              else if key = ''VERSION_ID'' then (fst acc, Some v)
              else acc))"

definition distribution_info_of :: "doctor_env \<Rightarrow> distribution_info option" where
  "distribution_info_of de =
     (case de_read de ''/etc/os-release'' of
        None \<Rightarrow> None
      | Some content \<Rightarrow>
          (case fold os_release_line (lines content) (None, None) of
             (None, _) \<Rightarrow> None
           | (Some i, version_id) \<Rightarrow> Some \<lparr>di_id = i, di_version_id = version_id\<rparr>))"

definition distribution_display :: "distribution_info \<Rightarrow> string" where
  "distribution_display d =
     (case di_version_id d of
        Some version_id \<Rightarrow> if version_id \<noteq> [] then di_id d @ '' '' @ version_id else di_id d
      | None \<Rightarrow> di_id d)"

definition cpu_virtualization_available :: "doctor_env \<Rightarrow> bool option" where
  "cpu_virtualization_available de =
     (if de_os de = ''linux''
      then map_option (\<lambda>cpuinfo. contains_str '' vmx '' cpuinfo \<or> contains_str '' svm '' cpuinfo)
             (de_read de ''/proc/cpuinfo'')
      else None)"

definition current_probe_with_builder_checks :: "doctor_env \<Rightarrow> path \<Rightarrow> bool \<Rightarrow> host_probe" where
  "current_probe_with_builder_checks de runtime_dir include_builder_checks =
     (let ce = de_cli de;
          artifacts = from_runtime_dir runtime_dir;
          virtiofsd = resolve_virtiofsd (ce_is_file ce) (ce_var_os ce);
          rootless = unwrap_or (map_option requires_unshare virtiofsd) False
      in \<lparr>hp_os = de_os de, hp_arch = de_arch de, hp_distribution = distribution_info_of de,
          hp_runtime_dir = runtime_dir,
          hp_kernel_exists = ce_is_file ce (ra_kernel artifacts),
          hp_initrd_exists = ce_is_file ce (ra_initrd artifacts),
          hp_rootfs_exists = ce_is_file ce (ra_rootfs artifacts),
          hp_qemu_available = command_exists de ''qemu-system-x86_64'',
          hp_virtiofsd = virtiofsd,
          hp_unshare_available = (\<not> rootless \<or> command_exists de ''unshare''),
          hp_subuid_configured = (if rootless then Some (subordinate_id_configured de ''/etc/subuid'') else None),
          hp_subgid_configured = (if rootless then Some (subordinate_id_configured de ''/etc/subgid'') else None),
          hp_passt_available = command_exists de ''passt'',
          hp_curl_available = (\<not> include_builder_checks \<or> command_exists de ''curl''),
          hp_strings_available = (\<not> include_builder_checks \<or> command_exists de ''strings''),
          hp_docker_available = (include_builder_checks \<and> process_succeeds de ''docker'' [''info'']),
          hp_kvm = device_status de ''/dev/kvm'',
          hp_vhost_vsock = device_status de ''/dev/vhost-vsock'',
          hp_cpu_virtualization_available = cpu_virtualization_available de\<rparr>)"

definition current_probe :: "doctor_env \<Rightarrow> path \<Rightarrow> host_probe" where
  "current_probe de runtime_dir = current_probe_with_builder_checks de runtime_dir True"

definition current_launch_probe :: "doctor_env \<Rightarrow> path \<Rightarrow> host_probe" where
  "current_launch_probe de runtime_dir = current_probe_with_builder_checks de runtime_dir False"

section \<open>Hints\<close>

datatype package_hint =
    Hint_Qemu | Hint_Virtiofsd | Hint_Passt | Hint_Docker | Hint_Unshare | Hint_Curl | Hint_Strings

definition package_install_command :: "distribution_info option \<Rightarrow> package_hint \<Rightarrow> string option" where
  "package_install_command distribution hint =
     (case distribution of
        None \<Rightarrow> None
      | Some d \<Rightarrow>
          if di_id d = ''arch'' then Some (case hint of
                Hint_Qemu \<Rightarrow> ''sudo pacman -S --needed qemu-system-x86''
              | Hint_Virtiofsd \<Rightarrow> ''sudo pacman -S --needed virtiofsd''
              | Hint_Passt \<Rightarrow> ''sudo pacman -S --needed passt''
              | Hint_Docker \<Rightarrow> ''sudo pacman -S --needed docker && sudo systemctl enable --now docker''
              | Hint_Unshare \<Rightarrow> ''sudo pacman -S --needed util-linux''
              | Hint_Curl \<Rightarrow> ''sudo pacman -S --needed curl''
              | Hint_Strings \<Rightarrow> ''sudo pacman -S --needed binutils'')
          else if di_id d = ''ubuntu'' \<or> di_id d = ''debian'' then Some (case hint of
                Hint_Qemu \<Rightarrow> ''sudo apt install qemu-system-x86''
              | Hint_Virtiofsd \<Rightarrow> ''sudo apt install virtiofsd''
              | Hint_Passt \<Rightarrow> ''sudo apt install passt''
              | Hint_Docker \<Rightarrow> ''sudo apt install docker.io && sudo systemctl enable --now docker''
              | Hint_Unshare \<Rightarrow> ''sudo apt install util-linux''
              | Hint_Curl \<Rightarrow> ''sudo apt install curl''
              | Hint_Strings \<Rightarrow> ''sudo apt install binutils'')
          else None)"

definition package_install_issue :: "distribution_info option \<Rightarrow> package_hint \<Rightarrow> string \<Rightarrow> string" where
  "package_install_issue distribution hint base =
     (case package_install_command distribution hint of
        Some command \<Rightarrow> base @ '' Try: '' @ command
      | None \<Rightarrow> base)"

definition kvm_access_issue :: "device_error option \<Rightarrow> string" where
  "kvm_access_issue err =
     (case err of
        Some NoDevice \<Rightarrow>
          ''/dev/kvm exists but has no driver behind it. Load the KVM module '' @
          ''(e.g. sudo modprobe kvm-intel or sudo modprobe kvm-amd). If you just '' @
          ''upgraded the kernel, reboot so modules match the running kernel.''
      | Some (OtherDeviceError errno) \<Rightarrow> ''/dev/kvm could not be opened (errno '' @ show_int errno @ '').''
      | Some PermissionDenied_Device \<Rightarrow>
          ''Current user cannot access /dev/kvm. Add the user to the kvm group and log in again.''
      | None \<Rightarrow>
          ''Current user cannot access /dev/kvm. Add the user to the kvm group and log in again.'')"

definition vhost_vsock_access_issue :: "device_error option \<Rightarrow> string" where
  "vhost_vsock_access_issue err =
     (case err of
        Some NoDevice \<Rightarrow>
          ''/dev/vhost-vsock exists but has no driver behind it. Load the module: '' @
          ''sudo modprobe vhost_vsock. If you just upgraded the kernel, reboot so '' @
          ''modules match the running kernel.''
      | Some (OtherDeviceError errno) \<Rightarrow>
          ''/dev/vhost-vsock could not be opened (errno '' @ show_int errno @ '').''
      | Some PermissionDenied_Device \<Rightarrow>
          ''Current user cannot access /dev/vhost-vsock. Check device permissions or group membership.''
      | None \<Rightarrow>
          ''Current user cannot access /dev/vhost-vsock. Check device permissions or group membership.'')"

section \<open>Evaluation\<close>

definition artifact_value :: "path \<Rightarrow> bool \<Rightarrow> string" where
  "artifact_value path exists = (if exists then path else ''missing'')"

definition available_value :: "bool \<Rightarrow> string" where
  "available_value v = (if v then ''available'' else ''missing'')"

definition subordinate_id_value :: "bool option \<Rightarrow> string" where
  "subordinate_id_value v =
     (case v of Some True \<Rightarrow> ''configured'' | Some False \<Rightarrow> ''missing'' | None \<Rightarrow> ''not checked'')"

record report_options =
  rp_title :: string
  rp_ok_message :: string
  rp_network :: "network_mode option"
  rp_include_builder_requirements :: bool

definition needs_unshare :: "host_probe \<Rightarrow> bool" where
  "needs_unshare probe = unwrap_or (map_option requires_unshare (hp_virtiofsd probe)) False"

definition device_issue :: "device_status_info \<Rightarrow> string \<Rightarrow> (device_error option \<Rightarrow> string) \<Rightarrow> string list" where
  "device_issue d missing access =
     (if \<not> ds_exists d then [missing]
      else if \<not> ds_readable d \<or> \<not> ds_writable d then [access (ds_error d)]
      else [])"

definition issue_if :: "bool \<Rightarrow> string \<Rightarrow> string list" where
  "issue_if c issue = (if c then [issue] else [])"

text \<open>The issues, in the order the source pushes them.\<close>

definition probe_issues :: "host_probe \<Rightarrow> report_options \<Rightarrow> string list" where
  "probe_issues probe options =
     (let artifacts_missing = (\<not> hp_kernel_exists probe \<or> \<not> hp_initrd_exists probe \<or> \<not> hp_rootfs_exists probe);
          require_passt = (rp_network options = Some Passt);
          builder = rp_include_builder_requirements options;
          install = package_install_issue (hp_distribution probe)
      in issue_if (hp_os probe \<noteq> ''linux'') ''Linux host backend must run on Linux.''
         @ issue_if (hp_arch probe \<noteq> ''x86_64'') ''Linux spike currently requires x86_64.''
         @ issue_if (hp_cpu_virtualization_available probe = Some False)
             ''CPU virtualization flags are missing. Enable VT-x/AMD-V or nested virtualization.''
         @ issue_if (\<not> hp_qemu_available probe) (install Hint_Qemu ''Install qemu-system-x86_64.'')
         @ issue_if (hp_virtiofsd probe = None)
             (install Hint_Virtiofsd ''Install virtiofsd, or set FEND_VIRTIOFSD to the binary path.'')
         @ issue_if (needs_unshare probe \<and> \<not> hp_unshare_available probe)
             (install Hint_Unshare ''Install unshare (usually from util-linux) for rootless virtiofsd.'')
         @ issue_if (needs_unshare probe
                 \<and> (hp_subuid_configured probe = Some False \<or> hp_subgid_configured probe = Some False))
             ''Current user is missing /etc/subuid or /etc/subgid mappings required for rootless virtiofsd.''
         @ issue_if (require_passt \<and> \<not> hp_passt_available probe)
             (install Hint_Passt ''Install passt, or launch with FEND_QEMU_NETWORK=user/off.'')
         @ device_issue (hp_kvm probe)
             ''/dev/kvm is missing. Enable virtualization and load the KVM module.'' kvm_access_issue
         @ device_issue (hp_vhost_vsock probe)
             ''/dev/vhost-vsock is missing. Try: sudo modprobe vhost_vsock.'' vhost_vsock_access_issue
         @ (if artifacts_missing
            then [''Run `fend setup` to prepare Linux runtime artifacts.'']
                 @ issue_if (builder \<and> \<not> hp_curl_available probe)
                     (install Hint_Curl ''Install curl so `fend setup` can download runtime assets.'')
                 @ issue_if (builder \<and> \<not> hp_strings_available probe)
                     (install Hint_Strings
                       ''Install strings (usually from binutils) so `fend setup` can detect the guest kernel version.'')
                 @ issue_if (builder \<and> \<not> hp_docker_available probe)
                     (install Hint_Docker
                       ''Install Docker and start the daemon. `fend setup` currently uses Docker to build rootfs.img.'')
            else []))"

definition probe_fields :: "host_probe \<Rightarrow> report_options \<Rightarrow> (string \<times> string) list" where
  "probe_fields probe options =
     (let artifacts = from_runtime_dir (hp_runtime_dir probe);
          require_passt = (rp_network options = Some Passt)
      in [(''os'', hp_os probe),
          (''architecture'', hp_arch probe),
          (''distribution'', unwrap_or (map_option distribution_display (hp_distribution probe)) ''unknown''),
          (''runtime'', hp_runtime_dir probe),
          (''kernel'', artifact_value (ra_kernel artifacts) (hp_kernel_exists probe)),
          (''initrd'', artifact_value (ra_initrd artifacts) (hp_initrd_exists probe)),
          (''rootfs'', artifact_value (ra_rootfs artifacts) (hp_rootfs_exists probe)),
          (''qemu'', available_value (hp_qemu_available probe)),
          (''virtiofsd'', unwrap_or (map_option display_value (hp_virtiofsd probe)) ''missing'')]
         @ (if needs_unshare probe
            then [(''unshare'', available_value (hp_unshare_available probe)),
                  (''subuid'', subordinate_id_value (hp_subuid_configured probe)),
                  (''subgid'', subordinate_id_value (hp_subgid_configured probe))]
            else [])
         @ (case rp_network options of Some network \<Rightarrow> [(''network'', network_label network)] | None \<Rightarrow> [])
         @ (if rp_network options = None \<or> require_passt
            then [(''passt'', available_value (hp_passt_available probe))] else [])
         @ (if rp_include_builder_requirements options
            then [(''curl'', available_value (hp_curl_available probe)),
                  (''strings'', available_value (hp_strings_available probe)),
                  (''docker'', available_value (hp_docker_available probe))]
            else [])
         @ [(''/dev/kvm'', device_label (hp_kvm probe)),
            (''/dev/vhost-vsock'', device_label (hp_vhost_vsock probe)),
            (''cpu virt'',
             case hp_cpu_virtualization_available probe of
               Some True \<Rightarrow> ''available'' | Some False \<Rightarrow> ''missing'' | None \<Rightarrow> ''not checked'')])"

definition evaluate_with_options :: "host_probe \<Rightarrow> report_options \<Rightarrow> doctor_report" where
  "evaluate_with_options probe options =
     \<lparr>dr_title = rp_title options, dr_ok_message = rp_ok_message options,
      dr_fields = probe_fields probe options, dr_issues = probe_issues probe options\<rparr>"

definition evaluate :: "host_probe \<Rightarrow> doctor_report" where
  "evaluate probe =
     evaluate_with_options probe
       \<lparr>rp_title = ''fend linux doctor'', rp_ok_message = ''ok  linux backend prerequisites look ready'',
        rp_network = None, rp_include_builder_requirements = True\<rparr>"

definition evaluate_launch :: "host_probe \<Rightarrow> network_mode \<Rightarrow> doctor_report" where
  "evaluate_launch probe network =
     evaluate_with_options probe
       \<lparr>rp_title = ''fend linux launch preflight'', rp_ok_message = ''ok  linux launch prerequisites look ready'',
        rp_network = Some network, rp_include_builder_requirements = False\<rparr>"

text \<open>\<open>render_doctor_report\<close> of linux/src/cli.rs.\<close>

definition render_doctor_report :: "doctor_report \<Rightarrow> string" where
  "render_doctor_report report =
     (let width = fold max (map (length \<circ> fst) (dr_fields report)) 0
      in writeln (dr_title report)
         @ concat (map (\<lambda>(label, v). writeln (''  '' @ pad_right width label @ ''  '' @ v)) (dr_fields report))
         @ (if dr_issues report = [] then writeln [] @ writeln (dr_ok_message report)
            else writeln [] @ writeln ''issues''
                 @ concat (map (\<lambda>issue. writeln (''  - '' @ issue)) (dr_issues report))))"

section \<open>What a clean report means\<close>

text \<open>The prerequisites of a launch, stated without the report.\<close>

definition device_usable :: "device_status_info \<Rightarrow> bool" where
  "device_usable d \<longleftrightarrow> ds_exists d \<and> ds_readable d \<and> ds_writable d"

definition launch_ready :: "host_probe \<Rightarrow> network_mode \<Rightarrow> bool" where
  "launch_ready probe network \<longleftrightarrow>
     hp_os probe = ''linux'' \<and> hp_arch probe = ''x86_64''
     \<and> hp_cpu_virtualization_available probe \<noteq> Some False
     \<and> hp_qemu_available probe
     \<and> (\<exists>v. hp_virtiofsd probe = Some v
          \<and> (requires_unshare v \<longrightarrow> hp_unshare_available probe
               \<and> hp_subuid_configured probe \<noteq> Some False \<and> hp_subgid_configured probe \<noteq> Some False))
     \<and> (network = Passt \<longrightarrow> hp_passt_available probe)
     \<and> device_usable (hp_kvm probe) \<and> device_usable (hp_vhost_vsock probe)
     \<and> hp_kernel_exists probe \<and> hp_initrd_exists probe \<and> hp_rootfs_exists probe"

lemma issue_if_Nil [simp]: "issue_if c issue = [] \<longleftrightarrow> \<not> c"
  by (simp add: issue_if_def)

lemma device_issue_Nil [simp]: "device_issue d missing access = [] \<longleftrightarrow> device_usable d"
  by (simp add: device_issue_def device_usable_def)

lemma launch_issues_iff: "dr_issues (evaluate_launch probe network) = [] \<longleftrightarrow> launch_ready probe network"
  by (cases "hp_virtiofsd probe")
     (auto simp: evaluate_launch_def evaluate_with_options_def probe_issues_def launch_ready_def
       needs_unshare_def Let_def)

lemma device_usable_iff:
  "device_usable (device_status de path) \<longleftrightarrow> de_exists de path \<and> de_open_rw de path = Ok ()"
  by (simp add: device_usable_def device_status_def Let_def split: result.splits)

lemma resolve_virtiofsd_is_file: "resolve_virtiofsd is_file var_os = Some v \<Longrightarrow> is_file (vfsd_path v)"
  unfolding resolve_virtiofsd_def resolve_virtiofsd_with_paths_def
  by (auto simp: opt_or_def new_resolved_virtiofsd_def split: option.splits if_splits
      dest: resolve_candidate_is_file find_is_file locate_in_path_is_file)

text \<open>
  (C29) The launch preflight on the current host reports no issue exactly when the host can
  launch: the right system, QEMU on the search path, a virtiofsd that is a file (with unshare
  and subordinate ids where it runs rootless), passt when the network mode needs it, both
  devices open for reading and writing, and the three runtime artifacts present. The network
  mode is otherwise irrelevant, and the tools that only build the runtime are not asked for.
\<close>

theorem launch_preflight_exact:
  "dr_issues (evaluate_launch (current_launch_probe de runtime_dir) network) = [] \<longleftrightarrow>
     de_os de = ''linux'' \<and> de_arch de = ''x86_64'' \<and> cpu_virtualization_available de \<noteq> Some False
     \<and> command_exists de ''qemu-system-x86_64''
     \<and> (\<exists>v. resolve_virtiofsd (ce_is_file (de_cli de)) (ce_var_os (de_cli de)) = Some v
          \<and> ce_is_file (de_cli de) (vfsd_path v)
          \<and> (requires_unshare v \<longrightarrow> command_exists de ''unshare''
               \<and> subordinate_id_configured de ''/etc/subuid'' \<and> subordinate_id_configured de ''/etc/subgid''))
     \<and> (network = Passt \<longrightarrow> command_exists de ''passt'')
     \<and> (\<forall>dev \<in> {''/dev/kvm'', ''/dev/vhost-vsock''}. de_exists de dev \<and> de_open_rw de dev = Ok ())
     \<and> (\<forall>f \<in> {''vmlinuz'', ''initrd'', ''rootfs.img''}. ce_is_file (de_cli de) (path_join runtime_dir f))"
  unfolding launch_issues_iff launch_ready_def current_launch_probe_def current_probe_with_builder_checks_def
  by (auto simp: Let_def device_usable_iff from_runtime_dir_def dest: resolve_virtiofsd_is_file)

text \<open>A host on which nothing is missing, with virtiofsd in its rootless place.\<close>

definition ready_host :: doctor_env where
  "ready_host =
     \<lparr>de_cli = \<lparr>ce_var_os = (\<lambda>k. if k = ''PATH'' then Some ''/usr/bin:/bin''
                            else if k = ''USER'' then Some ''ann'' else None),
               ce_current_dir = Ok ''/home/ann'', ce_since_epoch = Some 1700000000, ce_pid = 7,
               ce_is_file = (\<lambda>p. p \<in> {''/usr/lib/virtiofsd'', ''/usr/bin/qemu-system-x86_64'', ''/bin/unshare'',
                  ''/usr/bin/passt'', ''/rt/vmlinuz'', ''/rt/initrd'', ''/rt/rootfs.img''})\<rparr>,
      de_os = ''linux'', de_arch = ''x86_64'',
      de_read = (\<lambda>p. if p \<in> {''/etc/subuid'', ''/etc/subgid''} then Some ''ann:100000:65536''
                      else if p = ''/proc/cpuinfo'' then Some ''flags : fpu vmx ssse3'' else None),
      de_exists = (\<lambda>p. True), de_open_rw = (\<lambda>p. Ok ()), de_succeeds = (\<lambda>p a. None)\<rparr>"

lemma launch_preflight_exact_witness:
  "dr_issues (evaluate_launch (current_launch_probe ready_host ''/rt'') Passt) = []
   \<and> command_exists ready_host ''passt'' \<and> subordinate_id_configured ready_host ''/etc/subgid''"
proof -
  have "dr_issues (evaluate_launch (current_launch_probe ready_host ''/rt'') Passt) = []"
    by code_simp
  moreover have "command_exists ready_host ''passt''" "subordinate_id_configured ready_host ''/etc/subgid''"
    by code_simp+
  ultimately show ?thesis
    using launch_preflight_exact [of ready_host "''/rt''" Passt] by blast
qed

end
