(* ===== verification/Cli_Usage.thy ===== *)
theory Cli_Usage
  imports Rust_Strings
begin

text \<open>
  The help texts of the command line (linux/src/cli.rs), each as the list of its lines; every
  line ends with a newline.
\<close>

definition text_lines :: "string list \<Rightarrow> string" where
  "text_lines ls = concat (map (\<lambda>l. l @ [CHR 0x0A]) ls)"

definition usage_for :: "string \<Rightarrow> string" where
  "usage_for program = text_lines
     [''usage: '' @ program @ '' <subcommand> [options]'',
      ''       '' @ program @ '' [run options] -- <command> [args...]'',
      ''       '' @ program @ '' [run options] <command> [args...]'',
      [],
      ''subcommands:'',
      ''  doctor      Check Linux host prerequisites and runtime artifacts.'',
      ''  setup       Prepare Linux runtime artifacts in ~/.fend/runtime.'',
      ''  plan        Print the QEMU and virtiofsd launch plan without starting a VM.'',
      ''  launch      Start virtiofsd sidecars and QEMU from the Rust Linux host path.'',
      ''  run         Launch (or reuse) a project VM, run one command, attach output.'',
      ''  status      List warm VMs managed by the host daemon.'',
      ''  stop        Stop a daemon-managed project VM (or a legacy run-dir stack).'',
      ''  smoke       Verify host-to-fendd vsock command execution after a VM boots.'',
      [],
      ''common options:'',
      ''  -h, --help'',
      ''  -V, --version'',
      [],
      ''If no subcommand is given, '' @ program @ '' treats the remaining arguments as a sandboxed command to run.'']"

definition usage :: string where
  "usage = usage_for ''fend-linux''"

definition doctor_usage_for :: "string \<Rightarrow> string" where
  "doctor_usage_for program = text_lines
     [''usage: '' @ program @ '' doctor [--runtime-dir path]'',
      [],
      ''options:'',
      ''  --runtime-dir path     Runtime dir containing vmlinuz, initrd, rootfs.img.'',
      ''                         Default: $FEND_RUNTIME_DIR or $FEND_HOME/runtime/linux-x86_64.'']"

definition doctor_usage :: string where
  "doctor_usage = doctor_usage_for ''fend-linux''"

definition setup_usage_for :: "string \<Rightarrow> string" where
  "setup_usage_for program = text_lines
     [''usage: '' @ program @ '' setup [options]'',
      [],
      ''options:'',
      ''  --runtime-dir path     Runtime dir containing vmlinuz, initrd, rootfs.img.'',
      ''  --work-dir path        Temporary work dir for downloads and Docker build context.'',
      ''  --rebuild-rootfs       Rebuild rootfs.img even if it already exists.'',
      ''  --force-downloads      Re-download kernel/initrd even if they already exist.'',
      ''  --skip-claude          Skip the optional Claude guest tool download.'',
      [],
      ''This is usually automatic on first run; use it when you want to prewarm or debug Linux setup.'']"

definition setup_usage :: string where
  "setup_usage = setup_usage_for ''fend-linux''"

definition plan_usage_for :: "string \<Rightarrow> string" where
  "plan_usage_for program = text_lines
     [''usage: '' @ program @ '' plan [workspace] [options]'',
      [],
      ''options:'',
      ''  --runtime-dir path     Runtime dir containing vmlinuz, initrd, rootfs.img.'',
      ''  --workspace path       Host project directory. Positional workspace is also accepted.'',
      ''  --cache-dir path       Host package-manager cache mount.'',
      ''  --tools-dir path       Host tool cache mount.'',
      ''  --run-dir path         Directory for QEMU and virtiofsd sockets/logs.'',
      ''  --cid n                Guest vsock CID. Default: 42.'',
      ''  --cpus n               vCPU count. Default: 2.'',
      ''  --memory-mib n         Memory in MiB. Default: 2048.'',
      ''  --network mode         passt, user, or off. Default: passt.'',
      ''  --epoch n              Epoch value passed to the guest.'',
      ''  --guest-workspace path Guest workspace path. Default: /workspace.'']"

definition plan_usage :: string where
  "plan_usage = plan_usage_for ''fend-linux''"

definition launch_usage_for :: "string \<Rightarrow> string" where
  "launch_usage_for program = text_lines
     [''usage: '' @ program @ '' launch [workspace] [options]'',
      [],
      ''options:'',
      ''  --runtime-dir path     Runtime dir containing vmlinuz, initrd, rootfs.img.'',
      ''  --workspace path       Host project directory. Positional workspace is also accepted.'',
      ''  --cache-dir path       Host package-manager cache mount.'',
      ''  --tools-dir path       Host tool cache mount.'',
      ''  --run-dir path         Directory for QEMU and virtiofsd sockets/logs.'',
      ''  --cid n                Guest vsock CID. Default: 42.'',
      ''  --cpus n               vCPU count. Default: 2.'',
      ''  --memory-mib n         Memory in MiB. Default: 2048.'',
      ''  --network mode         passt, user, or off. Default: passt.'',
      ''  --epoch n              Epoch value passed to the guest.'',
      ''  --guest-workspace path Guest workspace path. Default: /workspace.'']"

definition launch_usage :: string where
  "launch_usage = launch_usage_for ''fend-linux''"

definition run_usage_for :: "string \<Rightarrow> string" where
  "run_usage_for program = text_lines
     [''usage: '' @ program @ '' run [options] -- <command> [args...]'',
      ''       '' @ program @ '' [options] <command> [args...]'',
      [],
      ''options:'',
      ''  --runtime-dir path     Runtime dir containing vmlinuz, initrd, rootfs.img.'',
      ''  --workspace path       Host project directory to mount. Default: current directory.'',
      ''  --cache-dir path       Host package-manager cache mount.'',
      ''  --tools-dir path       Host tool cache mount.'',
      ''  --run-dir path         Directory for QEMU and virtiofsd sockets/logs.'',
      ''  --cid n                Guest vsock CID. Default: autogenerated per run.'',
      ''  --cpus n               vCPU count. Default: 2.'',
      ''  --memory-mib n         Memory in MiB. Default: 2048.'',
      ''  --vm-network mode      passt, user, or off. Default: passt.'',
      ''  --network mode         Command network policy: on or off. Default: on.'',
      ''  --timeout sec          Wait for fendd session startup. Default: 30.'',
      ''  --cwd path             Guest working directory. Default: /workspace.'',
      ''  --env KEY=VALUE        Extra environment variable for the guest command.'',
      [],
      ''This path is disposable: it boots a VM, runs one command with live output, forwards guest ports to localhost, and tears the VM down when the command exits.'']"

definition run_usage :: string where
  "run_usage = run_usage_for ''fend-linux''"

definition stop_usage_for :: "string \<Rightarrow> string" where
  "stop_usage_for program = text_lines
     [''usage: '' @ program @ '' stop [options]'',
      [],
      ''options:'',
      ''  --project path         Stop the daemon-managed VM for this project. Default: current dir.'',
      ''  --all                  Stop every daemon-managed VM.'',
      ''  --run-dir path         Legacy: stop a specific direct-boot run dir.'',
      ''                         Default for run-dir mode: $FEND_RUN_DIR or /tmp/fend-linux.'',
      ''  --timeout sec          Grace period before SIGKILL. Default: 3.'',
      [],
      ''When --run-dir is given, the legacy direct-boot stop path is used.'',
      ''Otherwise the daemon is queried; if no daemon is running, this is a no-op.'']"

definition stop_usage :: string where
  "stop_usage = stop_usage_for ''fend-linux''"

definition status_usage_for :: "string \<Rightarrow> string" where
  "status_usage_for program = text_lines
     [''usage: '' @ program @ '' status'',
      [],
      ''List warm VMs currently managed by the host daemon, with their project, vsock CID,'',
      ''state, active-session count, and idle time. If no daemon is running, prints an empty list.'']"

definition status_usage :: string where
  "status_usage = status_usage_for ''fend-linux''"

definition smoke_usage_for :: "string \<Rightarrow> string" where
  "smoke_usage_for program = text_lines
     [''usage: '' @ program @ '' smoke [options] [-- command [args...]]'',
      [],
      ''options:'',
      ''  --cid n          Guest vsock CID. Default: $FEND_QEMU_CID or 42.'',
      ''  --port n         fendd command vsock port. Default: 1024.'',
      ''  --timeout sec    Wait for fendd to become reachable. Default: 30.'',
      ''  --cwd path       Guest working directory. Default: /workspace.'',
      ''  --env KEY=VALUE  Extra environment variable for the smoke command.'',
      [],
      ''If command is omitted, '' @ program @ '' runs: /bin/echo fend-linux-ok'']"

definition smoke_usage :: string where
  "smoke_usage = smoke_usage_for ''fend-linux''"

end
