(* ===== verification/Semver.thy ===== *)
theory Semver
  imports Rust_Strings "HOL-Library.Product_Lexorder" "HOL-Library.Option_ord"
begin

text \<open>
  Versions and version requirements of the runtime resolver (the second half of
  linux/src/runtime.rs): parsing, ordering, the comparators of a requirement and the choice
  of the latest matching release. Version numbers are 64-bit words, whose successor wraps as
  in a release build. The reference semantics of npm ranges at the end is what the
  comparators are compared with.
\<close>

section \<open>Versions\<close>

datatype semver = SemVer (sv_major: u64) (sv_minor: u64) (sv_patch: u64)

definition semver_key :: "semver \<Rightarrow> nat \<times> nat \<times> nat" where
  "semver_key v = (unat (sv_major v), unat (sv_minor v), unat (sv_patch v))"

lemma semver_key_inject: "semver_key v = semver_key w \<longleftrightarrow> v = w"
  by (cases v; cases w) (simp add: semver_key_def word_unat_eq_iff)

text \<open>The derived order compares the fields in turn.\<close>

instantiation semver :: linorder
begin

definition less_eq_semver :: "semver \<Rightarrow> semver \<Rightarrow> bool" where
  "v \<le> w \<longleftrightarrow> semver_key v \<le> semver_key w"

definition less_semver :: "semver \<Rightarrow> semver \<Rightarrow> bool" where
  "v < w \<longleftrightarrow> semver_key v < semver_key w"

instance
  by standard (auto simp: less_eq_semver_def less_semver_def semver_key_inject [symmetric])

end

definition normalize_version :: "string \<Rightarrow> string" where
  "normalize_version value = trim_start_matches (CHR ''V'') (trim_start_matches (CHR ''v'') (trim value))"

text \<open>The parts between dots; a third part may be missing, a fourth may not exist.\<close>

definition semver_parse :: "string \<Rightarrow> semver option" where
  "semver_parse raw =
     (let normalized = normalize_version raw
      in if CHR ''-'' \<in> set normalized then None
         else case split_on (CHR ''+'') normalized of
                [] \<Rightarrow> None
              | core # _ \<Rightarrow>
                  (let parts = split_on (CHR ''.'') core;
                       part = (\<lambda>i. parse_u64 (if i < length parts then parts ! i else ''0''))
                   in if parts = [] \<or> 3 < length parts then None
                      else case (part 0, part 1, part 2) of
                             (Some major, Some minor, Some patch) \<Rightarrow> Some (SemVer major minor patch)
                           | _ \<Rightarrow> None))"

definition semver_is_full :: "string \<Rightarrow> bool" where
  "semver_is_full raw =
     (let parts = split_on (CHR ''.'') (normalize_version raw)
      in length parts = 3 \<and> list_all (\<lambda>p. parse_u64 p \<noteq> None) parts)"

record partial_semver =
  ps_major :: u64
  ps_minor :: "u64 option"
  ps_patch :: "u64 option"

definition lower_bound :: "partial_semver \<Rightarrow> semver" where
  "lower_bound p = SemVer (ps_major p) (unwrap_or (ps_minor p) 0) (unwrap_or (ps_patch p) 0)"

text \<open>Outside \<open>None\<close> is a part that does not parse, inside it is a wildcard.\<close>

definition parse_partial_part :: "string \<Rightarrow> u64 option option" where
  "parse_partial_part raw =
     (if map to_ascii_lower raw = ''x'' \<or> map to_ascii_lower raw = ''*'' then Some None
      else map_option Some (parse_u64 raw))"

definition parse_partial_semver :: "string \<Rightarrow> partial_semver option" where
  "parse_partial_semver raw =
     (let normalized = normalize_version raw
      in if normalized = [] then None
         else case split_on (CHR ''+'') normalized of
                [] \<Rightarrow> None
              | core # _ \<Rightarrow>
                  (let parts = split_on (CHR ''.'') core
                   in if parts = [] \<or> 3 < length parts then None
                      else case parse_partial_part (parts ! 0) of
                             None \<Rightarrow> None
                           | Some None \<Rightarrow> None
                           | Some (Some major) \<Rightarrow>
                               (case (if 1 < length parts then parse_partial_part (parts ! 1) else Some None) of
                                  None \<Rightarrow> None
                                | Some minor \<Rightarrow>
                                    (case (if 2 < length parts then parse_partial_part (parts ! 2) else Some None) of
                                       None \<Rightarrow> None
                                     | Some patch \<Rightarrow> Some \<lparr>ps_major = major, ps_minor = minor, ps_patch = patch\<rparr>))))"

section \<open>Requirements\<close>

text \<open>\<open>str::split\<close> with a two-character pattern.\<close>

fun split_pair :: "char \<Rightarrow> string \<Rightarrow> string list" where
  "split_pair d [] = [[]]"
| "split_pair d [c] = [[c]]"
| "split_pair d (c # e # cs) =
     (if c = d \<and> e = d then [] # split_pair d cs
      else case split_pair d (e # cs) of [] \<Rightarrow> [[c]] | l # ls \<Rightarrow> (c # l) # ls)"

fun join_operators :: "string list \<Rightarrow> string list" where
  "join_operators [] = []"
| "join_operators [t] = [t]"
| "join_operators (s # t # ts) =
     (if s \<in> {''>='', ''<='', ''>'', ''<'', ''=''} then (s @ t) # join_operators ts
      else s # join_operators (t # ts))"

definition comparator_tokens :: "string \<Rightarrow> string list" where
  "comparator_tokens clause = join_operators (split_whitespace clause)"

definition caret_upper :: "partial_semver \<Rightarrow> semver" where
  "caret_upper base =
     (if 0 < ps_major base then SemVer (ps_major base + 1) 0 0
      else case ps_minor base of
             Some minor \<Rightarrow> SemVer 0 (minor + 1) 0
           | None \<Rightarrow> SemVer 0 0 (unwrap_or (ps_patch base) 0 + 1))"

definition tilde_upper :: "partial_semver \<Rightarrow> semver" where
  "tilde_upper base =
     (case ps_minor base of
        None \<Rightarrow> SemVer (ps_major base + 1) 0 0
      | Some minor \<Rightarrow> SemVer (ps_major base) (minor + 1) 0)"

definition operator_accepts :: "string \<Rightarrow> semver \<Rightarrow> semver \<Rightarrow> bool" where
  "operator_accepts operator bound version =
     (if operator = ''>='' then bound \<le> version
      else if operator = ''<='' then version \<le> bound
      else if operator = ''>'' then bound < version
      else if operator = ''<'' then version < bound
      else if operator = ''='' then version = bound
      else False)"

text \<open>The loop over the operators: the first that is a prefix decides.\<close>

fun try_operators :: "string list \<Rightarrow> string \<Rightarrow> semver \<Rightarrow> bool option" where
  "try_operators [] token version = None"
| "try_operators (operator # ops) token version =
     (case strip_prefix operator token of
        None \<Rightarrow> try_operators ops token version
      | Some rest \<Rightarrow>
          Some (case parse_partial_semver rest of
                  None \<Rightarrow> False
                | Some value \<Rightarrow> operator_accepts operator (lower_bound value) version))"

definition exact_accepts :: "partial_semver \<Rightarrow> semver \<Rightarrow> bool" where
  "exact_accepts expected version \<longleftrightarrow>
     sv_major version = ps_major expected
     \<and> (case ps_minor expected of None \<Rightarrow> True | Some minor \<Rightarrow> sv_minor version = minor)
     \<and> (case ps_patch expected of None \<Rightarrow> True | Some patch \<Rightarrow> sv_patch version = patch)"

definition comparator_accepts :: "string \<Rightarrow> semver \<Rightarrow> bool" where
  "comparator_accepts raw version =
     (let token = normalize_version raw
      in if token = [] \<or> token = ''*'' then True
         else case strip_prefix ''^'' token of
           Some rest \<Rightarrow>
             (case parse_partial_semver rest of
                None \<Rightarrow> False
              | Some base \<Rightarrow> lower_bound base \<le> version \<and> version < caret_upper base)
         | None \<Rightarrow>
             (case strip_prefix ''~'' token of
                Some rest \<Rightarrow>
                  (case parse_partial_semver rest of
                     None \<Rightarrow> False
                   | Some base \<Rightarrow> lower_bound base \<le> version \<and> version < tilde_upper base)
              | None \<Rightarrow>
                  (case try_operators [''>='', ''<='', ''>'', ''<'', ''=''] token version of
                     Some b \<Rightarrow> b
                   | None \<Rightarrow>
                       (case parse_partial_semver token of
                          None \<Rightarrow> False
                        | Some expected \<Rightarrow> exact_accepts expected version))))"

definition version_satisfies :: "semver \<Rightarrow> string \<Rightarrow> bool" where
  "version_satisfies version requirement =
     list_ex (\<lambda>clause. let tokens = comparator_tokens clause
                       in tokens \<noteq> [] \<and> list_all (\<lambda>t. comparator_accepts t version) tokens)
       (split_pair (CHR ''|'') requirement)"

section \<open>The latest match\<close>

text \<open>\<open>Iterator::max_by\<close> keeps the last of equal elements.\<close>

fun max_by :: "('a \<Rightarrow> 'k :: linorder) \<Rightarrow> 'a list \<Rightarrow> 'a option" where
  "max_by key [] = None"
| "max_by key (x # xs) = Some (fold (\<lambda>y best. if key y < key best then best else y) xs x)"

lemma fold_max_by:
  fixes key :: "'a \<Rightarrow> 'k :: linorder"
  shows "fold (\<lambda>y best. if key y < key best then best else y) xs x \<in> set (x # xs)
   \<and> (\<forall>y \<in> set (x # xs). key y \<le> key (fold (\<lambda>y best. if key y < key best then best else y) xs x))"
proof (induction xs arbitrary: x)
  case (Cons y ys)
  let ?m = "if key y < key x then x else y"
  have "key x \<le> key ?m" "key y \<le> key ?m" by auto
  with Cons.IH [of ?m] show ?case by (auto simp del: if_weak_cong intro: order_trans split: if_splits)
qed simp

lemma max_by_Some:
  "max_by key xs = Some m \<Longrightarrow> m \<in> set xs \<and> (\<forall>y \<in> set xs. key y \<le> key m)"
  using fold_max_by [where key = key] by (cases xs) auto

lemma max_by_None [simp]: "max_by key xs = None \<longleftrightarrow> xs = []"
  by (cases xs) simp_all

record node_release =
  nr_version :: string
  nr_is_lts :: bool

text \<open>Releases with their parsed version that satisfy a requirement.\<close>

definition matching :: "('r \<Rightarrow> string) \<Rightarrow> string \<Rightarrow> 'r list \<Rightarrow> ('r \<times> semver) list" where
  "matching version_of requirement releases =
     List.map_filter (\<lambda>r. case semver_parse (version_of r) of
                            None \<Rightarrow> None
                          | Some v \<Rightarrow> if version_satisfies v requirement then Some (r, v) else None) releases"

definition select_latest_node_version :: "string \<Rightarrow> node_release list \<Rightarrow> bool \<Rightarrow> string option" where
  "select_latest_node_version requirement releases prefer_lts =
     (let matches = matching nr_version requirement releases;
          preferred = (if prefer_lts then filter (\<lambda>(r, v). nr_is_lts r) matches else []);
          candidates = (if preferred = [] then matches else preferred)
      in map_option (\<lambda>(r, v). nr_version r) (max_by snd candidates))"

definition select_latest_bun_version :: "string \<Rightarrow> string list \<Rightarrow> string option" where
  "select_latest_bun_version requirement releases =
     map_option fst (max_by snd (matching (\<lambda>r. r) requirement releases))"

lemma set_matching:
  "(r, v) \<in> set (matching version_of requirement releases) \<longleftrightarrow>
     r \<in> set releases \<and> semver_parse (version_of r) = Some v \<and> version_satisfies v requirement"
  by (auto simp: matching_def List.map_filter_def image_iff split: option.splits if_splits)


text \<open>
  (C33) The release that is chosen: one of the releases, matching the requirement and at least
  as new as every other matching release; with \<open>prefer_lts\<close> the comparison is among the LTS
  releases whenever one of them matches; and none is chosen only when nothing matches.
\<close>

theorem latest_node_version:
  "(select_latest_node_version requirement releases prefer_lts = None \<longleftrightarrow> matching nr_version requirement releases = [])
   \<and> (select_latest_node_version requirement releases prefer_lts = Some s \<longrightarrow>
        (\<exists>r v. r \<in> set releases \<and> nr_version r = s \<and> semver_parse s = Some v \<and> version_satisfies v requirement
           \<and> (\<forall>(r', v') \<in> set (matching nr_version requirement releases).
                (if prefer_lts \<and> (\<exists>(q, u) \<in> set (matching nr_version requirement releases). nr_is_lts q)
                 then nr_is_lts r \<and> (nr_is_lts r' \<longrightarrow> v' \<le> v) else v' \<le> v))))"
proof -
  let ?ms = "matching nr_version requirement releases"
  let ?pref = "if prefer_lts then filter (\<lambda>(r, v). nr_is_lts r) ?ms else []"
  let ?cs = "if ?pref = [] then ?ms else ?pref"
  have sel: "select_latest_node_version requirement releases prefer_lts = map_option (\<lambda>(r, v). nr_version r) (max_by snd ?cs)"
    by (simp add: select_latest_node_version_def Let_def)
  have pref: "?pref \<noteq> [] \<longleftrightarrow> prefer_lts \<and> (\<exists>(q, u) \<in> set ?ms. nr_is_lts q)"
    by (auto simp: filter_empty_conv)
  show ?thesis
  proof (cases "max_by snd ?cs")
    case None
    then have "?ms = []" by (auto split: if_splits)
    with None sel show ?thesis by simp
  next
    case (Some c)
    obtain r v where c: "c = (r, v)" by (cases c)
    from max_by_Some [OF Some] c have mem: "(r, v) \<in> set ?cs" and top: "\<forall>(r', v') \<in> set ?cs. v' \<le> v"
      by (auto simp only: split_beta snd_conv)
    have sub: "set ?cs \<subseteq> set ?ms" by auto
    with mem have r: "r \<in> set releases" "semver_parse (nr_version r) = Some v" "version_satisfies v requirement"
      by (auto simp: set_matching)
    have best: "\<forall>(r', v') \<in> set ?ms. (if prefer_lts \<and> (\<exists>(q, u) \<in> set ?ms. nr_is_lts q)
        then nr_is_lts r \<and> (nr_is_lts r' \<longrightarrow> v' \<le> v) else v' \<le> v)"
      using mem top unfolding pref [symmetric] by (auto split: if_splits)
    have some: "?ms \<noteq> []" using mem sub by (metis empty_iff list.set(1) subset_empty subset_iff)
    show ?thesis
    proof (intro conjI impI)
      show "select_latest_node_version requirement releases prefer_lts = None \<longleftrightarrow> ?ms = []"
        using sel Some some by simp
      assume "select_latest_node_version requirement releases prefer_lts = Some s"
      with sel Some c have "nr_version r = s" by simp
      with r best show "\<exists>r v. r \<in> set releases \<and> nr_version r = s \<and> semver_parse s = Some v
          \<and> version_satisfies v requirement
          \<and> (\<forall>(r', v') \<in> set ?ms. (if prefer_lts \<and> (\<exists>(q, u) \<in> set ?ms. nr_is_lts q)
                then nr_is_lts r \<and> (nr_is_lts r' \<longrightarrow> v' \<le> v) else v' \<le> v))"
        by blast
    qed
  qed
qed

section \<open>The reference semantics\<close>

text \<open>
  Comparators on full versions as npm defines them, over natural numbers: every comparator is
  an interval. \<open>sem\<close> reads a version.
\<close>

datatype comparator = Caret nat nat nat | Tilde nat nat nat | AtLeast nat nat nat | AtMost nat nat nat
  | Above nat nat nat | Below nat nat nat | Exactly nat nat nat

fun npm_accepts :: "comparator \<Rightarrow> nat \<times> nat \<times> nat \<Rightarrow> bool" where
  "npm_accepts (Caret a b c) v \<longleftrightarrow> (a, b, c) \<le> v
     \<and> v < (if 0 < a then (a + 1, 0, 0) else if 0 < b then (0, b + 1, 0) else (0, 0, c + 1))"
| "npm_accepts (Tilde a b c) v \<longleftrightarrow> (a, b, c) \<le> v \<and> v < (a, b + 1, 0)"
| "npm_accepts (AtLeast a b c) v \<longleftrightarrow> (a, b, c) \<le> v"
| "npm_accepts (AtMost a b c) v \<longleftrightarrow> v \<le> (a, b, c)"
| "npm_accepts (Above a b c) v \<longleftrightarrow> (a, b, c) < v"
| "npm_accepts (Below a b c) v \<longleftrightarrow> v < (a, b, c)"
| "npm_accepts (Exactly a b c) v \<longleftrightarrow> v = (a, b, c)"

fun operator_text :: "comparator \<Rightarrow> string" where
  "operator_text (Caret a b c) = ''^''"
| "operator_text (Tilde a b c) = ''~''"
| "operator_text (AtLeast a b c) = ''>=''"
| "operator_text (AtMost a b c) = ''<=''"
| "operator_text (Above a b c) = ''>''"
| "operator_text (Below a b c) = ''<''"
| "operator_text (Exactly a b c) = []"

fun numbers :: "comparator \<Rightarrow> nat \<times> nat \<times> nat" where
  "numbers (Caret a b c) = (a, b, c)"
| "numbers (Tilde a b c) = (a, b, c)"
| "numbers (AtLeast a b c) = (a, b, c)"
| "numbers (AtMost a b c) = (a, b, c)"
| "numbers (Above a b c) = (a, b, c)"
| "numbers (Below a b c) = (a, b, c)"
| "numbers (Exactly a b c) = (a, b, c)"

definition version_text :: "nat \<times> nat \<times> nat \<Rightarrow> string" where
  "version_text t = (case t of (a, b, c) \<Rightarrow> show_nat a @ CHR ''.'' # show_nat b @ CHR ''.'' # show_nat c)"

definition comparator_text :: "comparator \<Rightarrow> string" where
  "comparator_text c = operator_text c @ version_text (numbers c)"

text \<open>Numbers that stay below the largest 64-bit value, so that the successor does not wrap.\<close>

definition small :: "nat \<times> nat \<times> nat \<Rightarrow> bool" where
  "small t = (case t of (a, b, c) \<Rightarrow> a < 2 ^ 64 - 1 \<and> b < 2 ^ 64 - 1 \<and> c < 2 ^ 64 - 1)"


lemma parse_u64_show_nat: "n < 2 ^ 64 \<Longrightarrow> parse_u64 (show_nat n) = Some (of_nat n)"
  by (simp add: parse_u64_def parse_unsigned_show_nat)

lemma show_nat_digit: "c \<in> set (show_nat n) \<Longrightarrow> is_ascii_digit c"
  using show_nat_not_in by blast

lemma parse_partial_part_show:
  assumes "n < 2 ^ 64"
  shows "parse_partial_part (show_nat n) = Some (Some (of_nat n))"
proof -
  have "to_ascii_lower c = c" if "c \<in> set (show_nat n)" for c
    using show_nat_digit [OF that] by (simp add: to_ascii_lower_def is_ascii_digit_def Let_def)
  then have lower: "map to_ascii_lower (show_nat n) = show_nat n" by (simp add: map_idI)
  have "show_nat n \<noteq> ''x''" "show_nat n \<noteq> ''*''"
    using show_nat_digit [of "CHR ''x''" n] show_nat_digit [of "CHR ''*''" n] by (auto simp: is_ascii_digit_def)
  with assms show ?thesis by (simp add: parse_partial_part_def lower parse_u64_show_nat)
qed

lemma version_text_chars: "c \<in> set (version_text t) \<Longrightarrow> is_ascii_digit c \<or> c = CHR ''.''"
  by (cases t) (auto simp: version_text_def dest: show_nat_digit)

lemma version_text_graphic: "list_all graphic (version_text t)"
proof -
  have "is_ascii_digit c \<or> c = CHR ''.'' \<Longrightarrow> graphic c" for c
    by (auto simp: is_ascii_digit_def graphic_def Let_def)
  then show ?thesis using version_text_chars by (auto simp: list_all_iff)
qed

lemma version_text_head: "\<exists>d ds. version_text t = d # ds \<and> is_ascii_digit d"
proof -
  obtain a b c where t: "t = (a, b, c)" by (cases t)
  obtain d ds where d: "show_nat a = d # ds" by (cases "show_nat a") simp_all
  then have "is_ascii_digit d" using show_nat_digit [of d a] by simp
  with d t show ?thesis by (simp add: version_text_def)
qed

lemma normalize_word:
  assumes "list_all graphic s" and "s = c # cs" and "c \<noteq> CHR ''v''" and "c \<noteq> CHR ''V''"
  shows "normalize_version s = s"
  using assms by (simp add: normalize_version_def trim_graphic trim_start_matches_def)

lemma split_version_text:
  "split_on (CHR ''.'') (version_text (a, b, c)) = [show_nat a, show_nat b, show_nat c]"
proof -
  have dot: "CHR ''.'' \<notin> set (show_nat n)" for n by (rule show_nat_not_in) (simp add: is_ascii_digit_def)
  show ?thesis by (simp add: version_text_def split_on_first [OF dot] split_on_none [OF dot])
qed

definition partial_of :: "nat \<times> nat \<times> nat \<Rightarrow> partial_semver" where
  "partial_of t = (case t of (a, b, c) \<Rightarrow>
     \<lparr>ps_major = of_nat a, ps_minor = Some (of_nat b), ps_patch = Some (of_nat c)\<rparr>)"

lemma parse_version_text:
  assumes "small t"
  shows "parse_partial_semver (version_text t) = Some (partial_of t)"
proof -
  obtain a b c where t: "t = (a, b, c)" by (cases t)
  obtain d ds where d: "version_text t = d # ds" "is_ascii_digit d" using version_text_head by blast
  then have "d \<noteq> CHR ''v''" "d \<noteq> CHR ''V''" by (auto simp: is_ascii_digit_def)
  with d(1) have norm: "normalize_version (version_text t) = version_text t"
    using normalize_word version_text_graphic by blast
  have "CHR ''+'' \<notin> set (version_text t)" using version_text_chars [of "CHR ''+''" t] by (auto simp: is_ascii_digit_def)
  then have plus: "split_on (CHR ''+'') (version_text t) = [version_text t]" by (rule split_on_none)
  have "a < 2 ^ 64" "b < 2 ^ 64" "c < 2 ^ 64" using assms by (simp_all add: small_def t)
  moreover have "split_on (CHR ''.'') (version_text t) = [show_nat a, show_nat b, show_nat c]"
    by (simp add: t split_version_text)
  moreover have "version_text t \<noteq> []" using d(1) by simp
  ultimately show ?thesis
    by (simp add: parse_partial_semver_def norm plus parse_partial_part_show Let_def) (simp add: partial_of_def t)
qed

lemma unat_small: "n < 2 ^ 64 \<Longrightarrow> unat (of_nat n :: u64) = n"
  by (simp add: unat_of_nat take_bit_nat_eq_self)

lemma semver_key_of_nat:
  "a < 2 ^ 64 \<Longrightarrow> b < 2 ^ 64 \<Longrightarrow> c < 2 ^ 64 \<Longrightarrow>
     semver_key (SemVer (of_nat a) (of_nat b) (of_nat c)) = (a, b, c)"
  by (simp add: semver_key_def unat_small)

lemma bound_key:
  assumes "small (a, b, c)"
  shows "semver_key (lower_bound (partial_of (a, b, c))) = (a, b, c)"
    and "semver_key (tilde_upper (partial_of (a, b, c))) = (a, b + 1, 0)"
    and "0 < a \<or> 0 < b \<Longrightarrow> semver_key (caret_upper (partial_of (a, b, c))) =
          (if 0 < a then (a + 1, 0, 0) else (0, b + 1, 0))"
proof -
  have le: "a < 2 ^ 64" "b < 2 ^ 64" "c < 2 ^ 64" "a + 1 < 2 ^ 64" "b + 1 < 2 ^ 64"
    using assms by (simp_all add: small_def)
  have succ: "(of_nat n :: u64) + 1 = of_nat (n + 1)" for n by simp
  show "semver_key (lower_bound (partial_of (a, b, c))) = (a, b, c)"
    using semver_key_of_nat [OF le(1-3)] by (simp add: lower_bound_def partial_of_def)
  show "semver_key (tilde_upper (partial_of (a, b, c))) = (a, b + 1, 0)"
    using semver_key_of_nat [OF le(1,5), of 0] by (simp add: tilde_upper_def partial_of_def add.commute)
  have "0 < (of_nat a :: u64) \<longleftrightarrow> 0 < a" unfolding word_gt_0 word_unat_eq_iff unat_small [OF le(1)] by simp
  then show "0 < a \<or> 0 < b \<Longrightarrow> semver_key (caret_upper (partial_of (a, b, c))) =
      (if 0 < a then (a + 1, 0, 0) else (0, b + 1, 0))"
    using semver_key_of_nat [OF le(4), of 0 0] semver_key_of_nat [of 0 "b + 1" 0] le
    by (simp add: caret_upper_def partial_of_def add.commute)
qed

lemma accepts_bounds:
  "small t \<Longrightarrow> lower_bound (partial_of t) \<le> v \<longleftrightarrow> t \<le> semver_key v"
  "small t \<Longrightarrow> v \<le> lower_bound (partial_of t) \<longleftrightarrow> semver_key v \<le> t"
  "small t \<Longrightarrow> lower_bound (partial_of t) < v \<longleftrightarrow> t < semver_key v"
  "small t \<Longrightarrow> v < lower_bound (partial_of t) \<longleftrightarrow> semver_key v < t"
  using bound_key(1) by (cases t; simp add: less_eq_semver_def less_semver_def)+

lemma exact_key:
  assumes "small t"
  shows "exact_accepts (partial_of t) v \<longleftrightarrow> semver_key v = t"
proof -
  obtain a b c where t: "t = (a, b, c)" by (cases t)
  have "semver_key v = semver_key (SemVer (of_nat a) (of_nat b) (of_nat c)) \<longleftrightarrow> exact_accepts (partial_of t) v"
    unfolding semver_key_inject by (cases v) (auto simp: exact_accepts_def partial_of_def t)
  moreover have "semver_key (SemVer (of_nat a) (of_nat b) (of_nat c)) = t"
    using assms by (simp add: small_def t semver_key_of_nat)
  ultimately show ?thesis by simp
qed


lemma semver_parse_version_text:
  assumes "small (a, b, c)"
  shows "semver_parse (version_text (a, b, c)) = Some (SemVer (of_nat a) (of_nat b) (of_nat c))"
proof -
  let ?s = "version_text (a, b, c)"
  obtain d ds where d: "?s = d # ds" "is_ascii_digit d" using version_text_head by blast
  then have "d \<noteq> CHR ''v''" "d \<noteq> CHR ''V''" by (auto simp: is_ascii_digit_def)
  with d(1) have norm: "normalize_version ?s = ?s" using normalize_word version_text_graphic by blast
  have "CHR ''+'' \<notin> set ?s" "CHR ''-'' \<notin> set ?s"
    using version_text_chars [of "CHR ''+''"] version_text_chars [of "CHR ''-''"] by (auto simp: is_ascii_digit_def)
  moreover from this have "split_on (CHR ''+'') ?s = [?s]" by (simp add: split_on_none)
  ultimately show ?thesis
    using assms by (simp add: semver_parse_def norm split_version_text parse_u64_show_nat small_def Let_def)
qed

lemma any_version: "version_satisfies v ''*''"
proof -
  have "split_whitespace ''*'' = [''*'']"
    using split_whitespace_words [of "[''*'']"] by (simp add: word_def graphic_def)
  moreover have "normalize_version ''*'' = ''*''" 
    using normalize_word [of "''*''" "CHR ''*''" "[]"] by (simp add: graphic_def)
  ultimately show ?thesis by (simp add: version_satisfies_def comparator_tokens_def comparator_accepts_def)
qed

lemma latest_node_version_witness:
  "\<exists>v. semver_parse (version_text (18, 2, 0)) = Some v
     \<and> select_latest_node_version ''*'' [\<lparr>nr_version = version_text (18, 2, 0), nr_is_lts = True\<rparr>] True
         = Some (version_text (18, 2, 0))"
proof -
  let ?rs = "[\<lparr>nr_version = version_text (18, 2, 0), nr_is_lts = True\<rparr>]"
  have "matching nr_version ''*'' ?rs \<noteq> []"
    by (simp add: matching_def List.map_filter_def semver_parse_version_text small_def any_version)
  then obtain s where s: "select_latest_node_version ''*'' ?rs True = Some s"
    using latest_node_version [of "''*''" ?rs True] by (metis option.exhaust)
  with latest_node_version [of "''*''" ?rs True s] have "s = version_text (18, 2, 0)" by auto
  with s show ?thesis by (simp add: semver_parse_version_text small_def)
qed

lemma comparator_text_normal: "normalize_version (comparator_text c) = comparator_text c"
proof -
  obtain d ds where d: "version_text (numbers c) = d # ds" "is_ascii_digit d" using version_text_head by blast
  have "list_all graphic (comparator_text c)"
    using version_text_graphic [of "numbers c"] by (cases c) (auto simp: comparator_text_def graphic_def)
  moreover have "d \<noteq> CHR ''v''" "d \<noteq> CHR ''V''" using d(2) by (auto simp: is_ascii_digit_def)
  then obtain e es where "comparator_text c = e # es" "e \<noteq> CHR ''v''" "e \<noteq> CHR ''V''"
    using d(1) by (cases c) (auto simp: comparator_text_def)
  ultimately show ?thesis by (rule normalize_word)
qed

lemma try_operators_digit:
  assumes "is_ascii_digit d"
  shows "try_operators [''>='', ''<='', ''>'', ''<'', ''=''] (d # ds) v = None"
    and "strip_prefix ''^'' (d # ds) = None" and "strip_prefix ''~'' (d # ds) = None"
  using assms by (auto simp: strip_prefix_def is_ascii_digit_def)

lemma comparator_reference:
  assumes small: "small (numbers c)" and caret: "\<And>k. c \<noteq> Caret 0 0 k"
  shows "comparator_accepts (comparator_text c) v \<longleftrightarrow> npm_accepts c (semver_key v)"
proof -
  obtain d ds where d: "version_text (numbers c) = d # ds" "is_ascii_digit d" using version_text_head by blast
  then have not_eq: "d \<noteq> CHR ''=''" by (auto simp: is_ascii_digit_def)
  note parse = parse_version_text [OF small, unfolded d(1)]
  have shape: "comparator_text c = operator_text c @ d # ds" by (simp add: comparator_text_def d(1))
  have norm: "normalize_version (operator_text c @ d # ds) = operator_text c @ d # ds"
    using comparator_text_normal [of c] by (simp only: shape)
  note accepts = comparator_accepts_def [of "operator_text c @ d # ds", unfolded norm Let_def]
  note bounds = accepts_bounds [OF small]
  show ?thesis
  proof (cases c)
    case (Caret a b k)
    with caret have pos: "0 < a \<or> 0 < b" by auto
    then have "semver_key (caret_upper (partial_of (a, b, k))) = (if 0 < a then (a + 1, 0, 0) else (0, b + 1, 0))"
      using bound_key(3) [of a b k] small Caret by simp
    moreover have "comparator_accepts (comparator_text c) v \<longleftrightarrow>
        lower_bound (partial_of (a, b, k)) \<le> v \<and> v < caret_upper (partial_of (a, b, k))"
      unfolding shape accepts using parse Caret by (simp add: strip_prefix_def)
    ultimately show ?thesis using bounds(1) [of v] pos Caret by (auto simp: less_semver_def)
  next
    case (Tilde a b k)
    have "semver_key (tilde_upper (partial_of (a, b, k))) = (a, b + 1, 0)"
      using bound_key(2) [of a b k] small Tilde by simp
    moreover have "comparator_accepts (comparator_text c) v \<longleftrightarrow>
        lower_bound (partial_of (a, b, k)) \<le> v \<and> v < tilde_upper (partial_of (a, b, k))"
      unfolding shape accepts using parse Tilde by (simp add: strip_prefix_def)
    ultimately show ?thesis using bounds(1) [of v] Tilde by (simp add: less_semver_def)
  next
    case (AtLeast a b k)
    then show ?thesis unfolding shape accepts using parse bounds(1) [of v]
      by (simp add: strip_prefix_def operator_accepts_def)
  next
    case (AtMost a b k)
    then show ?thesis unfolding shape accepts using parse bounds(2) [of v]
      by (simp add: strip_prefix_def operator_accepts_def)
  next
    case (Above a b k)
    then show ?thesis unfolding shape accepts using parse bounds(3) [of v] not_eq
      by (simp add: strip_prefix_def operator_accepts_def)
  next
    case (Below a b k)
    then show ?thesis unfolding shape accepts using parse bounds(4) [of v] not_eq
      by (simp add: strip_prefix_def operator_accepts_def)
  next
    case (Exactly a b k)
    have "d # ds \<noteq> ''*''" using d(2) by (auto simp: is_ascii_digit_def)
    with Exactly have "comparator_accepts (comparator_text c) v \<longleftrightarrow> exact_accepts (partial_of (a, b, k)) v"
      unfolding shape accepts using parse try_operators_digit [OF d(2)] by (auto simp del: try_operators.simps)
    with exact_key [OF small, of v] Exactly show ?thesis by simp
  qed
qed




section \<open>Where the resolver departs from npm\<close>

lemma normalize_plain:
  "list_all graphic (c # s) \<Longrightarrow> c \<noteq> CHR ''v'' \<Longrightarrow> c \<noteq> CHR ''V'' \<Longrightarrow> normalize_version (c # s) = c # s"
  by (rule normalize_word) simp_all

text \<open>A number alone, as in \<open>18\<close> or \<open>0\<close>.\<close>

lemma parse_major_only:
  assumes "n < 2 ^ 64"
  shows "parse_partial_semver (show_nat n) = Some \<lparr>ps_major = of_nat n, ps_minor = None, ps_patch = None\<rparr>"
proof -
  obtain d ds where d: "show_nat n = d # ds" by (cases "show_nat n") simp_all
  then have "is_ascii_digit d" using show_nat_digit [of d n] by simp
  then have "d \<noteq> CHR ''v''" "d \<noteq> CHR ''V''" by (auto simp: is_ascii_digit_def)
  with d have norm: "normalize_version (show_nat n) = show_nat n"
    using normalize_word show_nat_graphic by blast
  have no: "CHR ''+'' \<notin> set (show_nat n)" "CHR ''.'' \<notin> set (show_nat n)"
    by (rule show_nat_not_in, simp add: is_ascii_digit_def)+
  show ?thesis
    using assms by (simp add: parse_partial_semver_def norm split_on_none [OF no(1)] split_on_none [OF no(2)]
        parse_partial_part_show Let_def)
qed

lemma operator_token_normal:
  assumes "op \<in> {''^'', ''<='', ''>'', ''=''}"
  shows "normalize_version (op @ show_nat n) = op @ show_nat n"
proof -
  have "list_all graphic (op @ show_nat n)" using assms show_nat_graphic [of n] by (auto simp: graphic_def)
  moreover obtain c cs where "op @ show_nat n = c # cs" "c \<noteq> CHR ''v''" "c \<noteq> CHR ''V''" using assms by auto
  ultimately show ?thesis by (rule normalize_word)
qed

text \<open>
  Where the resolver departs from npm's rules. \<open>^0\<close> (npm: everything below 1.0.0) accepts
  only 0.0.0; \<open>^0.0.3\<close> (npm: only 0.0.3) accepts every 0.0 version from 0.0.3; and a bound
  with missing parts is taken as that version with zeros: for every \<open>n\<close>, \<open><=n\<close> rejects and
  \<open>>n\<close> accepts \<open>n.0.1\<close>, and \<open>=n\<close> accepts nothing but \<open>n.0.0\<close>.
\<close>

theorem resolver_departs_from_npm:
  assumes "n < 2 ^ 64"
  shows "(comparator_accepts (''^'' @ show_nat 0) v \<longleftrightarrow> v = SemVer 0 0 0)
    \<and> (comparator_accepts (comparator_text (Caret 0 0 3)) (SemVer 0 0 4) \<and> \<not> npm_accepts (Caret 0 0 3) (0, 0, 4))
    \<and> \<not> comparator_accepts (''<='' @ show_nat n) (SemVer (of_nat n) 0 1)
    \<and> comparator_accepts (''>'' @ show_nat n) (SemVer (of_nat n) 0 1)
    \<and> (comparator_accepts (''='' @ show_nat n) v \<longleftrightarrow> v = SemVer (of_nat n) 0 0)"
proof (intro conjI)
  obtain d ds where d: "show_nat n = d # ds" by (cases "show_nat n") simp_all
  then have "is_ascii_digit d" using show_nat_digit [of d n] by simp
  then have "d \<noteq> CHR ''=''" by (auto simp: is_ascii_digit_def)
  with d have not_op: "take (Suc 0) (show_nat n) \<noteq> ''=''" by simp
  have norm: "normalize_version (CHR ''<'' # CHR ''='' # show_nat n) = CHR ''<'' # CHR ''='' # show_nat n"
    "normalize_version (CHR ''>'' # show_nat n) = CHR ''>'' # show_nat n"
    "normalize_version (CHR ''='' # show_nat n) = CHR ''='' # show_nat n"
    using operator_token_normal [of "''<=''" n] operator_token_normal [of "''>''" n] operator_token_normal [of "''=''" n]
    by simp_all
  note tok = comparator_accepts_def norm Let_def strip_prefix_def
    parse_major_only [OF assms] operator_accepts_def lower_bound_def
  have key: "semver_key (SemVer a b c) = (unat a, unat b, unat c)" for a b c by (simp add: semver_key_def)
  have "v < SemVer 0 0 1 \<longleftrightarrow> v = SemVer 0 0 0"
  proof -
    have "semver_key v < (0, 0, 1) \<longleftrightarrow> semver_key v = (0, 0, 0)" by (cases "semver_key v") (auto simp: less_prod_simp)
    then show ?thesis unfolding less_semver_def semver_key_inject [symmetric] key by simp
  qed
  moreover have "SemVer 0 0 0 \<le> v" by (simp add: less_eq_semver_def key) (cases "semver_key v"; simp add: less_eq_prod_simp)
  ultimately show "comparator_accepts (''^'' @ show_nat 0) v \<longleftrightarrow> v = SemVer 0 0 0"
    using parse_major_only [of 0] operator_token_normal [of "''^''" 0]
    by (simp add: comparator_accepts_def Let_def strip_prefix_def caret_upper_def lower_bound_def)
  show "\<not> npm_accepts (Caret 0 0 3) (0, 0, 4)" by (simp add: less_prod_simp)
  show "\<not> comparator_accepts (''<='' @ show_nat n) (SemVer (of_nat n) 0 1)"
    by (simp add: tok less_eq_semver_def key less_eq_prod_simp)
  show "comparator_accepts (''>'' @ show_nat n) (SemVer (of_nat n) 0 1)"
    using not_op by (simp add: tok less_semver_def key less_prod_simp)
  show "comparator_accepts (''='' @ show_nat n) v \<longleftrightarrow> v = SemVer (of_nat n) 0 0"
    by (simp add: tok)
  have s3: "small (numbers (Caret 0 0 3))" by (simp add: small_def)
  obtain e es where e: "version_text (numbers (Caret 0 0 3)) = e # es" by (cases "version_text (numbers (Caret 0 0 3))") (auto simp: version_text_def)
  have "comparator_accepts (comparator_text (Caret 0 0 3)) v' \<longleftrightarrow>
      lower_bound (partial_of (0, 0, 3)) \<le> v' \<and> v' < caret_upper (partial_of (0, 0, 3))" for v'
    using parse_version_text [OF s3] comparator_text_normal [of "Caret 0 0 3"] e
    by (simp add: comparator_accepts_def Let_def strip_prefix_def comparator_text_def)
  then show "comparator_accepts (comparator_text (Caret 0 0 3)) (SemVer 0 0 4)"
    by (simp add: partial_of_def lower_bound_def caret_upper_def less_eq_semver_def less_semver_def key less_prod_simp less_eq_prod_simp)
qed

lemma resolver_departs_from_npm_witness:
  "\<not> comparator_accepts (''<='' @ show_nat 18) (SemVer 18 0 1) \<and> comparator_accepts (''>'' @ show_nat 18) (SemVer 18 0 1)"
  using resolver_departs_from_npm [of 18] by simp

end
