(* ===== verification/Runtime_Resolver.thy ===== *)
theory Runtime_Resolver
  imports Semver Host_Smoke
begin

text \<open>
  The choice and installation of the guest's language runtimes (the first half of
  linux/src/runtime.rs): which version a project wants, which runtime is installed or
  downloaded for it, and how the user's command is rewritten to run it in the guest. The
  host machine is the record \<open>host_env\<close>: files, directories, the outcome of the programs that
  are run and of the actions on the file system. What a function does to the machine is the
  list of actions it returns beside its result.
\<close>

record 'v json_value = "'v json_api" +
  jv_as_array :: "'v \<Rightarrow> 'v list option"
  jv_as_bool :: "'v \<Rightarrow> bool option"

record process_output =
  po_success :: bool
  po_status :: string
  po_stdout :: "byte list"
  po_stdout_text :: string
  po_stderr_text :: string

datatype host_action =
    CreateDirAll path
  | RunProgram string "string list"
  | SymlinkTo string path
  | RenameTo path path
  | RemoveDirAll path

record host_env =
  he_read :: "path \<Rightarrow> string option"
  he_read_bytes :: "path \<Rightarrow> byte list option"
  he_entries :: "path \<Rightarrow> string list option"
  he_exists :: "path \<Rightarrow> bool"
  he_run :: "string \<Rightarrow> string list \<Rightarrow> process_output io_result"
  he_failure :: "host_action \<Rightarrow> string option"
  he_home :: "path option"
  he_pid :: u32
  he_epoch_secs :: u64

type_synonym 'a host_result = "('a, string) result \<times> host_action list"

definition bind_host :: "'a host_result \<Rightarrow> ('a \<Rightarrow> 'b host_result) \<Rightarrow> 'b host_result" where
  "bind_host m f =
     (case m of
        (Err e, acts) \<Rightarrow> (Err e, acts)
      | (Ok x, acts) \<Rightarrow> (case f x of (r, acts2) \<Rightarrow> (r, acts @ acts2)))"

definition pure_host :: "('a, string) result \<Rightarrow> 'a host_result" where
  "pure_host r = (r, [])"

definition act_host :: "host_env \<Rightarrow> host_action \<Rightarrow> unit host_result" where
  "act_host he a = (case he_failure he a of None \<Rightarrow> (Ok (), [a]) | Some e \<Rightarrow> (Err e, [a]))"

text \<open>An action whose failure is ignored.\<close>

definition try_host :: "host_action \<Rightarrow> unit host_result" where
  "try_host a = (Ok (), [a])"

section \<open>Project and host\<close>

record resolved_runtime =
  rr_version :: string
  rr_dir_name :: string

datatype guest_tool = Node | Bun | Claude

record runtime_pins =
  rp_node :: "string option"
  rp_bun :: "string option"

definition NODE_PLATFORM_SUFFIX :: string where "NODE_PLATFORM_SUFFIX = ''linux-x64''"
definition BUN_PLATFORM_SUFFIX :: string where "BUN_PLATFORM_SUFFIX = ''linux-x64''"
definition GUEST_TOOLS_ROOT :: string where "GUEST_TOOLS_ROOT = ''/opt/tools''"
definition GUEST_TOOL_PATH_PREPEND_ENV :: string where "GUEST_TOOL_PATH_PREPEND_ENV = ''FEND_TOOL_PATH_PREPEND''"
definition NODE_INDEX_URL :: string where "NODE_INDEX_URL = ''https://nodejs.org/dist/index.json''"
definition BUN_RELEASES_URL :: string where
  "BUN_RELEASES_URL = ''https://api.github.com/repos/oven-sh/bun/releases?per_page=100''"

definition guest_tool_for_command :: "string \<Rightarrow> guest_tool option" where
  "guest_tool_for_command command =
     (if CHR ''/'' \<in> set command then None
      else if command \<in> {''node'', ''npm'', ''npx'', ''pnpm'', ''pnpx'', ''yarn''} then Some Node
      else if command \<in> {''bun'', ''bunx''} then Some Bun
      else if command = ''claude'' then Some Claude
      else None)"

definition host_runtime_entry_exists :: "host_env \<Rightarrow> path \<Rightarrow> string \<Rightarrow> bool" where
  "host_runtime_entry_exists he base relative = he_exists he (path_join base relative)"

definition guest_tool_exists :: "host_env \<Rightarrow> path \<Rightarrow> string \<Rightarrow> bool" where
  "guest_tool_exists he tools_dir name =
     (case he_entries he tools_dir of
        None \<Rightarrow> False
      | Some entries \<Rightarrow>
          list_ex (\<lambda>entry. host_runtime_entry_exists he (path_join tools_dir entry) (''bin/'' @ name)
                        \<or> host_runtime_entry_exists he (path_join tools_dir entry) name) entries)"

definition parse_runtime_entry :: "string \<Rightarrow> string \<Rightarrow> string \<Rightarrow> string option" where
  "parse_runtime_entry name pre platform_suffix =
     (case strip_prefix pre name of
        None \<Rightarrow> None
      | Some version0 \<Rightarrow>
          (let version1 = unwrap_or (strip_suffix (CHR ''-'' # platform_suffix) version0) version0;
               normalized = normalize_version version1
           in map_option (\<lambda>_. normalized) (semver_parse normalized)))"

definition installed_runtimes :: "host_env \<Rightarrow> path \<Rightarrow> string \<Rightarrow> string \<Rightarrow> resolved_runtime list" where
  "installed_runtimes he tools_dir pre platform_suffix =
     (case he_entries he tools_dir of
        None \<Rightarrow> []
      | Some entries \<Rightarrow>
          sort_key (\<lambda>r. semver_parse (rr_version r))
            (List.map_filter (\<lambda>name. map_option (\<lambda>version. \<lparr>rr_version = version, rr_dir_name = name\<rparr>)
                                (parse_runtime_entry name pre platform_suffix)) entries))"

definition latest_installed_runtime :: "resolved_runtime list \<Rightarrow> resolved_runtime option" where
  "latest_installed_runtime installed = (if installed = [] then None else Some (last installed))"

definition select_latest_installed_runtime :: "resolved_runtime list \<Rightarrow> string \<Rightarrow> resolved_runtime option" where
  "select_latest_installed_runtime installed requirement =
     max_by (\<lambda>r. semver_parse (rr_version r))
       (filter (\<lambda>r. case semver_parse (rr_version r) of None \<Rightarrow> False | Some v \<Rightarrow> version_satisfies v requirement) installed)"

text \<open>\<open>strip_inline_comment\<close>: a hash outside double quotes ends the value.\<close>

fun strip_comment_from :: "bool \<Rightarrow> string \<Rightarrow> string" where
  "strip_comment_from in_quotes [] = []"
| "strip_comment_from in_quotes (c # cs) =
     (if c = CHR 0x22 then c # strip_comment_from (\<not> in_quotes) cs
      else if c = CHR ''#'' \<and> \<not> in_quotes then []
      else c # strip_comment_from in_quotes cs)"

definition strip_inline_comment :: "string \<Rightarrow> string" where
  "strip_inline_comment value = strip_comment_from False value"

definition unquote :: "string \<Rightarrow> string" where
  "unquote value =
     (if starts_with [CHR 0x22] value \<and> ends_with [CHR 0x22] value \<and> 2 \<le> length value
      then take (length value - 2) (drop 1 value) else value)"

text \<open>One line of \<open>.fend.toml\<close>: the current section and the pins so far.\<close>

definition pins_line :: "string \<Rightarrow> string \<times> runtime_pins \<Rightarrow> string \<times> runtime_pins" where
  "pins_line line state =
     (case state of (section, pins) \<Rightarrow>
       (let trimmed = trim line
        in if trimmed = [] \<or> starts_with ''#'' trimmed then (section, pins)
           else if starts_with ''['' trimmed \<and> ends_with '']'' trimmed
           then (trim (trim_end_matches (CHR '']'') (trim_start_matches (CHR ''['') trimmed)), pins)
           else case split_once (CHR ''='') trimmed of
                  None \<Rightarrow> (section, pins)
                | Some (key, raw_value) \<Rightarrow>
                    if section \<noteq> ''runtime'' then (section, pins)
                    else (let key = trim key; value = unquote (trim (strip_inline_comment (trim raw_value)))
                          in if value = [] then (section, pins)
                             else if key = ''node'' then (section, pins\<lparr>rp_node := Some value\<rparr>)
                             else if key = ''bun'' then (section, pins\<lparr>rp_bun := Some value\<rparr>)
                             else (section, pins))))"

definition load_runtime_pins :: "host_env \<Rightarrow> path \<Rightarrow> runtime_pins" where
  "load_runtime_pins he workspace =
     (case he_read he (path_join workspace ''.fend.toml'') of
        None \<Rightarrow> \<lparr>rp_node = None, rp_bun = None\<rparr>
      | Some content \<Rightarrow> snd (fold pins_line (lines content) ([], \<lparr>rp_node = None, rp_bun = None\<rparr>)))"

definition node_engine_requirement :: "'v json_value \<Rightarrow> host_env \<Rightarrow> path \<Rightarrow> string option" where
  "node_engine_requirement jv he workspace =
     Option.bind (he_read_bytes he (path_join workspace ''package.json'')) (\<lambda>data.
     Option.bind (ok_opt (ja_from_slice jv data)) (\<lambda>json.
     Option.bind (ja_get jv json ''engines'') (\<lambda>engines.
     Option.bind (ja_get jv engines ''node'') (\<lambda>node.
     Option.bind (ja_as_str jv node) (\<lambda>s.
       (let requirement = trim s in if requirement = [] then None else Some requirement))))))"

definition binary_version :: "host_env \<Rightarrow> string \<Rightarrow> string list \<Rightarrow> string option" where
  "binary_version he program args =
     (case he_run he program args of
        Err _ \<Rightarrow> None
      | Ok output \<Rightarrow>
          if \<not> po_success output then None
          else (let version = normalize_version (trim (po_stdout_text output))
                in if version = [] then None else Some version))"

definition host_node_version :: "host_env \<Rightarrow> string option" where
  "host_node_version he =
     opt_or (binary_version he ''node'' [''--version'']) (binary_version he ''nodejs'' [''--version''])"

definition host_bun_version :: "host_env \<Rightarrow> string option" where
  "host_bun_version he =
     (case binary_version he ''bun'' [''--version''] of
        Some v \<Rightarrow> Some v
      | None \<Rightarrow>
          (case he_home he of
             None \<Rightarrow> None
           | Some home \<Rightarrow>
               (let probe = (\<lambda>p. if he_exists he p then binary_version he p [''--version''] else None)
                in opt_or (probe (path_join home ''.bun/bin/bun'')) (probe ''/usr/local/bin/bun''))))"

section \<open>Releases\<close>

definition run_host_command :: "host_env \<Rightarrow> formatters \<Rightarrow> string \<Rightarrow> string list \<Rightarrow> byte list host_result" where
  "run_host_command he fm program args =
     ((case he_run he program args of
         Err e \<Rightarrow>
           Err (if io_kind e = NotFound then ''required host tool '' @ fm_debug fm program @ '' was not found in PATH''
                else ''failed to start '' @ fm_debug fm program @ '': '' @ fm_io fm e)
       | Ok output \<Rightarrow>
           if po_success output then Ok (po_stdout output)
           else (let stderr = trim (po_stderr_text output)
                 in if stderr = [] then Err (fm_debug fm program @ '' exited with status '' @ po_status output)
                    else Err (fm_debug fm program @ '' failed: '' @ stderr))),
      [RunProgram program args])"

definition node_release_of :: "'v json_value \<Rightarrow> 'v \<Rightarrow> node_release option" where
  "node_release_of jv entry =
     Option.bind (ja_get jv entry ''version'') (\<lambda>v.
     Option.bind (ja_as_str jv v) (\<lambda>s.
       (let version = normalize_version s;
            is_lts = (case ja_get jv entry ''lts'' of
                        None \<Rightarrow> False
                      | Some l \<Rightarrow>
                          (case ja_as_str jv l of
                             Some value \<Rightarrow> value \<noteq> []
                           | None \<Rightarrow> unwrap_or (jv_as_bool jv l) False))
        in map_option (\<lambda>_. \<lparr>nr_version = version, nr_is_lts = is_lts\<rparr>) (semver_parse version))))"

definition parse_array :: "'v json_value \<Rightarrow> string \<Rightarrow> byte list \<Rightarrow> ('v list, string) result" where
  "parse_array jv message output =
     and_then (ja_from_slice jv output) (\<lambda>json. ok_or message (jv_as_array jv json))"

definition fetch_node_releases :: "'v json_value \<Rightarrow> host_env \<Rightarrow> formatters \<Rightarrow> node_release list host_result" where
  "fetch_node_releases jv he fm =
     bind_host (run_host_command he fm ''curl'' [''-fsSL'', NODE_INDEX_URL]) (\<lambda>output.
       pure_host (map_ok (List.map_filter (node_release_of jv))
         (parse_array jv ''node index response was not an array'' output)))"

text \<open>\<open>trim_start_matches\<close> with a string pattern.\<close>

function trim_start_str :: "string \<Rightarrow> string \<Rightarrow> string" where
  "trim_start_str p s = (if p \<noteq> [] \<and> starts_with p s \<and> s \<noteq> [] then trim_start_str p (drop (length p) s) else s)"
  by pat_completeness auto
termination
  by (relation "measure (\<lambda>(p, s). length s)") auto

declare trim_start_str.simps [simp del]

definition bun_release_of :: "'v json_value \<Rightarrow> 'v \<Rightarrow> string option" where
  "bun_release_of jv entry =
     (if Option.bind (ja_get jv entry ''draft'') (jv_as_bool jv) = Some True then None
      else if Option.bind (ja_get jv entry ''prerelease'') (jv_as_bool jv) = Some True then None
      else Option.bind (ja_get jv entry ''tag_name'') (\<lambda>t.
           Option.bind (ja_as_str jv t) (\<lambda>tag.
             (let version = normalize_version (trim_start_str ''bun-'' tag)
              in if CHR ''-'' \<in> set version then None else map_option (\<lambda>_. version) (semver_parse version)))))"

definition fetch_bun_releases :: "'v json_value \<Rightarrow> host_env \<Rightarrow> formatters \<Rightarrow> string list host_result" where
  "fetch_bun_releases jv he fm =
     bind_host (run_host_command he fm ''curl''
         [''-fsSL'', ''-H'', ''Accept: application/vnd.github+json'', BUN_RELEASES_URL]) (\<lambda>output.
       pure_host (map_ok (List.map_filter (bun_release_of jv))
         (parse_array jv ''bun release response was not an array'' output)))"

definition resolve_latest_node_version ::
  "'v json_value \<Rightarrow> host_env \<Rightarrow> formatters \<Rightarrow> string \<Rightarrow> bool \<Rightarrow> string host_result" where
  "resolve_latest_node_version jv he fm requirement prefer_lts =
     bind_host (fetch_node_releases jv he fm) (\<lambda>releases.
       pure_host (ok_or (''no Node.js release matches requirement '' @ fm_debug fm requirement)
         (select_latest_node_version requirement releases prefer_lts)))"

definition resolve_latest_bun_version ::
  "'v json_value \<Rightarrow> host_env \<Rightarrow> formatters \<Rightarrow> string \<Rightarrow> string host_result" where
  "resolve_latest_bun_version jv he fm requirement =
     bind_host (fetch_bun_releases jv he fm) (\<lambda>releases.
       pure_host (ok_or (''no Bun release matches requirement '' @ fm_debug fm requirement)
         (select_latest_bun_version requirement releases)))"

definition resolve_concrete_node_version ::
  "'v json_value \<Rightarrow> host_env \<Rightarrow> formatters \<Rightarrow> string \<Rightarrow> string host_result" where
  "resolve_concrete_node_version jv he fm requirement =
     (let normalized = normalize_version requirement
      in if semver_is_full normalized then pure_host (Ok normalized)
         else resolve_latest_node_version jv he fm normalized False)"

definition resolve_concrete_bun_version ::
  "'v json_value \<Rightarrow> host_env \<Rightarrow> formatters \<Rightarrow> string \<Rightarrow> string host_result" where
  "resolve_concrete_bun_version jv he fm requirement =
     (let normalized = normalize_version requirement
      in if semver_is_full normalized then pure_host (Ok normalized)
         else resolve_latest_bun_version jv he fm normalized)"


section \<open>Installation\<close>

definition finalize_runtime_install :: "host_env \<Rightarrow> path \<Rightarrow> path \<Rightarrow> path \<Rightarrow> unit host_result" where
  "finalize_runtime_install he extracted destination temp_dir =
     (if he_exists he destination then try_host (RemoveDirAll temp_dir)
      else bind_host (act_host he (RenameTo extracted destination)) (\<lambda>_. try_host (RemoveDirAll temp_dir)))"

definition create_temp_dir :: "host_env \<Rightarrow> path \<Rightarrow> string \<Rightarrow> path host_result" where
  "create_temp_dir he parent name =
     (let path = path_join parent (''.fend-runtime-'' @ name @ ''-'' @ show_uword (he_pid he) @ ''-''
                                     @ show_uword (he_epoch_secs he))
      in bind_host (try_host (RemoveDirAll path)) (\<lambda>_.
         bind_host (act_host he (CreateDirAll path)) (\<lambda>_. pure_host (Ok path))))"

definition download_node :: "host_env \<Rightarrow> formatters \<Rightarrow> resolved_runtime \<Rightarrow> path \<Rightarrow> unit host_result" where
  "download_node he fm runtime tools_dir =
     (let archive_name = ''node-v'' @ rr_version runtime @ ''-'' @ NODE_PLATFORM_SUFFIX;
          url = ''https://nodejs.org/dist/v'' @ rr_version runtime @ ''/'' @ archive_name @ ''.tar.xz''
      in bind_host (create_temp_dir he tools_dir ''node'') (\<lambda>temp_dir.
         (let archive_path = path_join temp_dir (archive_name @ ''.tar.xz'')
          in bind_host (run_host_command he fm ''curl'' [''-fsSL'', ''-o'', archive_path, url]) (\<lambda>_.
             bind_host (run_host_command he fm ''tar'' [''xf'', archive_path, ''-C'', temp_dir]) (\<lambda>_.
               finalize_runtime_install he (path_join temp_dir archive_name)
                 (path_join tools_dir (rr_dir_name runtime)) temp_dir)))))"

definition download_bun :: "host_env \<Rightarrow> formatters \<Rightarrow> resolved_runtime \<Rightarrow> path \<Rightarrow> unit host_result" where
  "download_bun he fm runtime tools_dir =
     (let archive_name = ''bun-'' @ BUN_PLATFORM_SUFFIX;
          url = ''https://github.com/oven-sh/bun/releases/download/bun-v'' @ rr_version runtime @ ''/'' @ archive_name @ ''.zip''
      in bind_host (create_temp_dir he tools_dir ''bun'') (\<lambda>temp_dir.
         (let archive_path = path_join temp_dir (archive_name @ ''.zip'');
              extracted = path_join temp_dir archive_name;
              bunx = path_join extracted ''bunx''
          in bind_host (run_host_command he fm ''curl'' [''-fsSL'', ''-o'', archive_path, url]) (\<lambda>_.
             bind_host (run_host_command he fm ''unzip'' [''-q'', archive_path, ''-d'', temp_dir]) (\<lambda>_.
             bind_host (if he_exists he (path_join extracted ''bun'') \<and> \<not> he_exists he bunx
                        then act_host he (SymlinkTo ''bun'' bunx) else pure_host (Ok ())) (\<lambda>_.
               finalize_runtime_install he extracted (path_join tools_dir (rr_dir_name runtime)) temp_dir))))))"

definition ensure_node_version :: "host_env \<Rightarrow> formatters \<Rightarrow> string \<Rightarrow> path \<Rightarrow> resolved_runtime host_result" where
  "ensure_node_version he fm version0 tools_dir =
     (let version = normalize_version version0;
          runtime = \<lparr>rr_version = version, rr_dir_name = ''node-'' @ version @ ''-'' @ NODE_PLATFORM_SUFFIX\<rparr>
      in if host_runtime_entry_exists he (path_join tools_dir (rr_dir_name runtime)) ''bin/node''
         then pure_host (Ok runtime)
         else bind_host (act_host he (CreateDirAll tools_dir)) (\<lambda>_.
              bind_host (download_node he fm runtime tools_dir) (\<lambda>_. pure_host (Ok runtime))))"

definition ensure_bun_version :: "host_env \<Rightarrow> formatters \<Rightarrow> string \<Rightarrow> path \<Rightarrow> resolved_runtime host_result" where
  "ensure_bun_version he fm version0 tools_dir =
     (let version = normalize_version version0;
          runtime = \<lparr>rr_version = version, rr_dir_name = ''bun-'' @ version @ ''-'' @ BUN_PLATFORM_SUFFIX\<rparr>
      in if host_runtime_entry_exists he (path_join tools_dir (rr_dir_name runtime)) ''bun''
         then pure_host (Ok runtime)
         else bind_host (act_host he (CreateDirAll tools_dir)) (\<lambda>_.
              bind_host (download_bun he fm runtime tools_dir) (\<lambda>_. pure_host (Ok runtime))))"

definition ensure_node_requirement ::
  "'v json_value \<Rightarrow> host_env \<Rightarrow> formatters \<Rightarrow> string \<Rightarrow> path \<Rightarrow> resolved_runtime list \<Rightarrow> resolved_runtime host_result" where
  "ensure_node_requirement jv he fm requirement tools_dir installed =
     (case select_latest_installed_runtime installed requirement of
        Some runtime \<Rightarrow> pure_host (Ok runtime)
      | None \<Rightarrow>
          bind_host (resolve_concrete_node_version jv he fm requirement) (\<lambda>version.
            ensure_node_version he fm version tools_dir))"

definition ensure_bun_requirement ::
  "'v json_value \<Rightarrow> host_env \<Rightarrow> formatters \<Rightarrow> string \<Rightarrow> path \<Rightarrow> resolved_runtime list \<Rightarrow> resolved_runtime host_result" where
  "ensure_bun_requirement jv he fm requirement tools_dir installed =
     (case select_latest_installed_runtime installed requirement of
        Some runtime \<Rightarrow> pure_host (Ok runtime)
      | None \<Rightarrow>
          bind_host (resolve_concrete_bun_version jv he fm requirement) (\<lambda>version.
            ensure_bun_version he fm version tools_dir))"

text \<open>The first of the two version files that is readable and not blank.\<close>

definition version_file :: "host_env \<Rightarrow> path \<Rightarrow> string \<Rightarrow> string option" where
  "version_file he workspace file =
     (case he_read he (path_join workspace file) of
        None \<Rightarrow> None
      | Some content \<Rightarrow> (let requested = trim content in if requested = [] then None else Some requested))"

definition ensure_node_runtime ::
  "'v json_value \<Rightarrow> host_env \<Rightarrow> formatters \<Rightarrow> path \<Rightarrow> path \<Rightarrow> resolved_runtime host_result" where
  "ensure_node_runtime jv he fm workspace tools_dir =
     (let installed = installed_runtimes he tools_dir ''node-'' NODE_PLATFORM_SUFFIX;
          host = host_node_version he
      in case rp_node (load_runtime_pins he workspace) of
           Some requested \<Rightarrow> ensure_node_requirement jv he fm requested tools_dir installed
         | None \<Rightarrow>
             (case opt_or (version_file he workspace ''.node-version'') (version_file he workspace ''.nvmrc'') of
                Some requested \<Rightarrow> ensure_node_requirement jv he fm requested tools_dir installed
              | None \<Rightarrow>
                  (case node_engine_requirement jv he workspace of
                     Some requirement \<Rightarrow>
                       (case Option.bind host (\<lambda>h. case semver_parse h of
                                Some v \<Rightarrow> if version_satisfies v requirement then Some h else None | None \<Rightarrow> None) of
                          Some h \<Rightarrow> ensure_node_version he fm h tools_dir
                        | None \<Rightarrow>
                            (case select_latest_installed_runtime installed requirement of
                               Some runtime \<Rightarrow> pure_host (Ok runtime)
                             | None \<Rightarrow>
                                 bind_host (resolve_latest_node_version jv he fm requirement True) (\<lambda>version.
                                   ensure_node_version he fm version tools_dir)))
                   | None \<Rightarrow>
                       (case host of
                          Some h \<Rightarrow> ensure_node_version he fm h tools_dir
                        | None \<Rightarrow>
                            (case latest_installed_runtime installed of
                               Some runtime \<Rightarrow> pure_host (Ok runtime)
                             | None \<Rightarrow>
                                 bind_host (resolve_latest_node_version jv he fm ''>=0'' True) (\<lambda>version.
                                   ensure_node_version he fm version tools_dir))))))"

definition ensure_bun_runtime ::
  "'v json_value \<Rightarrow> host_env \<Rightarrow> formatters \<Rightarrow> path \<Rightarrow> path \<Rightarrow> resolved_runtime host_result" where
  "ensure_bun_runtime jv he fm workspace tools_dir =
     (let installed = installed_runtimes he tools_dir ''bun-'' BUN_PLATFORM_SUFFIX
      in case rp_bun (load_runtime_pins he workspace) of
           Some requested \<Rightarrow> ensure_bun_requirement jv he fm requested tools_dir installed
         | None \<Rightarrow>
             (case host_bun_version he of
                Some h \<Rightarrow> ensure_bun_version he fm h tools_dir
              | None \<Rightarrow>
                  (case latest_installed_runtime installed of
                     Some runtime \<Rightarrow> pure_host (Ok runtime)
                   | None \<Rightarrow>
                       bind_host (resolve_latest_bun_version jv he fm ''>=0'') (\<lambda>version.
                         ensure_bun_version he fm version tools_dir))))"

section \<open>Rewriting the command\<close>

record prepared_guest_command =
  pg_command :: "string list"
  pg_env :: "(string \<times> string) list"

definition ensure_host_runtime_script :: "host_env \<Rightarrow> path \<Rightarrow> string \<Rightarrow> string \<Rightarrow> string \<Rightarrow> (unit, string) result" where
  "ensure_host_runtime_script he runtime_root relative tool_name version =
     (if host_runtime_entry_exists he runtime_root relative then Ok ()
      else Err (''Node.js v'' @ version @ '' does not include '' @ tool_name @ ''; cannot run it inside the guest''))"

definition rewrite_node :: "host_env \<Rightarrow> path \<Rightarrow> resolved_runtime \<Rightarrow> string list \<Rightarrow> (string list, string) result" where
  "rewrite_node he tools_dir runtime command =
     (let guest_root = GUEST_TOOLS_ROOT @ ''/'' @ rr_dir_name runtime;
          guest_node = guest_root @ ''/bin/node'';
          host_root = path_join tools_dir (rr_dir_name runtime);
          script = (\<lambda>relative tool extra.
            map_ok (\<lambda>_. [guest_node, guest_root @ ''/'' @ relative] @ extra @ tl command)
              (ensure_host_runtime_script he host_root relative tool (rr_version runtime)))
      in if hd command = ''node'' then Ok (guest_node # tl command)
         else if hd command = ''npm'' then script ''lib/node_modules/npm/bin/npm-cli.js'' ''npm'' []
         else if hd command = ''npx'' then script ''lib/node_modules/npm/bin/npx-cli.js'' ''npx'' []
         else if hd command \<in> {''pnpm'', ''pnpx'', ''yarn''}
         then script ''lib/node_modules/corepack/dist/corepack.js'' ''corepack'' [hd command]
         else Ok command)"

definition prepare_node_command ::
  "'v json_value \<Rightarrow> host_env \<Rightarrow> formatters \<Rightarrow> string list \<Rightarrow> path \<Rightarrow> path \<Rightarrow> prepared_guest_command host_result" where
  "prepare_node_command jv he fm command workspace tools_dir =
     bind_host (ensure_node_runtime jv he fm workspace tools_dir) (\<lambda>runtime.
       pure_host (map_ok (\<lambda>rewritten.
           \<lparr>pg_command = rewritten,
            pg_env = [(GUEST_TOOL_PATH_PREPEND_ENV, GUEST_TOOLS_ROOT @ ''/'' @ rr_dir_name runtime @ ''/bin'')]\<rparr>)
         (rewrite_node he tools_dir runtime command)))"

definition rewrite_bun :: "resolved_runtime \<Rightarrow> string list \<Rightarrow> string list" where
  "rewrite_bun runtime command =
     (let bun = GUEST_TOOLS_ROOT @ ''/'' @ rr_dir_name runtime @ ''/bun''
      in if hd command = ''bun'' then bun # tl command
         else if hd command = ''bunx'' then bun # ''x'' # tl command
         else command)"

definition prepare_bun_command ::
  "'v json_value \<Rightarrow> host_env \<Rightarrow> formatters \<Rightarrow> string list \<Rightarrow> path \<Rightarrow> path \<Rightarrow> prepared_guest_command host_result" where
  "prepare_bun_command jv he fm command workspace tools_dir =
     bind_host (ensure_bun_runtime jv he fm workspace tools_dir) (\<lambda>runtime.
       pure_host (Ok \<lparr>pg_command = rewrite_bun runtime command,
         pg_env = [(GUEST_TOOL_PATH_PREPEND_ENV, GUEST_TOOLS_ROOT @ ''/'' @ rr_dir_name runtime)]\<rparr>))"

definition prepare_guest_command ::
  "'v json_value \<Rightarrow> host_env \<Rightarrow> formatters \<Rightarrow> string list \<Rightarrow> path \<Rightarrow> path \<Rightarrow> prepared_guest_command host_result" where
  "prepare_guest_command jv he fm command workspace tools_dir =
     (if command = [] then pure_host (Ok \<lparr>pg_command = [], pg_env = []\<rparr>)
      else case guest_tool_for_command (hd command) of
             None \<Rightarrow> pure_host (Ok \<lparr>pg_command = command, pg_env = []\<rparr>)
           | Some Node \<Rightarrow> prepare_node_command jv he fm command workspace tools_dir
           | Some Bun \<Rightarrow> prepare_bun_command jv he fm command workspace tools_dir
           | Some Claude \<Rightarrow>
               if guest_tool_exists he tools_dir ''claude'' then pure_host (Ok \<lparr>pg_command = command, pg_env = []\<rparr>)
               else pure_host (Err (''guest tool '' @ [CHR 0x22] @ ''claude'' @ [CHR 0x22] @ '' is not available in '' @ tools_dir)))"


section \<open>Which runtime a requirement gets\<close>

lemma bind_host_Ok:
  "fst (bind_host m f) = Ok y \<longleftrightarrow> (\<exists>x. fst m = Ok x \<and> fst (f x) = Ok y)"
  by (cases m; cases "fst m") (auto simp: bind_host_def split: prod.splits)

lemma pure_host_simps [simp]: "fst (pure_host r) = r" "snd (pure_host r) = []"
  by (simp_all add: pure_host_def)

lemma try_host_simps [simp]: "fst (try_host a) = Ok ()" "snd (try_host a) = [a]"
  by (simp_all add: try_host_def)

definition meets :: "string \<Rightarrow> resolved_runtime \<Rightarrow> bool" where
  "meets requirement r =
     (case semver_parse (rr_version r) of None \<Rightarrow> False | Some v \<Rightarrow> version_satisfies v requirement)"

lemma select_latest_installed_Some:
  assumes "select_latest_installed_runtime installed requirement = Some r"
  shows "r \<in> set installed \<and> meets requirement r
    \<and> (\<forall>q \<in> set installed. meets requirement q \<longrightarrow> semver_parse (rr_version q) \<le> semver_parse (rr_version r))"
  using max_by_Some [OF assms [unfolded select_latest_installed_runtime_def]] by (auto simp: meets_def)

lemma select_latest_installed_None:
  "select_latest_installed_runtime installed requirement = None \<longleftrightarrow> (\<forall>q \<in> set installed. \<not> meets requirement q)"
  by (auto simp: select_latest_installed_runtime_def filter_empty_conv meets_def)

text \<open>A node runtime is in place after its installation: it was there, or it was moved there.\<close>

lemma ensure_node_version_Ok:
  assumes "fst (ensure_node_version he fm version tools_dir) = Ok r"
  shows "r = \<lparr>rr_version = normalize_version version,
              rr_dir_name = ''node-'' @ normalize_version version @ ''-'' @ NODE_PLATFORM_SUFFIX\<rparr>"
  using assms by (auto simp: ensure_node_version_def Let_def bind_host_Ok split: if_splits)

text \<open>
  The runtime a Node requirement gets: when an installed runtime meets the requirement, it
  is the newest such one and nothing is run; otherwise its version is the requirement itself, if
  that is a full version, or the newest published release that meets it.
\<close>

theorem node_requirement_resolution:
  assumes "fst (ensure_node_requirement jv he fm requirement tools_dir installed) = Ok r"
  shows "if \<exists>q \<in> set installed. meets requirement q
    then r \<in> set installed \<and> meets requirement r
      \<and> (\<forall>q \<in> set installed. meets requirement q \<longrightarrow> semver_parse (rr_version q) \<le> semver_parse (rr_version r))
      \<and> snd (ensure_node_requirement jv he fm requirement tools_dir installed) = []
    else if semver_is_full (normalize_version requirement)
    then rr_version r = normalize_version (normalize_version requirement)
    else \<exists>releases s. fst (fetch_node_releases jv he fm) = Ok releases
      \<and> select_latest_node_version (normalize_version requirement) releases False = Some s
      \<and> rr_version r = normalize_version s"
proof (cases "select_latest_installed_runtime installed requirement")
  case (Some q)
  with assms have "r = q" by (simp add: ensure_node_requirement_def)
  with select_latest_installed_Some [OF Some] Some show ?thesis by (auto simp: ensure_node_requirement_def)
next
  case None
  with assms obtain version where v: "fst (resolve_concrete_node_version jv he fm requirement) = Ok version"
    and "fst (ensure_node_version he fm version tools_dir) = Ok r"
    by (auto simp: ensure_node_requirement_def bind_host_Ok)
  from ensure_node_version_Ok [OF this(2)] have "rr_version r = normalize_version version" by simp
  moreover have "ok_or e x = Ok y \<longleftrightarrow> x = Some y" for e :: string and x :: "string option" and y by (cases x) auto
  ultimately show ?thesis
    using v None [unfolded select_latest_installed_None]
    by (auto simp: resolve_concrete_node_version_def resolve_latest_node_version_def bind_host_Ok Let_def split: if_splits)
qed

section \<open>Installation is atomic\<close>

lemma bind_host_acts:
  "snd (bind_host m f) = snd m @ (case fst m of Ok x \<Rightarrow> snd (f x) | Err _ \<Rightarrow> [])"
  by (cases m; cases "fst m") (auto simp: bind_host_def split: prod.splits)

lemma bind_host_fst:
  "fst (bind_host m f) = (case fst m of Ok x \<Rightarrow> fst (f x) | Err e \<Rightarrow> Err e)"
  by (cases m; cases "fst m") (auto simp: bind_host_def split: prod.splits)

lemma act_host_simps [simp]:
  "snd (act_host he a) = [a]" "fst (act_host he a) = (case he_failure he a of None \<Rightarrow> Ok () | Some e \<Rightarrow> Err e)"
  by (auto simp: act_host_def split: option.splits)

lemma run_host_command_acts [simp]: "snd (run_host_command he fm program args) = [RunProgram program args]"
  by (simp add: run_host_command_def)

definition temp_path :: "host_env \<Rightarrow> path \<Rightarrow> string \<Rightarrow> path" where
  "temp_path he parent name =
     path_join parent (''.fend-runtime-'' @ name @ ''-'' @ show_uword (he_pid he) @ ''-'' @ show_uword (he_epoch_secs he))"

lemma create_temp_dir_simps:
  "snd (create_temp_dir he parent name) = [RemoveDirAll (temp_path he parent name), CreateDirAll (temp_path he parent name)]"
  "fst (create_temp_dir he parent name) =
     (case he_failure he (CreateDirAll (temp_path he parent name)) of None \<Rightarrow> Ok (temp_path he parent name) | Some e \<Rightarrow> Err e)"
  by (auto simp: create_temp_dir_def temp_path_def Let_def bind_host_acts bind_host_fst split: option.splits)

text \<open>
  Installing a Node runtime never leaves a partial one: everything is downloaded and
  unpacked in a private directory, and the only action that creates the runtime's directory
  is the final move into place, which is last but for the removal of the private directory; a
  failure before it leaves the directory absent. (A failed download leaves the private
  directory behind: it is only removed after a success.)
\<close>

theorem node_install_atomic:
  assumes "\<not> he_exists he (path_join tools_dir (rr_dir_name runtime))"
  shows "let t = temp_path he tools_dir ''node'';
             final = RenameTo (path_join t (''node-v'' @ rr_version runtime @ ''-'' @ NODE_PLATFORM_SUFFIX))
                       (path_join tools_dir (rr_dir_name runtime));
             acts = snd (download_node he fm runtime tools_dir)
         in (fst (download_node he fm runtime tools_dir) = Ok () \<longrightarrow>
               (\<exists>before. acts = before @ [final, RemoveDirAll t] \<and> final \<notin> set before))
          \<and> (fst (download_node he fm runtime tools_dir) \<noteq> Ok () \<longrightarrow>
               (\<exists>before last. acts = before @ [last] \<and> final \<notin> set before
                  \<and> (last = final \<longrightarrow> he_failure he final \<noteq> None)
                  \<and> (\<forall>a \<in> set (drop 1 acts). a \<noteq> RemoveDirAll t)))"
  using assms
  by (auto simp: download_node_def Let_def finalize_runtime_install_def bind_host_acts bind_host_fst create_temp_dir_simps
      split: option.splits result.splits)


definition bare_host :: host_env where
  "bare_host =
     \<lparr>he_read = (\<lambda>_. None), he_read_bytes = (\<lambda>_. None), he_entries = (\<lambda>_. None), he_exists = (\<lambda>_. False),
      he_run = (\<lambda>_ _. Err (IoError NotFound (Some 2) '''')), he_failure = (\<lambda>_. None), he_home = None, he_pid = 7,
      he_epoch_secs = 9\<rparr>"

text \<open>A JSON library that finds nothing, for the examples.\<close>

definition no_json :: "unit json_value" where
  "no_json =
     \<lparr>ja_from_slice = (\<lambda>_. Err ''syntax''), ja_get = (\<lambda>_ _. None), ja_as_u64 = (\<lambda>_. None), ja_as_i64 = (\<lambda>_. None),
      ja_as_str = (\<lambda>_. None), jv_as_array = (\<lambda>_. None), jv_as_bool = (\<lambda>_. None)\<rparr>"

definition plain_formatters :: formatters where
  "plain_formatters = \<lparr>fm_debug = (\<lambda>s. s), fm_io = io_message\<rparr>"

lemma node_requirement_resolution_witness:
  "\<exists>r. fst (ensure_node_requirement no_json bare_host plain_formatters ''*'' ''/t''
         [\<lparr>rr_version = version_text (18, 2, 0), rr_dir_name = ''node''\<rparr>]) = Ok r \<and> rr_dir_name r = ''node''"
proof -
  let ?i = "[\<lparr>rr_version = version_text (18, 2, 0), rr_dir_name = ''node''\<rparr>]"
  let ?e = "ensure_node_requirement no_json bare_host plain_formatters ''*'' ''/t'' ?i"
  have meets: "\<exists>q \<in> set ?i. meets ''*'' q"
    by (simp add: meets_def semver_parse_version_text small_def any_version)
  then obtain r where "select_latest_installed_runtime ?i ''*'' = Some r"
    using select_latest_installed_None [of ?i "''*''"] by (metis option.exhaust)
  then have r: "fst ?e = Ok r" by (simp add: ensure_node_requirement_def)
  with node_requirement_resolution [OF r] meets show ?thesis by auto
qed

lemma node_install_atomic_witness:
  "\<exists>before last. snd (download_node bare_host plain_formatters \<lparr>rr_version = ''1.2.3'', rr_dir_name = ''node''\<rparr> ''/t'')
     = before @ [last]"
proof -
  let ?rt = "\<lparr>rr_version = ''1.2.3'', rr_dir_name = ''node''\<rparr>"
  have "fst (download_node bare_host plain_formatters ?rt ''/t'') \<noteq> Ok ()"
    by (simp add: download_node_def Let_def bind_host_fst create_temp_dir_simps run_host_command_def bare_host_def)
  moreover have "\<not> he_exists bare_host (path_join ''/t'' (rr_dir_name ?rt))" by (simp add: bare_host_def)
  ultimately show ?thesis using node_install_atomic [of bare_host "''/t''" ?rt plain_formatters] by (auto simp: Let_def)
qed

section \<open>The command that runs in the guest\<close>

lemma prepared_command_shape:
  assumes "fst (prepare_guest_command jv he fm command workspace tools_dir) = Ok p" and "command \<noteq> []"
  shows "(\<exists>pre. pre \<noteq> [] \<and> pg_command p = pre @ tl command)
    \<and> (guest_tool_for_command (hd command) = None \<longrightarrow> p = \<lparr>pg_command = command, pg_env = []\<rparr>)
    \<and> (guest_tool_for_command (hd command) = Some Node \<longrightarrow>
         (\<exists>r. fst (ensure_node_runtime jv he fm workspace tools_dir) = Ok r
            \<and> hd (pg_command p) = ''/opt/tools/'' @ rr_dir_name r @ ''/bin/node''
            \<and> pg_env p = [(''FEND_TOOL_PATH_PREPEND'', ''/opt/tools/'' @ rr_dir_name r @ ''/bin'')]))"
proof -
  obtain c args where command: "command = c # args" using assms(2) by (cases command) auto
  show ?thesis
  proof (cases "guest_tool_for_command c")
    case None
    with assms command show ?thesis by (auto simp: prepare_guest_command_def intro: exI [of _ "[c]"])
  next
    case (Some tool)
    show ?thesis
    proof (cases tool)
      case Node
      with Some have c: "c \<in> {''node'', ''npm'', ''npx'', ''pnpm'', ''pnpx'', ''yarn''}"
        by (auto simp: guest_tool_for_command_def split: if_splits)
      from assms Some Node command obtain r rewritten where r: "fst (ensure_node_runtime jv he fm workspace tools_dir) = Ok r"
          "rewrite_node he tools_dir r command = Ok rewritten"
          "p = \<lparr>pg_command = rewritten, pg_env = [(GUEST_TOOL_PATH_PREPEND_ENV, GUEST_TOOLS_ROOT @ ''/'' @ rr_dir_name r @ ''/bin'')]\<rparr>"
        by (auto simp: prepare_guest_command_def prepare_node_command_def bind_host_Ok)
      from r(2) c command obtain pre where pre: "rewritten = (''/opt/tools/'' @ rr_dir_name r @ ''/bin/node'') # pre @ args"
        by (auto simp: rewrite_node_def Let_def GUEST_TOOLS_ROOT_def)
      from r(1,3) pre Some Node command show ?thesis
        by (auto simp: GUEST_TOOLS_ROOT_def GUEST_TOOL_PATH_PREPEND_ENV_def
            intro: exI [of _ "(''/opt/tools/'' @ rr_dir_name r @ ''/bin/node'') # pre"])
    next
      case Bun
      with assms Some command obtain r where p: "pg_command p = rewrite_bun r command"
        by (auto simp: prepare_guest_command_def prepare_bun_command_def bind_host_Ok)
      have "\<exists>pre. pre \<noteq> [] \<and> rewrite_bun r command = pre @ tl command"
        by (auto simp: rewrite_bun_def Let_def command intro: exI [of _ "[_]"] exI [of _ "[_, _]"])
      with p Some Bun command show ?thesis by simp
    next
      case Claude
      with assms Some command show ?thesis by (auto simp: prepare_guest_command_def intro: exI [of _ "[c]"] split: if_splits)
    qed
  qed
qed

text \<open>
  Rewriting keeps the user's arguments: whatever is prepared for a command, all its
  arguments follow in order. A command of the Node family runs the \<open>node\<close> of the resolved
  runtime, whose directory is put first in the guest's search path; a command with a slash or of
  no known tool is not touched.
\<close>

theorem prepared_command:
  assumes "fst (prepare_guest_command jv he fm command workspace tools_dir) = Ok p" and "command \<noteq> []"
  shows "(\<exists>pre. pre \<noteq> [] \<and> pg_command p = pre @ tl command)
    \<and> (guest_tool_for_command (hd command) = None \<longrightarrow> p = \<lparr>pg_command = command, pg_env = []\<rparr>)
    \<and> (guest_tool_for_command (hd command) = Some Node \<longrightarrow>
         (\<exists>r. fst (ensure_node_runtime jv he fm workspace tools_dir) = Ok r
            \<and> hd (pg_command p) = ''/opt/tools/'' @ rr_dir_name r @ ''/bin/node''
            \<and> pg_env p = [(''FEND_TOOL_PATH_PREPEND'', ''/opt/tools/'' @ rr_dir_name r @ ''/bin'')]))"
  using assms by (rule prepared_command_shape)

lemma prepared_command_witness:
  "fst (prepare_guest_command no_json bare_host plain_formatters [''/bin/sh'', ''-c''] ''/w'' ''/t'')
     = Ok \<lparr>pg_command = [''/bin/sh'', ''-c''], pg_env = []\<rparr>"
proof -
  let ?p = "prepare_guest_command no_json bare_host plain_formatters [''/bin/sh'', ''-c''] ''/w'' ''/t''"
  have tool: "guest_tool_for_command ''/bin/sh'' = None" by (simp add: guest_tool_for_command_def)
  then obtain p where p: "fst ?p = Ok p" by (simp add: prepare_guest_command_def)
  with prepared_command [OF p] tool show ?thesis by simp
qed

end
