(* ===== verification/Host_Bootstrap.thy ===== *)
theory Host_Bootstrap
  imports Host_OS Host_Doctor Cli_Usage Runtime_Resolver
begin

text \<open>
  Preparing the guest runtime (linux/src/bootstrap.rs): the downloads with their checksums, the
  root file system built with Docker, the metadata file. The steps run over the world of
  Host_OS with its file-system failures; an outside program is the parameter \<open>be_run\<close>, which
  answers a command line and may change the files. Messages to the terminal and permission
  bits are not modelled.
\<close>

section \<open>Steps over the world\<close>

type_synonym 'a boot = "world \<Rightarrow> ('a, string) result \<times> world"

definition bind_boot :: "'a boot \<Rightarrow> ('a \<Rightarrow> 'b boot) \<Rightarrow> 'b boot" where
  "bind_boot m f w = (case m w of (Err e, w1) \<Rightarrow> (Err e, w1) | (Ok x, w1) \<Rightarrow> f x w1)"

definition pure_boot :: "('a, string) result \<Rightarrow> 'a boot" where
  "pure_boot r w = (r, w)"

text \<open>A call of \<open>std::fs\<close> with \<open>map_err(to_string)\<close>, and one whose result is dropped.\<close>

definition fs_boot :: "(world \<Rightarrow> 'a io_result \<times> world) \<Rightarrow> 'a boot" where
  "fs_boot call w = (case call w of (r, w1) \<Rightarrow> (map_err io_error_text r, w1))"

definition try_boot :: "(world \<Rightarrow> 'a \<times> world) \<Rightarrow> unit boot" where
  "try_boot call w = (Ok (), snd (call w))"

definition fs_rename :: "path \<Rightarrow> path \<Rightarrow> world \<Rightarrow> unit io_result \<times> world" where
  "fs_rename src dst =
     fs_call (\<lambda>w. case lookup_file src w of
         None \<Rightarrow> (Err not_found, w)
       | Some n \<Rightarrow> if lookup_file dst w = Some Dir \<and> n \<noteq> Dir
                    then (Err (IoError OtherKind (Some 21) ''Is a directory''), w)
                    else if n = Dir \<and> blocks_dir w dst
                    then (Err (IoError OtherKind (Some 20) ''Not a directory''), w)
                    else (Ok (), put_file dst n (drop_file src w)))"

definition fs_copy :: "path \<Rightarrow> path \<Rightarrow> world \<Rightarrow> unit io_result \<times> world" where
  "fs_copy src dst =
     fs_call (\<lambda>w. case lookup_file src w of
         None \<Rightarrow> (Err not_found, w)
       | Some (Regular s) \<Rightarrow> (Ok (), put_file dst (Regular s) w)
       | Some _ \<Rightarrow> (Err (IoError InvalidInput None ''the source path is neither a regular file nor a symlink to a regular file''), w))"

text \<open>\<open>Path::with_extension\<close>.\<close>

definition with_extension :: "path \<Rightarrow> string \<Rightarrow> path" where
  "with_extension p ext =
     (case (file_name p, file_stem p) of
        (Some n, Some stem) \<Rightarrow>
          (let q = trim_end_matches (CHR ''/'') p in take (length q - length n) q @ stem @ ''.'' @ ext)
      | _ \<Rightarrow> p)"

record boot_env =
  be_var_os :: "string \<Rightarrow> string option"
  be_current_exe :: "path io_result"
  be_current_dir :: "path io_result"
  be_now_secs :: "u64 option"
  be_special_len :: "path \<Rightarrow> u64"
  be_run :: "string \<Rightarrow> string list \<Rightarrow> world \<Rightarrow> process_output io_result \<times> world"

section \<open>Options\<close>

definition UBUNTU_BASE :: string where
  "UBUNTU_BASE = ''https://cloud-images.ubuntu.com/releases/noble/release/unpacked''"
definition KERNEL_FILE :: string where
  "KERNEL_FILE = ''ubuntu-24.04-server-cloudimg-amd64-vmlinuz-generic''"
definition INITRD_FILE :: string where
  "INITRD_FILE = ''ubuntu-24.04-server-cloudimg-amd64-initrd-generic''"
definition CLAUDE_DIST :: string where
  "CLAUDE_DIST = ''https://storage.googleapis.com/claude-code-dist-86c565f3-f756-42ad-8dfa-d59b1c096819/claude-code-releases''"
definition DOCKER_PLATFORM :: string where
  "DOCKER_PLATFORM = ''linux/amd64''"

record bootstrap_options =
  bo_runtime_dir :: path
  bo_work_dir :: path
  bo_tools_dir :: path
  bo_rebuild_rootfs :: bool
  bo_force_downloads :: bool
  bo_skip_claude :: bool
  bo_verbose :: bool

record bootstrap_report =
  br_artifacts :: runtime_artifacts
  br_metadata_path :: path
  br_bootstrapped :: bool

definition default_work_dir :: "path \<Rightarrow> path" where
  "default_work_dir fend_home = path_join fend_home ''tmp/build-linux-x86_64-runtime''"

definition default_claude_dir :: "path \<Rightarrow> path" where
  "default_claude_dir tools_dir = path_join tools_dir ''claude-linux-x64''"

text \<open>\<open>build_bootstrap_options\<close> of linux/src/cli.rs.\<close>

definition build_bootstrap_options :: "setup_options \<Rightarrow> plan_defaults \<Rightarrow> bootstrap_options" where
  "build_bootstrap_options options defaults =
     (let runtime_dir = resolve_setup_runtime_dir options defaults;
          tools_dir = unwrap_or (pd_tools_dir defaults) (path_join (pd_fend_home defaults) ''tools'')
      in \<lparr>bo_runtime_dir = runtime_dir,
          bo_work_dir = unwrap_or (so_work_dir options) (default_work_dir (pd_fend_home defaults)),
          bo_tools_dir = tools_dir, bo_rebuild_rootfs = so_rebuild_rootfs options,
          bo_force_downloads = so_force_downloads options, bo_skip_claude = so_skip_claude options,
          bo_verbose = True\<rparr>)"

definition runtime_missing :: "world \<Rightarrow> path \<Rightarrow> bool" where
  "runtime_missing w runtime_dir =
     (let artifacts = from_runtime_dir runtime_dir
      in \<not> path_is_file w (ra_kernel artifacts) \<or> \<not> path_is_file w (ra_initrd artifacts)
         \<or> \<not> path_is_file w (ra_rootfs artifacts))"

section \<open>Programs on the host\<close>

definition run_capture :: "boot_env \<Rightarrow> formatters \<Rightarrow> string \<Rightarrow> string list \<Rightarrow> string boot" where
  "run_capture be fm program args w =
     (case be_run be program args w of
        (Err e, w1) \<Rightarrow>
          (Err (if io_kind e = NotFound then ''required host tool '' @ fm_debug fm program @ '' was not found in PATH''
                else ''failed to start '' @ fm_debug fm program @ '': '' @ fm_io fm e), w1)
      | (Ok output, w1) \<Rightarrow>
          (if po_success output then Ok (po_stdout_text output)
           else (let stderr = trim (po_stderr_text output)
                 in if stderr = [] then Err (fm_debug fm program @ '' exited with status '' @ po_status output)
                    else Err (fm_debug fm program @ '' failed: '' @ stderr)), w1))"

definition ensure_host_command :: "boot_env \<Rightarrow> formatters \<Rightarrow> string \<Rightarrow> string \<Rightarrow> unit boot" where
  "ensure_host_command be fm program guidance w =
     (case be_run be ''sh'' [''-lc'', ''command -v '' @ program @ '' >/dev/null 2>&1''] w of
        (Err e, w1) \<Rightarrow> (Err (''failed to check '' @ program @ '': '' @ fm_io fm e), w1)
      | (Ok output, w1) \<Rightarrow> (if po_success output then Ok () else Err guidance, w1))"

definition ensure_docker_daemon :: "boot_env \<Rightarrow> formatters \<Rightarrow> unit boot" where
  "ensure_docker_daemon be fm w =
     (case run_capture be fm ''docker'' [''info''] w of
        (Ok _, w1) \<Rightarrow> (Ok (), w1)
      | (Err _, w1) \<Rightarrow> (Err ''Docker is installed but the daemon is not running'', w1))"

text \<open>\<open>u64::div_ceil\<close> of the length, which the system decides for what is not a regular file.\<close>

definition size_mib :: "boot_env \<Rightarrow> path \<Rightarrow> u64 boot" where
  "size_mib be p =
     bind_boot (fs_boot (fs_metadata p)) (\<lambda>n.
       let bytes = (case n of Regular s \<Rightarrow> of_nat (length s) | _ \<Rightarrow> be_special_len be p)
       in pure_boot (Ok (bytes div 1048576 + (if bytes mod 1048576 = 0 then 0 else 1))))"

definition make_executable :: "path \<Rightarrow> unit boot" where
  "make_executable p =
     bind_boot (fs_boot (fs_metadata p)) (\<lambda>_. fs_boot (fs_call (\<lambda>w. (Ok (), w))))"

section \<open>Downloads and checksums\<close>

definition download_to_path :: "boot_env \<Rightarrow> formatters \<Rightarrow> string \<Rightarrow> path \<Rightarrow> unit boot" where
  "download_to_path be fm url destination =
     bind_boot (case path_parent destination of
                  Some parent \<Rightarrow> fs_boot (create_dir_all parent)
                | None \<Rightarrow> pure_boot (Ok ())) (\<lambda>_.
     (let temp = with_extension destination ''tmp''
      in bind_boot (run_capture be fm ''curl''
             [''-fL'', ''--retry'', ''3'', ''--retry-delay'', ''2'', ''-o'', temp, url]) (\<lambda>_.
           fs_boot (fs_rename temp destination))))"

definition parse_checksum_output :: "string \<Rightarrow> (string, string) result" where
  "parse_checksum_output output =
     (case split_whitespace output of
        [] \<Rightarrow> Err ''checksum command returned empty output''
      | v # _ \<Rightarrow> Ok v)"

definition sha256_file :: "boot_env \<Rightarrow> formatters \<Rightarrow> path \<Rightarrow> string boot" where
  "sha256_file be fm path w =
     (case run_capture be fm ''sha256sum'' [path] w of
        (Ok output, w1) \<Rightarrow> (parse_checksum_output output, w1)
      | (Err _, w1) \<Rightarrow>
          bind_boot (run_capture be fm ''shasum'' [''-a'', ''256'', path])
            (\<lambda>output. pure_boot (parse_checksum_output output)) w1)"

text \<open>The line of a \<open>SHA256SUMS\<close> file for a name.\<close>

definition sum_line :: "string \<Rightarrow> string \<Rightarrow> string option" where
  "sum_line wanted line =
     (case split_whitespace line of
        sha # name # _ \<Rightarrow> if trim_start_matches (CHR ''*'') name = wanted then Some sha else None
      | _ \<Rightarrow> None)"

definition find_map :: "('a \<Rightarrow> 'b option) \<Rightarrow> 'a list \<Rightarrow> 'b option" where
  "find_map f xs = (case List.map_filter f xs of [] \<Rightarrow> None | y # _ \<Rightarrow> Some y)"

definition verify_ubuntu_checksum :: "boot_env \<Rightarrow> formatters \<Rightarrow> string \<Rightarrow> path \<Rightarrow> path \<Rightarrow> unit boot" where
  "verify_ubuntu_checksum be fm name destination sha_sums_path =
     bind_boot (fs_boot (read_to_string sha_sums_path)) (\<lambda>sums.
       case find_map (sum_line name) (lines sums) of
         None \<Rightarrow> pure_boot (Err (''Ubuntu SHA256SUMS did not contain '' @ name))
       | Some expected \<Rightarrow>
           bind_boot (sha256_file be fm destination) (\<lambda>actual.
             if actual = expected then pure_boot (Ok ())
             else bind_boot (try_boot (remove_file destination)) (\<lambda>_.
                    pure_boot (Err (''checksum mismatch for '' @ name)))))"

definition ensure_ubuntu_sums :: "boot_env \<Rightarrow> formatters \<Rightarrow> path \<Rightarrow> bool \<Rightarrow> unit boot" where
  "ensure_ubuntu_sums be fm path force w =
     (if path_is_file w path \<and> \<not> force then (Ok (), w)
      else download_to_path be fm (UBUNTU_BASE @ ''/SHA256SUMS'') path w)"

definition download_ubuntu_artifact ::
  "boot_env \<Rightarrow> formatters \<Rightarrow> string \<Rightarrow> path \<Rightarrow> path \<Rightarrow> bool \<Rightarrow> unit boot" where
  "download_ubuntu_artifact be fm name destination sha_sums_path force w =
     (if path_is_file w destination \<and> \<not> force then (Ok (), w)
      else bind_boot (download_to_path be fm (UBUNTU_BASE @ ''/'' @ name) destination)
             (\<lambda>_. verify_ubuntu_checksum be fm name destination sha_sums_path) w)"

section \<open>The guest agent binary\<close>

definition resolve_in :: "world \<Rightarrow> path list \<Rightarrow> path option" where
  "resolve_in w candidates = find (path_is_file w) candidates"

text \<open>
  The walk up from the executable. A parent has one component less, so as many rounds as the
  path has components reach the top.
\<close>

fun walk_up :: "nat \<Rightarrow> world \<Rightarrow> path option \<Rightarrow> path list" where
  "walk_up n w None = []"
| "walk_up 0 w (Some dir) = []"
| "walk_up (Suc n) w (Some dir) =
     (let repo_fendd = path_join dir ''fendd/target/x86_64-unknown-linux-musl/release/fendd'';
          found = (if path_is_file w repo_fendd then [repo_fendd] else [])
      in if path_is_file w (path_join dir ''fendd/Cargo.toml'') then found @ [repo_fendd]
         else found @ walk_up n w (path_parent dir))"

definition packaged_fendd_candidates :: "boot_env \<Rightarrow> world \<Rightarrow> path list" where
  "packaged_fendd_candidates be w =
     (case be_current_exe be of
        Err _ \<Rightarrow> []
      | Ok exe \<Rightarrow>
          (case path_parent exe of
             None \<Rightarrow> []
           | Some bin_dir \<Rightarrow>
               (case path_parent bin_dir of
                  None \<Rightarrow> []
                | Some package_root \<Rightarrow> [path_join package_root ''libexec/fendd''])
               @ [path_join bin_dir ''fendd''])
          @ walk_up (Suc (length (components exe))) w (path_parent exe))
     @ (case be_current_dir be of
          Err _ \<Rightarrow> []
        | Ok cwd \<Rightarrow> [path_join cwd ''packages/cli-linux-x64/libexec/fendd'',
                      path_join cwd ''fendd/target/x86_64-unknown-linux-musl/release/fendd''])"

definition resolve_fendd_binary :: "boot_env \<Rightarrow> path boot" where
  "resolve_fendd_binary be w =
     ((case (case be_var_os be ''FENDD_BIN'' of Some v \<Rightarrow> if v \<noteq> [] then Some v else None | None \<Rightarrow> None) of
         Some path \<Rightarrow> if path_is_file w path then Ok path
                      else Err (''FENDD_BIN points to a missing file: '' @ path)
       | None \<Rightarrow>
           (case resolve_in w (packaged_fendd_candidates be w) of
              Some candidate \<Rightarrow> Ok candidate
            | None \<Rightarrow> Err ''packaged guest agent was not found; reinstall the Linux npm package or set FENDD_BIN'')), w)"

section \<open>The optional tool and the root file system\<close>

definition maybe_download_claude :: "boot_env \<Rightarrow> formatters \<Rightarrow> bootstrap_options \<Rightarrow> unit boot" where
  "maybe_download_claude be fm options w =
     (let claude_dir = default_claude_dir (bo_tools_dir options);
          claude_path = path_join claude_dir ''claude''
      in if bo_skip_claude options \<or> path_is_file w claude_path then (Ok (), w)
         else bind_boot (fs_boot (create_dir_all claude_dir)) (\<lambda>_.
              bind_boot (run_capture be fm ''curl'' [''-fsSL'', CLAUDE_DIST @ ''/latest'']) (\<lambda>latest.
                let version = trim latest
                in if version = [] then pure_boot (Ok ())
                   else (\<lambda>w1.
                     case run_capture be fm ''curl''
                            [''-fsSL'', ''-o'', claude_path, CLAUDE_DIST @ ''/'' @ version @ ''/linux-x64/claude''] w1 of
                       (Err _, w2) \<Rightarrow> try_boot (remove_file claude_path) w2
                     | (Ok _, w2) \<Rightarrow> make_executable claude_path w2))) w)"

definition kernel_char :: "char \<Rightarrow> bool" where
  "kernel_char c \<longleftrightarrow> is_ascii_alphanumeric c \<or> c = CHR ''.'' \<or> c = CHR ''-''"

text \<open>
  The source also splits at NUL and looks at empty tokens; an empty token does not end with
  \<open>-generic\<close>.
\<close>

definition kernel_token :: "string \<Rightarrow> string option" where
  "kernel_token token =
     (if ends_with ''-generic'' token
      then (let core = rev (dropWhile (\<lambda>c. \<not> kernel_char c) (rev (dropWhile (\<lambda>c. \<not> kernel_char c) token)))
            in if (case core of [] \<Rightarrow> False | c # _ \<Rightarrow> is_ascii_digit c)
                  \<and> 2 \<le> count_list core (CHR ''.'') \<and> CHR ''-'' \<in> set core
               then Some core else None)
      else None)"

definition extract_kernel_version :: "string \<Rightarrow> string option" where
  "extract_kernel_version line =
     find_map kernel_token (split_whitespace (map (\<lambda>c. if c = CHR 0x00 then CHR 0x20 else c) line))"

definition detect_kernel_version :: "boot_env \<Rightarrow> formatters \<Rightarrow> path \<Rightarrow> string option boot" where
  "detect_kernel_version be fm kernel_path =
     bind_boot (run_capture be fm ''strings'' [kernel_path]) (\<lambda>stdout.
       pure_boot (Ok (find_map (\<lambda>line. extract_kernel_version (trim line)) (lines stdout))))"

definition rootfs_dockerfile :: "string option \<Rightarrow> string" where
  "rootfs_dockerfile kernel_version =
     (let build_arg = unwrap_or kernel_version [] in text_lines
     [''FROM ubuntu:24.04 AS rootfs'',
      [],
      ''ENV DEBIAN_FRONTEND=noninteractive'',
      ''ARG KERNEL_VERSION='' @ build_arg,
      [],
      [],
      ''RUN apt-get update && apt-get install -y --no-install-recommends '' @ [CHR 0x5C],
      ''bash '' @ [CHR 0x5C],
      ''ca-certificates '' @ [CHR 0x5C],
      ''curl '' @ [CHR 0x5C],
      ''e2fsprogs '' @ [CHR 0x5C],
      ''git '' @ [CHR 0x5C],
      ''iproute2 '' @ [CHR 0x5C],
      ''iputils-ping '' @ [CHR 0x5C],
      ''isc-dhcp-client '' @ [CHR 0x5C],
      ''kmod '' @ [CHR 0x5C],
      ''netbase '' @ [CHR 0x5C],
      ''openssh-client '' @ [CHR 0x5C],
      ''&& rm -rf /var/lib/apt/lists/*'',
      [],
      ''RUN if [ -n '' @ [CHR 0x22] @ ''$KERNEL_VERSION'' @ [CHR 0x22] @ '' ]; then '' @ [CHR 0x5C],
      ''apt-get update; '' @ [CHR 0x5C],
      ''apt-get install -y --no-install-recommends '' @ [CHR 0x22] @ ''linux-modules-${KERNEL_VERSION}'' @ [CHR 0x22] @ '' '' @ [CHR 0x5C],
      ''|| echo '' @ [CHR 0x22] @ ''warning: linux-modules-${KERNEL_VERSION} unavailable'' @ [CHR 0x22] @ ''; '' @ [CHR 0x5C],
      ''rm -rf /var/lib/apt/lists/*; '' @ [CHR 0x5C],
      ''fi'',
      [],
      ''RUN if id -u 1000 >/dev/null 2>&1; then '' @ [CHR 0x5C],
      ''existing='' @ [CHR 0x22] @ ''$(getent passwd 1000 | cut -d: -f1)'' @ [CHR 0x22] @ ''; '' @ [CHR 0x5C],
      ''usermod -l user -d /home/user -m -s /bin/bash '' @ [CHR 0x22] @ ''$existing'' @ [CHR 0x22] @ ''; '' @ [CHR 0x5C],
      ''groupmod -n user '' @ [CHR 0x22] @ ''$existing'' @ [CHR 0x22] @ '' 2>/dev/null || true; '' @ [CHR 0x5C],
      ''else '' @ [CHR 0x5C],
      ''useradd -m -u 1000 -s /bin/bash user; '' @ [CHR 0x5C],
      ''fi'',
      [],
      ''COPY fendd /usr/local/bin/fendd'',
      ''RUN chmod +x /usr/local/bin/fendd'',
      [],
      ''RUN mkdir -p /workspace /opt/tools /home/user/.npm /home/user/.cache /home/user/.local/bin '' @ [CHR 0x5C],
      ''/proc /sys /dev /dev/pts /run /tmp '' @ [CHR 0x5C],
      ''&& chmod 1777 /tmp '' @ [CHR 0x5C],
      ''&& chown -R 1000:1000 /home/user'',
      [],
      ''RUN printf '' @ [CHR 0x27] @ ''127.0.0.1 localhost fend'' @ [CHR 0x5C] @ ''n::1 localhost ip6-localhost ip6-loopback'' @ [CHR 0x5C] @ ''n'' @ [CHR 0x27] @ '' > /etc/hosts.fend'',
      [],
      ''RUN printf '' @ [CHR 0x27] @ ''#!/bin/sh'' @ [CHR 0x5C] @ ''ncase '' @ [CHR 0x22] @ ''$1'' @ [CHR 0x22] @ '' in'' @ [CHR 0x5C] @ ''n  bound|renew)'' @ [CHR 0x5C] @ ''n    ip addr add '' @ [CHR 0x22] @ ''$ip/$mask'' @ [CHR 0x22] @ '' dev '' @ [CHR 0x22] @ ''$interface'' @ [CHR 0x22] @ '' 2>/dev/null'' @ [CHR 0x5C] @ ''n    [ -n '' @ [CHR 0x22] @ ''$router'' @ [CHR 0x22] @ '' ] && ip route add default via '' @ [CHR 0x22] @ ''$router'' @ [CHR 0x22] @ '' dev '' @ [CHR 0x22] @ ''$interface'' @ [CHR 0x22] @ '' 2>/dev/null'' @ [CHR 0x5C] @ ''n    [ -n '' @ [CHR 0x22] @ ''$dns'' @ [CHR 0x22] @ '' ] && echo '' @ [CHR 0x22] @ ''nameserver $dns'' @ [CHR 0x22] @ '' > /etc/resolv.conf'' @ [CHR 0x5C] @ ''n    ;;'' @ [CHR 0x5C] @ ''nesac'' @ [CHR 0x5C] @ ''n'' @ [CHR 0x27] @ '' > /bin/simple_dhcp.sh '' @ [CHR 0x5C],
      ''&& chmod +x /bin/simple_dhcp.sh'',
      [],
      ''RUN [ -f /usr/bin/env ] || ln -sf /bin/env /usr/bin/env''])"

definition mkfs_script :: "string \<Rightarrow> string" where
  "mkfs_script img_size_mib = text_lines
     [''set -euo pipefail'',
      ''mkdir -p /rootfs_dir'',
      ''tar -xf /rootfs.tar -C /rootfs_dir'',
      ''rm -rf /rootfs_dir/.dockerenv /rootfs_dir/proc/* /rootfs_dir/sys/* /rootfs_dir/dev/*'',
      ''mkdir -p /rootfs_dir/proc /rootfs_dir/sys /rootfs_dir/dev /rootfs_dir/dev/pts /rootfs_dir/run /rootfs_dir/tmp'',
      ''chmod 1777 /rootfs_dir/tmp'',
      ''if [ -f /rootfs_dir/etc/hosts.fend ]; then cp /rootfs_dir/etc/hosts.fend /rootfs_dir/etc/hosts; rm /rootfs_dir/etc/hosts.fend; fi'',
      ''mke2fs -t ext4 -d /rootfs_dir -L fend-rootfs -m 1 -N 100000 /output/rootfs.img '' @ img_size_mib @ ''M'']"


definition mkfs_dockerfile_text :: string where
  "mkfs_dockerfile_text = text_lines
     [''FROM ubuntu:24.04'',
      ''RUN apt-get update && apt-get install -y --no-install-recommends e2fsprogs && rm -rf /var/lib/apt/lists/*'']"

definition image_size_mib :: "u64 \<Rightarrow> u64" where
  "image_size_mib tar_size_mib =
     (let img_size_mib = tar_size_mib + tar_size_mib div 5
      in if img_size_mib < 1024 then 1024 else img_size_mib)"

text \<open>The part of \<open>build_rootfs\<close> after the build directory is prepared.\<close>

definition make_rootfs_image ::
  "boot_env \<Rightarrow> formatters \<Rightarrow> bootstrap_options \<Rightarrow> path \<Rightarrow> path \<Rightarrow> string option \<Rightarrow> unit boot" where
  "make_rootfs_image be fm options rootfs_build rootfs_tar kernel_version =
     bind_boot (run_capture be fm ''docker''
       [''build'', ''--platform'', DOCKER_PLATFORM, ''--build-arg'',
        ''KERNEL_VERSION='' @ unwrap_or kernel_version [], ''-t'', ''fend-linux-x86_64-rootfs-builder'', rootfs_build]) (\<lambda>_.
     bind_boot (run_capture be fm ''docker''
       [''create'', ''--platform'', DOCKER_PLATFORM, ''fend-linux-x86_64-rootfs-builder'', ''/bin/true'']) (\<lambda>created.
     (let container_id = trim created
      in bind_boot (run_capture be fm ''docker'' [''export'', ''-o'', rootfs_tar, container_id]) (\<lambda>_.
         bind_boot (try_boot (run_capture be fm ''docker'' [''rm'', container_id])) (\<lambda>_.
         (let mkfs_dockerfile = path_join rootfs_build ''Dockerfile.mkfs''
          in bind_boot (fs_boot (fs_write mkfs_dockerfile mkfs_dockerfile_text)) (\<lambda>_.
             bind_boot (run_capture be fm ''docker''
               [''build'', ''--platform'', DOCKER_PLATFORM, ''-t'', ''fend-linux-x86_64-mkfs'',
                ''-f'', mkfs_dockerfile, rootfs_build]) (\<lambda>_.
             bind_boot (size_mib be rootfs_tar) (\<lambda>tar_size_mib.
             bind_boot (run_capture be fm ''docker''
               [''run'', ''--rm'', ''--platform'', DOCKER_PLATFORM, ''-v'', rootfs_tar @ '':/rootfs.tar:ro'',
                ''-v'', bo_runtime_dir options @ '':/output'', ''fend-linux-x86_64-mkfs'', ''/bin/bash'', ''-c'',
                mkfs_script (show_word (image_size_mib tar_size_mib))]) (\<lambda>_.
             bind_boot (try_boot (remove_file rootfs_tar)) (\<lambda>_.
             bind_boot (try_boot (remove_dir_all rootfs_build)) (\<lambda>_.
               try_boot (run_capture be fm ''docker''
                 [''rmi'', ''fend-linux-x86_64-rootfs-builder'', ''fend-linux-x86_64-mkfs''])))))))))))))"

definition build_rootfs ::
  "boot_env \<Rightarrow> formatters \<Rightarrow> bootstrap_options \<Rightarrow> path \<Rightarrow> path \<Rightarrow> path \<Rightarrow> unit boot" where
  "build_rootfs be fm options rootfs_path kernel_path fendd_bin w =
     (if path_is_file w rootfs_path \<and> \<not> bo_rebuild_rootfs options \<and> \<not> bo_force_downloads options then (Ok (), w)
      else
        let rootfs_build = path_join (bo_work_dir options) ''rootfs_build'';
            rootfs_tar = path_join (bo_work_dir options) ''rootfs.tar'';
            w0 = (if path_exists rootfs_path w then snd (remove_file rootfs_path w) else w)
        in bind_boot (try_boot (remove_dir_all rootfs_build)) (\<lambda>_.
           bind_boot (try_boot (remove_file rootfs_tar)) (\<lambda>_.
           bind_boot (fs_boot (create_dir_all rootfs_build)) (\<lambda>_.
           bind_boot (fs_boot (fs_copy fendd_bin (path_join rootfs_build ''fendd''))) (\<lambda>_.
           bind_boot (detect_kernel_version be fm kernel_path) (\<lambda>kernel_version.
           bind_boot (fs_boot (fs_write (path_join rootfs_build ''Dockerfile'') (rootfs_dockerfile kernel_version))) (\<lambda>_.
           bind_boot (make_rootfs_image be fm options rootfs_build rootfs_tar kernel_version) (\<lambda>_ w1.
             (if path_is_file w1 rootfs_path then Ok () else Err ''rootfs.img was not created'', w1)))))))) w0)"

section \<open>The whole setup\<close>

definition write_metadata :: "boot_env \<Rightarrow> formatters \<Rightarrow> path \<Rightarrow> runtime_artifacts \<Rightarrow> unit boot" where
  "write_metadata be fm metadata_path artifacts =
     bind_boot (sha256_file be fm (ra_kernel artifacts)) (\<lambda>kernel_sha.
     bind_boot (sha256_file be fm (ra_initrd artifacts)) (\<lambda>initrd_sha.
     bind_boot (sha256_file be fm (ra_rootfs artifacts)) (\<lambda>rootfs_sha.
       fs_boot (fs_write metadata_path (text_lines
         [''target=linux-x86_64'',
          ''ubuntu_base='' @ UBUNTU_BASE,
          ''kernel_file='' @ KERNEL_FILE,
          ''kernel_sha256='' @ kernel_sha,
          ''initrd_file='' @ INITRD_FILE,
          ''initrd_sha256='' @ initrd_sha,
          ''rootfs_sha256='' @ rootfs_sha,
          ''built_at_unix='' @ show_word (unwrap_or (be_now_secs be) 0)])))))"

definition ensure_linux_runtime :: "boot_env \<Rightarrow> formatters \<Rightarrow> bootstrap_options \<Rightarrow> bootstrap_report boot" where
  "ensure_linux_runtime be fm options w =
     (let artifacts = from_runtime_dir (bo_runtime_dir options);
          metadata_path = path_join (bo_runtime_dir options) ''metadata.env'';
          report = (\<lambda>done. \<lparr>br_artifacts = artifacts, br_metadata_path = metadata_path, br_bootstrapped = done\<rparr>);
          needs_setup = (runtime_missing w (bo_runtime_dir options) \<or> bo_rebuild_rootfs options
                         \<or> bo_force_downloads options);
          sha_sums_path = path_join (bo_work_dir options) ''SHA256SUMS''
      in if \<not> needs_setup then (Ok (report False), w)
         else bind_boot (fs_boot (create_dir_all (bo_runtime_dir options))) (\<lambda>_.
              bind_boot (fs_boot (create_dir_all (bo_work_dir options))) (\<lambda>_.
              bind_boot (ensure_host_command be fm ''curl'' ''install curl before running `fend`'') (\<lambda>_.
              bind_boot (ensure_host_command be fm ''docker'' ''install Docker before running `fend`'') (\<lambda>_.
              bind_boot (ensure_host_command be fm ''strings'' ''install binutils before running `fend`'') (\<lambda>_.
              bind_boot (ensure_docker_daemon be fm) (\<lambda>_.
              bind_boot (ensure_ubuntu_sums be fm sha_sums_path (bo_force_downloads options)) (\<lambda>_.
              bind_boot (download_ubuntu_artifact be fm KERNEL_FILE (ra_kernel artifacts) sha_sums_path
                (bo_force_downloads options)) (\<lambda>_.
              bind_boot (download_ubuntu_artifact be fm INITRD_FILE (ra_initrd artifacts) sha_sums_path
                (bo_force_downloads options)) (\<lambda>_.
              bind_boot (resolve_fendd_binary be) (\<lambda>fendd_bin.
              bind_boot (maybe_download_claude be fm options) (\<lambda>_.
              bind_boot (build_rootfs be fm options (ra_rootfs artifacts) (ra_kernel artifacts) fendd_bin) (\<lambda>_.
              bind_boot (write_metadata be fm metadata_path artifacts) (\<lambda>_.
                pure_boot (Ok (report True))))))))))))))) w)"

section \<open>Lemmas\<close>

lemma bind_boot_Ok:
  "bind_boot m f w = (Ok y, w') \<longleftrightarrow> (\<exists>x w1. m w = (Ok x, w1) \<and> f x w1 = (Ok y, w'))"
  by (auto simp: bind_boot_def split: prod.splits result.splits)

lemma pure_boot_eq [simp]: "pure_boot r w = (r, w)"
  by (simp add: pure_boot_def)

lemma fs_boot_Ok: "fs_boot call w = (Ok x, w') \<longleftrightarrow> call w = (Ok x, w')"
  by (auto simp: fs_boot_def split: prod.splits)

lemma fs_call_Ok:
  "fs_call f w = (Ok x, w') \<longleftrightarrow> (\<exists>fs. take_fault (os_fs_faults w) = (None, fs) \<and> f (w\<lparr>os_fs_faults := fs\<rparr>) = (Ok x, w'))"
  by (auto simp: fs_call_def split: prod.splits option.splits)

lemma read_to_string_Ok:
  "read_to_string p w = (Ok s, w') \<Longrightarrow> lookup_file p w = Some (Regular s) \<and> os_files w' = os_files w"
  by (auto simp: read_to_string_def fs_call_Ok ok_or.simps split: option.splits node.splits)

subsection \<open>Checksums\<close>

text \<open>
  What the checks need of the checksum programs: each prints the digest of the file before a
  blank and leaves the files as they are, or fails. \<open>digest\<close> stands for SHA-256 in hexadecimal.
\<close>

definition checksum_tools :: "boot_env \<Rightarrow> (string \<Rightarrow> string) \<Rightarrow> bool" where
  "checksum_tools be digest \<longleftrightarrow>
     (\<forall>c. word (digest c))
     \<and> (\<forall>p program args w out w'.
          (program, args) \<in> {(''sha256sum'', [p]), (''shasum'', [''-a'', ''256'', p])} \<longrightarrow>
          be_run be program args w = (Ok out, w') \<longrightarrow> po_success out \<longrightarrow>
          os_files w' = os_files w
          \<and> (\<exists>c rest. lookup_file p w = Some (Regular c) \<and> po_stdout_text out = digest c @ CHR 0x20 # rest))
     \<and> (\<forall>w p. os_files (snd (be_run be ''sha256sum'' [p] w)) = os_files w)"

lemma split_first_word: "word d \<Longrightarrow> \<exists>ws. split_whitespace (d @ CHR 0x20 # rest) = d # ws"
  using split_ws_aux_word [of d "[]" "CHR 0x20 # rest"]
  by (auto simp: word_def split_whitespace_def split_ws_aux_space flush_word_def)

lemma lookup_files_cong: "os_files w = os_files w' \<Longrightarrow> lookup_file p w = lookup_file p w'"
  by (simp add: lookup_file_def)

lemma run_capture_Ok:
  "run_capture be fm program args w = (Ok s, w') \<longleftrightarrow>
     (\<exists>out. be_run be program args w = (Ok out, w') \<and> po_success out \<and> s = po_stdout_text out)"
  by (auto simp: run_capture_def Let_def split: prod.splits result.splits if_splits)

lemma run_capture_world: "snd (run_capture be fm program args w) = snd (be_run be program args w)"
  by (auto simp: run_capture_def split: prod.splits result.splits)

lemma checksum_program:
  assumes "checksum_tools be digest"
    and "(program, args) \<in> {(''sha256sum'', [p]), (''shasum'', [''-a'', ''256'', p])}"
    and "run_capture be fm program args w = (Ok out, w')" "parse_checksum_output out = Ok h"
  shows "\<exists>c. lookup_file p w = Some (Regular c) \<and> h = digest c \<and> os_files w' = os_files w"
proof -
  from assms(3) obtain po where "be_run be program args w = (Ok po, w')" "po_success po" "out = po_stdout_text po"
    by (auto simp: run_capture_Ok)
  with assms(1,2) obtain c rest where c: "lookup_file p w = Some (Regular c)" "os_files w' = os_files w"
    "out = digest c @ CHR 0x20 # rest" "word (digest c)"
    unfolding checksum_tools_def by metis
  with split_first_word [of "digest c" rest] assms(4) show ?thesis
    by (auto simp: parse_checksum_output_def)
qed

lemma sha256_file_digest:
  assumes "checksum_tools be digest" and "sha256_file be fm p w = (Ok h, w')"
  shows "\<exists>c. lookup_file p w = Some (Regular c) \<and> h = digest c \<and> os_files w' = os_files w"
proof (cases "run_capture be fm ''sha256sum'' [p] w")
  case (Pair r w1)
  then have w1: "os_files w1 = os_files w"
    using assms(1) run_capture_world [of be fm "''sha256sum''" "[p]" w]
    unfolding checksum_tools_def by (metis snd_conv)
  show ?thesis
  proof (cases r)
    case (Ok out)
    then show ?thesis
      using Pair assms checksum_program [of be digest "''sha256sum''" "[p]" p fm w out w1 h]
      by (simp add: sha256_file_def)
  next
    case (Err e)
    then obtain out where "run_capture be fm ''shasum'' [''-a'', ''256'', p] w1 = (Ok out, w')"
      "parse_checksum_output out = Ok h"
      using Pair assms(2) by (auto simp: sha256_file_def bind_boot_Ok)
    then show ?thesis
      using assms(1) w1 lookup_files_cong [OF w1, of p]
        checksum_program [of be digest "''shasum''" "[''-a'', ''256'', p]" p fm w1 out w' h]
      by simp
  qed
qed

text \<open>
  (C30) A download that is accepted has the published checksum: when the artifact was not there
  before (or a fresh one is forced) and \<open>download_ubuntu_artifact\<close> succeeds, the file in place
  has the digest that the first line of SHA256SUMS for its name lists.
\<close>

theorem fresh_download_verified:
  assumes "checksum_tools be digest"
    and "\<not> path_is_file w destination \<or> force"
    and "download_ubuntu_artifact be fm name destination sums force w = (Ok (), w')"
  shows "\<exists>content listing. lookup_file destination w' = Some (Regular content)
     \<and> lookup_file sums w' = Some (Regular listing)
     \<and> find_map (sum_line name) (lines listing) = Some (digest content)"
proof -
  from assms(2,3) obtain w1 where "verify_ubuntu_checksum be fm name destination sums w1 = (Ok (), w')"
    by (auto simp: download_ubuntu_artifact_def bind_boot_Ok split: if_splits)
  then obtain listing expected w2 where
    "lookup_file sums w1 = Some (Regular listing)" "os_files w2 = os_files w1"
    "find_map (sum_line name) (lines listing) = Some expected"
    "sha256_file be fm destination w2 = (Ok expected, w')"
    by (auto simp: verify_ubuntu_checksum_def bind_boot_Ok fs_boot_Ok dest!: read_to_string_Ok
        split: option.splits if_splits)
  with sha256_file_digest [OF assms(1), of fm destination w2 expected w'] show ?thesis
    by (auto simp: lookup_file_def)
qed


text \<open>
  A host for the examples: curl writes the text \<open>kernel\<close> (or, for the listing, a line for the
  kernel), and the digest of a file is its length in decimal.
\<close>

definition toy_digest :: "string \<Rightarrow> string" where
  "toy_digest c = show_nat (length c)"

definition succeeded :: "string \<Rightarrow> process_output" where
  "succeeded out = \<lparr>po_success = True, po_status = ''exit status: 0'', po_stdout = [],
     po_stdout_text = out, po_stderr_text = []\<rparr>"

definition toy_run :: "bool \<Rightarrow> string \<Rightarrow> string list \<Rightarrow> world \<Rightarrow> process_output io_result \<times> world" where
  "toy_run sums_work program args w =
     (if program = ''curl'' then (Ok (succeeded []), put_file (args ! 6) (Regular ''kernel'') w)
      else if program = ''sha256sum'' \<and> sums_work then
        (case args of
           [p] \<Rightarrow> (case lookup_file p w of
                    Some (Regular c) \<Rightarrow> (Ok (succeeded (toy_digest c @ CHR 0x20 # p)), w)
                  | _ \<Rightarrow> (Err not_found, w))
         | _ \<Rightarrow> (Err not_found, w))
      else (Err not_found, w))"

definition toy_boot :: "bool \<Rightarrow> boot_env" where
  "toy_boot sums_work =
     \<lparr>be_var_os = (\<lambda>_. None), be_current_exe = Err not_found, be_current_dir = Err not_found,
      be_now_secs = None, be_special_len = (\<lambda>_. 0), be_run = toy_run sums_work\<rparr>"

definition toy_world :: world where
  "toy_world =
     \<lparr>os_files = [(''/'', Dir), (''/rt'', Dir), (''/work'', Dir), (''/work/SHA256SUMS'', Regular ''6 *k.img'')],
      os_procs = [], os_pids = [], os_fs_faults = [], os_spawn_faults = [], os_proc_faults = [], os_clock = 0\<rparr>"

lemma toy_checksum_tools: "checksum_tools (toy_boot b) toy_digest"
proof -
  have "word (toy_digest c)" for c
    by (simp add: toy_digest_def word_def show_nat_graphic)
  then show ?thesis
    by (auto simp: checksum_tools_def toy_boot_def toy_run_def succeeded_def
        split: if_splits option.splits node.splits list.splits)
qed

lemma fresh_download_verified_witness:
  "(let (r, w') = download_ubuntu_artifact (toy_boot True) plain_formatters ''k.img'' ''/rt/vmlinuz''
                    ''/work/SHA256SUMS'' False toy_world
    in r = Ok () \<and> lookup_file ''/rt/vmlinuz'' w' = Some (Regular ''kernel'')
       \<and> (\<exists>listing. lookup_file ''/work/SHA256SUMS'' w' = Some (Regular listing)
            \<and> find_map (sum_line ''k.img'') (lines listing) = Some (toy_digest ''kernel'')))"
proof -
  define run where "run = download_ubuntu_artifact (toy_boot True) plain_formatters ''k.img'' ''/rt/vmlinuz''
                    ''/work/SHA256SUMS'' False toy_world"
  have "fst run = Ok ()" "lookup_file ''/rt/vmlinuz'' (snd run) = Some (Regular ''kernel'')"
    unfolding run_def by code_simp+
  moreover have "\<not> path_is_file toy_world ''/rt/vmlinuz''" by code_simp
  ultimately show ?thesis
    using fresh_download_verified [OF toy_checksum_tools, of toy_world "''/rt/vmlinuz''" False True
        plain_formatters "''k.img''" "''/work/SHA256SUMS''" "snd run"]
    unfolding run_def [symmetric] by (cases run) (auto simp: run_def)
qed

lemma fs_call_clear [simp]: "os_fs_faults w = [] \<Longrightarrow> fs_call f w = f w"
  by (cases w) (simp add: fs_call_def)

lemma fold_put_dir: "lookup_file q (fold (\<lambda>a. put_file a Dir) ps w) = (if q \<in> set ps then Some Dir else lookup_file q w)"
  by (induction ps arbitrary: w) auto

lemma fold_put_dir_clear [simp]: "os_fs_faults (fold (\<lambda>a. put_file a Dir) ps w) = os_fs_faults w"
  by (induction ps arbitrary: w) auto

lemma sha256_unavailable:
  assumes "\<forall>args v. \<exists>e. be_run be ''sha256sum'' args v = (Err e, v)"
    and "\<forall>args v. \<exists>e. be_run be ''shasum'' args v = (Err e, v)"
  shows "\<exists>e. sha256_file be fm p w = (Err e, w)"
proof -
  obtain e1 e2 where "be_run be ''sha256sum'' [p] w = (Err e1, w)"
    "be_run be ''shasum'' [''-a'', ''256'', p] w = (Err e2, w)" using assms by meson
  then show ?thesis by (simp add: sha256_file_def bind_boot_def run_capture_def)
qed

text \<open>
  (C38) The check comes after the file is put in place: when no checksum program works, the first
  setup fails but leaves the download, whatever its content and whatever SHA256SUMS lists,
  and the next setup accepts it without a check.
\<close>

theorem unverified_download_accepted:
  assumes "os_fs_faults w = []" and "\<not> path_exists destination w"
    and "path_parent destination = Some dir" and "\<not> list_ex (blocks_dir w) (ancestors dir)"
    and "\<forall>v. \<exists>out. be_run be ''curl'' [''-fL'', ''--retry'', ''3'', ''--retry-delay'', ''2'', ''-o'', temp,
            UBUNTU_BASE @ ''/'' @ name] v = (Ok out, put_file temp (Regular content) v) \<and> po_success out"
    and "temp = with_extension destination ''tmp''" and "temp \<noteq> destination"
    and "destination \<notin> set (ancestors dir)" and "sums \<notin> {temp, destination} \<union> set (ancestors dir)"
    and "lookup_file sums w = Some (Regular listing)" "find_map (sum_line name) (lines listing) = Some expected"
    and "\<forall>args v. \<exists>e. be_run be ''sha256sum'' args v = (Err e, v)"
    and "\<forall>args v. \<exists>e. be_run be ''shasum'' args v = (Err e, v)"
  shows "\<exists>e w'. download_ubuntu_artifact be fm name destination sums False w = (Err e, w')
     \<and> lookup_file destination w' = Some (Regular content)
     \<and> download_ubuntu_artifact be fm name destination sums False w' = (Ok (), w')"
proof -
  let ?w1 = "fold (\<lambda>a. put_file a Dir) (ancestors dir) w"
  let ?w2 = "put_file temp (Regular content) ?w1"
  let ?w3 = "put_file destination (Regular content) (drop_file temp ?w2)"
  obtain out where out: "be_run be ''curl'' [''-fL'', ''--retry'', ''3'', ''--retry-delay'', ''2'', ''-o'', temp,
      UBUNTU_BASE @ ''/'' @ name] ?w1 = (Ok out, ?w2)" "po_success out" using assms(5) by blast
  have "lookup_file destination ?w2 = None"
    using assms(2,7,8) by (simp add: fold_put_dir path_exists_def)
  then have "download_to_path be fm (UBUNTU_BASE @ ''/'' @ name) destination w = (Ok (), ?w3)"
    using out assms(1,3,4) unfolding assms(6) [symmetric] download_to_path_def
    by (simp add: bind_boot_def fs_boot_def create_dir_all_def run_capture_def fs_rename_def)
  moreover have "lookup_file sums ?w3 = Some (Regular listing)"
    using assms(9,10) by (simp add: fold_put_dir)
  moreover obtain e where "sha256_file be fm destination ?w3 = (Err e, ?w3)"
    using sha256_unavailable [OF assms(12,13)] by blast
  ultimately have "download_ubuntu_artifact be fm name destination sums False w = (Err e, ?w3)"
    using assms(1,2,11)
    by (simp add: download_ubuntu_artifact_def bind_boot_def verify_ubuntu_checksum_def fs_boot_def
        read_to_string_def path_is_file_def path_exists_def)
  then show ?thesis
    by (intro exI [of _ e] exI [of _ ?w3]) (simp add: download_ubuntu_artifact_def path_is_file_def)
qed

lemma unverified_download_accepted_witness:
  "\<exists>e w'. download_ubuntu_artifact (toy_boot False) plain_formatters ''k.img'' ''/rt/vmlinuz''
       ''/work/SHA256SUMS'' False toy_world = (Err e, w')
     \<and> lookup_file ''/rt/vmlinuz'' w' = Some (Regular ''kernel'')
     \<and> download_ubuntu_artifact (toy_boot False) plain_formatters ''k.img'' ''/rt/vmlinuz''
         ''/work/SHA256SUMS'' False w' = (Ok (), w')"
proof (rule unverified_download_accepted)
  show "os_fs_faults toy_world = []" "\<not> path_exists ''/rt/vmlinuz'' toy_world"
    "path_parent ''/rt/vmlinuz'' = Some ''/rt''" "\<not> list_ex (blocks_dir toy_world) (ancestors ''/rt'')"
    "''/rt/vmlinuz.tmp'' = with_extension ''/rt/vmlinuz'' ''tmp''"
    "''/rt/vmlinuz'' \<notin> set (ancestors ''/rt'')"
    "''/work/SHA256SUMS'' \<notin> {''/rt/vmlinuz.tmp'', ''/rt/vmlinuz''} \<union> set (ancestors ''/rt'')"
    "lookup_file ''/work/SHA256SUMS'' toy_world = Some (Regular ''6 *k.img'')"
    "find_map (sum_line ''k.img'') (lines ''6 *k.img'') = Some ''6''"
    by code_simp+
  show "\<forall>v. \<exists>out. be_run (toy_boot False) ''curl'' [''-fL'', ''--retry'', ''3'', ''--retry-delay'', ''2'', ''-o'',
      ''/rt/vmlinuz.tmp'', UBUNTU_BASE @ ''/'' @ ''k.img''] v = (Ok out, put_file ''/rt/vmlinuz.tmp'' (Regular ''kernel'') v)
      \<and> po_success out"
    by (simp add: toy_boot_def toy_run_def succeeded_def)
  show "\<forall>args v. \<exists>e. be_run (toy_boot False) ''sha256sum'' args v = (Err e, v)"
    "\<forall>args v. \<exists>e. be_run (toy_boot False) ''shasum'' args v = (Err e, v)"
    by (simp_all add: toy_boot_def toy_run_def)
qed simp_all

subsection \<open>Files that stay\<close>

text \<open>A step keeps a path when a regular file there is still one afterwards.\<close>

definition keeps :: "(world \<Rightarrow> 'a \<times> world) \<Rightarrow> path \<Rightarrow> bool" where
  "keeps m p \<longleftrightarrow> (\<forall>w. path_is_file w p \<longrightarrow> path_is_file (snd (m w)) p)"

definition tools_keep :: "boot_env \<Rightarrow> bool" where
  "tools_keep be \<longleftrightarrow> (\<forall>program args p. keeps (be_run be program args) p)"

lemma kept: "keeps m p \<Longrightarrow> m w = (r, w') \<Longrightarrow> path_is_file w p \<Longrightarrow> path_is_file w' p"
  unfolding keeps_def by (metis snd_conv)

lemma path_is_file_iff: "path_is_file w p \<longleftrightarrow> (\<exists>s. lookup_file p w = Some (Regular s))"
  by (auto simp: path_is_file_def split: option.splits node.splits)

named_theorems keeps_intros

lemma keeps_bind [keeps_intros]: "keeps m p \<Longrightarrow> (\<And>x. keeps (f x) p) \<Longrightarrow> keeps (bind_boot m f) p"
  unfolding keeps_def bind_boot_def by (fastforce split: prod.splits result.splits)

lemma keeps_boot [keeps_intros]:
  "keeps (pure_boot r) p" "keeps call p \<Longrightarrow> keeps (fs_boot call) p" "keeps attempt p \<Longrightarrow> keeps (try_boot attempt) p"
  by (auto simp: keeps_def fs_boot_def try_boot_def pure_boot_def split: prod.splits)

lemma path_is_file_faults [simp]: "path_is_file (w\<lparr>os_fs_faults := fs\<rparr>) p = path_is_file w p"
  by (simp add: path_is_file_def)

lemma keeps_fs_call: "(\<And>w. path_is_file w p \<Longrightarrow> path_is_file (snd (f w)) p) \<Longrightarrow> keeps (fs_call f) p"
  by (auto simp: keeps_def fs_call_def split: prod.splits option.splits)

lemma keeps_fs [keeps_intros]:
  "keeps (create_dir_all d) p" "keeps (fs_write q s) p" "keeps (fs_copy a b) p" "keeps (read_to_string q) p"
  "keeps (fs_metadata q) p" "keeps (fs_call (\<lambda>w. (Ok (), w))) p"
  unfolding create_dir_all_def fs_write_def fs_copy_def read_to_string_def fs_metadata_def
  by (rule keeps_fs_call;
      auto simp: path_is_file_iff fold_put_dir list_ex_iff blocks_dir_def split: option.splits node.splits)+

lemma keeps_drop [keeps_intros]:
  "p \<noteq> q \<Longrightarrow> keeps (remove_file q) p" "p \<noteq> a \<Longrightarrow> p \<noteq> b \<Longrightarrow> keeps (fs_rename a b) p"
  "\<not> below d p \<Longrightarrow> keeps (remove_dir_all d) p"
  unfolding remove_file_def fs_rename_def remove_dir_all_def
    apply (rule keeps_fs_call; auto simp: path_is_file_iff)
   apply (rule keeps_fs_call; auto simp: path_is_file_iff split: option.splits)
  by (rule keeps_fs_call; auto simp: path_is_file_iff lookup_file_def map_of_filter_in)

lemma keeps_run [keeps_intros]: "tools_keep be \<Longrightarrow> keeps (run_capture be fm program args) p"
  using run_capture_world by (fastforce simp: keeps_def tools_keep_def)

lemma keeps_conditional [keeps_intros]:
  "keeps m p \<Longrightarrow> keeps n p \<Longrightarrow> keeps (\<lambda>w. if c w then m w else n w) p"
  "(\<And>x. keeps (f x) p) \<Longrightarrow> keeps n p \<Longrightarrow> keeps (case o' of None \<Rightarrow> n | Some x \<Rightarrow> f x) p"
  "keeps m p \<Longrightarrow> keeps n p \<Longrightarrow> keeps (if b then m else n) p"
  "keeps (\<lambda>w. (g w, w)) p"
  by (auto simp: keeps_def split: option.splits)

lemma keeps_result [keeps_intros]:
  "keeps m p \<Longrightarrow> (\<And>x. keeps (f x) p) \<Longrightarrow> (\<And>e. keeps (g e) p)
     \<Longrightarrow> keeps (\<lambda>w. case m w of (Ok x, w1) \<Rightarrow> f x w1 | (Err e, w1) \<Rightarrow> g e w1) p"
  unfolding keeps_def by (fastforce split: prod.splits result.splits)

text \<open>The paths a setup may remove or replace, and that the artifacts are none of them.\<close>

definition scratch_paths :: "bootstrap_options \<Rightarrow> path list" where
  "scratch_paths options =
     (let artifacts = from_runtime_dir (bo_runtime_dir options); sums = path_join (bo_work_dir options) ''SHA256SUMS''
      in [sums, with_extension sums ''tmp'', with_extension (ra_kernel artifacts) ''tmp'',
          with_extension (ra_initrd artifacts) ''tmp'', path_join (bo_work_dir options) ''rootfs.tar'',
          path_join (default_claude_dir (bo_tools_dir options)) ''claude'', ra_rootfs artifacts])"

definition separate :: "bootstrap_options \<Rightarrow> bool" where
  "separate options \<longleftrightarrow>
     (let artifacts = from_runtime_dir (bo_runtime_dir options)
      in list_all (\<lambda>p. p \<notin> set (scratch_paths options) \<and> \<not> below (path_join (bo_work_dir options) ''rootfs_build'') p)
           [ra_kernel artifacts, ra_initrd artifacts])"

lemma keeps_sha256 [keeps_intros]: "tools_keep be \<Longrightarrow> keeps (sha256_file be fm q) p"
  unfolding sha256_file_def by (intro keeps_intros)

lemma keeps_download:
  assumes "tools_keep be" "p \<noteq> destination" "p \<noteq> with_extension destination ''tmp''"
  shows "keeps (download_to_path be fm url destination) p"
  unfolding download_to_path_def Let_def using assms by (intro keeps_intros)

lemma keeps_artifact:
  assumes "tools_keep be" "p \<noteq> destination" "p \<noteq> with_extension destination ''tmp''"
  shows "keeps (download_ubuntu_artifact be fm name destination sums force) p"
  unfolding download_ubuntu_artifact_def verify_ubuntu_checksum_def
  using assms by (intro keeps_intros keeps_download)

lemma keeps_claude:
  assumes "tools_keep be" "p \<noteq> path_join (default_claude_dir (bo_tools_dir options)) ''claude''"
  shows "keeps (maybe_download_claude be fm options) p"
  unfolding maybe_download_claude_def make_executable_def Let_def
  using assms by (intro keeps_intros)

lemma keeps_image:
  assumes "tools_keep be" "p \<noteq> rootfs_tar" "\<not> below rootfs_build p"
  shows "keeps (make_rootfs_image be fm options rootfs_build rootfs_tar kernel_version) p"
  unfolding make_rootfs_image_def size_mib_def Let_def
  using assms by (intro keeps_intros)

lemma keeps_metadata:
  assumes "tools_keep be"
  shows "keeps (write_metadata be fm metadata_path artifacts) p"
  unfolding write_metadata_def using assms by (intro keeps_intros)


lemma artifact_is_file:
  assumes "checksum_tools be digest"
    and "download_ubuntu_artifact be fm name destination sums force w = (Ok (), w')"
  shows "path_is_file w' destination"
proof (cases "\<not> path_is_file w destination \<or> force")
  case True
  then obtain w1 where "verify_ubuntu_checksum be fm name destination sums w1 = (Ok (), w')"
    using assms(2) by (auto simp: download_ubuntu_artifact_def bind_boot_Ok split: if_splits)
  then obtain w2 h where "sha256_file be fm destination w2 = (Ok h, w')"
    by (auto simp: verify_ubuntu_checksum_def bind_boot_Ok split: option.splits if_splits)
  then show ?thesis
    using sha256_file_digest [OF assms(1)] by (fastforce simp: path_is_file_iff lookup_file_def)
qed (use assms(2) in \<open>simp add: download_ubuntu_artifact_def\<close>)

lemma keeps_rootfs:
  assumes "tools_keep be" "p \<noteq> rootfs_path" "p \<noteq> path_join (bo_work_dir options) ''rootfs.tar''"
    "\<not> below (path_join (bo_work_dir options) ''rootfs_build'') p"
  shows "keeps (build_rootfs be fm options rootfs_path kernel_path fendd_bin) p"
proof -
  have first: "keeps (\<lambda>w. ((), if path_exists rootfs_path w then snd (remove_file rootfs_path w) else w)) p"
    using keeps_drop(1) [OF assms(2)] by (simp add: keeps_def)
  have after: "keeps (\<lambda>w. m ((if path_exists rootfs_path w then snd (remove_file rootfs_path w) else w))) p"
    if "keeps m p" for m :: "unit boot"
    using first that by (simp add: keeps_def)
  show ?thesis
    unfolding build_rootfs_def Let_def detect_kernel_version_def
    using assms by (intro keeps_intros after keeps_image)
qed

lemma rootfs_is_file:
  "build_rootfs be fm options rootfs_path kernel_path fendd_bin w = (Ok (), w') \<Longrightarrow> path_is_file w' rootfs_path"
  by (auto simp: build_rootfs_def Let_def bind_boot_Ok split: if_splits)



definition full_run :: "string \<Rightarrow> string list \<Rightarrow> world \<Rightarrow> process_output io_result \<times> world" where
  "full_run program args w =
     (if program \<in> {''curl'', ''sha256sum'', ''shasum''} then toy_run True program args w
      else if program = ''docker'' \<and> take 1 args = [''export'']
      then (Ok (succeeded []), put_file (args ! 2) (Regular ''tar'') w)
      else if program = ''docker'' \<and> take 1 args = [''run'']
      then (Ok (succeeded []), put_file ''/rt/rootfs.img'' (Regular ''image'') w)
      else (Ok (succeeded ''Linux 6.8.0-106-generic''), w))"

definition full_boot :: boot_env where
  "full_boot = (toy_boot True)\<lparr>be_var_os := (\<lambda>k. if k = ''FENDD_BIN'' then Some ''/fendd'' else None), be_run := full_run\<rparr>"

definition full_world :: world where
  "full_world = put_file ''/fendd'' (Regular ''agent'')
     (put_file ''/work/SHA256SUMS'' (Regular (text_lines [''6 *'' @ KERNEL_FILE, ''6 *'' @ INITRD_FILE])) toy_world)"

definition full_options :: bootstrap_options where
  "full_options = \<lparr>bo_runtime_dir = ''/rt'', bo_work_dir = ''/work'', bo_tools_dir = ''/tools'',
     bo_rebuild_rootfs = False, bo_force_downloads = False, bo_skip_claude = True, bo_verbose = False\<rparr>"

lemma full_tools: "tools_keep full_boot" "checksum_tools full_boot toy_digest"
proof -
  show "tools_keep full_boot"
    by (auto simp: tools_keep_def keeps_def full_boot_def full_run_def toy_boot_def toy_run_def path_is_file_iff
        split: if_splits option.splits node.splits list.splits)
  show "checksum_tools full_boot toy_digest"
    using toy_checksum_tools [of True]
    by (simp add: checksum_tools_def full_boot_def toy_boot_def full_run_def)
qed


end
