(* ===== verification/Ipc.thy ===== *)
theory Ipc
  imports Rust_IO Rust_Strings Qemu_Plan
begin

text \<open>
  The protocol between the command line and the host daemon (linux/src/ipc.rs): the
  messages, their length-prefixed framing, and the default locations of socket and state.
  The JSON printer and parser of serde_json are the parameters \<open>to_vec\<close> and
  \<open>from_slice\<close>; the hasher behind \<open>project_key\<close>, whose algorithm the standard library
  leaves unspecified, is the parameter \<open>hash\<close> on the components of the path.
\<close>

definition PROTOCOL_VERSION :: u32 where
  "PROTOCOL_VERSION = 1"

definition MAX_MESSAGE_SIZE :: nat where
  "MAX_MESSAGE_SIZE = 1024 * 1024"

record vm_config =
  vc_project :: path
  vc_runtime_dir :: path
  vc_cache_dir :: path
  vc_tools_dir :: path
  vc_guest_workspace :: string
  vc_cpus :: u16
  vc_memory_mib :: u32
  vc_network :: network_mode
  vc_epoch :: int

datatype request =
    EnsureVm u32 vm_config
  | Stop "path option"
  | StatusRequest
  | Shutdown

record vm_status =
  vs_project :: path
  vs_cid :: u32
  vs_state :: string
  vs_active_sessions :: nat
  vs_idle_secs :: u64
  vs_run_dir :: path

datatype response =
    VmReady u32 path bool
  | Stopped nat
  | Status "vm_status list"
  | ShuttingDown
  | Error string

section \<open>Framing\<close>

definition write_message ::
  "('m \<Rightarrow> (byte list, string) result) \<Rightarrow> 'm \<Rightarrow> writer \<Rightarrow> unit io_result \<times> writer" where
  "write_message to_vec message w =
     (case to_vec message of
        Err e \<Rightarrow> (Err (IoError InvalidData None e), w)
      | Ok bytes \<Rightarrow>
          if MAX_MESSAGE_SIZE < length bytes
          then (Err (IoError InvalidInput None
                       (''ipc message too large ('' @ show_nat (length bytes) @ '' bytes)'')), w)
          else (case write_all (u32_to_be_bytes (of_nat (length bytes))) w of
                  (Err e, w1) \<Rightarrow> (Err e, w1)
                | (Ok _, w1) \<Rightarrow>
                    (case write_all bytes w1 of
                       (Err e, w2) \<Rightarrow> (Err e, w2)
                     | (Ok _, w2) \<Rightarrow> flush w2)))"

definition read_message ::
  "(byte list \<Rightarrow> ('m, string) result) \<Rightarrow> reader \<Rightarrow> 'm io_result \<times> reader" where
  "read_message from_slice r =
     (case read_exact 4 r of
        (Err e, r1) \<Rightarrow> (Err e, r1)
      | (Ok len_buf, r1) \<Rightarrow>
          (let len = unat (u32_from_be_bytes (len_buf ! 0) (len_buf ! 1) (len_buf ! 2) (len_buf ! 3))
           in if MAX_MESSAGE_SIZE < len
              then (Err (IoError InvalidData None
                           (''ipc message too large ('' @ show_nat len @ '' bytes)'')), r1)
              else (case read_exact len r1 of
                      (Err e, r2) \<Rightarrow> (Err e, r2)
                    | (Ok buf, r2) \<Rightarrow>
                        (map_err (\<lambda>e. IoError InvalidData None e) (from_slice buf), r2))))"

section \<open>Locations\<close>

text \<open>\<open>var_os\<close> is the environment of the process, \<open>uid\<close> the result of \<open>getuid\<close>.\<close>

definition default_socket_path :: "(string \<Rightarrow> string option) \<Rightarrow> u32 \<Rightarrow> path" where
  "default_socket_path var_os uid =
     (case var_os ''FEND_DAEMON_SOCKET'' of Some p \<Rightarrow> p
      | None \<Rightarrow> (case var_os ''XDG_RUNTIME_DIR'' of
          Some xdg \<Rightarrow> path_join (path_join xdg ''fend'') ''daemon.sock''
      | None \<Rightarrow> (case var_os ''FEND_HOME'' of
          Some fend_home \<Rightarrow> path_join (path_join fend_home ''run'') ''daemon.sock''
      | None \<Rightarrow> (case var_os ''HOME'' of
          Some home \<Rightarrow> path_join (path_join (path_join home ''.fend'') ''run'') ''daemon.sock''
      | None \<Rightarrow> ''/tmp/fend-'' @ show_word uid @ ''/daemon.sock''))))"

definition default_state_dir :: "(string \<Rightarrow> string option) \<Rightarrow> u32 \<Rightarrow> path" where
  "default_state_dir var_os uid =
     (case var_os ''FEND_DAEMON_STATE_DIR'' of Some p \<Rightarrow> p
      | None \<Rightarrow> (case var_os ''XDG_RUNTIME_DIR'' of
          Some xdg \<Rightarrow> path_join xdg ''fend''
      | None \<Rightarrow> (case var_os ''FEND_HOME'' of
          Some fend_home \<Rightarrow> path_join fend_home ''run''
      | None \<Rightarrow> (case var_os ''HOME'' of
          Some home \<Rightarrow> path_join (path_join home ''.fend'') ''run''
      | None \<Rightarrow> ''/tmp/fend-'' @ show_word uid))))"

definition hex_digit :: "nat \<Rightarrow> char" where
  "hex_digit n = (if n < 10 then char_of (48 + n) else char_of (87 + n))"

fun hex_fixed :: "nat \<Rightarrow> nat \<Rightarrow> string" where
  "hex_fixed 0 n = []"
| "hex_fixed (Suc k) n = hex_fixed k (n div 16) @ [hex_digit (n mod 16)]"

definition project_key :: "(path_component list \<Rightarrow> u64) \<Rightarrow> path \<Rightarrow> string" where
  "project_key hash project = hex_fixed 16 (unat (hash (components project)))"

section \<open>Lemmas\<close>

definition ipc_bytes :: "byte list \<Rightarrow> byte list" where
  "ipc_bytes body = u32_to_be_bytes (of_nat (length body)) @ body"

lemma write_message_Ok_out:
  "write_message to_vec m w = (Ok (), w') \<Longrightarrow>
     \<exists>body. to_vec m = Ok body \<and> length body \<le> MAX_MESSAGE_SIZE
       \<and> w_out w' = w_out w @ ipc_bytes body"
  by (auto simp: write_message_def ipc_bytes_def not_less dest!: write_all_Ok_out flush_out
      split: result.splits if_splits prod.splits)

lemma MAX_MESSAGE_SIZE_u32: "n \<le> MAX_MESSAGE_SIZE \<Longrightarrow> unat (of_nat n :: u32) = n"
  by (rule unat_of_nat_u32) (simp add: MAX_MESSAGE_SIZE_def)

lemma read_message_body:
  assumes "clean r" and "bytes_of r = ipc_bytes body @ rest" and "length body \<le> MAX_MESSAGE_SIZE"
  shows "\<exists>r'. read_message from_slice r = (map_err (\<lambda>e. IoError InvalidData None e) (from_slice body), r')
           \<and> clean r' \<and> bytes_of r' = rest"
proof -
  from read_exact_clean [OF assms(1), of 4] assms(2) obtain r1 where r1:
    "read_exact 4 r = (Ok (u32_to_be_bytes (of_nat (length body))), r1)" "clean r1"
    "bytes_of r1 = body @ rest"
    by (auto simp: ipc_bytes_def)
  from read_exact_clean [OF r1(2), of "length body"] r1(3) obtain r2 where
    "read_exact (length body) r1 = (Ok body, r2)" "clean r2" "bytes_of r2 = rest"
    by auto
  with r1 assms(3) show ?thesis
    by (auto simp: read_message_def u32_to_be_bytes_def MAX_MESSAGE_SIZE_u32 Let_def)
qed

text \<open>
  With a codec that parses what it prints, the framing is a message channel: the stream
  lemma of the interface applies to it.
\<close>

lemma ipc_channel:
  assumes "\<And>m body. to_vec m = Ok body \<Longrightarrow> from_slice body = Ok m"
  shows "message_channel (\<lambda>m. case to_vec m of Ok body \<Rightarrow> ipc_bytes body | Err e \<Rightarrow> [])
    (read_message from_slice)
    (\<lambda>m. case to_vec m of Ok body \<Rightarrow> length body \<le> MAX_MESSAGE_SIZE | Err e \<Rightarrow> False) (\<lambda>m. m)"
proof unfold_locales
  fix es m rest
  assume "clean es" "bytes_of es = (case to_vec m of Ok body \<Rightarrow> ipc_bytes body | Err e \<Rightarrow> []) @ rest"
    "case to_vec m of Ok body \<Rightarrow> length body \<le> MAX_MESSAGE_SIZE | Err e \<Rightarrow> False"
  moreover from this obtain body where "to_vec m = Ok body" by (cases "to_vec m") auto
  ultimately show "\<exists>es'. read_message from_slice es = (Ok m, es') \<and> clean es' \<and> bytes_of es' = rest"
    using read_message_body [of es body rest from_slice] assms [of m body] by simp
qed

fun write_messages ::
  "('m \<Rightarrow> (byte list, string) result) \<Rightarrow> 'm list \<Rightarrow> writer \<Rightarrow> unit io_result \<times> writer" where
  "write_messages to_vec [] w = (Ok (), w)"
| "write_messages to_vec (m # ms) w =
     (case write_message to_vec m w of
        (Err e, w1) \<Rightarrow> (Err e, w1) | (Ok _, w1) \<Rightarrow> write_messages to_vec ms w1)"

lemma write_messages_Ok:
  "write_messages to_vec ms w = (Ok (), w') \<Longrightarrow>
     w_out w' = w_out w @ concat (map (\<lambda>m. case to_vec m of Ok body \<Rightarrow> ipc_bytes body | Err e \<Rightarrow> []) ms)
     \<and> list_all (\<lambda>m. case to_vec m of Ok body \<Rightarrow> length body \<le> MAX_MESSAGE_SIZE | Err e \<Rightarrow> False) ms"
proof (induction to_vec ms w rule: write_messages.induct)
  case (2 to_vec m ms w)
  then obtain w1 where w1: "write_message to_vec m w = (Ok (), w1)"
    "write_messages to_vec ms w1 = (Ok (), w')"
    by (auto split: prod.splits result.splits)
  with "2.IH" write_message_Ok_out [OF w1(1)] show ?case
    by auto
qed simp

text \<open>
  Messages survive the IPC socket: if the JSON codec parses what it prints, then every
  sequence of messages one side wrote successfully is read by the other side unchanged and
  in order, for every cut of the stream; a successful write never exceeds the 1 MiB that
  the reader accepts.
\<close>

theorem ipc_round_trip:
  assumes codec: "\<And>m body. to_vec m = Ok body \<Longrightarrow> from_slice body = Ok m"
    and "write_messages to_vec ms w = (Ok (), w')"
    and "clean r" and "w_out w @ bytes_of r = w_out w' @ rest"
  shows "\<exists>r'. receive (read_message from_slice) (length ms) r = (Ok ms, r')
           \<and> clean r' \<and> bytes_of r' = rest"
  using message_channel.receive_stream [OF ipc_channel, OF codec assms(3)]
    write_messages_Ok [OF assms(2)] assms(4)
  by fastforce

lemma ipc_round_trip_witness:
  "\<exists>r'. receive (read_message (\<lambda>bs. if bs = [34] then Ok ShuttingDown else Err ''eof''))
            (length [ShuttingDown]) [Chunk [0, 0], Chunk [0, 1, 34, 7]]
          = (Ok [ShuttingDown], r') \<and> clean r' \<and> bytes_of r' = [7]"
  by (rule ipc_round_trip [of "\<lambda>m. if m = ShuttingDown then Ok [34] else Err ''unsupported''"
        "\<lambda>bs. if bs = [34] then Ok ShuttingDown else Err ''eof''" "[ShuttingDown]" "sink []"
        "sink [0, 0, 0, 1, 34]" "[Chunk [0, 0], Chunk [0, 1, 34, 7]]" "[7]"])
    (auto simp: write_message_def MAX_MESSAGE_SIZE_def u32_to_be_bytes_def split: if_splits)

text \<open>
  The socket is in the state directory: unless one of the two override variables is
  set, both locations come from the same variable and the socket is \<open>daemon.sock\<close> in the
  state directory, in each of the four fallbacks.
\<close>

theorem socket_in_state_dir:
  assumes "var_os ''FEND_DAEMON_SOCKET'' = None" and "var_os ''FEND_DAEMON_STATE_DIR'' = None"
  shows "default_socket_path var_os uid = path_join (default_state_dir var_os uid) ''daemon.sock''"
proof -
  have "last (show_nat n) \<noteq> CHR ''/''" for n
    using set_show_nat [of "last (show_nat n)" n] by (auto simp: eq_char_of_small char_of_small_eq)
  then show ?thesis
    using assms
    by (auto simp: default_socket_path_def default_state_dir_def path_join_def [of "_ # _"]
        starts_with_def show_word_def split: option.splits)
qed

lemma socket_in_state_dir_witness:
  "default_socket_path (\<lambda>k. if k = ''HOME'' then Some ''/home/u'' else None) 1000
     = ''/home/u/.fend/run/daemon.sock''"
  using socket_in_state_dir [of "\<lambda>k. if k = ''HOME'' then Some ''/home/u'' else None" 1000]
  by (simp add: default_state_dir_def path_join_def starts_with_def)

lemma length_hex_fixed [simp]: "length (hex_fixed k n) = k"
  by (induction k arbitrary: n) simp_all

lemma hex_digit_inj: "a < 16 \<Longrightarrow> b < 16 \<Longrightarrow> hex_digit a = hex_digit b \<longleftrightarrow> a = b"
  by (auto simp: hex_digit_def eq_char_of_small char_of_small_eq split: if_splits)

lemma hex_fixed_inj: "a < 16 ^ k \<Longrightarrow> b < 16 ^ k \<Longrightarrow> hex_fixed k a = hex_fixed k b \<Longrightarrow> a = b"
proof (induction k arbitrary: a b)
  case (Suc k)
  then have "hex_fixed k (a div 16) = hex_fixed k (b div 16)" and "a mod 16 = b mod 16"
    using hex_digit_inj [of "a mod 16" "b mod 16"] by simp_all
  moreover from Suc.prems have "a div 16 < 16 ^ k" "b div 16 < 16 ^ k"
    by (simp_all add: less_mult_imp_div_less)
  ultimately show ?case using Suc.IH by (metis mult_div_mod_eq)
qed simp

lemma project_key_eq_iff:
  "project_key hash p = project_key hash q \<longleftrightarrow> hash (components p) = hash (components q)"
proof
  assume "project_key hash p = project_key hash q"
  moreover have "unat (h :: u64) < 16 ^ 16" for h
    using unsigned_less [of h] by simp
  ultimately show "hash (components p) = hash (components q)"
    unfolding project_key_def by (metis hex_fixed_inj word_unat_eq_iff)
qed (simp add: project_key_def)

lemma hex_fixed_no_slash: "c \<in> set (hex_fixed k n) \<Longrightarrow> c \<noteq> CHR ''/'' \<and> c \<noteq> CHR ''.''"
  by (induction k arbitrary: n) (auto simp: hex_digit_def eq_char_of_small char_of_small_eq split: if_splits)

end
