(* ===== verification/Supervisor.thy ===== *)
theory Supervisor
  imports Host_OS Qemu_Plan "HOL-Library.Multiset"
begin

text \<open>
  The process supervisor (linux/src/supervisor.rs): preparation of the directories, one
  virtiofsd per share with the wait for its socket, QEMU, the pid files, the cleanup on every
  error path and on drop, and the stop of a run directory by its pid files.
\<close>

definition STOP_POLL_INTERVAL :: nat where
  "STOP_POLL_INTERVAL = millis 50"

definition STOP_KILL_TIMEOUT :: nat where
  "STOP_KILL_TIMEOUT = secs 1"

datatype process_io = Inherit | Log path

record process_spec =
  ps_label :: string
  ps_program :: string
  ps_args :: "string list"
  ps_io :: process_io

type_synonym process_exit = "int option"

definition process_exit_text :: "process_exit \<Rightarrow> string" where
  "process_exit_text e =
     (case e of Some code \<Rightarrow> ''exit code '' @ show_int code | None \<Rightarrow> ''terminated by signal'')"

record supervisor_options =
  so_socket_timeout :: nat
  so_poll_interval :: nat
  so_qemu_io :: process_io

definition default_options :: supervisor_options where
  "default_options = \<lparr>so_socket_timeout = secs 10, so_poll_interval = millis 100, so_qemu_io = Inherit\<rparr>"

record stop_report =
  sr_terminated :: "string list"
  sr_stale :: "string list"

datatype supervisor_error =
    SupIo string "path option" io_error
  | SocketAlreadyExists path
  | SocketTimeout string path path nat
  | ShareSourceMissing string path
  | ShareSourceNotDirectory string path
  | ProcessExited string process_exit path

text \<open>
  \<open>Display\<close> of an error. The only text not built here is the timeout in seconds with one
  decimal, a formatted \<open>f64\<close>: it is the parameter \<open>fmt_secs\<close>.
\<close>

fun supervisor_error_text :: "(nat \<Rightarrow> string) \<Rightarrow> supervisor_error \<Rightarrow> string" where
  "supervisor_error_text fmt_secs (SupIo action (Some p) source) =
     action @ '' '' @ p @ '': '' @ io_error_text source"
| "supervisor_error_text fmt_secs (SupIo action None source) = action @ '': '' @ io_error_text source"
| "supervisor_error_text fmt_secs (SocketAlreadyExists p) = ''virtiofsd socket already exists: '' @ p"
| "supervisor_error_text fmt_secs (SocketTimeout label p log_path timeout) =
     ''timed out after '' @ fmt_secs timeout @ ''s waiting for '' @ label @ '' socket '' @ p
     @ '' (see '' @ log_path @ '')''"
| "supervisor_error_text fmt_secs (ShareSourceMissing label p) = label @ '' share source is missing: '' @ p"
| "supervisor_error_text fmt_secs (ShareSourceNotDirectory label p) =
     label @ '' share source is not a directory: '' @ p"
| "supervisor_error_text fmt_secs (ProcessExited label status log_path) =
     label @ '' exited before becoming ready ('' @ process_exit_text status @ ''); see '' @ log_path"

section \<open>Spawning\<close>

definition spawner_spawn :: "process_spec \<Rightarrow> world \<Rightarrow> u32 io_result \<times> world" where
  "spawner_spawn spec w =
     (case ps_io spec of
        Inherit \<Rightarrow> spawn_process (ps_label spec) w
      | Log p \<Rightarrow>
          (case fs_write p [] w of
             (Err e, w1) \<Rightarrow> (Err e, w1)
           | (Ok _, w1) \<Rightarrow>
               (case fs_call (\<lambda>v. (Ok (), v)) w1 of
                  (Err e, w2) \<Rightarrow> (Err e, w2)
                | (Ok _, w2) \<Rightarrow> spawn_process (ps_label spec) w2)))"

section \<open>Preparation\<close>

definition require_existing_directory ::
  "string \<Rightarrow> path \<Rightarrow> world \<Rightarrow> (unit, supervisor_error) result \<times> world" where
  "require_existing_directory label p w =
     (case fs_metadata p w of
        (Ok n, w1) \<Rightarrow> (if n = Dir then Ok () else Err (ShareSourceNotDirectory label p), w1)
      | (Err e, w1) \<Rightarrow>
          (if io_kind e = NotFound then Err (ShareSourceMissing label p)
           else Err (SupIo ''inspect share source'' (Some p) e), w1))"

definition prepare_share_source ::
  "share_plan \<Rightarrow> world \<Rightarrow> (unit, supervisor_error) result \<times> world" where
  "prepare_share_source s w =
     (if sp_name s = ''workspace'' then require_existing_directory (sp_name s) (sp_source s) w
      else case create_dir_all (sp_source s) w of
             (r, w1) \<Rightarrow> (map_err (SupIo ''create share source'' (Some (sp_source s))) r, w1))"

text \<open>\<open>create_dir_all\<close> of a parent directory, when there is one.\<close>

definition create_parent ::
  "string \<Rightarrow> path \<Rightarrow> world \<Rightarrow> (unit, supervisor_error) result \<times> world" where
  "create_parent action p w =
     (case path_parent p of
        None \<Rightarrow> (Ok (), w)
      | Some d \<Rightarrow> (case create_dir_all d w of (r, w1) \<Rightarrow> (map_err (SupIo action (Some d)) r, w1)))"

fun prepare_shares :: "share_plan list \<Rightarrow> world \<Rightarrow> (unit, supervisor_error) result \<times> world" where
  "prepare_shares [] w = (Ok (), w)"
| "prepare_shares (s # ss) w =
     (case prepare_share_source s w of
        (Err e, w1) \<Rightarrow> (Err e, w1)
      | (Ok _, w1) \<Rightarrow>
          (case create_parent ''create socket directory'' (sp_socket s) w1 of
             (Err e, w2) \<Rightarrow> (Err e, w2)
           | (Ok _, w2) \<Rightarrow>
               (case create_parent ''create log directory'' (sp_log s) w2 of
                  (Err e, w3) \<Rightarrow> (Err e, w3)
                | (Ok _, w3) \<Rightarrow> prepare_shares ss w3)))"

definition prepare_plan_paths :: "launch_plan \<Rightarrow> world \<Rightarrow> (unit, supervisor_error) result \<times> world" where
  "prepare_plan_paths plan w =
     (case create_dir_all (lp_run_dir plan) w of
        (Err e, w1) \<Rightarrow> (Err (SupIo ''create run directory'' (Some (lp_run_dir plan)) e), w1)
      | (Ok _, w1) \<Rightarrow>
          (case create_dir_all (lp_log_dir plan) w1 of
             (Err e, w2) \<Rightarrow> (Err (SupIo ''create log directory'' (Some (lp_log_dir plan)) e), w2)
           | (Ok _, w2) \<Rightarrow> prepare_shares (lp_shares plan) w2))"

section \<open>Waiting for a socket\<close>

definition path_is_socket :: "path \<Rightarrow> world \<Rightarrow> bool \<times> world" where
  "path_is_socket p w = (case fs_metadata p w of (r, w1) \<Rightarrow> (r = Ok Socket, w1))"

text \<open>One round of the loop: \<open>Some\<close> when it decides, \<open>None\<close> when the child is still starting.\<close>

definition poll_socket ::
  "u32 \<Rightarrow> string \<Rightarrow> path \<Rightarrow> path \<Rightarrow> world \<Rightarrow> (unit, supervisor_error) result option \<times> world" where
  "poll_socket child label socket log_path w =
     (case path_is_socket socket w of
        (True, w1) \<Rightarrow> (Some (Ok ()), w1)
      | (False, w1) \<Rightarrow>
          (case try_wait child w1 of
             (Err e, w2) \<Rightarrow> (Some (Err (SupIo ''check child status'' None e)), w2)
           | (Ok (Some status), w2) \<Rightarrow> (Some (Err (ProcessExited label status log_path)), w2)
           | (Ok None, w2) \<Rightarrow> (None, w2)))"

lemma fs_call_clock:
  "(\<And>v. os_clock (snd (f v)) = os_clock v) \<Longrightarrow> os_clock (snd (fs_call f w)) = os_clock w"
  by (auto simp: fs_call_def split: prod.split option.split)

lemma try_wait_clock: "os_clock (snd (try_wait pid w)) = os_clock w"
  by (auto simp: try_wait_def proc_call_def put_proc_def split: prod.split option.split)

lemma poll_socket_clock: "poll_socket c l s lg w = (r, w') \<Longrightarrow> os_clock w' = os_clock w"
proof -
  have "path_is_socket s w = (b, w1) \<Longrightarrow> os_clock w1 = os_clock w" for b w1
    using fs_call_clock [of "\<lambda>w. (ok_or not_found (lookup_file s w), w)" w]
    by (auto simp: path_is_socket_def fs_metadata_def split: prod.splits)
  moreover have "try_wait c w1 = (r1, w2) \<Longrightarrow> os_clock w2 = os_clock w1" for r1 w1 w2
    using try_wait_clock [of c w1] by simp
  ultimately show "poll_socket c l s lg w = (r, w') \<Longrightarrow> os_clock w' = os_clock w"
    by (fastforce simp: poll_socket_def split: prod.splits bool.splits result.splits option.splits)
qed

lemma poll_progress:
  assumes "(None, w1) = poll_socket c l s lg w" and "\<not> t \<le> os_clock w1 - start"
  shows "start + t - os_clock (sleep env d w1) < start + t - os_clock w"
  using poll_socket_clock [OF assms(1) [symmetric]] sleep_clock [of w1 d env] assms(2)
  by simp

function wait_for_socket ::
  "(world \<Rightarrow> world) \<Rightarrow> supervisor_options \<Rightarrow> u32 \<Rightarrow> string \<Rightarrow> path \<Rightarrow> path \<Rightarrow> nat \<Rightarrow> world
     \<Rightarrow> (unit, supervisor_error) result \<times> world" where
  "wait_for_socket env options child label socket log_path start w =
     (case poll_socket child label socket log_path w of
        (Some r, w1) \<Rightarrow> (r, w1)
      | (None, w1) \<Rightarrow>
          if so_socket_timeout options \<le> os_clock w1 - start
          then (Err (SocketTimeout label socket log_path (so_socket_timeout options)), w1)
          else wait_for_socket env options child label socket log_path start
                 (sleep env (so_poll_interval options) w1))"
  by pat_completeness auto
termination
  by (relation "measure (\<lambda>(env, options, child, label, socket, log_path, start, w).
      start + so_socket_timeout options - os_clock w)") (auto simp: poll_progress)

declare wait_for_socket.simps [simp del]

section \<open>Cleanup\<close>

definition cleanup_child :: "u32 \<Rightarrow> world \<Rightarrow> world" where
  "cleanup_child child w =
     (case try_wait child w of
        (Ok (Some _), w1) \<Rightarrow> snd (child_wait child w1)
      | (_, w1) \<Rightarrow> snd (child_wait child (snd (child_kill child w1))))"

definition cleanup_children :: "u32 list \<Rightarrow> world \<Rightarrow> world" where
  "cleanup_children = fold cleanup_child"

definition cleanup_socket :: "path \<Rightarrow> world \<Rightarrow> world" where
  "cleanup_socket p w = (case path_is_socket p w of (True, w1) \<Rightarrow> snd (remove_file p w1) | (False, w1) \<Rightarrow> w1)"

definition cleanup_sockets :: "path list \<Rightarrow> world \<Rightarrow> world" where
  "cleanup_sockets = fold cleanup_socket"

definition cleanup_pid_files :: "path list \<Rightarrow> world \<Rightarrow> world" where
  "cleanup_pid_files = fold (\<lambda>p w. snd (remove_file p w))"

definition pid_file_path :: "path \<Rightarrow> string \<Rightarrow> path" where
  "pid_file_path run_dir label = path_join run_dir (label @ ''.pid'')"

definition write_pid_file :: "path \<Rightarrow> u32 \<Rightarrow> world \<Rightarrow> unit io_result \<times> world" where
  "write_pid_file p pid = fs_write p (show_word pid @ [CHR 0x0A])"

section \<open>Launching\<close>

record running_vm =
  rv_qemu :: "u32 option"
  rv_virtiofsd :: "u32 list"
  rv_sockets :: "path list"
  rv_pid_files :: "path list"
  rv_cleaned_up :: bool

text \<open>The three vectors of the launch loop: children, sockets and pid files so far.\<close>

type_synonym launch_vecs = "u32 list \<times> path list \<times> path list"

definition virtiofsd_spec :: "share_plan \<Rightarrow> process_spec" where
  "virtiofsd_spec s =
     (case virtiofsd_command s of (program, args) \<Rightarrow>
        \<lparr>ps_label = ''virtiofsd-'' @ sp_name s, ps_program = program, ps_args = args,
         ps_io = Log (sp_log s)\<rparr>)"

definition launch_share ::
  "(world \<Rightarrow> world) \<Rightarrow> supervisor_options \<Rightarrow> path \<Rightarrow> share_plan \<Rightarrow> launch_vecs \<Rightarrow> world
     \<Rightarrow> (launch_vecs, supervisor_error) result \<times> world" where
  "launch_share env options run_dir s vecs w =
     (case vecs of (virtiofsd, sockets, pid_files) \<Rightarrow>
      case fs_metadata (sp_socket s) w of
        (Ok _, w1) \<Rightarrow>
          (Err (SocketAlreadyExists (sp_socket s)),
           cleanup_children virtiofsd (cleanup_pid_files pid_files w1))
      | (Err _, w1) \<Rightarrow>
          (let spec = virtiofsd_spec s
           in case spawner_spawn spec w1 of
                (Err e, w2) \<Rightarrow> (Err (SupIo ''spawn virtiofsd'' None e), w2)
              | (Ok child, w2) \<Rightarrow>
                  (case wait_for_socket env options child (ps_label spec) (sp_socket s) (sp_log s)
                          (os_clock w2) w2 of
                     (Err error, w3) \<Rightarrow>
                       (Err error,
                        cleanup_sockets sockets (cleanup_children virtiofsd
                          (cleanup_pid_files pid_files (cleanup_child child w3))))
                   | (Ok _, w3) \<Rightarrow>
                       (let pid_file = pid_file_path run_dir (ps_label spec)
                        in case write_pid_file pid_file child w3 of
                             (Err e, w4) \<Rightarrow>
                               (Err (SupIo ''write pid file'' (Some pid_file) e),
                                cleanup_sockets sockets (cleanup_children virtiofsd
                                  (cleanup_pid_files pid_files (cleanup_child child w4))))
                           | (Ok _, w4) \<Rightarrow>
                               (Ok (virtiofsd @ [child], sockets @ [sp_socket s],
                                    pid_files @ [pid_file]), w4)))))"

fun launch_shares ::
  "(world \<Rightarrow> world) \<Rightarrow> supervisor_options \<Rightarrow> path \<Rightarrow> share_plan list \<Rightarrow> launch_vecs \<Rightarrow> world
     \<Rightarrow> (launch_vecs, supervisor_error) result \<times> world" where
  "launch_shares env options run_dir [] vecs w = (Ok vecs, w)"
| "launch_shares env options run_dir (s # ss) vecs w =
     (case launch_share env options run_dir s vecs w of
        (Err e, w1) \<Rightarrow> (Err e, w1)
      | (Ok vecs', w1) \<Rightarrow> launch_shares env options run_dir ss vecs' w1)"

definition launch_plan ::
  "(world \<Rightarrow> world) \<Rightarrow> supervisor_options \<Rightarrow> launch_plan \<Rightarrow> world
     \<Rightarrow> (running_vm, supervisor_error) result \<times> world" where
  "launch_plan env options plan w =
     (case prepare_plan_paths plan w of
        (Err e, w1) \<Rightarrow> (Err e, w1)
      | (Ok _, w1) \<Rightarrow>
          (case launch_shares env options (lp_run_dir plan) (lp_shares plan) ([], [], []) w1 of
             (Err e, w2) \<Rightarrow> (Err e, w2)
           | (Ok (virtiofsd, sockets, pid_files), w2) \<Rightarrow>
               (let qemu_spec = \<lparr>ps_label = ''qemu'', ps_program = lp_qemu_program plan,
                                 ps_args = lp_qemu_args plan, ps_io = so_qemu_io options\<rparr>
                in case spawner_spawn qemu_spec w2 of
                     (Err e, w3) \<Rightarrow>
                       (Err (SupIo ''spawn qemu'' None e),
                        cleanup_sockets sockets (cleanup_children virtiofsd (cleanup_pid_files pid_files w3)))
                   | (Ok qemu, w3) \<Rightarrow>
                       (let qemu_pid_file = pid_file_path (lp_run_dir plan) (ps_label qemu_spec)
                        in case write_pid_file qemu_pid_file qemu w3 of
                             (Err e, w4) \<Rightarrow>
                               (Err (SupIo ''write pid file'' (Some qemu_pid_file) e),
                                cleanup_sockets sockets (cleanup_children virtiofsd
                                  (cleanup_pid_files pid_files (cleanup_child qemu w4))))
                           | (Ok _, w4) \<Rightarrow>
                               (Ok \<lparr>rv_qemu = Some qemu, rv_virtiofsd = virtiofsd, rv_sockets = sockets,
                                    rv_pid_files = pid_files @ [qemu_pid_file],
                                    rv_cleaned_up = False\<rparr>, w4)))))"

section \<open>The running VM\<close>

definition qemu_id :: "running_vm \<Rightarrow> u32 option" where
  "qemu_id vm = rv_qemu vm"

definition virtiofsd_count :: "running_vm \<Rightarrow> nat" where
  "virtiofsd_count vm = length (rv_virtiofsd vm)"

definition wait_for_qemu :: "running_vm \<Rightarrow> world \<Rightarrow> process_exit io_result \<times> running_vm \<times> world" where
  "wait_for_qemu vm w =
     (case rv_qemu vm of
        None \<Rightarrow> (Ok (Some 0), vm, w)
      | Some qemu \<Rightarrow> (case child_wait qemu w of (r, w1) \<Rightarrow> (r, vm\<lparr>rv_qemu := None\<rparr>, w1)))"

text \<open>\<open>cleanup\<close>, which \<open>stop\<close> and \<open>Drop\<close> call.\<close>

definition vm_cleanup :: "running_vm \<Rightarrow> world \<Rightarrow> running_vm \<times> world" where
  "vm_cleanup vm w =
     (if rv_cleaned_up vm then (vm, w)
      else let w1 = (case rv_qemu vm of None \<Rightarrow> w | Some qemu \<Rightarrow> cleanup_child qemu w);
               w2 = cleanup_children (rv_virtiofsd vm) w1;
               w3 = cleanup_pid_files (rv_pid_files vm) w2;
               w4 = cleanup_sockets (rv_sockets vm) w3
           in (vm\<lparr>rv_qemu := None, rv_cleaned_up := True\<rparr>, w4))"

section \<open>Stopping a run directory\<close>

text \<open>
  \<open>libc::kill\<close> is the parameter \<open>kill\<close>: the target as the \<open>i32\<close> the code passes, the
  signal, and the errno (\<open>None\<close> for success) with the process table afterwards.
\<close>

type_synonym kill_call = "int \<Rightarrow> int \<Rightarrow> world \<Rightarrow> int option \<times> (u32 \<times> process) list"

abbreviation SIGTERM :: int where "SIGTERM \<equiv> 15"
abbreviation SIGKILL :: int where "SIGKILL \<equiv> 9"
abbreviation ESRCH :: int where "ESRCH \<equiv> 3"
abbreviation EPERM :: int where "EPERM \<equiv> 1"

definition os_error :: "int \<Rightarrow> io_error" where
  "os_error errno = IoError (if errno = EPERM then PermissionDenied else OtherKind) (Some errno) ''''"

definition call_kill :: "kill_call \<Rightarrow> u32 \<Rightarrow> int \<Rightarrow> world \<Rightarrow> int option \<times> world" where
  "call_kill kill pid sig w = (case kill (sint pid) sig w of (r, ps) \<Rightarrow> (r, w\<lparr>os_procs := ps\<rparr>))"

definition send_signal :: "kill_call \<Rightarrow> u32 \<Rightarrow> int \<Rightarrow> world \<Rightarrow> bool io_result \<times> world" where
  "send_signal kill pid sig w =
     (case call_kill kill pid sig w of
        (None, w1) \<Rightarrow> (Ok True, w1)
      | (Some errno, w1) \<Rightarrow> (if errno = ESRCH then Ok False else Err (os_error errno), w1))"

definition process_exists :: "kill_call \<Rightarrow> u32 \<Rightarrow> world \<Rightarrow> bool io_result \<times> world" where
  "process_exists kill pid w =
     (case call_kill kill pid 0 w of
        (None, w1) \<Rightarrow> (Ok True, w1)
      | (Some errno, w1) \<Rightarrow>
          (if errno = ESRCH then Ok False else if errno = EPERM then Ok True
           else Err (os_error errno), w1))"

lemma process_exists_progress:
  assumes "(Ok True, w1) = process_exists kill pid w" and "\<not> t \<le> os_clock w1 - start"
  shows "start + t - os_clock (sleep env d w1) < start + t - os_clock w"
proof -
  from assms(1) have "os_clock w1 = os_clock w"
    by (auto simp: process_exists_def call_kill_def split: prod.splits option.splits if_splits)
  with assms(2) sleep_clock [of w1 d env] show ?thesis by simp
qed

function wait_for_pid_exit ::
  "(world \<Rightarrow> world) \<Rightarrow> kill_call \<Rightarrow> u32 \<Rightarrow> nat \<Rightarrow> nat \<Rightarrow> world \<Rightarrow> bool io_result \<times> world" where
  "wait_for_pid_exit env kill pid timeout start w =
     (case process_exists kill pid w of
        (Err e, w1) \<Rightarrow> (Err e, w1)
      | (Ok False, w1) \<Rightarrow> (Ok True, w1)
      | (Ok True, w1) \<Rightarrow>
          if timeout \<le> os_clock w1 - start then (Ok False, w1)
          else wait_for_pid_exit env kill pid timeout start (sleep env STOP_POLL_INTERVAL w1))"
  by pat_completeness auto
termination
  by (relation "measure (\<lambda>(env, kill, pid, timeout, start, w). start + timeout - os_clock w)")
    (auto simp: process_exists_progress)

declare wait_for_pid_exit.simps [simp del]

definition terminate_pid ::
  "(world \<Rightarrow> world) \<Rightarrow> kill_call \<Rightarrow> u32 \<Rightarrow> nat \<Rightarrow> world \<Rightarrow> bool io_result \<times> world" where
  "terminate_pid env kill pid timeout w =
     (case send_signal kill pid SIGTERM w of
        (Err e, w1) \<Rightarrow> (Err e, w1)
      | (Ok False, w1) \<Rightarrow> (Ok False, w1)
      | (Ok True, w1) \<Rightarrow>
          (case wait_for_pid_exit env kill pid timeout (os_clock w1) w1 of
             (Err e, w2) \<Rightarrow> (Err e, w2)
           | (Ok True, w2) \<Rightarrow> (Ok True, w2)
           | (Ok False, w2) \<Rightarrow>
               (case send_signal kill pid SIGKILL w2 of
                  (Err e, w3) \<Rightarrow> (Err e, w3)
                | (Ok False, w3) \<Rightarrow> (Ok True, w3)
                | (Ok True, w3) \<Rightarrow>
                    (case wait_for_pid_exit env kill pid STOP_KILL_TIMEOUT (os_clock w3) w3 of
                       (Err e, w4) \<Rightarrow> (Err e, w4)
                     | (Ok _, w4) \<Rightarrow> (Ok True, w4)))))"

definition read_pid_file :: "path \<Rightarrow> world \<Rightarrow> (u32 option, supervisor_error) result \<times> world" where
  "read_pid_file p w =
     (case read_to_string p w of
        (Err e, w1) \<Rightarrow> (Err (SupIo ''read pid file'' (Some p) e), w1)
      | (Ok contents, w1) \<Rightarrow>
          (let pid = trim contents in (if pid = [] then Ok None else Ok (parse_u32 pid), w1)))"

definition pid_file_key :: "path \<Rightarrow> bool \<times> string" where
  "pid_file_key p = (let name = unwrap_or (file_name p) [] in (name \<noteq> ''qemu.pid'', name))"

definition pid_files_in_run_dir :: "path \<Rightarrow> world \<Rightarrow> (path list, supervisor_error) result \<times> world" where
  "pid_files_in_run_dir run_dir w =
     (case read_dir run_dir w of
        (Err e, w1) \<Rightarrow> (Err (SupIo ''read run directory'' (Some run_dir) e), w1)
      | (Ok entries, w1) \<Rightarrow>
          (Ok (sort_key pid_file_key (filter (\<lambda>p. extension p = Some ''pid'') entries)), w1))"

definition cleanup_run_dir_sockets :: "path \<Rightarrow> world \<Rightarrow> (unit, supervisor_error) result \<times> world" where
  "cleanup_run_dir_sockets run_dir w =
     (case read_dir run_dir w of
        (Err e, w1) \<Rightarrow> (Err (SupIo ''read run directory'' (Some run_dir) e), w1)
      | (Ok entries, w1) \<Rightarrow>
          (Ok (), fold (\<lambda>p v. snd (remove_file p v))
                    (filter (\<lambda>p. extension p = Some ''sock'') entries) w1))"

definition stop_label :: "path \<Rightarrow> string" where
  "stop_label p = unwrap_or (file_stem p) p"

fun stop_pid_files ::
  "(world \<Rightarrow> world) \<Rightarrow> kill_call \<Rightarrow> nat \<Rightarrow> path list \<Rightarrow> stop_report \<Rightarrow> world
     \<Rightarrow> (stop_report, supervisor_error) result \<times> world" where
  "stop_pid_files env kill timeout [] report w = (Ok report, w)"
| "stop_pid_files env kill timeout (p # ps) report w =
     (case read_pid_file p w of
        (Err e, w1) \<Rightarrow> (Err e, w1)
      | (Ok None, w1) \<Rightarrow>
          stop_pid_files env kill timeout ps (report\<lparr>sr_stale := sr_stale report @ [stop_label p]\<rparr>)
            (snd (remove_file p w1))
      | (Ok (Some pid), w1) \<Rightarrow>
          (case terminate_pid env kill pid timeout w1 of
             (Err e, w2) \<Rightarrow> (Err (SupIo ''stop process'' (Some p) e), w2)
           | (Ok stopped, w2) \<Rightarrow>
               stop_pid_files env kill timeout ps
                 (if stopped then report\<lparr>sr_terminated := sr_terminated report @ [stop_label p]\<rparr>
                  else report\<lparr>sr_stale := sr_stale report @ [stop_label p]\<rparr>)
                 (snd (remove_file p w2))))"

definition stop_run_dir ::
  "(world \<Rightarrow> world) \<Rightarrow> kill_call \<Rightarrow> path \<Rightarrow> nat \<Rightarrow> world
     \<Rightarrow> (stop_report, supervisor_error) result \<times> world" where
  "stop_run_dir env kill run_dir timeout w =
     (case pid_files_in_run_dir run_dir w of
        (Err e, w1) \<Rightarrow> (Err e, w1)
      | (Ok pid_files, w1) \<Rightarrow>
          (case stop_pid_files env kill timeout pid_files \<lparr>sr_terminated = [], sr_stale = []\<rparr> w1 of
             (Err e, w2) \<Rightarrow> (Err e, w2)
           | (Ok report, w2) \<Rightarrow>
               (case cleanup_run_dir_sockets run_dir w2 of
                  (Err e, w3) \<Rightarrow> (Err e, w3)
                | (Ok _, w3) \<Rightarrow> (Ok report, w3))))"

section \<open>Accounting for children\<close>

text \<open>
  \<open>conf S w\<close>: the process calls of the world do not fail and every child that is not yet
  reaped is in \<open>S\<close>. An environment is \<open>quiet\<close> when it does not start children of this
  process and does not make its process calls fail.
\<close>

definition unreaped :: "world \<Rightarrow> u32 set" where
  "unreaped w = {pid. run_of w pid = Some Live \<or> run_of w pid = Some Zombie}"

definition conf :: "u32 set \<Rightarrow> world \<Rightarrow> bool" where
  "conf S w \<longleftrightarrow> os_proc_faults w = [] \<and> unreaped w \<subseteq> S"

definition quiet :: "(world \<Rightarrow> world) \<Rightarrow> bool" where
  "quiet env \<longleftrightarrow> (\<forall>w. unreaped (env w) \<subseteq> unreaped w \<and> os_proc_faults (env w) = os_proc_faults w)"

named_theorems conf_intros

lemma conf_mono: "conf S w \<Longrightarrow> S \<subseteq> T \<Longrightarrow> conf T w"
  by (auto simp: conf_def)

lemma conf_same: "conf S w \<Longrightarrow> same_procs w w' \<Longrightarrow> conf S w'"
  by (auto simp: conf_def unreaped_def same_procs_run) (simp add: same_procs_def)

lemma conf_fs [conf_intros]:
  "conf S w \<Longrightarrow> conf S (snd (create_dir_all p w))"
  "conf S w \<Longrightarrow> conf S (snd (fs_metadata p w))"
  "conf S w \<Longrightarrow> conf S (snd (fs_write p s w))"
  "conf S w \<Longrightarrow> conf S (snd (remove_file p w))"
  by (auto intro: conf_same fs_same_procs)

lemma conf_proc_call:
  assumes "conf S w" and "\<And>v. os_proc_faults v = [] \<Longrightarrow> unreaped v \<subseteq> S \<Longrightarrow> conf T (snd (f v))"
  shows "conf T (snd (proc_call f w))"
proof -
  from assms(1) have "os_proc_faults w = []" "unreaped w \<subseteq> S" by (simp_all add: conf_def)
  moreover from this have "proc_call f w = f w"
    by (cases w) (simp add: proc_call_def)
  ultimately show ?thesis using assms(2) [of w] by simp
qed

lemma unreaped_put_proc [simp]:
  "unreaped (put_proc pid p w) = (if pr_run p = Reaped then unreaped w - {pid} else insert pid (unreaped w))"
  by (cases "pr_run p") (auto simp: unreaped_def run_of_def)

lemma unreaped_fields [simp]:
  "unreaped (w\<lparr>os_spawn_faults := f\<rparr>) = unreaped w" "unreaped (w\<lparr>os_pids := ps\<rparr>) = unreaped w"
  by (simp_all add: unreaped_def run_of_def)

lemma unreaped_lookup: "lookup_proc pid w = Some p \<Longrightarrow> pr_run p = Live \<Longrightarrow> pid \<in> unreaped w"
  by (simp add: unreaped_def run_of_def)

lemma unreaped_absent: "lookup_proc pid w = None \<Longrightarrow> pid \<notin> unreaped w"
  by (simp add: unreaped_def run_of_def)

lemma conf_try_wait [conf_intros]: "conf S w \<Longrightarrow> conf S (snd (try_wait pid w))"
  unfolding try_wait_def
  by (erule conf_proc_call) (auto simp: conf_def split: option.splits)

lemma conf_child_kill [conf_intros]: "conf S w \<Longrightarrow> conf S (snd (child_kill pid w))"
  unfolding child_kill_def
  by (erule conf_proc_call) (auto simp: conf_def split: option.splits dest: unreaped_lookup)

lemma conf_child_wait [conf_intros]: "conf S w \<Longrightarrow> conf (S - {pid}) (snd (child_wait pid w))"
  unfolding child_wait_def
  by (erule conf_proc_call) (auto simp: conf_def split: option.splits dest: unreaped_absent)

lemma conf_cleanup_child [conf_intros]: "conf S w \<Longrightarrow> conf (S - {pid}) (cleanup_child pid w)"
  using conf_try_wait [of S w pid]
  by (auto simp: cleanup_child_def intro!: conf_intros
      split: prod.splits result.splits option.splits)

lemma conf_cleanup_children [conf_intros]:
  "conf S w \<Longrightarrow> conf (S - set ps) (cleanup_children ps w)"
  unfolding cleanup_children_def
proof (induction ps arbitrary: S w)
  case (Cons p ps)
  moreover have "S - set (p # ps) = S - {p} - set ps" by auto
  ultimately show ?case using conf_cleanup_child [of S w p] by (simp del: set_simps)
qed simp

lemma conf_path_is_socket [conf_intros]: "conf S w \<Longrightarrow> conf S (snd (path_is_socket p w))"
  using conf_fs(2) [of S w p] by (auto simp: path_is_socket_def split: prod.splits)

lemma conf_cleanup_sockets [conf_intros]: "conf S w \<Longrightarrow> conf S (cleanup_sockets ps w)"
proof -
  have "conf S v \<Longrightarrow> conf S (cleanup_socket p v)" for v p
    using conf_path_is_socket [of S v p]
    by (auto simp: cleanup_socket_def intro: conf_intros split: prod.splits bool.splits)
  then show "conf S w \<Longrightarrow> conf S (cleanup_sockets ps w)"
    unfolding cleanup_sockets_def by (induction ps arbitrary: w) simp_all
qed

lemma conf_cleanup_pid_files [conf_intros]: "conf S w \<Longrightarrow> conf S (cleanup_pid_files ps w)"
  unfolding cleanup_pid_files_def by (induction ps arbitrary: w) (simp_all add: conf_intros)

lemma conf_spawn_process:
  "conf S w \<Longrightarrow> spawn_process l w = (r, w') \<Longrightarrow>
     conf (case r of Ok pid \<Rightarrow> insert pid S | Err e \<Rightarrow> S) w'"
  by (auto simp: spawn_process_def conf_def split: prod.splits option.splits list.splits)

lemma conf_spawn:
  assumes "conf S w" and "spawner_spawn spec w = (r, w')"
  shows "conf (case r of Ok pid \<Rightarrow> insert pid S | Err e \<Rightarrow> S) w'"
proof (cases "ps_io spec")
  case Inherit
  with assms show ?thesis by (auto simp: spawner_spawn_def intro: conf_spawn_process)
next
  case (Log p)
  obtain r1 w1 where w1: "fs_write p [] w = (r1, w1)" by (cases "fs_write p [] w")
  obtain r2 w2 where w2: "fs_call (\<lambda>v. (Ok (), v)) w1 = (r2, w2)"
    by (cases "fs_call (\<lambda>v. (Ok (), v)) w1")
  have "conf S w1" using conf_fs(3) [OF assms(1), of p "[]"] w1 by simp
  moreover from this have "conf S w2"
    using conf_same [of S w1 w2] fs_call_same [of "\<lambda>v. (Ok (), v)" w1] w2 by simp
  ultimately show ?thesis
    using assms(2) Log w1 w2 conf_spawn_process [of S w2 "ps_label spec" r w']
    by (cases r1; cases r2) (auto simp: spawner_spawn_def)
qed

lemma unreaped_clock [simp]: "unreaped (v\<lparr>os_clock := c\<rparr>) = unreaped v"
  by (simp add: unreaped_def run_of_def lookup_proc_def)

lemma conf_sleep: "quiet env \<Longrightarrow> conf S w \<Longrightarrow> conf S (sleep env d w)"
  by (fastforce simp: quiet_def conf_def sleep_def Let_def)

lemma conf_poll_socket:
  assumes "conf S w" and "poll_socket c l s lg w = (r, w')"
  shows "conf S w'"
proof -
  obtain b w1 where w1: "path_is_socket s w = (b, w1)" by (cases "path_is_socket s w")
  obtain x w2 where w2: "try_wait c w1 = (x, w2)" by (cases "try_wait c w1")
  have "conf S w1" using conf_path_is_socket [OF assms(1), of s] w1 by simp
  moreover from this have "conf S w2" using conf_try_wait [of S w1 c] w2 by simp
  ultimately show ?thesis
    using assms(2) w1 w2 by (auto simp: poll_socket_def split: bool.splits result.splits option.splits)
qed

lemma conf_wait_for_socket:
  assumes "quiet env" and "conf S w"
  shows "conf S (snd (wait_for_socket env options child label socket log_path start w))"
  using assms
proof (induction env options child label socket log_path start w rule: wait_for_socket.induct)
  case (1 env options child label socket log_path start w)
  obtain r w1 where w1: "poll_socket child label socket log_path w = (r, w1)"
    by (cases "poll_socket child label socket log_path w")
  with "1.prems"(2) have "conf S w1" by (rule conf_poll_socket)
  with 1 w1 show ?case
    by (subst wait_for_socket.simps) (auto simp: conf_sleep split: option.splits)
qed

lemma conf_prepare: "conf S w \<Longrightarrow> conf S (snd (prepare_plan_paths plan w))"
proof -
  have source: "conf S v \<Longrightarrow> conf S (snd (prepare_share_source s v))" for s v
    using conf_fs(1) [of S v "sp_source s"] conf_fs(2) [of S v "sp_source s"]
    by (auto simp: prepare_share_source_def require_existing_directory_def split: prod.splits result.splits)
  have parent: "conf S v \<Longrightarrow> conf S (snd (create_parent a p v))" for a p v
    using conf_fs(1) [of S v "the (path_parent p)"]
    by (auto simp: create_parent_def split: prod.splits option.splits)
  have "conf S v \<Longrightarrow> conf S (snd (prepare_shares ss v))" for ss v
  proof (induction ss v rule: prepare_shares.induct)
    case (2 s ss v)
    with source parent show ?case
      by (auto split: prod.splits result.splits) (metis snd_conv)+
  qed simp
  then show "conf S w \<Longrightarrow> conf S (snd (prepare_plan_paths plan w))"
    using conf_fs(1)
    by (auto simp: prepare_plan_paths_def split: prod.splits result.splits) (metis snd_conv)+
qed

text \<open>
  The launch of one share keeps the account: on success its child joins the vector, on every
  error but a failed spawn nothing of the vector is left.
\<close>

definition spawn_failure :: "supervisor_error \<Rightarrow> bool" where
  "spawn_failure e = (case e of SupIo a p s \<Rightarrow> a = ''spawn virtiofsd'' | _ \<Rightarrow> False)"

lemma conf_cleanup_all:
  assumes "conf (S \<union> set vs) w"
  shows "conf S (cleanup_sockets ss (cleanup_children vs (cleanup_pid_files pf w)))"
  using conf_mono [OF conf_cleanup_children [OF conf_cleanup_pid_files [OF assms, of pf], of vs], of S]
  by (intro conf_cleanup_sockets) auto

lemma conf_cleanup_with_child:
  assumes "conf (insert c (S \<union> set vs)) w"
  shows "conf S (cleanup_sockets ss (cleanup_children vs (cleanup_pid_files pf (cleanup_child c w))))"
  by (rule conf_cleanup_all, rule conf_mono [OF conf_cleanup_child [OF assms, of c]]) auto

lemma launch_share_account:
  assumes "quiet env" and "conf (S \<union> set vs) w"
    and "launch_share env options run_dir s (vs, ss, pf) w = (r, w')"
  shows "case r of Ok (vs', ss', pf') \<Rightarrow> conf (S \<union> set vs') w' | Err e \<Rightarrow> spawn_failure e \<or> conf S w'"
proof -
  let ?spec = "virtiofsd_spec s"
  obtain r1 w1 where w1: "fs_metadata (sp_socket s) w = (r1, w1)" by fastforce
  with conf_fs(2) [OF assms(2), of "sp_socket s"] have c1: "conf (S \<union> set vs) w1" by simp
  show ?thesis
  proof (cases r1)
    case (Ok n)
    have "conf S (cleanup_children vs (cleanup_pid_files pf w1))"
      using conf_cleanup_all [OF c1, of "[]" pf] by (simp add: cleanup_sockets_def)
    with Ok w1 assms(3) show ?thesis by (auto simp: launch_share_def)
  next
    case (Err e1)
    obtain r2 w2 where w2: "spawner_spawn ?spec w1 = (r2, w2)" by fastforce
    note c2 = conf_spawn [OF c1 w2]
    show ?thesis
    proof (cases r2)
      case (Err e)
      with \<open>r1 = Err e1\<close> w1 w2 assms(3) show ?thesis
        by (auto simp: launch_share_def spawn_failure_def Let_def)
    next
      case (Ok child)
      let ?wait = "wait_for_socket env options child (ps_label ?spec) (sp_socket s) (sp_log s) (os_clock w2) w2"
      obtain r3 w3 where w3: "?wait = (r3, w3)" by fastforce
      from c2 Ok have "conf (insert child (S \<union> set vs)) w2" by simp
      from conf_wait_for_socket [OF assms(1) this, of options child "ps_label ?spec"
          "sp_socket s" "sp_log s" "os_clock w2"] w3
      have c3: "conf (insert child (S \<union> set vs)) w3" by simp
      let ?pf = "pid_file_path run_dir (ps_label ?spec)"
      obtain r4 w4 where w4: "write_pid_file ?pf child w3 = (r4, w4)" by fastforce
      with conf_fs(3) [OF c3] have c4: "conf (insert child (S \<union> set vs)) w4"
        by (metis snd_conv write_pid_file_def)
      have "S \<union> set (vs @ [child]) = insert child (S \<union> set vs)" by auto
      with Ok \<open>r1 = Err e1\<close> w1 w2 w3 w4 c4 conf_cleanup_with_child [OF c3] conf_cleanup_with_child [OF c4]
        assms(3) show ?thesis
        by (cases r3; cases r4) (auto simp: launch_share_def Let_def)
    qed
  qed
qed

lemma launch_shares_account:
  assumes "quiet env" and "conf (S \<union> set vs) w"
    and "launch_shares env options run_dir shs (vs, ss, pf) w = (r, w')"
  shows "case r of Ok (vs', ss', pf') \<Rightarrow> conf (S \<union> set vs') w' | Err e \<Rightarrow> spawn_failure e \<or> conf S w'"
  using assms(2,3)
proof (induction shs arbitrary: vs ss pf w)
  case (Cons s shs)
  obtain r1 w1 where w1: "launch_share env options run_dir s (vs, ss, pf) w = (r1, w1)" by fastforce
  note acc = launch_share_account [OF assms(1) Cons.prems(1) w1]
  show ?case
  proof (cases r1)
    case (Ok v)
    then obtain vs1 ss1 pf1 where "v = (vs1, ss1, pf1)" by (cases v) auto
    with Ok w1 acc Cons.IH [of vs1 w1 ss1 pf1] Cons.prems(2) show ?thesis by simp
  next
    case (Err e)
    with w1 acc Cons.prems(2) show ?thesis by auto
  qed
qed auto

lemma launch_share_shape:
  "launch_share env options run_dir s (vs, ss, pf) w = (Ok (vs', ss', pf'), w') \<Longrightarrow>
     length vs' = Suc (length vs) \<and> ss' = ss @ [sp_socket s]
     \<and> pf' = pf @ [pid_file_path run_dir (''virtiofsd-'' @ sp_name s)]"
  by (auto simp: launch_share_def virtiofsd_spec_def Let_def
      split: prod.splits result.splits)

lemma launch_shares_shape:
  "launch_shares env options run_dir shs (vs, ss, pf) w = (Ok (vs', ss', pf'), w') \<Longrightarrow>
     length vs' = length vs + length shs \<and> ss' = ss @ map sp_socket shs
     \<and> pf' = pf @ map (\<lambda>s. pid_file_path run_dir (''virtiofsd-'' @ sp_name s)) shs"
proof (induction shs arbitrary: vs ss pf w)
  case (Cons s shs)
  then obtain vs1 ss1 pf1 w1 where
    "launch_share env options run_dir s (vs, ss, pf) w = (Ok (vs1, ss1, pf1), w1)"
    "launch_shares env options run_dir shs (vs1, ss1, pf1) w1 = (Ok (vs', ss', pf'), w')"
    by (auto split: prod.splits result.splits)
  with launch_share_shape [OF this(1)] Cons.IH [of vs1 ss1 pf1 w1] show ?case by simp
qed simp

text \<open>
  What \<open>launch_plan\<close> leaves: a running VM owns exactly the children that are new, and every
  other error leaves no child behind.
\<close>

definition vm_children :: "running_vm \<Rightarrow> u32 set" where
  "vm_children vm = set_option (rv_qemu vm) \<union> set (rv_virtiofsd vm)"

lemma launch_plan_account:
  assumes "quiet env" and "conf S w" and "launch_plan env options plan w = (r, w')"
  shows "case r of Ok vm \<Rightarrow> conf (S \<union> vm_children vm) w' | Err e \<Rightarrow> spawn_failure e \<or> conf S w'"
proof -
  obtain r1 w1 where w1: "prepare_plan_paths plan w = (r1, w1)" by fastforce
  with conf_prepare [OF assms(2), of plan] have c1: "conf (S \<union> set []) w1" by simp
  obtain r2 w2 where w2: "launch_shares env options (lp_run_dir plan) (lp_shares plan) ([], [], []) w1 = (r2, w2)"
    by fastforce
  note acc = launch_shares_account [OF assms(1) c1 w2]
  show ?thesis
  proof (cases "\<exists>u v. r1 = Ok u \<and> r2 = Ok v")
    case False
    with assms(3) w1 w2 acc c1 show ?thesis
      by (auto simp: launch_plan_def split: result.splits)
  next
    case True
    then obtain vs ss pf where ok: "r1 = Ok ()" "r2 = Ok (vs, ss, pf)" by auto
    with acc have c2: "conf (S \<union> set vs) w2" by simp
    let ?spec = "\<lparr>ps_label = ''qemu'', ps_program = lp_qemu_program plan,
        ps_args = lp_qemu_args plan, ps_io = so_qemu_io options\<rparr>"
    obtain r3 w3 where w3: "spawner_spawn ?spec w2 = (r3, w3)" by fastforce
    note c3 = conf_spawn [OF c2 w3]
    show ?thesis
    proof (cases r3)
      case (Err e)
      with c3 conf_cleanup_all [of S vs w3] assms(3) ok w1 w2 w3 show ?thesis
        by (auto simp: launch_plan_def Let_def)
    next
      case (Ok qemu)
      obtain r4 w4 where w4: "write_pid_file (pid_file_path (lp_run_dir plan) ''qemu'') qemu w3 = (r4, w4)"
        by fastforce
      from c3 Ok have "conf (insert qemu (S \<union> set vs)) w3" by simp
      with w4 have c4: "conf (insert qemu (S \<union> set vs)) w4"
        by (metis conf_fs(3) snd_conv write_pid_file_def)
      with conf_cleanup_with_child [OF c4] assms(3) ok w1 w2 w3 w4 Ok show ?thesis
        by (cases r4) (auto simp: launch_plan_def vm_children_def Let_def)
    qed
  qed
qed

lemma vm_cleanup_account:
  assumes "conf (S \<union> vm_children vm) w" and "\<not> rv_cleaned_up vm"
  shows "conf S (snd (vm_cleanup vm w))"
proof -
  let ?w1 = "case rv_qemu vm of None \<Rightarrow> w | Some q \<Rightarrow> cleanup_child q w"
  have "conf (S \<union> set (rv_virtiofsd vm)) ?w1"
  proof (cases "rv_qemu vm")
    case (Some q)
    with assms(1) conf_mono [OF conf_cleanup_child [OF assms(1), of q]] show ?thesis
      by (auto simp: vm_children_def)
  qed (use assms(1) in \<open>simp add: vm_children_def\<close>)
  from conf_mono [OF conf_cleanup_children [OF this, of "rv_virtiofsd vm"], of S]
  have "conf S (cleanup_children (rv_virtiofsd vm) ?w1)" by auto
  with assms(2) show ?thesis
    by (simp add: vm_cleanup_def Let_def conf_cleanup_sockets conf_cleanup_pid_files)
qed

section \<open>Files after a cleanup\<close>

lemma proc_call_files:
  assumes "\<And>v. os_files (snd (f v)) = os_files v \<and> os_fs_faults (snd (f v)) = os_fs_faults v"
  shows "os_files (snd (proc_call f w)) = os_files w \<and> os_fs_faults (snd (proc_call f w)) = os_fs_faults w"
  using assms by (auto simp: proc_call_def split: prod.split option.split)

lemma cleanup_child_files:
  "os_files (cleanup_child c w) = os_files w \<and> os_fs_faults (cleanup_child c w) = os_fs_faults w"
proof -
  have "os_files (snd (try_wait c v)) = os_files v \<and> os_fs_faults (snd (try_wait c v)) = os_fs_faults v"
    "os_files (snd (child_kill c v)) = os_files v \<and> os_fs_faults (snd (child_kill c v)) = os_fs_faults v"
    "os_files (snd (child_wait c v)) = os_files v \<and> os_fs_faults (snd (child_wait c v)) = os_fs_faults v"
    for v
    unfolding try_wait_def child_kill_def child_wait_def
    by (rule proc_call_files; simp split: option.split)+
  note calls = this
  obtain r w1 where "try_wait c w = (r, w1)" by fastforce
  with calls(1) [of w] have "os_files w1 = os_files w" "os_fs_faults w1 = os_fs_faults w" by auto
  with \<open>try_wait c w = (r, w1)\<close> calls(2,3) show ?thesis
    by (auto simp: cleanup_child_def split: result.splits option.splits)
qed

lemma cleanup_children_files:
  "os_files (cleanup_children cs w) = os_files w \<and> os_fs_faults (cleanup_children cs w) = os_fs_faults w"
  unfolding cleanup_children_def
  by (induction cs arbitrary: w) (simp_all add: cleanup_child_files)

lemma no_fault_calls:
  assumes "os_fs_faults w = []"
  shows "remove_file p w = (if path_exists p w then (Ok (), drop_file p w) else (Err not_found, w))"
    and "path_is_socket p w = (lookup_file p w = Some Socket, w)"
proof -
  have "fs_call f w = f w" for f :: "world \<Rightarrow> node io_result \<times> world"
    using assms by (cases w) (simp add: fs_call_def)
  moreover have "fs_call f w = f w" for f :: "world \<Rightarrow> unit io_result \<times> world"
    using assms by (cases w) (simp add: fs_call_def)
  ultimately show "remove_file p w = (if path_exists p w then (Ok (), drop_file p w) else (Err not_found, w))"
    and "path_is_socket p w = (lookup_file p w = Some Socket, w)"
    by (auto simp: remove_file_def path_is_socket_def fs_metadata_def split: option.splits)
      (cases "lookup_file p w"; simp)+
qed

lemma remove_files:
  assumes "os_fs_faults w = []"
  shows "lookup_file q (cleanup_pid_files ps w) = (if q \<in> set ps then None else lookup_file q w)
    \<and> os_fs_faults (cleanup_pid_files ps w) = []"
  unfolding cleanup_pid_files_def using assms
  by (induction ps arbitrary: w) (auto simp: no_fault_calls path_exists_def)

lemma remove_sockets:
  assumes "os_fs_faults w = []"
  shows "lookup_file q (cleanup_sockets ps w)
      = (if q \<in> set ps \<and> lookup_file q w = Some Socket then None else lookup_file q w)"
  unfolding cleanup_sockets_def using assms
proof (induction ps arbitrary: w)
  case (Cons p ps)
  then have "os_fs_faults (cleanup_socket p w) = []"
    "lookup_file q (cleanup_socket p w) = (if q = p \<and> lookup_file q w = Some Socket then None else lookup_file q w)"
    for q
    by (auto simp: cleanup_socket_def no_fault_calls path_exists_def split: bool.splits)
  with Cons.IH [of "cleanup_socket p w"] show ?case by auto
qed simp

lemma vm_cleanup_files:
  assumes "os_fs_faults w = []" and "\<not> rv_cleaned_up vm"
  shows "(p \<in> set (rv_pid_files vm) \<longrightarrow> lookup_file p (snd (vm_cleanup vm w)) = None)
    \<and> (p \<in> set (rv_sockets vm) \<longrightarrow> lookup_file p (snd (vm_cleanup vm w)) \<noteq> Some Socket)"
proof -
  let ?w1 = "case rv_qemu vm of None \<Rightarrow> w | Some q \<Rightarrow> cleanup_child q w"
  let ?w2 = "cleanup_children (rv_virtiofsd vm) ?w1"
  have "os_fs_faults ?w2 = []"
    using assms(1) by (simp add: cleanup_children_files cleanup_child_files split: option.split)
  from remove_files [OF this, of p "rv_pid_files vm"]
    remove_sockets [of "cleanup_pid_files (rv_pid_files vm) ?w2" p "rv_sockets vm"]
  show ?thesis using assms(2)
    by (auto simp: vm_cleanup_def Let_def remove_files [OF \<open>os_fs_faults ?w2 = []\<close>])
qed

section \<open>Properties of the supervisor\<close>

text \<open>
  (C12) A failed launch leaves no child process: for every failure except a virtiofsd that
  cannot be spawned (a missing directory, a socket that already exists, a socket that never
  appears, a virtiofsd that exits, a pid file that cannot be written, a QEMU that cannot be
  spawned), every child that is running or waiting to be reaped afterwards was so before.
\<close>

theorem launch_failure_leaves_no_child:
  assumes "quiet env" and "os_proc_faults w = []"
    and "launch_plan env options plan w = (Err e, w')" and "\<not> spawn_failure e"
  shows "unreaped w' \<subseteq> unreaped w"
  using launch_plan_account [OF assms(1) _ assms(3), of "unreaped w"] assms(2,4)
  by (simp add: conf_def)

text \<open>The run of a VM on a small host: directories, process ids, and a socket that appears.\<close>

definition small_host :: "io_error option list \<Rightarrow> world" where
  "small_host spawn_faults =
     \<lparr>os_files = [(''/w'', Dir)], os_procs = [], os_pids = [(10, None), (11, None), (12, None), (13, None)],
      os_fs_faults = [], os_spawn_faults = spawn_faults, os_proc_faults = [], os_clock = 0\<rparr>"

definition small_plan :: launch_plan where
  "small_plan =
     \<lparr>lp_qemu_program = ''qemu'', lp_qemu_args = [],
      lp_shares = [share ''workspace'' ''w'' ''/w'' ''/run'' ''/l'' (virtiofsd_direct ''v''),
                   share ''cache'' ''c'' ''/c'' ''/run'' ''/l'' (virtiofsd_direct ''v'')],
      lp_kernel_cmdline = [], lp_run_dir = ''/run'', lp_log_dir = ''/l''\<rparr>"

definition quick_options :: supervisor_options where
  "quick_options = \<lparr>so_socket_timeout = 3, so_poll_interval = 1, so_qemu_io = Inherit\<rparr>"

definition appear :: "path list \<Rightarrow> world \<Rightarrow> world" where
  "appear ps w = fold (\<lambda>p. put_file p Socket) ps w"

lemma quiet_appear: "quiet (appear ps)"
proof -
  have "unreaped (put_file p Socket w) = unreaped w" for p w
    by (simp add: unreaped_def run_of_def)
  then have "unreaped (appear ps w) = unreaped w \<and> os_proc_faults (appear ps w) = os_proc_faults w" for w
    unfolding appear_def by (induction ps arbitrary: w) simp_all
  then show ?thesis by (simp add: quiet_def)
qed

lemma small_launch_timeout:
  "fst (launch_plan (appear [''/run/workspace.sock'']) quick_options small_plan (small_host []))
     = Err (SocketTimeout ''virtiofsd-cache'' ''/run/cache.sock'' ''/l/virtiofsd-cache.log'' 3)"
  by code_simp

lemma launch_failure_leaves_no_child_witness:
  "\<exists>e w'. launch_plan (appear [''/run/workspace.sock'']) quick_options small_plan (small_host []) = (Err e, w')
     \<and> unreaped w' \<subseteq> unreaped (small_host [])"
proof -
  obtain w' where "launch_plan (appear [''/run/workspace.sock'']) quick_options small_plan (small_host [])
      = (Err (SocketTimeout ''virtiofsd-cache'' ''/run/cache.sock'' ''/l/virtiofsd-cache.log'' 3), w')"
    using small_launch_timeout by (metis prod.collapse)
  with launch_failure_leaves_no_child [OF quiet_appear _ this] show ?thesis
    by (simp add: small_host_def spawn_failure_def)
qed

text \<open>
  (C13) A launched VM is fully owned and dropping it undoes the launch: it has one virtiofsd
  and one socket per share and a pid file per process; the only new children are its own;
  and dropping it, with no further faults, reaps them all, removes every pid file and every
  socket, and does so once.
\<close>

theorem launch_then_drop:
  assumes "quiet env" and "os_proc_faults w = []"
    and "launch_plan env options plan w = (Ok vm, w')"
  shows "virtiofsd_count vm = length (lp_shares plan)
    \<and> rv_sockets vm = map sp_socket (lp_shares plan)
    \<and> length (rv_pid_files vm) = Suc (length (lp_shares plan))
    \<and> unreaped w' \<subseteq> unreaped w \<union> vm_children vm
    \<and> unreaped (snd (vm_cleanup vm w')) \<subseteq> unreaped w
    \<and> (os_fs_faults w' = [] \<longrightarrow>
         (\<forall>p \<in> set (rv_pid_files vm). \<not> path_exists p (snd (vm_cleanup vm w')))
         \<and> (\<forall>p \<in> set (rv_sockets vm). lookup_file p (snd (vm_cleanup vm w')) \<noteq> Some Socket))
    \<and> vm_cleanup (fst (vm_cleanup vm w')) v = (fst (vm_cleanup vm w'), v)"
proof -
  have conf: "conf (unreaped w \<union> vm_children vm) w'"
    using launch_plan_account [OF assms(1) _ assms(3), of "unreaped w"] assms(2) by (simp add: conf_def)
  from assms(3) obtain vs ss pf q w1 w2 where
    shares: "launch_shares env options (lp_run_dir plan) (lp_shares plan) ([], [], []) w1 = (Ok (vs, ss, pf), w2)"
    and vm: "vm = \<lparr>rv_qemu = Some q, rv_virtiofsd = vs, rv_sockets = ss,
       rv_pid_files = pf @ [pid_file_path (lp_run_dir plan) ''qemu''], rv_cleaned_up = False\<rparr>"
    by (auto simp: launch_plan_def Let_def split: prod.splits result.splits)
  then have "\<not> rv_cleaned_up vm" by simp
  with vm_cleanup_account [OF conf] have "unreaped (snd (vm_cleanup vm w')) \<subseteq> unreaped w"
    by (simp add: conf_def)
  moreover have "vm_cleanup (fst (vm_cleanup vm w')) v = (fst (vm_cleanup vm w'), v)"
    by (simp add: vm_cleanup_def Let_def)
  ultimately show ?thesis
    using conf launch_shares_shape [OF shares] vm_cleanup_files [OF _ \<open>\<not> rv_cleaned_up vm\<close>]
    by (auto simp: vm conf_def virtiofsd_count_def path_exists_def)
qed

abbreviation all_sockets :: "path list" where
  "all_sockets \<equiv> [''/run/workspace.sock'', ''/run/cache.sock'']"

definition appear_next :: "world \<Rightarrow> world" where
  "appear_next w = appear (take (length (os_procs w)) all_sockets) w"

lemma quiet_appear_next: "quiet appear_next"
  using quiet_appear by (simp add: quiet_def appear_next_def)

lemma small_launch_ok:
  "is_ok (fst (launch_plan appear_next quick_options small_plan (small_host [])))"
  by code_simp

lemma launch_then_drop_witness:
  "\<exists>vm w'. launch_plan appear_next quick_options small_plan (small_host []) = (Ok vm, w')
     \<and> virtiofsd_count vm = length (lp_shares small_plan)
     \<and> unreaped (snd (vm_cleanup vm w')) \<subseteq> unreaped (small_host [])"
proof -
  obtain vm w' where "launch_plan appear_next quick_options small_plan (small_host []) = (Ok vm, w')"
    using small_launch_ok by (metis is_ok_iff prod.collapse)
  with launch_then_drop [OF quiet_appear_next _ this] show ?thesis
    by (auto simp: small_host_def)
qed

text \<open>
  The exception is real: when the second virtiofsd cannot be spawned, \<open>launch_plan\<close>
  returns its error with the first virtiofsd still running and its pid file and socket still
  in the run directory; the vectors that owned them are gone.
\<close>

theorem spawn_failure_leaks_child:
  "\<exists>w'. launch_plan appear_next quick_options small_plan
          (small_host [None, Some (IoError PermissionDenied (Some 13) '''')])
        = (Err (SupIo ''spawn virtiofsd'' None (IoError PermissionDenied (Some 13) '''')), w')
     \<and> unreaped (small_host [None, Some (IoError PermissionDenied (Some 13) '''')]) = {}
     \<and> run_of w' 10 = Some Live
     \<and> lookup_file ''/run/virtiofsd-workspace.pid'' w' \<noteq> None
     \<and> lookup_file ''/run/workspace.sock'' w' = Some Socket"
proof -
  let ?w = "small_host [None, Some (IoError PermissionDenied (Some 13) '''')]"
  let ?r = "launch_plan appear_next quick_options small_plan ?w"
  have "fst ?r = Err (SupIo ''spawn virtiofsd'' None (IoError PermissionDenied (Some 13) ''''))
    \<and> run_of (snd ?r) 10 = Some Live \<and> lookup_file ''/run/virtiofsd-workspace.pid'' (snd ?r) \<noteq> None
    \<and> lookup_file ''/run/workspace.sock'' (snd ?r) = Some Socket"
    by code_simp
  moreover have "unreaped ?w = {}"
    by (simp add: unreaped_def run_of_def lookup_proc_def small_host_def)
  ultimately show ?thesis by (metis prod.collapse)
qed

text \<open>
  Pid files round-trip: the process id a launch writes is the one a later stop reads,
  and a stop without faults reads it from any world in which the file was not touched.
\<close>

theorem pid_file_round_trip:
  assumes "write_pid_file p pid w = (Ok (), w')" and "lookup_file p v = lookup_file p w'"
    and "os_fs_faults v = []"
  shows "fst (read_pid_file p v) = Ok (Some pid)"
proof -
  from assms(1,2) have "lookup_file p v = Some (Regular (show_nat (unat pid) @ [CHR 0x0A]))"
    by (auto simp: write_pid_file_def fs_write_def fs_call_def show_word_def
        split: prod.splits option.splits)
  with assms(3) show ?thesis
    by (cases v) (simp add: read_pid_file_def read_to_string_def fs_call_def trim_show_nat_nl
        parse_u32_show Let_def lookup_file_def)
qed

lemma pid_file_round_trip_witness:
  "fst (read_pid_file ''/run/qemu.pid'' (snd (write_pid_file ''/run/qemu.pid'' 4242 (small_host []))))
     = Ok (Some 4242)"
proof (rule pid_file_round_trip)
  show "write_pid_file ''/run/qemu.pid'' 4242 (small_host [])
      = (Ok (), snd (write_pid_file ''/run/qemu.pid'' 4242 (small_host [])))"
    by (simp add: write_pid_file_def fs_write_def fs_call_def small_host_def)
qed (simp_all add: write_pid_file_def fs_write_def fs_call_def small_host_def)

lemma stop_pid_files_report:
  "stop_pid_files env kill timeout ps report w = (Ok report', w') \<Longrightarrow>
     mset (sr_terminated report' @ sr_stale report')
       = mset (sr_terminated report @ sr_stale report) + mset (map stop_label ps)"
proof (induction env kill timeout ps report w rule: stop_pid_files.induct)
  case (2 env kill timeout p ps report w)
  then show ?case
    by (fastforce split: prod.splits result.splits option.splits if_splits)
qed simp

lemma pid_files_qemu_first:
  assumes "pid_files_in_run_dir d w = (Ok ps, w')" and "p \<in> set ps" and "file_name p = Some ''qemu.pid''"
  shows "file_name (hd ps) = Some ''qemu.pid''"
proof -
  from assms(1) obtain es where ps: "ps = sort_key pid_file_key es"
    by (auto simp: pid_files_in_run_dir_def split: prod.splits result.splits)
  then have "sorted (map pid_file_key ps)" by simp
  moreover obtain x xs where "ps = x # xs" using assms(2) by (cases ps) auto
  ultimately have "pid_file_key x \<le> pid_file_key p"
    using assms(2) by auto
  moreover have "pid_file_key p = (False, ''qemu.pid'')"
    using assms(3) by (simp add: pid_file_key_def)
  ultimately have "unwrap_or (file_name x) [] = ''qemu.pid''"
    by (auto simp: pid_file_key_def Let_def less_eq_prod_def split: if_splits)
  with \<open>ps = x # xs\<close> show ?thesis by (cases "file_name x") simp_all
qed

text \<open>
  A stop that succeeds accounts for every pid file of the run directory exactly once,
  as terminated or as stale, and QEMU is stopped before its virtiofsd helpers: when the
  directory has a \<open>qemu.pid\<close> it is the first one handled.
\<close>

theorem stop_run_dir_accounts:
  assumes "stop_run_dir env kill run_dir timeout w = (Ok report, w')"
    and "pid_files_in_run_dir run_dir w = (Ok ps, w1)"
  shows "mset (sr_terminated report @ sr_stale report) = mset (map stop_label ps)
    \<and> (p \<in> set ps \<longrightarrow> file_name p = Some ''qemu.pid'' \<longrightarrow> file_name (hd ps) = Some ''qemu.pid'')"
proof (intro conjI impI)
  from assms obtain w2 where
    "stop_pid_files env kill timeout ps \<lparr>sr_terminated = [], sr_stale = []\<rparr> w1 = (Ok report, w2)"
    by (auto simp: stop_run_dir_def split: prod.splits result.splits)
  from stop_pid_files_report [OF this]
  show "mset (sr_terminated report @ sr_stale report) = mset (map stop_label ps)" by simp
qed (rule pid_files_qemu_first [OF assms(2)])

definition stopped_host :: world where
  "stopped_host =
     \<lparr>os_files = [(''/run'', Dir), (''/run/cache.pid'', Regular ''oops''), (''/run/qemu.pid'', Regular ''77'')],
      os_procs = [], os_pids = [], os_fs_faults = [], os_spawn_faults = [], os_proc_faults = [], os_clock = 0\<rparr>"

lemma stop_run_dir_accounts_witness:
  "fst (stop_run_dir id (\<lambda>t s w. (Some ESRCH, [])) ''/run'' 5 stopped_host)
      = Ok \<lparr>sr_terminated = [], sr_stale = [''qemu'', ''cache'']\<rparr>
   \<and> mset ([] @ [''qemu'', ''cache'']) = mset (map stop_label [''/run/qemu.pid'', ''/run/cache.pid''])"
proof -
  let ?s = "stop_run_dir id (\<lambda>t s w. (Some ESRCH, [])) ''/run'' 5 stopped_host"
  let ?l = "pid_files_in_run_dir ''/run'' stopped_host"
  have "fst ?s = Ok \<lparr>sr_terminated = [], sr_stale = [''qemu'', ''cache'']\<rparr>"
    and "fst ?l = Ok [''/run/qemu.pid'', ''/run/cache.pid'']"
    by (code_simp, code_simp)
  then obtain v u where s: "?s = (Ok \<lparr>sr_terminated = [], sr_stale = [''qemu'', ''cache'']\<rparr>, v)"
    and l: "?l = (Ok [''/run/qemu.pid'', ''/run/cache.pid''], u)"
    by (metis prod.collapse)
  from stop_run_dir_accounts [OF s l] s show ?thesis by simp
qed

text \<open>
  A pid file is trusted without a range check: any decimal below \<open>2 ^ 32\<close> is passed to
  \<open>kill\<close> as an \<open>i32\<close>, so that 4294967295 signals every process of the user (target -1) and 0
  the caller's own process group.
\<close>

theorem stop_signals_process_groups:
  "fst (read_pid_file p (put_file p (Regular ''4294967295'') (small_host []))) = Ok (Some (- 1))
   \<and> send_signal kill (- 1) SIGTERM w
       = (case kill (- 1) SIGTERM w of
            (None, ps) \<Rightarrow> (Ok True, w\<lparr>os_procs := ps\<rparr>)
          | (Some errno, ps) \<Rightarrow>
              (if errno = ESRCH then Ok False else Err (os_error errno), w\<lparr>os_procs := ps\<rparr>))
   \<and> fst (read_pid_file p (put_file p (Regular ''0'') (small_host []))) = Ok (Some 0)
   \<and> sint (0 :: u32) = 0"
proof -
  have "trim ''4294967295'' = ''4294967295'' \<and> trim ''0'' = ''0''
      \<and> parse_u32 ''4294967295'' = Some (- 1) \<and> parse_u32 ''0'' = Some 0"
    by code_simp
  moreover have "read_to_string p (put_file p (Regular s) (small_host [])) = (Ok s, put_file p (Regular s) (small_host []))" for s
    by (simp add: read_to_string_def fs_call_def small_host_def put_file_def lookup_file_def update_conv)
  moreover have "sint (- 1 :: u32) = - 1" by simp
  ultimately show ?thesis
    by (simp add: read_pid_file_def send_signal_def call_kill_def Let_def split: prod.split option.split)
qed

end
