(* ===== verification/Vm_Pool.thy ===== *)
theory Vm_Pool
  imports Ipc Supervisor
begin

text \<open>
  The VM pool of the host daemon (linux/src/pool.rs): the map from projects to VM entries,
  reuse and boot on \<open>ensure\<close>, session counting, stop, idle reaping and status. Every
  critical section of the code is one definition, so that the sequential operations and the
  interleavings of threads are built from the same pieces. The hash map is an association
  list with distinct keys (its iteration order is unspecified in the code); instants are
  clock readings in nanoseconds; a dropped \<open>VmProcess\<close> is returned to the caller, which
  kills it outside the lock as the code does.
\<close>

definition CID_BASE :: u32 where
  "CID_BASE = 100"

definition CID_MAX :: u32 where
  "CID_MAX = - 1 - 1"

definition DEFAULT_IDLE_TTL :: nat where
  "DEFAULT_IDLE_TTL = secs (30 * 60)"

definition ENSURE_MAX_RETRIES :: nat where
  "ENSURE_MAX_RETRIES = 8"

datatype vm_state = Booting | Running | Stopping

definition vm_state_label :: "vm_state \<Rightarrow> string" where
  "vm_state_label s = (case s of Booting \<Rightarrow> ''booting'' | Running \<Rightarrow> ''running'' | Stopping \<Rightarrow> ''stopping'')"

datatype pool_error =
    PoolSupervisor supervisor_error
  | PoolPlan plan_error
  | PoolIo string path io_error
  | Canonicalize path io_error
  | CidExhausted
  | NetworkConflict network_mode network_mode

fun pool_error_text :: "(nat \<Rightarrow> string) \<Rightarrow> pool_error \<Rightarrow> string" where
  "pool_error_text fmt_secs (PoolSupervisor e) = supervisor_error_text fmt_secs e"
| "pool_error_text fmt_secs (PoolPlan e) = plan_error_text e"
| "pool_error_text fmt_secs (PoolIo action p source) = action @ '' '' @ p @ '': '' @ io_error_text source"
| "pool_error_text fmt_secs (Canonicalize p source) = ''canonicalize '' @ p @ '': '' @ io_error_text source"
| "pool_error_text fmt_secs CidExhausted = ''exhausted vsock CID allocation space''"
| "pool_error_text fmt_secs (NetworkConflict running requested) =
     ''VM already running with network='' @ network_label running
     @ ''; cannot reuse with --vm-network='' @ network_label requested
     @ ''. Run `fend stop` first.''"

record 'p vm_entry =
  ve_project :: path
  ve_cid :: u32
  ve_run_dir :: path
  ve_state :: vm_state
  ve_network :: network_mode
  ve_active_sessions :: nat
  ve_last_used :: nat
  ve_process :: "'p option"

definition entry_status :: "nat \<Rightarrow> 'p vm_entry \<Rightarrow> vm_status" where
  "entry_status now e =
     \<lparr>vs_project = ve_project e, vs_cid = ve_cid e, vs_state = vm_state_label (ve_state e),
      vs_active_sessions = ve_active_sessions e,
      vs_idle_secs = (if ve_active_sessions e = 0 then of_nat ((now - ve_last_used e) div secs 1) else 0),
      vs_run_dir = ve_run_dir e\<rparr>"

record ensure_outcome =
  eo_cid :: u32
  eo_run_dir :: path
  eo_booted :: bool

record 'p pool =
  pl_vms :: "(string \<times> 'p vm_entry) list"
  pl_next_cid :: u32
  pl_state_dir :: path
  pl_idle_ttl :: nat

text \<open>
  What the pool calls: \<open>fs::canonicalize\<close>, the path hasher, the environment variables, the
  launcher behind the \<open>VmLauncher\<close> trait, the drop of a process, and what other programs do
  while a thread sleeps.
\<close>

record 'p pool_host =
  ph_canonicalize :: "world \<Rightarrow> path \<Rightarrow> path io_result"
  ph_hash :: "path_component list \<Rightarrow> u64"
  ph_var_os :: "string \<Rightarrow> string option"
  ph_launch :: "launch_plan \<Rightarrow> path \<Rightarrow> world \<Rightarrow> ('p, pool_error) result \<times> world"
  ph_drop :: "'p \<Rightarrow> world \<Rightarrow> world"
  ph_env :: "world \<Rightarrow> world"

definition with_launcher :: "path \<Rightarrow> 'p pool" where
  "with_launcher state_dir =
     \<lparr>pl_vms = [], pl_next_cid = CID_BASE, pl_state_dir = state_dir, pl_idle_ttl = DEFAULT_IDLE_TTL\<rparr>"

definition set_idle_ttl :: "nat \<Rightarrow> 'p pool \<Rightarrow> 'p pool" where
  "set_idle_ttl ttl p = p\<lparr>pl_idle_ttl := ttl\<rparr>"

section \<open>The map of entries\<close>

definition get_vm :: "string \<Rightarrow> 'p pool \<Rightarrow> 'p vm_entry option" where
  "get_vm key p = map_of (pl_vms p) key"

definition insert_vm :: "string \<Rightarrow> 'p vm_entry \<Rightarrow> 'p pool \<Rightarrow> 'p pool" where
  "insert_vm key e p = p\<lparr>pl_vms := AList.update key e (pl_vms p)\<rparr>"

definition remove_vm :: "string \<Rightarrow> 'p pool \<Rightarrow> 'p pool" where
  "remove_vm key p = p\<lparr>pl_vms := AList.delete key (pl_vms p)\<rparr>"

section \<open>Critical sections\<close>

definition allocate_cid :: "'p pool \<Rightarrow> (u32, pool_error) result \<times> 'p pool" where
  "allocate_cid p =
     (let cid = pl_next_cid p; p' = p\<lparr>pl_next_cid := cid + 1\<rparr>
      in (if CID_MAX \<le> cid then Err CidExhausted else Ok cid, p'))"

datatype reserve_result =
    Reused ensure_outcome
  | Refused pool_error
  | Reserved u32 path
  | MustWait

definition vm_run_dir :: "path \<Rightarrow> string \<Rightarrow> u32 \<Rightarrow> path" where
  "vm_run_dir state_dir key cid = path_join (path_join state_dir ''vms'') (key @ ''-'' @ show_word cid)"

text \<open>The first section of \<open>ensure\<close>: reuse the entry, refuse, or reserve a slot.\<close>

definition reserve ::
  "string \<Rightarrow> path \<Rightarrow> network_mode \<Rightarrow> nat \<Rightarrow> 'p pool \<Rightarrow> reserve_result \<times> 'p pool" where
  "reserve key project network now p =
     (case get_vm key p of
        Some entry \<Rightarrow>
          (case ve_state entry of
             Stopping \<Rightarrow> (MustWait, p)
           | _ \<Rightarrow>
               if ve_network entry \<noteq> network
               then (Refused (NetworkConflict (ve_network entry) network), p)
               else (Reused \<lparr>eo_cid = ve_cid entry, eo_run_dir = ve_run_dir entry, eo_booted = False\<rparr>,
                     insert_vm key (entry\<lparr>ve_active_sessions := ve_active_sessions entry + 1,
                                          ve_last_used := now\<rparr>) p))
      | None \<Rightarrow>
          (case allocate_cid p of
             (Err e, p1) \<Rightarrow> (Refused e, p1)
           | (Ok cid, p1) \<Rightarrow>
               (let run_dir = vm_run_dir (pl_state_dir p) key cid
                in (Reserved cid run_dir,
                    insert_vm key \<lparr>ve_project = project, ve_cid = cid, ve_run_dir = run_dir,
                       ve_state = Booting, ve_network = network, ve_active_sessions = 1,
                       ve_last_used = now, ve_process = None\<rparr> p1))))"

text \<open>
  The section after a successful boot. The process goes into whatever entry the key has now,
  replacing (and dropping) one that is there; without an entry it is dropped.
\<close>

definition commit_boot :: "string \<Rightarrow> 'p \<Rightarrow> 'p pool \<Rightarrow> 'p list \<times> 'p pool" where
  "commit_boot key process p =
     (case get_vm key p of
        None \<Rightarrow> ([process], p)
      | Some entry \<Rightarrow>
          (case ve_process entry of None \<Rightarrow> [] | Some old \<Rightarrow> [old],
           insert_vm key (entry\<lparr>ve_state := Running, ve_process := Some process\<rparr>) p))"

definition entry_processes :: "'p vm_entry option \<Rightarrow> 'p list" where
  "entry_processes e =
     (case e of None \<Rightarrow> [] | Some entry \<Rightarrow> (case ve_process entry of None \<Rightarrow> [] | Some x \<Rightarrow> [x]))"

text \<open>The section after a failed boot removes the key's entry.\<close>

definition abort_boot :: "string \<Rightarrow> 'p pool \<Rightarrow> 'p list \<times> 'p pool" where
  "abort_boot key p = (entry_processes (get_vm key p), remove_vm key p)"

definition release_key :: "string \<Rightarrow> nat \<Rightarrow> 'p pool \<Rightarrow> 'p pool" where
  "release_key key now p =
     (case get_vm key p of
        None \<Rightarrow> p
      | Some entry \<Rightarrow>
          (let n = ve_active_sessions entry - 1
           in insert_vm key
                (if n = 0 then entry\<lparr>ve_active_sessions := n, ve_last_used := now\<rparr>
                 else entry\<lparr>ve_active_sessions := n\<rparr>) p))"

text \<open>\<open>stop\<close>: the removed entries, marked \<open>Stopping\<close>, and the pool without them.\<close>

definition stop_key :: "string \<Rightarrow> 'p pool \<Rightarrow> 'p vm_entry list \<times> 'p pool" where
  "stop_key key p =
     (case get_vm key p of
        None \<Rightarrow> ([], p)
      | Some entry \<Rightarrow> ([entry\<lparr>ve_state := Stopping\<rparr>], remove_vm key p))"

definition stop_all :: "'p pool \<Rightarrow> 'p vm_entry list \<times> 'p pool" where
  "stop_all p = (map (\<lambda>(k, e). e\<lparr>ve_state := Stopping\<rparr>) (pl_vms p), p\<lparr>pl_vms := []\<rparr>)"

definition is_stale :: "nat \<Rightarrow> nat \<Rightarrow> 'p vm_entry \<Rightarrow> bool" where
  "is_stale ttl now e \<longleftrightarrow>
     ve_active_sessions e = 0 \<and> ve_state e = Running \<and> ttl < now - ve_last_used e"

definition stale_keys :: "nat \<Rightarrow> 'p pool \<Rightarrow> string list" where
  "stale_keys now p = map fst (filter (\<lambda>(k, e). is_stale (pl_idle_ttl p) now e) (pl_vms p))"

fun remove_stale :: "string list \<Rightarrow> 'p pool \<Rightarrow> 'p vm_entry list \<times> 'p pool" where
  "remove_stale [] p = ([], p)"
| "remove_stale (k # ks) p =
     (case get_vm k p of
        None \<Rightarrow> remove_stale ks p
      | Some entry \<Rightarrow>
          (case remove_stale ks (remove_vm k p) of
             (removed, p') \<Rightarrow> (entry\<lparr>ve_state := Stopping\<rparr> # removed, p')))"

definition reap_section :: "nat \<Rightarrow> 'p pool \<Rightarrow> 'p vm_entry list \<times> 'p pool" where
  "reap_section now p = remove_stale (stale_keys now p) p"

definition status :: "nat \<Rightarrow> 'p pool \<Rightarrow> vm_status list" where
  "status now p = sort_key (\<lambda>s. components (vs_project s)) (map (\<lambda>(k, e). entry_status now e) (pl_vms p))"

section \<open>The operations\<close>

definition drop_all :: "'p pool_host \<Rightarrow> 'p list \<Rightarrow> world \<Rightarrow> world" where
  "drop_all h ps w = fold (ph_drop h) ps w"

definition drop_entries :: "'p pool_host \<Rightarrow> 'p vm_entry list \<Rightarrow> world \<Rightarrow> world" where
  "drop_entries h es w = drop_all h (concat (map (\<lambda>e. entry_processes (Some e)) es)) w"

definition pool_canonicalize :: "'p pool_host \<Rightarrow> path \<Rightarrow> world \<Rightarrow> (path, pool_error) result" where
  "pool_canonicalize h p w = map_err (Canonicalize p) (ph_canonicalize h w p)"

text \<open>\<open>fs::canonicalize(p).unwrap_or_else(|_| p)\<close>, as \<open>release\<close> and \<open>stop\<close> use it.\<close>

definition canonical_or_self :: "'p pool_host \<Rightarrow> path \<Rightarrow> world \<Rightarrow> path" where
  "canonical_or_self h p w = (case ph_canonicalize h w p of Ok c \<Rightarrow> c | Err _ \<Rightarrow> p)"

definition boot_launch_config ::
  "'p pool_host \<Rightarrow> path \<Rightarrow> vm_config \<Rightarrow> u32 \<Rightarrow> path \<Rightarrow> world \<Rightarrow> launch_config" where
  "boot_launch_config h project config cid run_dir w =
     (let lc = new_launch_config (from_runtime_dir (vc_runtime_dir config)) project
                 (vc_cache_dir config) (vc_tools_dir config) run_dir (vc_epoch config);
          lc1 = (case resolve_virtiofsd (path_is_file w) (ph_var_os h) of
                   Some v \<Rightarrow> lc\<lparr>lc_virtiofsd := v\<rparr> | None \<Rightarrow> lc)
      in lc1\<lparr>lc_guest_cid := cid, lc_cpus := vc_cpus config, lc_memory_mib := vc_memory_mib config,
             lc_network := vc_network config, lc_guest_workspace := vc_guest_workspace config\<rparr>)"

definition boot ::
  "'p pool_host \<Rightarrow> path \<Rightarrow> vm_config \<Rightarrow> u32 \<Rightarrow> path \<Rightarrow> world \<Rightarrow> ('p, pool_error) result \<times> world" where
  "boot h project config cid run_dir w =
     (case create_dir_all run_dir w of
        (Err e, w1) \<Rightarrow> (Err (PoolIo ''create vm run dir'' run_dir e), w1)
      | (Ok _, w1) \<Rightarrow>
          (case build_launch_plan (boot_launch_config h project config cid run_dir w1) of
             Err e \<Rightarrow> (Err (PoolPlan e), w1)
           | Ok plan \<Rightarrow> ph_launch h plan (path_join run_dir ''logs/qemu.log'') w1))"

definition ensure_timeout :: "path \<Rightarrow> pool_error" where
  "ensure_timeout project =
     PoolIo ''ensure vm'' project (IoError TimedOut None ''vm slot remained Stopping across retries'')"

fun ensure_loop ::
  "nat \<Rightarrow> 'p pool_host \<Rightarrow> string \<Rightarrow> path \<Rightarrow> vm_config \<Rightarrow> 'p pool \<Rightarrow> world
     \<Rightarrow> (ensure_outcome, pool_error) result \<times> 'p pool \<times> world" where
  "ensure_loop 0 h key project config p w = (Err (ensure_timeout project), p, w)"
| "ensure_loop (Suc n) h key project config p w =
     (case reserve key project (vc_network config) (os_clock w) p of
        (Reused out, p1) \<Rightarrow> (Ok out, p1, w)
      | (Refused e, p1) \<Rightarrow> (Err e, p1, w)
      | (MustWait, p1) \<Rightarrow> ensure_loop n h key project config p1 (sleep (ph_env h) (millis 50) w)
      | (Reserved cid run_dir, p1) \<Rightarrow>
          (case boot h project config cid run_dir w of
             (Ok process, w1) \<Rightarrow>
               (case commit_boot key process p1 of (dropped, p2) \<Rightarrow>
                  (Ok \<lparr>eo_cid = cid, eo_run_dir = run_dir, eo_booted = True\<rparr>, p2, drop_all h dropped w1))
           | (Err e, w1) \<Rightarrow>
               (case abort_boot key p1 of (dropped, p2) \<Rightarrow> (Err e, p2, drop_all h dropped w1))))"

definition ensure ::
  "'p pool_host \<Rightarrow> vm_config \<Rightarrow> 'p pool \<Rightarrow> world
     \<Rightarrow> (ensure_outcome, pool_error) result \<times> 'p pool \<times> world" where
  "ensure h config p w =
     (case pool_canonicalize h (vc_project config) w of
        Err e \<Rightarrow> (Err e, p, w)
      | Ok project \<Rightarrow>
          ensure_loop ENSURE_MAX_RETRIES h (project_key (ph_hash h) project) project config p w)"

definition release :: "'p pool_host \<Rightarrow> path \<Rightarrow> 'p pool \<Rightarrow> world \<Rightarrow> 'p pool" where
  "release h project p w =
     release_key (project_key (ph_hash h) (canonical_or_self h project w)) (os_clock w) p"

definition pool_stop :: "'p pool_host \<Rightarrow> path option \<Rightarrow> 'p pool \<Rightarrow> world \<Rightarrow> nat \<times> 'p pool \<times> world" where
  "pool_stop h project p w =
     (case (case project of
              Some path \<Rightarrow> stop_key (project_key (ph_hash h) (canonical_or_self h path w)) p
            | None \<Rightarrow> stop_all p) of
        (removed, p1) \<Rightarrow> (length removed, p1, drop_entries h removed w))"

definition reap :: "'p pool_host \<Rightarrow> 'p pool \<Rightarrow> world \<Rightarrow> nat \<times> 'p pool \<times> world" where
  "reap h p w =
     (case reap_section (os_clock w) p of
        (removed, p1) \<Rightarrow> (length removed, p1, drop_entries h removed w))"

section \<open>The launcher of the daemon\<close>

text \<open>\<open>StdLauncher\<close>: the supervisor with QEMU's output in a log file.\<close>

definition std_launch ::
  "(world \<Rightarrow> world) \<Rightarrow> launch_plan \<Rightarrow> path \<Rightarrow> world \<Rightarrow> (running_vm, pool_error) result \<times> world" where
  "std_launch env plan qemu_log w =
     (case (case path_parent qemu_log of
              None \<Rightarrow> (Ok (), w)
            | Some parent \<Rightarrow>
                (case create_dir_all parent w of
                   (r, w1) \<Rightarrow> (map_err (PoolIo ''create qemu log dir'' parent) r, w1))) of
        (Err e, w1) \<Rightarrow> (Err e, w1)
      | (Ok _, w1) \<Rightarrow>
          (case launch_plan env (default_options\<lparr>so_qemu_io := Log qemu_log\<rparr>) plan w1 of
             (r, w2) \<Rightarrow> (map_err PoolSupervisor r, w2)))"

definition std_drop :: "running_vm \<Rightarrow> world \<Rightarrow> world" where
  "std_drop vm w = snd (vm_cleanup vm w)"

section \<open>The map as an interface\<close>

text \<open>
  What the critical sections rely on of the project map: lookups after an insertion and a
  removal, and that both keep the representation well formed.
\<close>

locale slot_map =
  fixes get :: "'k \<Rightarrow> 's \<Rightarrow> 'v option"
    and ins :: "'k \<Rightarrow> 'v \<Rightarrow> 's \<Rightarrow> 's"
    and rem :: "'k \<Rightarrow> 's \<Rightarrow> 's"
    and wf :: "'s \<Rightarrow> bool"
  assumes get_ins: "get k' (ins k v s) = (if k' = k then Some v else get k' s)"
    and get_rem: "get k' (rem k s) = (if k' = k then None else get k' s)"
    and wf_ins: "wf s \<Longrightarrow> wf (ins k v s)"
    and wf_rem: "wf s \<Longrightarrow> wf (rem k s)"
begin

definition every :: "('v \<Rightarrow> bool) \<Rightarrow> 's \<Rightarrow> bool" where
  "every P s \<longleftrightarrow> wf s \<and> (\<forall>k v. get k s = Some v \<longrightarrow> P v)"

lemma every_get: "every P s \<Longrightarrow> get k s = Some v \<Longrightarrow> P v"
  by (simp add: every_def)

lemma every_ins: "every P s \<Longrightarrow> P v \<Longrightarrow> every P (ins k v s)"
  by (simp add: every_def get_ins wf_ins)

lemma every_rem: "every P s \<Longrightarrow> every P (rem k s)"
  by (simp add: every_def get_rem wf_rem)

text \<open>A measure of the values that is different for different keys.\<close>

definition separates :: "('v \<Rightarrow> 'b) \<Rightarrow> 's \<Rightarrow> bool" where
  "separates f s \<longleftrightarrow> (\<forall>k k' v v'. get k s = Some v \<longrightarrow> get k' s = Some v' \<longrightarrow> f v = f v' \<longrightarrow> k = k')"

lemma separates_rem: "separates f s \<Longrightarrow> separates f (rem k s)"
  by (auto simp: separates_def get_rem split: if_splits)

lemma separates_update:
  "separates f s \<Longrightarrow> get k s = Some v \<Longrightarrow> f v' = f v \<Longrightarrow> separates f (ins k v' s)"
  by (auto simp: separates_def get_ins)

lemma separates_new:
  "separates f s \<Longrightarrow> (\<And>k' v. get k' s = Some v \<Longrightarrow> f v \<noteq> f x) \<Longrightarrow> separates f (ins k x s)"
  by (auto simp: separates_def get_ins) metis+

end

definition keys_distinct :: "'p pool \<Rightarrow> bool" where
  "keys_distinct p = distinct (map fst (pl_vms p))"

interpretation vms: slot_map get_vm insert_vm remove_vm keys_distinct
  by unfold_locales
    (auto simp: get_vm_def insert_vm_def remove_vm_def keys_distinct_def update_conv delete_conv
      distinct_update distinct_delete)

section \<open>Invariants\<close>

text \<open>No entry in the map is stopping, and an entry has a process exactly when it runs.\<close>

definition entry_ok :: "'p vm_entry \<Rightarrow> bool" where
  "entry_ok e \<longleftrightarrow> ve_state e \<noteq> Stopping \<and> (ve_state e = Running \<longleftrightarrow> ve_process e \<noteq> None)"

definition pool_inv :: "'p pool \<Rightarrow> bool" where
  "pool_inv p = vms.every entry_ok p"

definition cid_inv :: "'p pool \<Rightarrow> bool" where
  "cid_inv p \<longleftrightarrow> CID_BASE \<le> pl_next_cid p
     \<and> vms.every (\<lambda>e. CID_BASE \<le> ve_cid e \<and> ve_cid e < pl_next_cid p) p
     \<and> vms.separates ve_cid p"

lemma get_vm_next_cid [simp]: "get_vm k (p\<lparr>pl_next_cid := c\<rparr>) = get_vm k p"
  by (simp add: get_vm_def)

lemma insert_vm_fields [simp]:
  "pl_next_cid (insert_vm k e p) = pl_next_cid p" "pl_idle_ttl (insert_vm k e p) = pl_idle_ttl p"
  "pl_state_dir (insert_vm k e p) = pl_state_dir p"
  "pl_next_cid (remove_vm k p) = pl_next_cid p" "pl_idle_ttl (remove_vm k p) = pl_idle_ttl p"
  "pl_state_dir (remove_vm k p) = pl_state_dir p"
  by (simp_all add: insert_vm_def remove_vm_def)

lemma every_next_cid [simp]: "vms.every P (p\<lparr>pl_next_cid := c\<rparr>) = vms.every P p"
  by (simp add: vms.every_def keys_distinct_def)

lemma separates_next_cid [simp]: "vms.separates f (p\<lparr>pl_next_cid := c\<rparr>) = vms.separates f p"
  by (simp add: vms.separates_def)

lemmas sections = reserve_def allocate_cid_def commit_boot_def abort_boot_def release_key_def
  stop_key_def Let_def

lemma remove_stale_inv: "vms.every P p \<Longrightarrow> vms.every P (snd (remove_stale ks p))"
  by (induction ks p rule: remove_stale.induct) (auto simp: vms.every_rem split: option.splits prod.splits)

text \<open>Every critical section keeps the invariant.\<close>

lemma reserve_inv: "pool_inv p \<Longrightarrow> reserve key project net now p = (r, p') \<Longrightarrow> pool_inv p'"
  by (auto simp: pool_inv_def sections entry_ok_def intro!: vms.every_ins dest: vms.every_get
      split: option.splits vm_state.splits if_splits)

lemma commit_boot_inv: "pool_inv p \<Longrightarrow> commit_boot key x p = (d, p') \<Longrightarrow> pool_inv p'"
  by (auto simp: pool_inv_def sections entry_ok_def intro!: vms.every_ins split: option.splits)

lemma abort_boot_inv: "pool_inv p \<Longrightarrow> abort_boot key p = (d, p') \<Longrightarrow> pool_inv p'"
  by (auto simp: pool_inv_def sections vms.every_rem)

lemma release_key_inv: "pool_inv p \<Longrightarrow> pool_inv (release_key key now p)"
  by (auto simp: pool_inv_def sections entry_ok_def intro!: vms.every_ins dest: vms.every_get
      split: option.splits)

lemma stop_key_inv: "pool_inv p \<Longrightarrow> stop_key key p = (r, p') \<Longrightarrow> pool_inv p'"
  by (auto simp: pool_inv_def sections vms.every_rem split: option.splits)

lemma stop_all_inv: "stop_all p = (r, p') \<Longrightarrow> pool_inv p'"
  by (auto simp: pool_inv_def stop_all_def vms.every_def keys_distinct_def get_vm_def)

lemma reap_section_inv: "pool_inv p \<Longrightarrow> reap_section now p = (r, p') \<Longrightarrow> pool_inv p'"
  using remove_stale_inv [of entry_ok p "stale_keys now p"]
  by (simp add: pool_inv_def reap_section_def)

lemma pool_inv_init: "pool_inv (with_launcher d)"
  by (simp add: pool_inv_def vms.every_def with_launcher_def keys_distinct_def get_vm_def)

lemmas section_invs = reserve_inv commit_boot_inv abort_boot_inv release_key_inv stop_key_inv
  stop_all_inv reap_section_inv

lemma reserve_not_stopping: "pool_inv p \<Longrightarrow> fst (reserve key project net now p) \<noteq> MustWait"
  by (auto simp: pool_inv_def sections entry_ok_def dest: vms.every_get
      split: option.splits vm_state.splits if_splits)

section \<open>Interleavings\<close>

text \<open>
  The daemon runs \<open>ensure\<close>, \<open>release\<close>, \<open>stop\<close> and \<open>reap\<close> on threads; each critical section
  is atomic and boots happen between two of them. \<open>sy_booting\<close> are the boots in progress as
  key and CID; \<open>sy_committed\<close> records the processes that boots delivered, with the CID each
  was booted for, and \<open>sy_dropped\<close> those that were handed to drop.
\<close>

record 'p pool_sys =
  sy_pool :: "'p pool"
  sy_booting :: "(string \<times> u32) list"
  sy_committed :: "(u32 \<times> 'p) list"
  sy_dropped :: "'p list"

definition sys_init :: "path \<Rightarrow> 'p pool_sys" where
  "sys_init d = \<lparr>sy_pool = with_launcher d, sy_booting = [], sy_committed = [], sy_dropped = []\<rparr>"

definition processes_of :: "'p vm_entry list \<Rightarrow> 'p list" where
  "processes_of es = concat (map (\<lambda>e. entry_processes (Some e)) es)"

inductive pool_step :: "'p pool_sys \<Rightarrow> 'p pool_sys \<Rightarrow> bool" where
  step_reserve: "reserve key project net now (sy_pool s) = (r, p') \<Longrightarrow>
    pool_step s (s\<lparr>sy_pool := p',
      sy_booting := (case r of Reserved cid d \<Rightarrow> [(key, cid)] | _ \<Rightarrow> []) @ sy_booting s\<rparr>)"
| step_commit: "(key, cid) \<in> set (sy_booting s) \<Longrightarrow> commit_boot key x (sy_pool s) = (d, p') \<Longrightarrow>
    pool_step s (s\<lparr>sy_pool := p', sy_booting := remove1 (key, cid) (sy_booting s),
      sy_committed := (cid, x) # sy_committed s, sy_dropped := d @ sy_dropped s\<rparr>)"
| step_abort: "(key, cid) \<in> set (sy_booting s) \<Longrightarrow> abort_boot key (sy_pool s) = (d, p') \<Longrightarrow>
    pool_step s (s\<lparr>sy_pool := p', sy_booting := remove1 (key, cid) (sy_booting s),
      sy_dropped := d @ sy_dropped s\<rparr>)"
| step_release: "pool_step s (s\<lparr>sy_pool := release_key key now (sy_pool s)\<rparr>)"
| step_stop_key: "stop_key key (sy_pool s) = (es, p') \<Longrightarrow>
    pool_step s (s\<lparr>sy_pool := p', sy_dropped := processes_of es @ sy_dropped s\<rparr>)"
| step_stop_all: "stop_all (sy_pool s) = (es, p') \<Longrightarrow>
    pool_step s (s\<lparr>sy_pool := p', sy_dropped := processes_of es @ sy_dropped s\<rparr>)"
| step_reap: "reap_section now (sy_pool s) = (es, p') \<Longrightarrow>
    pool_step s (s\<lparr>sy_pool := p', sy_dropped := processes_of es @ sy_dropped s\<rparr>)"

inductive_cases pool_stepE: "pool_step s s'"

text \<open>The processes the pool owns.\<close>

definition owned :: "'p pool \<Rightarrow> 'p list" where
  "owned p = processes_of (map snd (pl_vms p))"

lemma processes_of_simps [simp]:
  "processes_of [] = []" "processes_of (e # es) = entry_processes (Some e) @ processes_of es"
  by (simp_all add: processes_of_def)

lemma entry_processes_update [simp]:
  "entry_processes (Some (e\<lparr>ve_state := s\<rparr>)) = entry_processes (Some e)"
  "entry_processes (Some (e\<lparr>ve_active_sessions := n\<rparr>)) = entry_processes (Some e)"
  "entry_processes (Some (e\<lparr>ve_last_used := t\<rparr>)) = entry_processes (Some e)"
  by (simp_all add: entry_processes_def)

lemma owned_alist_update:
  "mset (processes_of (map snd (AList.update k e xs))) + mset (entry_processes (map_of xs k))
     = mset (processes_of (map snd xs)) + mset (entry_processes (Some e))"
  by (induction xs) (auto simp: entry_processes_def [of None])

lemma owned_alist_delete:
  "distinct (map fst xs) \<Longrightarrow>
   mset (processes_of (map snd (AList.delete k xs))) + mset (entry_processes (map_of xs k))
     = mset (processes_of (map snd xs))"
proof (induction xs)
  case (Cons x xs)
  then show ?case
    by (cases x) (auto simp: entry_processes_def [of None] delete_id image_iff
        map_of_eq_None_iff [THEN iffD2])
qed (simp add: entry_processes_def)

lemma owned_insert:
  "mset (owned (insert_vm k e p)) + mset (entry_processes (get_vm k p))
     = mset (owned p) + mset (entry_processes (Some e))"
  using owned_alist_update [of k e "pl_vms p"] by (simp add: owned_def insert_vm_def get_vm_def)

lemma owned_remove:
  "keys_distinct p \<Longrightarrow>
   mset (owned (remove_vm k p)) + mset (entry_processes (get_vm k p)) = mset (owned p)"
  using owned_alist_delete [of "pl_vms p" k] by (simp add: owned_def remove_vm_def get_vm_def keys_distinct_def)

lemma owned_next_cid [simp]: "owned (p\<lparr>pl_next_cid := c\<rparr>) = owned p"
  by (simp add: owned_def)

text \<open>Each section moves processes between the pool and the dropped ones, and loses none.\<close>

lemma owned_update_same:
  "entry_processes (Some e) = entry_processes (get_vm k p) \<Longrightarrow>
     mset (owned (insert_vm k e p)) = mset (owned p)"
  using owned_insert [of k e p] by simp

lemma reserve_owned:
  "reserve key project net now p = (r, p') \<Longrightarrow> mset (owned p') = mset (owned p)"
proof -
  have new: "mset (owned (insert_vm key e q)) = mset (owned q)"
    if "get_vm key q = None" "ve_process e = None" for e and q :: "'a pool"
    by (rule owned_update_same) (simp add: that entry_processes_def)
  have old: "mset (owned (insert_vm key (e\<lparr>ve_active_sessions := n, ve_last_used := t\<rparr>) p)) = mset (owned p)"
    if "get_vm key p = Some e" for e n t
    by (rule owned_update_same) (simp add: that)
  show "reserve key project net now p = (r, p') \<Longrightarrow> mset (owned p') = mset (owned p)"
    by (auto simp: sections new old split: option.splits vm_state.splits if_splits)
qed

lemma commit_owned:
  assumes "commit_boot key x p = (d, p')"
  shows "mset (owned p') + mset d = add_mset x (mset (owned p))"
proof (cases "get_vm key p")
  case None
  with assms show ?thesis by (auto simp: sections)
next
  case (Some e)
  with assms have "d = entry_processes (get_vm key p)"
    "p' = insert_vm key (e\<lparr>ve_state := Running, ve_process := Some x\<rparr>) p"
    by (auto simp: sections entry_processes_def)
  with owned_insert [of key "e\<lparr>ve_state := Running, ve_process := Some x\<rparr>" p] show ?thesis
    by (simp add: entry_processes_def)
qed

lemma abort_owned:
  "keys_distinct p \<Longrightarrow> abort_boot key p = (d, p') \<Longrightarrow> mset (owned p') + mset d = mset (owned p)"
  using owned_remove [of p key] by (auto simp: sections)

lemma release_owned: "mset (owned (release_key key now p)) = mset (owned p)"
  by (auto simp: sections intro!: owned_update_same split: option.splits)

lemma stop_key_owned:
  "keys_distinct p \<Longrightarrow> stop_key key p = (es, p') \<Longrightarrow>
     mset (owned p') + mset (processes_of es) = mset (owned p)"
  using owned_remove [of p key] by (auto simp: sections split: option.splits)

lemma stop_all_owned: "stop_all p = (es, p') \<Longrightarrow> mset (owned p') + mset (processes_of es) = mset (owned p)"
  by (auto simp: stop_all_def owned_def processes_of_def case_prod_beta o_def)

lemma remove_stale_owned:
  "keys_distinct p \<Longrightarrow> remove_stale ks p = (es, p') \<Longrightarrow>
     mset (owned p') + mset (processes_of es) = mset (owned p)"
proof (induction ks p arbitrary: es rule: remove_stale.induct)
  case (2 k ks p)
  show ?case
  proof (cases "get_vm k p")
    case None
    with 2 show ?thesis by simp
  next
    case (Some e)
    with "2.prems"(2) obtain es1 where
      es1: "remove_stale ks (remove_vm k p) = (es1, p')" "es = e\<lparr>ve_state := Stopping\<rparr> # es1"
      by (auto split: prod.splits)
    with 2 Some have "mset (owned p') + mset (processes_of es1) = mset (owned (remove_vm k p))"
      by (simp add: vms.wf_rem)
    with owned_remove [OF "2.prems"(1), of k] Some
    have "mset (owned p) = mset (owned p') + mset (processes_of es1) + mset (entry_processes (Some e))"
      by simp
    with es1 show ?thesis by simp
  qed
qed simp

lemma pool_inv_keys: "pool_inv p \<Longrightarrow> keys_distinct p"
  by (simp add: pool_inv_def vms.every_def)

definition sys_inv :: "'p pool_sys \<Rightarrow> bool" where
  "sys_inv s \<longleftrightarrow> pool_inv (sy_pool s)
     \<and> mset (map snd (sy_committed s)) = mset (owned (sy_pool s)) + mset (sy_dropped s)"

lemma sys_inv_step: "pool_step s s' \<Longrightarrow> sys_inv s \<Longrightarrow> sys_inv s'"
proof (induction rule: pool_step.induct)
  case (step_reserve key project net now s r p')
  then show ?case using reserve_owned [OF step_reserve(1)] reserve_inv [OF _ step_reserve(1)]
    by (simp add: sys_inv_def)
next
  case (step_commit key cid s x d p')
  then show ?case using commit_owned [OF step_commit(2)] commit_boot_inv
    by (auto simp: sys_inv_def ac_simps)
next
  case (step_abort key cid s d p')
  then show ?case using abort_owned [of "sy_pool s" key d p'] abort_boot_inv
    by (auto simp: sys_inv_def ac_simps pool_inv_keys)
next
  case (step_release s key now)
  then show ?case by (simp add: sys_inv_def release_owned release_key_inv)
next
  case (step_stop_key key s es p')
  then show ?case using stop_key_owned [of "sy_pool s" key es p'] stop_key_inv
    by (auto simp: sys_inv_def ac_simps pool_inv_keys)
next
  case (step_stop_all s es p')
  then show ?case using stop_all_owned [OF step_stop_all(1)] stop_all_inv
    by (auto simp: sys_inv_def ac_simps)
next
  case (step_reap now s es p')
  then show ?case using remove_stale_owned [of "sy_pool s" "stale_keys now (sy_pool s)" es p'] reap_section_inv
    by (auto simp: sys_inv_def ac_simps pool_inv_keys reap_section_def)
qed

lemma sys_inv_init: "sys_inv (sys_init d)"
  using pool_inv_init [of d] by (simp add: sys_inv_def sys_init_def owned_def) (simp add: with_launcher_def)

lemma sys_inv_reachable: "pool_step\<^sup>*\<^sup>* (sys_init d) s \<Longrightarrow> sys_inv s"
  by (induction rule: rtranclp_induct) (auto intro: sys_inv_init sys_inv_step)

text \<open>
  (C1) Under every interleaving of the daemon's threads, no VM process is lost or dropped
  twice: every process a boot delivered is owned by exactly one entry of the pool or was
  handed to drop, as multisets; an entry has a process exactly when it is running; and no
  entry in the map is ever \<open>Stopping\<close>, so an \<open>ensure\<close> never has to wait for one.
\<close>

theorem pool_interleavings_safe:
  assumes "pool_step\<^sup>*\<^sup>* (sys_init d) s"
  shows "mset (map snd (sy_committed s)) = mset (owned (sy_pool s)) + mset (sy_dropped s)
    \<and> (get_vm key (sy_pool s) = Some e \<longrightarrow>
         ve_state e \<noteq> Stopping \<and> (ve_state e = Running \<longleftrightarrow> ve_process e \<noteq> None))
    \<and> fst (reserve key project net now (sy_pool s)) \<noteq> MustWait"
  using sys_inv_reachable [OF assms] reserve_not_stopping vms.every_get
  by (fastforce simp: sys_inv_def pool_inv_def entry_ok_def)

lemma pool_interleavings_safe_witness:
  "\<exists>s. pool_step\<^sup>*\<^sup>* (sys_init ''/s'') s \<and> sy_committed s = [(100, 7 :: nat)]
     \<and> mset (map snd (sy_committed s)) = mset (owned (sy_pool s)) + mset (sy_dropped s)"
proof -
  let ?s0 = "sys_init ''/s'' :: nat pool_sys"
  obtain p1 where p1: "reserve ''k'' ''/p'' Passt 0 (sy_pool ?s0) = (Reserved 100 (vm_run_dir ''/s'' ''k'' 100), p1)"
    by (simp add: sections sys_init_def with_launcher_def get_vm_def CID_BASE_def CID_MAX_def)
  let ?s1 = "?s0\<lparr>sy_pool := p1, sy_booting := [(''k'', 100)]\<rparr>"
  obtain dr p2 where p2: "commit_boot ''k'' 7 p1 = (dr, p2)" by fastforce
  let ?s2 = "?s1\<lparr>sy_pool := p2, sy_booting := [], sy_committed := [(100, 7)], sy_dropped := dr\<rparr>"
  have "pool_step ?s0 ?s1"
    using step_reserve [OF p1] by (simp add: sys_init_def)
  moreover have "pool_step ?s1 ?s2"
    using step_commit [of "''k''" 100 ?s1 7 dr p2] p2 by (simp add: sys_init_def)
  ultimately have reach: "pool_step\<^sup>*\<^sup>* ?s0 ?s2" by simp
  from pool_interleavings_safe [OF reach] reach show ?thesis
    by (intro exI [of _ ?s2]) simp
qed

section \<open>Properties of the operations\<close>

lemma ensure_loop_unfold:
  assumes "pool_inv p"
  shows "ensure_loop (Suc n) h key project config p w =
    (case get_vm key p of
       Some e \<Rightarrow>
         if ve_network e = vc_network config
         then (Ok \<lparr>eo_cid = ve_cid e, eo_run_dir = ve_run_dir e, eo_booted = False\<rparr>,
               insert_vm key (e\<lparr>ve_active_sessions := ve_active_sessions e + 1, ve_last_used := os_clock w\<rparr>) p, w)
         else (Err (NetworkConflict (ve_network e) (vc_network config)), p, w)
     | None \<Rightarrow>
         let cid = pl_next_cid p; p1 = p\<lparr>pl_next_cid := cid + 1\<rparr>;
             dir = vm_run_dir (pl_state_dir p) key cid;
             e = \<lparr>ve_project = project, ve_cid = cid, ve_run_dir = dir, ve_state = Booting,
                  ve_network = vc_network config, ve_active_sessions = 1,
                  ve_last_used = os_clock w, ve_process = None\<rparr>
         in if CID_MAX \<le> cid then (Err CidExhausted, p1, w)
            else case boot h project config cid dir w of
                   (Ok x, w1) \<Rightarrow> (Ok \<lparr>eo_cid = cid, eo_run_dir = dir, eo_booted = True\<rparr>,
                                   insert_vm key (e\<lparr>ve_state := Running, ve_process := Some x\<rparr>)
                                     (insert_vm key e p1), w1)
                 | (Err err, w1) \<Rightarrow> (Err err, remove_vm key (insert_vm key e p1), w1))"
proof (cases "get_vm key p")
  case (Some e)
  moreover from this assms have "ve_state e \<noteq> Stopping"
    using vms.every_get [of entry_ok p key e] by (simp add: pool_inv_def entry_ok_def)
  ultimately show ?thesis by (cases "ve_state e") (simp_all add: reserve_def)
next
  case None
  then show ?thesis
    by (auto simp: sections vms.get_ins entry_processes_def drop_all_def split: prod.split result.split)
qed

lemma ensure_inv: "pool_inv p \<Longrightarrow> ensure h config p w = (r, p', w') \<Longrightarrow> pool_inv p'"
proof -
  have loop: "pool_inv p \<Longrightarrow> ensure_loop n h key project config p w = (r, p', w') \<Longrightarrow> pool_inv p'"
    for n h key project and config and p :: "'p pool" and w r p' w'
    by (induction n h key project config p w rule: ensure_loop.induct)
      (auto split: prod.splits reserve_result.splits result.splits dest: section_invs)
  then show "pool_inv p \<Longrightarrow> ensure h config p w = (r, p', w') \<Longrightarrow> pool_inv p'"
    by (auto simp: ensure_def split: result.splits)
qed

lemma ensure_spec:
  assumes "pool_inv p" and "ph_canonicalize h w (vc_project config) = Ok project"
    and "ensure h config p w = (r, p', w')"
  shows "let key = project_key (ph_hash h) project; cid = pl_next_cid p;
             dir = vm_run_dir (pl_state_dir p) key cid
    in (\<forall>k. k = key \<or> get_vm k p' = get_vm k p) \<and>
       (case get_vm key p of
          Some e \<Rightarrow>
            (if ve_network e = vc_network config
             then r = Ok \<lparr>eo_cid = ve_cid e, eo_run_dir = ve_run_dir e, eo_booted = False\<rparr>
               \<and> get_vm key p' = Some (e\<lparr>ve_active_sessions := ve_active_sessions e + 1,
                                         ve_last_used := os_clock w\<rparr>) \<and> w' = w
             else r = Err (NetworkConflict (ve_network e) (vc_network config)) \<and> p' = p \<and> w' = w)
        | None \<Rightarrow>
            (if CID_MAX \<le> cid then r = Err CidExhausted \<and> get_vm key p' = None \<and> w' = w
             else case boot h project config cid dir w of
               (Ok x, w1) \<Rightarrow> r = Ok \<lparr>eo_cid = cid, eo_run_dir = dir, eo_booted = True\<rparr> \<and> w' = w1
                 \<and> get_vm key p' = Some \<lparr>ve_project = project, ve_cid = cid, ve_run_dir = dir,
                      ve_state = Running, ve_network = vc_network config, ve_active_sessions = 1,
                      ve_last_used = os_clock w, ve_process = Some x\<rparr>
             | (Err e, w1) \<Rightarrow> r = Err e \<and> w' = w1 \<and> get_vm key p' = None))"
  using assms(3) ensure_loop_unfold [OF assms(1), of 7 h "project_key (ph_hash h) project" project config w]
  by (auto simp: ensure_def pool_canonicalize_def assms(2) ENSURE_MAX_RETRIES_def eval_nat_numeral
      Let_def vms.get_ins vms.get_rem split: option.splits if_splits prod.splits result.splits)

text \<open>
  (C2) What \<open>ensure\<close> does, on every branch. In a well-formed pool the call for a project whose
  VM is running or booting with the same network joins it: the outcome names its CID and run
  directory with \<open>booted\<close> false, its session count grows by one, nothing is launched. With
  another network it is refused and nothing changes. Without a VM a fresh CID is taken; when
  the boot succeeds the entry runs with one session and the launched process, when it fails
  the error is returned and the project has no entry. It never times out, and entries of
  other projects are untouched.
\<close>

theorem ensure_correct:
  assumes "pool_inv p" and "ph_canonicalize h w (vc_project config) = Ok project"
    and "ensure h config p w = (r, p', w')"
  shows "let key = project_key (ph_hash h) project; cid = pl_next_cid p;
             dir = vm_run_dir (pl_state_dir p) key cid
    in (\<forall>k. k = key \<or> get_vm k p' = get_vm k p) \<and>
       (case get_vm key p of
          Some e \<Rightarrow>
            (if ve_network e = vc_network config
             then r = Ok \<lparr>eo_cid = ve_cid e, eo_run_dir = ve_run_dir e, eo_booted = False\<rparr>
               \<and> get_vm key p' = Some (e\<lparr>ve_active_sessions := ve_active_sessions e + 1,
                                         ve_last_used := os_clock w\<rparr>) \<and> w' = w
             else r = Err (NetworkConflict (ve_network e) (vc_network config)) \<and> p' = p \<and> w' = w)
        | None \<Rightarrow>
            (if CID_MAX \<le> cid then r = Err CidExhausted \<and> get_vm key p' = None \<and> w' = w
             else case boot h project config cid dir w of
               (Ok x, w1) \<Rightarrow> r = Ok \<lparr>eo_cid = cid, eo_run_dir = dir, eo_booted = True\<rparr> \<and> w' = w1
                 \<and> get_vm key p' = Some \<lparr>ve_project = project, ve_cid = cid, ve_run_dir = dir,
                      ve_state = Running, ve_network = vc_network config, ve_active_sessions = 1,
                      ve_last_used = os_clock w, ve_process = Some x\<rparr>
             | (Err e, w1) \<Rightarrow> r = Err e \<and> w' = w1 \<and> get_vm key p' = None))"
  using assms by (rule ensure_spec)

text \<open>A host on which paths are canonical and every launch succeeds with process 1.\<close>

definition plain_host :: "nat pool_host" where
  "plain_host = \<lparr>ph_canonicalize = (\<lambda>w p. Ok p), ph_hash = (\<lambda>cs. of_nat (length cs)),
     ph_var_os = (\<lambda>v. None), ph_launch = (\<lambda>plan log w. (Ok 1, w)), ph_drop = (\<lambda>x w. w), ph_env = id\<rparr>"

definition plain_config :: vm_config where
  "plain_config = \<lparr>vc_project = ''/p'', vc_runtime_dir = ''/r'', vc_cache_dir = ''/c'', vc_tools_dir = ''/t'',
     vc_guest_workspace = ''/workspace'', vc_cpus = 2, vc_memory_mib = 512, vc_network = Passt, vc_epoch = 0\<rparr>"

lemma plain_boot:
  "fst (boot plain_host ''/p'' plain_config 100 (vm_run_dir ''/s'' (project_key (ph_hash plain_host) ''/p'') 100)
      (small_host [])) = Ok 1"
  by code_simp

lemma ensure_correct_witness:
  "\<exists>p' w'. ensure plain_host plain_config (with_launcher ''/s'') (small_host [])
       = (Ok \<lparr>eo_cid = 100, eo_run_dir = vm_run_dir ''/s'' (project_key (ph_hash plain_host) ''/p'') 100,
              eo_booted = True\<rparr>, p', w')
     \<and> map_option ve_process (get_vm (project_key (ph_hash plain_host) ''/p'') p') = Some (Some 1)"
proof -
  obtain r p' w' where e: "ensure plain_host plain_config (with_launcher ''/s'') (small_host []) = (r, p', w')"
    by (metis prod.collapse)
  have "get_vm k (with_launcher ''/s'') = (None :: nat vm_entry option)" for k
    by (simp add: with_launcher_def get_vm_def)
  moreover have "pl_next_cid (with_launcher ''/s'' :: nat pool) = 100" "pl_state_dir (with_launcher ''/s'' :: nat pool) = ''/s''"
    by (simp_all add: with_launcher_def CID_BASE_def)
  moreover have "ph_canonicalize plain_host (small_host []) (vc_project plain_config) = Ok ''/p''"
    by (simp add: plain_host_def plain_config_def)
  moreover have "\<not> CID_MAX \<le> 100" by (simp add: CID_MAX_def)
  moreover obtain w1 where "boot plain_host ''/p'' plain_config 100
      (vm_run_dir ''/s'' (project_key (ph_hash plain_host) ''/p'') 100) (small_host []) = (Ok 1, w1)"
    using plain_boot by (metis prod.collapse)
  ultimately show ?thesis
    using ensure_correct [OF pool_inv_init, of plain_host "small_host []" plain_config "''/p''" "''/s''" r p' w'] e
    by (simp add: Let_def)
qed

section \<open>Reaping and stopping\<close>

lemma remove_stale_get: "get_vm k (snd (remove_stale ks p)) = (if k \<in> set ks then None else get_vm k p)"
  by (induction ks p rule: remove_stale.induct)
    (auto simp: vms.get_rem split: option.splits prod.splits)

lemma remove_stale_count:
  "distinct ks \<Longrightarrow> (\<forall>k \<in> set ks. get_vm k p \<noteq> None) \<Longrightarrow> length (fst (remove_stale ks p)) = length ks"
proof (induction ks p rule: remove_stale.induct)
  case (2 k ks p)
  then obtain e where "get_vm k p = Some e" by fastforce
  moreover have "\<forall>k' \<in> set ks. get_vm k' (remove_vm k p) \<noteq> None"
    using "2.prems" by (auto simp: vms.get_rem)
  ultimately show ?case using 2 by (auto split: prod.splits)
qed simp

lemma stale_keys_iff:
  "keys_distinct p \<Longrightarrow>
     k \<in> set (stale_keys now p) \<longleftrightarrow> (\<exists>e. get_vm k p = Some e \<and> is_stale (pl_idle_ttl p) now e)"
  by (force simp: stale_keys_def get_vm_def keys_distinct_def)

lemma distinct_stale_keys: "keys_distinct p \<Longrightarrow> distinct (stale_keys now p)"
  by (simp add: stale_keys_def keys_distinct_def distinct_map_filter)

lemma reap_spec:
  assumes "pool_inv p" and "reap h p w = (n, p', w')"
  shows "get_vm k p' = (case get_vm k p of
           Some e \<Rightarrow> if ve_active_sessions e = 0 \<and> ve_state e = Running
                          \<and> pl_idle_ttl p < os_clock w - ve_last_used e then None else Some e
         | None \<Rightarrow> None)
    \<and> n = card {k. \<exists>e. get_vm k p = Some e \<and> is_stale (pl_idle_ttl p) (os_clock w) e}
    \<and> pool_inv p'"
proof (intro conjI)
  let ?ks = "stale_keys (os_clock w) p"
  note keys = pool_inv_keys [OF assms(1)]
  from assms(2) have p': "p' = snd (remove_stale ?ks p)" and n: "n = length (fst (remove_stale ?ks p))"
    by (auto simp: reap_def reap_section_def split: prod.splits)
  show "get_vm k p' = (case get_vm k p of
      Some e \<Rightarrow> if ve_active_sessions e = 0 \<and> ve_state e = Running
                     \<and> pl_idle_ttl p < os_clock w - ve_last_used e then None else Some e
    | None \<Rightarrow> None)"
    by (auto simp: p' remove_stale_get stale_keys_iff [OF keys] is_stale_def split: option.split)
  have "length (fst (remove_stale ?ks p)) = length ?ks"
    by (rule remove_stale_count) (auto simp: distinct_stale_keys [OF keys] stale_keys_iff [OF keys])
  also have "\<dots> = card (set ?ks)" by (simp add: distinct_card distinct_stale_keys [OF keys])
  finally show "n = card {k. \<exists>e. get_vm k p = Some e \<and> is_stale (pl_idle_ttl p) (os_clock w) e}"
    by (simp add: n Collect_cong [OF stale_keys_iff [OF keys], symmetric])
  show "pool_inv p'" using assms by (auto simp: reap_def intro: reap_section_inv split: prod.splits)
qed

text \<open>
  (C10) Reaping is exact: \<open>reap\<close> removes precisely the entries that are running, have no
  active session and have been idle for longer than the TTL, keeps every other entry
  unchanged (in particular every VM with an open session and every booting one), and returns
  the number it removed.
\<close>

theorem reap_exact:
  assumes "pool_inv p" and "reap h p w = (n, p', w')"
  shows "get_vm k p' = (case get_vm k p of
           Some e \<Rightarrow> if ve_active_sessions e = 0 \<and> ve_state e = Running
                          \<and> pl_idle_ttl p < os_clock w - ve_last_used e then None else Some e
         | None \<Rightarrow> None)
    \<and> n = card {k. \<exists>e. get_vm k p = Some e \<and> is_stale (pl_idle_ttl p) (os_clock w) e}
    \<and> pool_inv p'"
  using assms by (rule reap_spec)

definition idle_pool :: "nat pool" where
  "idle_pool = insert_vm ''k'' \<lparr>ve_project = ''/p'', ve_cid = 100, ve_run_dir = ''/s'', ve_state = Running,
     ve_network = Passt, ve_active_sessions = 0, ve_last_used = 5, ve_process = Some 1\<rparr> (with_launcher ''/s'')"

lemma idle_pool_inv: "pool_inv idle_pool"
  using pool_inv_init unfolding pool_inv_def idle_pool_def
  by (intro vms.every_ins) (simp_all add: entry_ok_def)

lemma reap_exact_witness:
  "\<exists>p' w'. reap plain_host idle_pool (small_host []\<lparr>os_clock := 6 + DEFAULT_IDLE_TTL\<rparr>) = (1, p', w')
     \<and> get_vm ''k'' p' = None"
proof -
  let ?w = "small_host []\<lparr>os_clock := 6 + DEFAULT_IDLE_TTL\<rparr>"
  obtain n p' w' where r: "reap plain_host idle_pool ?w = (n, p', w')" by (metis prod.collapse)
  have get: "get_vm k idle_pool = (if k = ''k'' then Some \<lparr>ve_project = ''/p'', ve_cid = 100, ve_run_dir = ''/s'',
      ve_state = Running, ve_network = Passt, ve_active_sessions = 0, ve_last_used = 5, ve_process = Some 1\<rparr>
      else None)" for k
    by (simp add: idle_pool_def vms.get_ins) (simp add: with_launcher_def get_vm_def)
  have ttl: "pl_idle_ttl idle_pool = DEFAULT_IDLE_TTL" by (simp add: idle_pool_def with_launcher_def)
  have "{k. \<exists>e. get_vm k idle_pool = Some e \<and> is_stale (pl_idle_ttl idle_pool) (os_clock ?w) e} = {''k''}"
    by (auto simp: get ttl is_stale_def split: if_splits)
  with reap_exact [OF idle_pool_inv r, of "''k''"] r show ?thesis by (simp add: get ttl)
qed

text \<open>
  Stopping a project removes its entry and no other and reports one VM, or none when the
  project has no VM; stopping everything empties the pool and reports how many there were.
\<close>

theorem stop_counts:
  assumes "pool_inv p" and "pool_stop h project p w = (n, p', w')"
  shows "(case project of
      Some path \<Rightarrow> let key = project_key (ph_hash h) (canonical_or_self h path w)
        in get_vm k p' = (if k = key then None else get_vm k p)
           \<and> n = (if get_vm key p = None then 0 else 1)
    | None \<Rightarrow> get_vm k p' = None \<and> n = card {k. get_vm k p \<noteq> None})
    \<and> pool_inv p'"
proof (cases project)
  case None
  have "{k. get_vm k p \<noteq> None} = set (map fst (pl_vms p))"
    by (auto simp: get_vm_def map_of_eq_None_iff)
  then have "card {k. get_vm k p \<noteq> None} = length (pl_vms p)"
    using pool_inv_keys [OF assms(1)] distinct_card [of "map fst (pl_vms p)"] by (simp add: keys_distinct_def)
  with None assms(2) stop_all_inv show ?thesis
    by (auto simp: pool_stop_def stop_all_def get_vm_def)
next
  case (Some path)
  with assms stop_key_inv [of p "project_key (ph_hash h) (canonical_or_self h path w)"] show ?thesis
    by (auto simp: pool_stop_def stop_key_def Let_def vms.get_rem split: option.splits)
qed

lemma stop_counts_witness:
  "\<exists>p' w'. pool_stop plain_host None idle_pool (small_host []) = (1, p', w') \<and> get_vm ''k'' p' = None"
proof -
  obtain n p' w' where r: "pool_stop plain_host None idle_pool (small_host []) = (n, p', w')"
    by (metis prod.collapse)
  have "{k. get_vm k idle_pool \<noteq> None} = {''k''}"
    by (auto simp: idle_pool_def vms.get_ins) (simp add: with_launcher_def get_vm_def)
  with stop_counts [OF idle_pool_inv r, of "''k''"] r show ?thesis by simp
qed

section \<open>CIDs\<close>

lemma cid_inv_init: "cid_inv (with_launcher d)"
  by (simp add: cid_inv_def vms.every_def vms.separates_def with_launcher_def keys_distinct_def get_vm_def)

lemma every_cid_mono:
  "vms.every (\<lambda>e. CID_BASE \<le> ve_cid e \<and> ve_cid e < c) p \<Longrightarrow> c \<le> c' \<Longrightarrow>
     vms.every (\<lambda>e. CID_BASE \<le> ve_cid e \<and> ve_cid e < c') p"
  by (auto simp: vms.every_def dest: order_less_le_trans)

lemma cid_inv_update:
  "cid_inv p \<Longrightarrow> get_vm k p = Some e \<Longrightarrow> ve_cid e' = ve_cid e \<Longrightarrow> cid_inv (insert_vm k e' p)"
  by (auto simp: cid_inv_def intro!: vms.every_ins vms.separates_update dest: vms.every_get)

lemma cid_inv_remove: "cid_inv p \<Longrightarrow> cid_inv (remove_vm k p)"
  by (simp add: cid_inv_def vms.every_rem vms.separates_rem)

lemma word_less_Suc: "c \<noteq> - 1 \<Longrightarrow> (c :: u32) < c + 1"
  using inc_less_eq_triv_imp [of c] by (meson not_le)

lemma cid_inv_reserve:
  assumes "cid_inv p" and "pl_next_cid p \<noteq> - 1" and "reserve key project net now p = (r, p')"
  shows "cid_inv p'"
proof (cases "get_vm key p")
  case (Some e)
  with assms show ?thesis
    by (auto simp: reserve_def intro: cid_inv_update [OF assms(1) Some] split: vm_state.splits if_splits)
next
  case None
  let ?c = "pl_next_cid p"
  have bump: "CID_BASE \<le> ?c + 1" and all: "vms.every (\<lambda>e. CID_BASE \<le> ve_cid e \<and> ve_cid e < ?c + 1) p"
    and sep: "vms.separates ve_cid p"
    using assms(1) word_less_Suc [OF assms(2)] every_cid_mono [of ?c p "?c + 1"]
    by (auto simp: cid_inv_def)
  moreover have "ve_cid e \<noteq> ?c" if "get_vm k p = Some e" for k e
    using assms(1) that vms.every_get by (fastforce simp: cid_inv_def)
  ultimately have "cid_inv (insert_vm key e (p\<lparr>pl_next_cid := ?c + 1\<rparr>))" if "ve_cid e = ?c" for e
    using that word_less_Suc [OF assms(2)] assms(1)
    by (auto simp: cid_inv_def intro!: vms.every_ins vms.separates_new)
  moreover have "cid_inv (p\<lparr>pl_next_cid := ?c + 1\<rparr>)"
    using bump all sep by (simp add: cid_inv_def)
  ultimately show ?thesis
    using assms(3) None by (auto simp: sections split: if_splits)
qed

lemma cid_inv_stale: "cid_inv p \<Longrightarrow> cid_inv (snd (remove_stale ks p))"
  by (induction ks p rule: remove_stale.induct)
    (auto simp: cid_inv_remove split: option.splits prod.splits)

text \<open>Steps before the counter has wrapped.\<close>

definition early_step :: "'p pool_sys \<Rightarrow> 'p pool_sys \<Rightarrow> bool" where
  "early_step s s' \<longleftrightarrow> pool_step s s' \<and> pl_next_cid (sy_pool s) \<noteq> - 1"

lemma cid_inv_step:
  assumes "pool_step s s'" and "pl_next_cid (sy_pool s) \<noteq> - 1" and "cid_inv (sy_pool s)"
  shows "cid_inv (sy_pool s')"
  using assms
proof (induction rule: pool_step.induct)
  case (step_reserve key project net now s r p')
  then show ?case by (simp add: cid_inv_reserve)
next
  case (step_commit key cid s x d p')
  then show ?case by (auto simp: commit_boot_def intro: cid_inv_update split: option.splits)
next
  case (step_abort key cid s d p')
  then show ?case by (auto simp: abort_boot_def cid_inv_remove)
next
  case (step_release s key now)
  then show ?case by (auto simp: release_key_def Let_def intro: cid_inv_update split: option.splits)
next
  case (step_stop_key key s es p')
  then show ?case by (auto simp: stop_key_def cid_inv_remove split: option.splits)
next
  case (step_stop_all s es p')
  then show ?case
    by (auto simp: stop_all_def cid_inv_def vms.every_def vms.separates_def keys_distinct_def get_vm_def)
next
  case (step_reap now s es p')
  then show ?case using cid_inv_stale [of "sy_pool s" "stale_keys now (sy_pool s)"]
    by (simp add: reap_section_def)
qed

text \<open>
  (C25) Until the CID counter has run through all \<open>2 ^ 32\<close> values, under every interleaving
  two entries never share a CID, and every CID in the pool is at least 100, clear of the
  values the vsock address family reserves, and below the counter.
\<close>

theorem cids_unique:
  assumes "early_step\<^sup>*\<^sup>* (sys_init d) s"
    and "get_vm k (sy_pool s) = Some e" and "get_vm k' (sy_pool s) = Some e'"
  shows "(ve_cid e = ve_cid e' \<longrightarrow> k = k') \<and> 100 \<le> ve_cid e \<and> ve_cid e < pl_next_cid (sy_pool s)"
proof -
  from assms(1) have "cid_inv (sy_pool s)"
  proof (induction rule: rtranclp_induct)
    case base
    then show ?case by (simp add: sys_init_def cid_inv_init)
  next
    case (step s1 s2)
    then show ?case by (auto simp: early_step_def intro: cid_inv_step)
  qed
  with assms(2,3) vms.every_get show ?thesis
    unfolding cid_inv_def vms.separates_def by (fastforce simp: CID_BASE_def)
qed

lemma cids_unique_witness:
  "\<exists>s e. early_step\<^sup>*\<^sup>* (sys_init ''/s'' :: nat pool_sys) s \<and> get_vm ''k'' (sy_pool s) = Some e
     \<and> 100 \<le> ve_cid e"
proof -
  let ?s0 = "sys_init ''/s'' :: nat pool_sys"
  obtain r p1 where r: "reserve ''k'' ''/p'' Passt 0 (sy_pool ?s0) = (r, p1)" by fastforce
  let ?s1 = "?s0\<lparr>sy_pool := p1,
    sy_booting := (case r of Reserved cid d \<Rightarrow> [(''k'', cid)] | _ \<Rightarrow> []) @ sy_booting ?s0\<rparr>"
  have reach: "early_step\<^sup>*\<^sup>* ?s0 ?s1"
    using step_reserve [OF r]
    by (intro r_into_rtranclp) (simp add: early_step_def sys_init_def with_launcher_def CID_BASE_def)
  obtain e where "get_vm ''k'' p1 = Some e"
    using r by (auto simp: sections sys_init_def with_launcher_def CID_BASE_def CID_MAX_def vms.get_ins
        split: option.splits) (simp add: get_vm_def)
  with cids_unique [OF reach, of "''k''" e "''k''" e] reach show ?thesis
    by (intro exI [of _ ?s1] exI [of _ e]) simp
qed

text \<open>
  The counter is not guarded against its own wrap-around: once it has reached the limit,
  two further requests are refused and the third is given CID 0.
\<close>

theorem cid_counter_wraps:
  assumes "get_vm key p = None" and "pl_next_cid p = CID_MAX"
  shows "let (r1, p1) = reserve key project net now p;
             (r2, p2) = reserve key project net now p1;
             (r3, p3) = reserve key project net now p2
         in r1 = Refused CidExhausted \<and> r2 = Refused CidExhausted
            \<and> r3 = Reserved 0 (vm_run_dir (pl_state_dir p) key 0)"
  using assms by (simp add: sections CID_MAX_def)

lemma cid_counter_wraps_witness:
  "let p = with_launcher ''/s''\<lparr>pl_next_cid := CID_MAX\<rparr> :: nat pool;
       (r1, p1) = reserve ''k'' ''/p'' Passt 0 p;
       (r2, p2) = reserve ''k'' ''/p'' Passt 0 p1;
       (r3, p3) = reserve ''k'' ''/p'' Passt 0 p2
   in r3 = Reserved 0 (vm_run_dir ''/s'' ''k'' 0)"
  using cid_counter_wraps [of "''k''" "with_launcher ''/s''\<lparr>pl_next_cid := CID_MAX\<rparr> :: nat pool" "''/p''" Passt 0]
  by (simp add: with_launcher_def get_vm_def Let_def case_prod_beta)

section \<open>Races of boot and stop\<close>

text \<open>
  (C39) The commit after a boot trusts the key, not the slot it reserved: there is an
  interleaving (reserve, stop, reserve again, first boot commits) after which the entry
  with CID 101 is \<open>Running\<close> with the process that was booted for CID 100, while the boot for
  101 is still in progress.
\<close>

theorem commit_race:
  "\<exists>s e. pool_step\<^sup>*\<^sup>* (sys_init ''/s'') s \<and> get_vm ''k'' (sy_pool s) = Some e
     \<and> ve_state e = Running \<and> ve_cid e = 101 \<and> ve_process e = Some (7 :: nat)
     \<and> (100, 7) \<in> set (sy_committed s) \<and> (''k'', 101) \<in> set (sy_booting s)"
proof -
  define entry where "entry c = \<lparr>ve_project = ''/p'', ve_cid = c, ve_run_dir = vm_run_dir ''/s'' ''k'' c,
      ve_state = Booting, ve_network = Passt, ve_active_sessions = 1, ve_last_used = 0,
      ve_process = (None :: nat option)\<rparr>" for c
  define pool where "pool vms c = \<lparr>pl_vms = vms, pl_next_cid = c, pl_state_dir = ''/s'',
      pl_idle_ttl = DEFAULT_IDLE_TTL\<rparr>" for vms :: "(string \<times> nat vm_entry) list" and c
  define sys where "sys p b c = \<lparr>sy_pool = p, sy_booting = b, sy_committed = c, sy_dropped = []\<rparr>"
    for p :: "nat pool" and b c
  have init: "sys_init ''/s'' = sys (pool [] 100) [] []"
    by (simp add: sys_init_def sys_def pool_def with_launcher_def CID_BASE_def)
  have "pool_step (sys (pool [] 100) [] []) (sys (pool [(''k'', entry 100)] 101) [(''k'', 100)] [])"
    using step_reserve [of "''k''" "''/p''" Passt 0 "sys (pool [] 100) [] []"
        "Reserved 100 (vm_run_dir ''/s'' ''k'' 100)" "pool [(''k'', entry 100)] 101"]
    by (simp add: sys_def pool_def sections get_vm_def insert_vm_def entry_def CID_MAX_def)
  moreover have "pool_step (sys (pool [(''k'', entry 100)] 101) [(''k'', 100)] [])
      (sys (pool [] 101) [(''k'', 100)] [])"
    using step_stop_key [of "''k''" "sys (pool [(''k'', entry 100)] 101) [(''k'', 100)] []"
        "[entry 100\<lparr>ve_state := Stopping\<rparr>]" "pool [] 101"]
    by (simp add: sys_def pool_def stop_key_def get_vm_def remove_vm_def entry_def entry_processes_def)
  moreover have "pool_step (sys (pool [] 101) [(''k'', 100)] [])
      (sys (pool [(''k'', entry 101)] 102) [(''k'', 101), (''k'', 100)] [])"
    using step_reserve [of "''k''" "''/p''" Passt 0 "sys (pool [] 101) [(''k'', 100)] []"
        "Reserved 101 (vm_run_dir ''/s'' ''k'' 101)" "pool [(''k'', entry 101)] 102"]
    by (simp add: sys_def pool_def sections get_vm_def insert_vm_def entry_def CID_MAX_def)
  moreover have "pool_step (sys (pool [(''k'', entry 101)] 102) [(''k'', 101), (''k'', 100)] [])
      (sys (pool [(''k'', entry 101\<lparr>ve_state := Running, ve_process := Some 7\<rparr>)] 102)
        [(''k'', 101)] [(100, 7)])"
    using step_commit [of "''k''" 100 "sys (pool [(''k'', entry 101)] 102) [(''k'', 101), (''k'', 100)] []"
        7 "[]" "pool [(''k'', entry 101\<lparr>ve_state := Running, ve_process := Some 7\<rparr>)] 102"]
    by (simp add: sys_def pool_def commit_boot_def get_vm_def insert_vm_def entry_def)
  ultimately have "pool_step\<^sup>*\<^sup>* (sys_init ''/s'')
      (sys (pool [(''k'', entry 101\<lparr>ve_state := Running, ve_process := Some 7\<rparr>)] 102) [(''k'', 101)] [(100, 7)])"
    unfolding init by (meson rtranclp.rtrancl_into_rtrancl rtranclp.rtrancl_refl)
  then show ?thesis
    by (intro exI) (auto simp: sys_def pool_def get_vm_def entry_def)
qed

text \<open>
  A session that outlives its VM releases its successor's: after a project's VM was
  stopped and booted again for a second session, the close of the first session's connection
  takes the count of the new VM to zero, and after the idle time \<open>reap\<close> removes that VM and
  drops its process although the second session is still open.
\<close>

theorem stale_release_reaps_live_session:
  "let (r1, p1) = reserve ''k'' ''/p'' Passt 0 (with_launcher ''/s'');
       (d1, p2) = commit_boot ''k'' (7 :: nat) p1;
       (es, p3) = stop_key ''k'' p2;
       (r2, p4) = reserve ''k'' ''/p'' Passt 1 p3;
       (d2, p5) = commit_boot ''k'' 8 p4;
       p6 = release_key ''k'' 2 p5;
       (removed, p7) = reap_section (3 + DEFAULT_IDLE_TTL) p6
   in map_option ve_active_sessions (get_vm ''k'' p5) = Some 1
      \<and> processes_of removed = [8] \<and> get_vm ''k'' p7 = None"
  by code_simp

section \<open>The pool over the supervisor\<close>

lemma conf_create_dir: "create_dir_all p w = (r, w') \<Longrightarrow> conf S w \<Longrightarrow> conf S w'"
  using conf_fs(1) [of S w p] by simp

lemma std_launch_account:
  assumes "quiet env" and "conf S w" and "std_launch env plan log w = (r, w')"
    and "\<And>x. r = Err (PoolSupervisor x) \<Longrightarrow> \<not> spawn_failure x"
  shows "case r of Ok vm \<Rightarrow> conf (S \<union> vm_children vm) w' | Err e \<Rightarrow> conf S w'"
proof -
  obtain r1 w1 where w1: "(case path_parent log of None \<Rightarrow> (Ok (), w)
      | Some parent \<Rightarrow> (case create_dir_all parent w of
          (r, w1) \<Rightarrow> (map_err (PoolIo ''create qemu log dir'' parent) r, w1))) = (r1, w1)"
    by fastforce
  with assms(2) have "conf S w1"
    by (auto split: option.splits prod.splits dest: conf_create_dir)
  moreover obtain r2 w2 where w2: "launch_plan env (default_options\<lparr>so_qemu_io := Log log\<rparr>) plan w1 = (r2, w2)"
    by fastforce
  ultimately show ?thesis
    using launch_plan_account [OF assms(1) _ w2, of S] assms(3,4) w1
    by (cases r1; cases r2) (auto simp: std_launch_def)
qed

lemma std_launch_failure:
  "quiet env \<Longrightarrow> conf S w \<Longrightarrow> std_launch env plan log w = (Err e, w') \<Longrightarrow>
     (\<And>x. e = PoolSupervisor x \<Longrightarrow> \<not> spawn_failure x) \<Longrightarrow> conf S w'"
  using std_launch_account [of env S w plan log "Err e" w'] by simp

text \<open>
  With the daemon's own launcher, an \<open>ensure\<close> that fails leaves no child process of the
  daemon behind, unless the failure is a virtiofsd that could not be spawned.
\<close>

theorem ensure_failure_leaves_no_child:
  assumes "quiet env" and "os_proc_faults w = []" and "pool_inv p"
    and "ph_launch h = std_launch env" and "ensure h config p w = (Err e, p', w')"
    and "\<And>x. e = PoolSupervisor x \<Longrightarrow> \<not> spawn_failure x"
  shows "unreaped w' \<subseteq> unreaped w"
proof (cases "pool_canonicalize h (vc_project config) w")
  case (Err x)
  with assms(5) show ?thesis by (simp add: ensure_def)
next
  case (Ok project)
  define key where "key = project_key (ph_hash h) project"
  from Ok assms(5) have loop: "ensure_loop (Suc 7) h key project config p w = (Err e, p', w')"
    by (simp add: ensure_def key_def ENSURE_MAX_RETRIES_def eval_nat_numeral)
  show ?thesis
  proof (cases "w' = w")
    case False
    then obtain cid dir where boot: "boot h project config cid dir w = (Err e, w')"
      using loop ensure_loop_unfold [OF assms(3), of 7 h key project config w]
      by (auto simp: Let_def split: option.splits if_splits prod.splits result.splits)
    have "conf (unreaped w) w" using assms(2) by (simp add: conf_def)
    with boot have "conf (unreaped w) w'"
      using assms(4,6) std_launch_failure [OF assms(1) _ _ assms(6)]
      by (auto simp: boot_def split: prod.splits result.splits dest: conf_create_dir)
    then show ?thesis by (simp add: conf_def)
  qed simp
qed

definition std_host :: "running_vm pool_host" where
  "std_host = \<lparr>ph_canonicalize = (\<lambda>w p. Ok p), ph_hash = (\<lambda>cs. of_nat (length cs)),
     ph_var_os = (\<lambda>v. None), ph_launch = std_launch id, ph_drop = std_drop, ph_env = id\<rparr>"

lemma std_host_missing_workspace:
  "fst (ensure std_host plain_config (with_launcher ''/s'') (small_host []))
     = Err (PoolSupervisor (ShareSourceMissing ''workspace'' ''/p''))"
  by code_simp

lemma ensure_failure_leaves_no_child_witness:
  "\<exists>p' w'. ensure std_host plain_config (with_launcher ''/s'') (small_host [])
       = (Err (PoolSupervisor (ShareSourceMissing ''workspace'' ''/p'')), p', w')
     \<and> unreaped w' \<subseteq> unreaped (small_host [])"
proof -
  obtain p' w' where e: "ensure std_host plain_config (with_launcher ''/s'') (small_host [])
      = (Err (PoolSupervisor (ShareSourceMissing ''workspace'' ''/p'')), p', w')"
    using std_host_missing_workspace by (metis prod.collapse)
  have "unreaped w' \<subseteq> unreaped (small_host [])"
    by (rule ensure_failure_leaves_no_child [of id _ "with_launcher ''/s''" std_host, OF _ _ _ _ e])
      (simp_all add: quiet_def small_host_def pool_inv_init std_host_def spawn_failure_def)
  with e show ?thesis by blast
qed

end
