(* ===== verification/Host_Daemon.thy ===== *)
theory Host_Daemon
  imports Vm_Pool
begin

text \<open>
  The host daemon and its client: connection handling, the session keep-alive, the reaper,
  start-up with the pid file and the sweep of orphans, shutdown (linux/src/daemon.rs), the
  option parser of the daemon binary (linux/src/bin/fend-daemon.rs), and the client that
  connects or spawns (linux/src/client.rs). What other threads do to pool and world while a
  session is open is the parameter \<open>meanwhile\<close>.
\<close>

definition DEFAULT_REAP_INTERVAL :: nat where
  "DEFAULT_REAP_INTERVAL = secs 60"

definition ACCEPT_POLL_INTERVAL :: nat where
  "ACCEPT_POLL_INTERVAL = millis 50"

definition STOP_GRACE :: nat where
  "STOP_GRACE = secs 3"

record daemon_config =
  dc_socket_path :: path
  dc_state_dir :: path
  dc_reap_interval :: nat

definition daemon_config_from_env :: "(string \<Rightarrow> string option) \<Rightarrow> u32 \<Rightarrow> daemon_config" where
  "daemon_config_from_env var_os uid =
     \<lparr>dc_socket_path = default_socket_path var_os uid, dc_state_dir = default_state_dir var_os uid,
      dc_reap_interval = DEFAULT_REAP_INTERVAL\<rparr>"

section \<open>Connections\<close>

record conn =
  cn_in :: reader
  cn_out :: writer

text \<open>The JSON codec of serde_json for requests and responses.\<close>

record json_codec =
  jc_req_to_vec :: "request \<Rightarrow> (byte list, string) result"
  jc_req_from_slice :: "byte list \<Rightarrow> (request, string) result"
  jc_resp_to_vec :: "response \<Rightarrow> (byte list, string) result"
  jc_resp_from_slice :: "byte list \<Rightarrow> (response, string) result"

record 'p daemon =
  dm_pool :: "'p pool"
  dm_world :: world
  dm_shutdown :: bool

definition conn_reply ::
  "json_codec \<Rightarrow> response \<Rightarrow> conn \<Rightarrow> unit io_result \<times> conn" where
  "conn_reply jc resp c =
     (case write_message (jc_resp_to_vec jc) resp (cn_out c) of (r, w) \<Rightarrow> (r, c\<lparr>cn_out := w\<rparr>))"

lemma read_some_progress:
  "(Ok bs, r') = read_some n r \<Longrightarrow> bs \<noteq> [] \<Longrightarrow> 0 < n \<Longrightarrow>
     length r' + length (bytes_of r') < length r + length (bytes_of r)"
  by (cases "(n, r)" rule: read_some.cases) (auto split: if_splits)

text \<open>Reads and discards until the peer closes; the result is the error it logs, if any.\<close>

function wait_for_session_close :: "reader \<Rightarrow> io_error option \<times> reader" where
  "wait_for_session_close r =
     (case read_some 64 r of
        (Ok bs, r') \<Rightarrow> if bs = [] then (None, r') else wait_for_session_close r'
      | (Err e, r') \<Rightarrow>
          (if io_kind e \<in> {UnexpectedEof, ConnectionReset, BrokenPipe} then None else Some e, r'))"
  by pat_completeness auto
termination
  by (relation "measure (\<lambda>r. length r + length (bytes_of r))")
    (auto dest: read_some_progress)

declare wait_for_session_close.simps [simp del]

definition version_mismatch :: "u32 \<Rightarrow> string" where
  "version_mismatch version =
     ''protocol version mismatch: daemon='' @ show_word PROTOCOL_VERSION @ '', client='' @ show_word version"

definition handle_request ::
  "json_codec \<Rightarrow> 'p pool_host \<Rightarrow> (nat \<Rightarrow> string) \<Rightarrow> ('p pool \<times> world \<Rightarrow> 'p pool \<times> world)
     \<Rightarrow> request \<Rightarrow> conn \<Rightarrow> 'p daemon \<Rightarrow> unit io_result \<times> conn \<times> 'p daemon" where
  "handle_request jc h fmt_secs meanwhile req c d =
     (case req of
        EnsureVm version config \<Rightarrow>
          if version \<noteq> PROTOCOL_VERSION
          then (case conn_reply jc (Error (version_mismatch version)) c of (r, c1) \<Rightarrow> (r, c1, d))
          else (case ensure h config (dm_pool d) (dm_world d) of
                  (Ok outcome, p1, w1) \<Rightarrow>
                    (let d1 = d\<lparr>dm_pool := p1, dm_world := w1\<rparr>
                     in case conn_reply jc (VmReady (eo_cid outcome) (eo_run_dir outcome) (eo_booted outcome)) c of
                          (Err e, c1) \<Rightarrow> (Err e, c1, d1)
                        | (Ok _, c1) \<Rightarrow>
                            (case meanwhile (p1, w1) of (p2, w2) \<Rightarrow>
                               (let r' = snd (wait_for_session_close (cn_in c1))
                                in (Ok (), c1\<lparr>cn_in := r'\<rparr>,
                                    d1\<lparr>dm_pool := release h (vc_project config) p2 w2, dm_world := w2\<rparr>))))
                | (Err error, p1, w1) \<Rightarrow>
                    (case conn_reply jc (Error (pool_error_text fmt_secs error)) c of
                       (r, c1) \<Rightarrow> (r, c1, d\<lparr>dm_pool := p1, dm_world := w1\<rparr>)))
      | Stop project \<Rightarrow>
          (case pool_stop h project (dm_pool d) (dm_world d) of (n, p1, w1) \<Rightarrow>
             (case conn_reply jc (Stopped n) c of
                (r, c1) \<Rightarrow> (r, c1, d\<lparr>dm_pool := p1, dm_world := w1\<rparr>)))
      | StatusRequest \<Rightarrow>
          (case conn_reply jc (Status (status (os_clock (dm_world d)) (dm_pool d))) c of
             (r, c1) \<Rightarrow> (r, c1, d))
      | Shutdown \<Rightarrow>
          (case conn_reply jc ShuttingDown c of
             (Err e, c1) \<Rightarrow> (Err e, c1, d)
           | (Ok _, c1) \<Rightarrow> (Ok (), c1, d\<lparr>dm_shutdown := True\<rparr>)))"

definition handle_connection ::
  "json_codec \<Rightarrow> 'p pool_host \<Rightarrow> (nat \<Rightarrow> string) \<Rightarrow> ('p pool \<times> world \<Rightarrow> 'p pool \<times> world)
     \<Rightarrow> conn \<Rightarrow> 'p daemon \<Rightarrow> unit io_result \<times> conn \<times> 'p daemon" where
  "handle_connection jc h fmt_secs meanwhile c d =
     (case read_message (jc_req_from_slice jc) (cn_in c) of
        (Err e, r1) \<Rightarrow> (Err e, c\<lparr>cn_in := r1\<rparr>, d)
      | (Ok req, r1) \<Rightarrow> handle_request jc h fmt_secs meanwhile req (c\<lparr>cn_in := r1\<rparr>) d)"

definition is_normal_close :: "io_error \<Rightarrow> bool" where
  "is_normal_close e = (io_kind e \<in> {UnexpectedEof, ConnectionReset, BrokenPipe})"

section \<open>The listener\<close>

text \<open>
  One round of the accept loop: whether a shutdown flag is set, and what \<open>accept\<close> returns.
  The result is that of the function, \<open>None\<close> while it is still running, with the connections
  handed to threads.
\<close>

type_synonym accept_round = "bool \<times> conn io_result"

fun listener_loop :: "accept_round list \<Rightarrow> unit io_result option \<times> conn list" where
  "listener_loop [] = (None, [])"
| "listener_loop ((stop, accepted) # rounds) =
     (if stop then (Some (Ok ()), [])
      else case accepted of
             Ok c \<Rightarrow> (case listener_loop rounds of (r, cs) \<Rightarrow> (r, c # cs))
           | Err e \<Rightarrow> if io_kind e = WouldBlock then listener_loop rounds else (Some (Err e), []))"

definition bind_listener :: "path \<Rightarrow> world \<Rightarrow> unit io_result \<times> world" where
  "bind_listener socket_path w =
     (case fs_call (\<lambda>v. if path_exists socket_path v
                        then (Err (IoError OtherKind (Some 98) ''Address already in use''), v)
                        else (Ok (), put_file socket_path Socket v))
             (snd (remove_file socket_path w)) of
        (Err e, w1) \<Rightarrow> (Err e, w1)
      | (Ok _, w1) \<Rightarrow> fs_call (\<lambda>v. (Ok (), v)) w1)"

section \<open>The reaper\<close>

definition reap_tick :: nat where
  "reap_tick = millis 200"

text \<open>One round after the sleep: the new elapsed time and whether the pool is reaped.\<close>

definition reaper_round :: "nat \<Rightarrow> nat \<Rightarrow> nat \<times> bool" where
  "reaper_round interval elapsed =
     (let e = elapsed + reap_tick in if interval \<le> e then (0, True) else (e, False))"

fun run_reaper :: "'p pool_host \<Rightarrow> nat \<Rightarrow> nat \<Rightarrow> bool list \<Rightarrow> 'p pool \<Rightarrow> world \<Rightarrow> nat list \<times> 'p pool \<times> world" where
  "run_reaper h interval elapsed [] p w = ([], p, w)"
| "run_reaper h interval elapsed (stop # stops) p w =
     (if stop then ([], p, w)
      else let w1 = sleep (ph_env h) reap_tick w
           in case reaper_round interval elapsed of
                (e, False) \<Rightarrow> run_reaper h interval e stops p w1
              | (e, True) \<Rightarrow>
                  (case reap h p w1 of (n, p2, w2) \<Rightarrow>
                     (case run_reaper h interval e stops p2 w2 of (ns, p3, w3) \<Rightarrow> (n # ns, p3, w3))))"

section \<open>Start and shutdown\<close>

definition read_pid :: "path \<Rightarrow> world \<Rightarrow> u32 option \<times> world" where
  "read_pid p w =
     (case read_to_string p w of
        (Err _, w1) \<Rightarrow> (None, w1)
      | (Ok contents, w1) \<Rightarrow> (parse_u32 (trim contents), w1))"

definition write_pidfile :: "u32 \<Rightarrow> path \<Rightarrow> world \<Rightarrow> unit io_result \<times> world" where
  "write_pidfile pid p = fs_write p (show_word pid @ [CHR 0x0A])"

definition process_alive :: "kill_call \<Rightarrow> u32 \<Rightarrow> world \<Rightarrow> bool \<times> world" where
  "process_alive kill pid w =
     (if pid = 0 then (False, w)
      else case call_kill kill pid 0 w of
             (None, w1) \<Rightarrow> (True, w1)
           | (Some errno, w1) \<Rightarrow> (errno = EPERM, w1))"

definition sweep_run_dir :: "(world \<Rightarrow> world) \<Rightarrow> kill_call \<Rightarrow> path \<Rightarrow> world \<Rightarrow> world" where
  "sweep_run_dir env kill p w =
     (case fs_metadata p w of
        (Ok Dir, w1) \<Rightarrow> snd (remove_dir_all p (snd (stop_run_dir env kill p STOP_GRACE w1)))
      | (_, w1) \<Rightarrow> w1)"

definition sweep_orphan_run_dirs :: "(world \<Rightarrow> world) \<Rightarrow> kill_call \<Rightarrow> path \<Rightarrow> world \<Rightarrow> world" where
  "sweep_orphan_run_dirs env kill state_dir w =
     (case read_dir (path_join state_dir ''vms'') w of
        (Err _, w1) \<Rightarrow> w1
      | (Ok entries, w1) \<Rightarrow> fold (sweep_run_dir env kill) entries w1)"

definition daemon_start ::
  "(world \<Rightarrow> world) \<Rightarrow> kill_call \<Rightarrow> u32 \<Rightarrow> daemon_config \<Rightarrow> world \<Rightarrow> unit io_result \<times> world" where
  "daemon_start env kill own_pid config w =
     (case create_dir_all (dc_state_dir config) w of
        (Err e, w1) \<Rightarrow> (Err e, w1)
      | (Ok _, w1) \<Rightarrow>
          (case (case path_parent (dc_socket_path config) of
                   None \<Rightarrow> (Ok (), w1) | Some parent \<Rightarrow> create_dir_all parent w1) of
             (Err e, w2) \<Rightarrow> (Err e, w2)
           | (Ok _, w2) \<Rightarrow>
               (let pidfile = path_join (dc_state_dir config) ''daemon.pid''
                in case read_pid pidfile w2 of
                     (None, w3) \<Rightarrow> write_pidfile own_pid pidfile w3
                   | (Some existing, w3) \<Rightarrow>
                       (case process_alive kill existing w3 of
                          (True, w4) \<Rightarrow>
                            (Err (IoError AlreadyExists None
                                   (''fend-daemon already running (pid '' @ show_word existing @ '')'')), w4)
                        | (False, w4) \<Rightarrow>
                            write_pidfile own_pid pidfile
                              (sweep_orphan_run_dirs env kill (dc_state_dir config) w4)))))"

text \<open>
  \<open>run\<close>: start, listen, and the shutdown that follows. \<open>serve\<close> is what the connection and
  reaper threads do to pool and world until both flags are seen.
\<close>

definition daemon_run ::
  "'p pool_host \<Rightarrow> kill_call \<Rightarrow> u32 \<Rightarrow> daemon_config \<Rightarrow> accept_round list
     \<Rightarrow> ('p pool \<times> world \<Rightarrow> 'p pool \<times> world) \<Rightarrow> world \<Rightarrow> unit io_result option \<times> world" where
  "daemon_run h kill own_pid config rounds serve w =
     (case daemon_start (ph_env h) kill own_pid config w of
        (Err e, w1) \<Rightarrow> (Some (Err e), w1)
      | (Ok _, w1) \<Rightarrow>
          (let pool = with_launcher (dc_state_dir config);
               (result, w2) = (case bind_listener (dc_socket_path config) w1 of
                                 (Err e, w2) \<Rightarrow> (Some (Err e), w2)
                               | (Ok _, w2) \<Rightarrow> (fst (listener_loop rounds), w2))
           in case result of
                None \<Rightarrow> (None, snd (serve (pool, w2)))
              | Some r \<Rightarrow>
                  (case serve (pool, w2) of (p3, w3) \<Rightarrow>
                   case pool_stop h None p3 w3 of (n, p4, w4) \<Rightarrow>
                     (Some r,
                      snd (remove_file (path_join (dc_state_dir config) ''daemon.pid'')
                             (snd (remove_file (dc_socket_path config) w4)))))))"

section \<open>The options of the daemon binary\<close>

datatype daemon_command = DaemonRun daemon_config | DaemonHelp | DaemonVersion

text \<open>\<open>debug\<close> is \<open>Debug\<close> of a string, used in one message.\<close>

fun daemon_parse_args ::
  "(string \<Rightarrow> string) \<Rightarrow> daemon_config \<Rightarrow> string list \<Rightarrow> (daemon_command, string) result" where
  "daemon_parse_args debug config [] = Ok (DaemonRun config)"
| "daemon_parse_args debug config (arg # rest) =
     (if arg \<in> {''-h'', ''--help'', ''help''} then Ok DaemonHelp
      else if arg \<in> {''-V'', ''--version'', ''version''} then Ok DaemonVersion
      else if arg = ''--socket'' then
        (case rest of [] \<Rightarrow> Err ''missing value for --socket''
         | v # rest' \<Rightarrow> daemon_parse_args debug (config\<lparr>dc_socket_path := v\<rparr>) rest')
      else if arg = ''--state-dir'' then
        (case rest of [] \<Rightarrow> Err ''missing value for --state-dir''
         | v # rest' \<Rightarrow> daemon_parse_args debug (config\<lparr>dc_state_dir := v\<rparr>) rest')
      else if arg = ''--reap-interval'' then
        (case rest of [] \<Rightarrow> Err ''missing value for --reap-interval''
         | v # rest' \<Rightarrow>
             (case parse_u64 v of
                None \<Rightarrow> Err (''invalid --reap-interval: '' @ debug v)
              | Some seconds \<Rightarrow>
                  daemon_parse_args debug (config\<lparr>dc_reap_interval := secs (unat seconds)\<rparr>) rest'))
      else Err (''unknown argument: '' @ arg))"

section \<open>The client\<close>

definition AUTO_SPAWN_TIMEOUT :: nat where
  "AUTO_SPAWN_TIMEOUT = secs 5"

definition POLL_INTERVAL :: nat where
  "POLL_INTERVAL = millis 50"

datatype client_error =
    ClientIo io_error
  | DaemonError string
  | UnexpectedResponse string
  | DaemonStartTimeout
  | DaemonBinaryMissing path

fun client_error_text :: "client_error \<Rightarrow> string" where
  "client_error_text (ClientIo e) = io_error_text e"
| "client_error_text (DaemonError m) = ''daemon error: '' @ m"
| "client_error_text (UnexpectedResponse m) = ''unexpected daemon response: '' @ m"
| "client_error_text DaemonStartTimeout =
     ''fend-daemon did not become reachable within '' @ show_nat (AUTO_SPAWN_TIMEOUT div secs 1) @ ''s''"
| "client_error_text (DaemonBinaryMissing p) = ''fend-daemon binary not found at '' @ p"

record session =
  ss_cid :: u32
  ss_run_dir :: path
  ss_booted :: bool
  ss_keepalive :: conn

text \<open>One request and its response on an open connection.\<close>

definition client_exchange ::
  "json_codec \<Rightarrow> request \<Rightarrow> conn \<Rightarrow> (response, client_error) result \<times> conn" where
  "client_exchange jc req c =
     (case write_message (jc_req_to_vec jc) req (cn_out c) of
        (Err e, w) \<Rightarrow> (Err (ClientIo e), c\<lparr>cn_out := w\<rparr>)
      | (Ok _, w) \<Rightarrow>
          (case read_message (jc_resp_from_slice jc) (cn_in c) of
             (Err e, r) \<Rightarrow> (Err (ClientIo e), c\<lparr>cn_out := w, cn_in := r\<rparr>)
           | (Ok resp, r) \<Rightarrow> (Ok resp, c\<lparr>cn_out := w, cn_in := r\<rparr>)))"

text \<open>\<open>debug\<close> is \<open>Debug\<close> of a response, used in one message.\<close>

definition client_ensure_vm ::
  "json_codec \<Rightarrow> (response \<Rightarrow> string) \<Rightarrow> vm_config \<Rightarrow> conn \<Rightarrow> (session, client_error) result" where
  "client_ensure_vm jc debug config c =
     (case client_exchange jc (EnsureVm PROTOCOL_VERSION config) c of
        (Err e, c1) \<Rightarrow> Err e
      | (Ok resp, c1) \<Rightarrow>
          (case resp of
             VmReady cid run_dir booted \<Rightarrow>
               Ok \<lparr>ss_cid = cid, ss_run_dir = run_dir, ss_booted = booted, ss_keepalive = c1\<rparr>
           | Error m \<Rightarrow> Err (DaemonError m)
           | other \<Rightarrow> Err (UnexpectedResponse (debug other))))"

definition client_stop ::
  "json_codec \<Rightarrow> (response \<Rightarrow> string) \<Rightarrow> path option \<Rightarrow> conn io_result \<Rightarrow> (nat, client_error) result" where
  "client_stop jc debug project stream =
     (case stream of
        Err e \<Rightarrow> Err (ClientIo e)
      | Ok c \<Rightarrow>
          (case fst (client_exchange jc (Stop project) c) of
             Err e \<Rightarrow> Err e
           | Ok (Stopped n) \<Rightarrow> Ok n
           | Ok (Error m) \<Rightarrow> Err (DaemonError m)
           | Ok other \<Rightarrow> Err (UnexpectedResponse (debug other))))"

definition client_status ::
  "json_codec \<Rightarrow> (response \<Rightarrow> string) \<Rightarrow> conn io_result \<Rightarrow> (vm_status list, client_error) result" where
  "client_status jc debug stream =
     (case stream of
        Err e \<Rightarrow> Err (ClientIo e)
      | Ok c \<Rightarrow>
          (case fst (client_exchange jc StatusRequest c) of
             Err e \<Rightarrow> Err e
           | Ok (Status vms) \<Rightarrow> Ok vms
           | Ok (Error m) \<Rightarrow> Err (DaemonError m)
           | Ok other \<Rightarrow> Err (UnexpectedResponse (debug other))))"

definition client_shutdown :: "json_codec \<Rightarrow> conn io_result \<Rightarrow> (unit, client_error) result" where
  "client_shutdown jc stream =
     (case stream of
        Err e \<Rightarrow> if io_kind e = NotFound \<or> io_kind e = ConnectionRefused then Ok () else Err (ClientIo e)
      | Ok c \<Rightarrow> map_ok (\<lambda>_. ()) (fst (client_exchange jc Shutdown c)))"

text \<open>\<open>UnixStream::connect\<close> is the parameter \<open>connect\<close>; the clock does not run backwards.\<close>

type_synonym connect_call = "path \<Rightarrow> world \<Rightarrow> conn io_result \<times> world"

definition call_connect :: "connect_call \<Rightarrow> path \<Rightarrow> world \<Rightarrow> conn io_result \<times> world" where
  "call_connect connect p w =
     (case connect p w of (r, w1) \<Rightarrow> (r, w1\<lparr>os_clock := max (os_clock w) (os_clock w1)\<rparr>))"

lemma connect_progress:
  assumes "(r, w1) = call_connect connect p w" and "os_clock w - start < t"
  shows "start + t - os_clock (sleep env d w1) < start + t - os_clock w"
proof -
  from assms(1) have "os_clock w \<le> os_clock w1" by (auto simp: call_connect_def split: prod.splits)
  with sleep_clock [of w1 d env] assms(2) show ?thesis by simp
qed

function poll_for_socket ::
  "(world \<Rightarrow> world) \<Rightarrow> connect_call \<Rightarrow> path \<Rightarrow> nat \<Rightarrow> nat \<Rightarrow> world \<Rightarrow> (unit, client_error) result \<times> world" where
  "poll_for_socket env connect p timeout start w =
     (if os_clock w - start < timeout
      then (case call_connect connect p w of
              (Ok _, w1) \<Rightarrow> (Ok (), w1)
            | (Err _, w1) \<Rightarrow> poll_for_socket env connect p timeout start (sleep env POLL_INTERVAL w1))
      else (Err DaemonStartTimeout, w))"
  by pat_completeness auto
termination
  by (relation "measure (\<lambda>(env, connect, p, timeout, start, w). start + timeout - os_clock w)")
    (auto simp: connect_progress)

declare poll_for_socket.simps [simp del]

definition locate_daemon_binary :: "(string \<Rightarrow> string option) \<Rightarrow> path io_result \<Rightarrow> world \<Rightarrow> path" where
  "locate_daemon_binary var_os current_exe w =
     (case var_os ''FEND_DAEMON_BINARY'' of
        Some p \<Rightarrow> p
      | None \<Rightarrow>
          (case current_exe of
             Err _ \<Rightarrow> ''fend-daemon''
           | Ok current \<Rightarrow>
               (case path_parent current of
                  None \<Rightarrow> ''fend-daemon''
                | Some parent \<Rightarrow>
                    (let candidate = path_join parent ''fend-daemon''
                     in if path_exists candidate w then candidate else ''fend-daemon''))))"

text \<open>What the client process is given: environment, user id and executable path.\<close>

record client_proc =
  cp_var_os :: "string \<Rightarrow> string option"
  cp_uid :: u32
  cp_current_exe :: "path io_result"
  cp_env :: "world \<Rightarrow> world"
  cp_connect :: connect_call

text \<open>\<open>OpenOptions\<close> with \<open>create\<close> and \<open>append\<close>.\<close>

definition open_append :: "path \<Rightarrow> world \<Rightarrow> unit io_result \<times> world" where
  "open_append p = fs_call (\<lambda>w. (Ok (), if path_exists p w then w else put_file p (Regular []) w))"

definition auto_spawn :: "client_proc \<Rightarrow> path \<Rightarrow> world \<Rightarrow> (unit, client_error) result \<times> world" where
  "auto_spawn cp socket_path w =
     (let state_dir = default_state_dir (cp_var_os cp) (cp_uid cp);
          w1 = snd (create_dir_all state_dir w)
      in case open_append (path_join state_dir ''daemon.log'') w1 of
           (Err e, w2) \<Rightarrow> (Err (ClientIo e), w2)
         | (Ok _, w2) \<Rightarrow>
             (case fs_call (\<lambda>v. (Ok (), v)) w2 of
                (Err e, w3) \<Rightarrow> (Err (ClientIo e), w3)
              | (Ok _, w3) \<Rightarrow>
                  (let binary = locate_daemon_binary (cp_var_os cp) (cp_current_exe cp) w3
                   in case spawn_process binary w3 of
                        (Err e, w4) \<Rightarrow>
                          (Err (if io_kind e = NotFound then DaemonBinaryMissing binary else ClientIo e), w4)
                      | (Ok _, w4) \<Rightarrow>
                          poll_for_socket (cp_env cp) (cp_connect cp) socket_path AUTO_SPAWN_TIMEOUT
                            (os_clock w4) w4)))"

definition connect_or_spawn :: "client_proc \<Rightarrow> path \<Rightarrow> world \<Rightarrow> (conn, client_error) result \<times> world" where
  "connect_or_spawn cp socket_path w =
     (case call_connect (cp_connect cp) socket_path w of
        (Ok c, w1) \<Rightarrow> (Ok c, w1)
      | (Err e, w1) \<Rightarrow>
          if io_kind e = NotFound \<or> io_kind e = ConnectionRefused
          then (case auto_spawn cp socket_path w1 of
                  (Err e, w2) \<Rightarrow> (Err e, w2)
                | (Ok _, w2) \<Rightarrow>
                    (case call_connect (cp_connect cp) socket_path w2 of
                       (r, w3) \<Rightarrow> (map_err ClientIo r, w3)))
          else (Err (ClientIo e), w1))"

section \<open>Properties\<close>

text \<open>The codec parses what it prints, for requests and for responses.\<close>

definition codec_ok :: "json_codec \<Rightarrow> bool" where
  "codec_ok jc \<longleftrightarrow>
     (\<forall>m body. jc_req_to_vec jc m = Ok body \<longrightarrow> jc_req_from_slice jc body = Ok m)
     \<and> (\<forall>m body. jc_resp_to_vec jc m = Ok body \<longrightarrow> jc_resp_from_slice jc body = Ok m)"

lemma message_transfer:
  assumes "\<And>m body. to_vec m = Ok body \<Longrightarrow> from_slice body = Ok m"
    and "write_message to_vec m w = (Ok (), w')" and "clean r" and "w_out w @ bytes_of r = w_out w'"
  shows "\<exists>r'. read_message from_slice r = (Ok m, r') \<and> clean r' \<and> bytes_of r' = []"
proof -
  from write_message_Ok_out [OF assms(2)] obtain body where
    body: "to_vec m = Ok body" "length body \<le> MAX_MESSAGE_SIZE" "w_out w' = w_out w @ ipc_bytes body"
    by blast
  with read_message_body [OF assms(3), of body "[]" from_slice] assms(1) [OF body(1)] assms(4) show ?thesis
    by simp
qed

text \<open>A daemon whose pool has a running VM with one session, and a codec for its messages.\<close>

definition busy_key :: string where
  "busy_key = project_key (ph_hash plain_host) ''/p''"

definition busy_daemon :: "nat daemon" where
  "busy_daemon =
     \<lparr>dm_pool = insert_vm busy_key \<lparr>ve_project = ''/p'', ve_cid = 100, ve_run_dir = ''/d'', ve_state = Running,
          ve_network = Passt, ve_active_sessions = 1, ve_last_used = 0, ve_process = Some 1\<rparr> (with_launcher ''/s''),
      dm_world = small_host [], dm_shutdown = False\<rparr>"

definition busy_codec :: json_codec where
  "busy_codec =
     \<lparr>jc_req_to_vec = (\<lambda>m. if m = EnsureVm 1 plain_config then Ok [123] else Err ''unsupported''),
      jc_req_from_slice = (\<lambda>bs. if bs = [123] then Ok (EnsureVm 1 plain_config) else Err ''syntax''),
      jc_resp_to_vec = (\<lambda>m. if m = VmReady 100 ''/d'' False then Ok [125] else Err ''unsupported''),
      jc_resp_from_slice = (\<lambda>bs. if bs = [125] then Ok (VmReady 100 ''/d'' False) else Err ''syntax'')\<rparr>"

lemma busy_codec_ok: "codec_ok busy_codec"
  by (auto simp: codec_ok_def busy_codec_def split: if_splits)

lemma busy_inv: "pool_inv (dm_pool busy_daemon)"
  using pool_inv_init unfolding pool_inv_def busy_daemon_def
  by (simp, intro vms.every_ins) (simp_all add: entry_ok_def)

lemma busy_ensure:
  "ensure plain_host plain_config (dm_pool busy_daemon) (dm_world busy_daemon)
     = (Ok \<lparr>eo_cid = 100, eo_run_dir = ''/d'', eo_booted = False\<rparr>,
        insert_vm busy_key \<lparr>ve_project = ''/p'', ve_cid = 100, ve_run_dir = ''/d'', ve_state = Running,
          ve_network = Passt, ve_active_sessions = 2, ve_last_used = 0, ve_process = Some 1\<rparr>
          (dm_pool busy_daemon), small_host [])"
  by (simp add: ensure_def pool_canonicalize_def plain_host_def plain_config_def ENSURE_MAX_RETRIES_def
      eval_nat_numeral reserve_def busy_daemon_def busy_key_def vms.get_ins small_host_def)

lemma busy_request:
  "read_message (jc_req_from_slice busy_codec) [Chunk [0, 0, 0], Chunk [1, 123]]
     = (Ok (EnsureVm 1 plain_config), [])"
  by code_simp

lemma busy_reply:
  "conn_reply busy_codec (VmReady 100 ''/d'' False) \<lparr>cn_in = [], cn_out = sink []\<rparr>
     = (Ok (), \<lparr>cn_in = [], cn_out = sink [0, 0, 0, 1, 125]\<rparr>)"
  by code_simp

lemma busy_connection:
  "\<exists>c d. handle_connection busy_codec plain_host (\<lambda>n. []) id
       \<lparr>cn_in = [Chunk [0, 0, 0], Chunk [1, 123]], cn_out = sink []\<rparr> busy_daemon = (Ok (), c, d)
     \<and> cn_out c = sink [0, 0, 0, 1, 125]"
  using busy_ensure busy_request busy_reply
  by (simp add: handle_connection_def handle_request_def PROTOCOL_VERSION_def Let_def)

text \<open>
  (C9) A session, end to end. If the client's request was written, the daemon reads it from
  its side of the socket in any cut, the pool answers \<open>Ok outcome\<close>, the daemon's reply was
  written and the client reads it in any cut, then the client holds a session with exactly the
  CID, run directory and boot flag of the pool's outcome; if the pool refuses, the client
  gets the pool's error text.
\<close>

theorem ensure_end_to_end:
  assumes "codec_ok jc"
    and request: "write_message (jc_req_to_vec jc) (EnsureVm PROTOCOL_VERSION config) (cn_out cc) = (Ok (), wc)"
    and "clean (cn_in cd)" and "w_out (cn_out cc) @ bytes_of (cn_in cd) = w_out wc"
    and "handle_connection jc h fmt_secs meanwhile cd d = (Ok (), cd', d')"
    and "clean (cn_in cc)" and "w_out (cn_out cd) @ bytes_of (cn_in cc) = w_out (cn_out cd')"
  shows "case fst (ensure h config (dm_pool d) (dm_world d)) of
      Ok outcome \<Rightarrow> \<exists>keep. client_ensure_vm jc debug config cc =
        Ok \<lparr>ss_cid = eo_cid outcome, ss_run_dir = eo_run_dir outcome, ss_booted = eo_booted outcome,
            ss_keepalive = keep\<rparr>
    | Err error \<Rightarrow> client_ensure_vm jc debug config cc = Err (DaemonError (pool_error_text fmt_secs error))"
proof -
  from assms(1) have req: "\<And>m body. jc_req_to_vec jc m = Ok body \<Longrightarrow> jc_req_from_slice jc body = Ok m"
    and resp: "\<And>m body. jc_resp_to_vec jc m = Ok body \<Longrightarrow> jc_resp_from_slice jc body = Ok m"
    by (auto simp: codec_ok_def)
  from message_transfer [of "jc_req_to_vec jc" "jc_req_from_slice jc", OF req request assms(3,4)] obtain r1 where
    r1: "read_message (jc_req_from_slice jc) (cn_in cd) = (Ok (EnsureVm PROTOCOL_VERSION config), r1)"
    by blast
  obtain res p1 w1 where e: "ensure h config (dm_pool d) (dm_world d) = (res, p1, w1)"
    by (metis prod.collapse)
  let ?resp = "case res of
      Ok out \<Rightarrow> VmReady (eo_cid out) (eo_run_dir out) (eo_booted out)
    | Err error \<Rightarrow> Error (pool_error_text fmt_secs error)"
  have "write_message (jc_resp_to_vec jc) ?resp (cn_out cd) = (Ok (), cn_out cd')"
    using assms(5) e
    by (cases res) (auto simp: handle_connection_def r1 handle_request_def conn_reply_def Let_def
        split: prod.splits result.splits)
  from message_transfer [of "jc_resp_to_vec jc" "jc_resp_from_slice jc", OF resp this assms(6,7)] obtain r2 where
    "read_message (jc_resp_from_slice jc) (cn_in cc) = (Ok ?resp, r2)"
    by blast
  with request e show ?thesis
    by (cases res) (auto simp: client_ensure_vm_def client_exchange_def)
qed

lemma ensure_end_to_end_witness:
  "\<exists>keep. client_ensure_vm busy_codec (\<lambda>r. []) plain_config
       \<lparr>cn_in = [Chunk [0, 0, 0, 1], Chunk [125]], cn_out = sink []\<rparr>
     = Ok \<lparr>ss_cid = 100, ss_run_dir = ''/d'', ss_booted = False, ss_keepalive = keep\<rparr>"
proof -
  let ?cc = "\<lparr>cn_in = [Chunk [0, 0, 0, 1], Chunk [125]], cn_out = sink []\<rparr>"
  let ?cd = "\<lparr>cn_in = [Chunk [0, 0, 0], Chunk [1, 123]], cn_out = sink []\<rparr>"
  have request: "write_message (jc_req_to_vec busy_codec) (EnsureVm PROTOCOL_VERSION plain_config) (cn_out ?cc)
      = (Ok (), sink [0, 0, 0, 1, 123])"
    by code_simp
  obtain c d where c: "handle_connection busy_codec plain_host (\<lambda>n. []) id ?cd busy_daemon = (Ok (), c, d)"
    "cn_out c = sink [0, 0, 0, 1, 125]"
    using busy_connection by blast
  from ensure_end_to_end [OF busy_codec_ok request _ _ c(1), of "\<lambda>r. []"] c(2) show ?thesis
    by (simp add: busy_ensure)
qed

text \<open>
  Session counting balances: when a session for a running VM was opened and closed and
  nothing else happened meanwhile, the VM's session count is what it was before; a VM booted
  for the session is left running with no session, and so becomes eligible for reaping.
\<close>

theorem session_balance:
  assumes "pool_inv (dm_pool d)"
    and "ph_canonicalize h (dm_world d) (vc_project config) = Ok project"
    and "ensure h config (dm_pool d) (dm_world d) = (Ok outcome, p1, w1)"
    and "canonical_or_self h (vc_project config) w1 = project"
    and "handle_request jc h fmt_secs id (EnsureVm PROTOCOL_VERSION config) c d = (Ok (), c', d')"
  shows "let key = project_key (ph_hash h) project
         in map_option ve_active_sessions (get_vm key (dm_pool d'))
              = Some (case get_vm key (dm_pool d) of Some e \<Rightarrow> ve_active_sessions e | None \<Rightarrow> 0)
            \<and> map_option ve_cid (get_vm key (dm_pool d')) = Some (eo_cid outcome)"
proof -
  let ?key = "project_key (ph_hash h) project"
  have d': "dm_pool d' = release_key ?key (os_clock w1) p1"
    using assms(3,4,5)
    by (auto simp: handle_request_def release_def Let_def split: prod.splits result.splits)
  from ensure_spec [OF assms(1,2,3)] show ?thesis
    by (auto simp: d' release_key_def vms.get_ins Let_def split: option.splits if_splits prod.splits result.splits)
qed

lemma session_balance_witness:
  "\<exists>c d. handle_request busy_codec plain_host (\<lambda>n. []) id (EnsureVm PROTOCOL_VERSION plain_config)
       \<lparr>cn_in = [], cn_out = sink []\<rparr> busy_daemon = (Ok (), c, d)
     \<and> map_option ve_active_sessions (get_vm busy_key (dm_pool d)) = Some 1"
proof -
  obtain c d where r: "handle_request busy_codec plain_host (\<lambda>n. []) id (EnsureVm PROTOCOL_VERSION plain_config)
       \<lparr>cn_in = [], cn_out = sink []\<rparr> busy_daemon = (Ok (), c, d)"
    by (simp add: handle_request_def busy_ensure busy_reply Let_def)
  have "get_vm busy_key (dm_pool busy_daemon) \<noteq> None"
    "map_option ve_active_sessions (get_vm busy_key (dm_pool busy_daemon)) = Some 1"
    by (simp_all add: busy_daemon_def vms.get_ins)
  with session_balance [OF busy_inv _ busy_ensure _ r, of "''/p''"] r show ?thesis
    by (auto simp: canonical_or_self_def plain_host_def plain_config_def busy_key_def Let_def)
qed

text \<open>
  A client that goes away before its reply costs a session for good: when the reply to a
  successful \<open>ensure\<close> cannot be written, the handler returns without releasing, the VM keeps
  the session it counted, and no later reap removes it, whatever the clock.
\<close>

theorem lost_reply_leaks_session:
  assumes "pool_inv (dm_pool d)"
    and "ph_canonicalize h (dm_world d) (vc_project config) = Ok project"
    and "ensure h config (dm_pool d) (dm_world d) = (Ok outcome, p1, w1)"
    and "handle_request jc h fmt_secs meanwhile (EnsureVm PROTOCOL_VERSION config) c d = (Err e, c', d')"
  shows "\<exists>x. get_vm (project_key (ph_hash h) project) (dm_pool d') = Some x \<and> 0 < ve_active_sessions x
     \<and> get_vm (project_key (ph_hash h) project) (fst (snd (reap h' (dm_pool d') (w\<lparr>os_clock := t\<rparr>)))) = Some x"
proof -
  let ?key = "project_key (ph_hash h) project"
  have d': "dm_pool d' = p1"
    using assms(3,4) by (auto simp: handle_request_def Let_def split: prod.splits result.splits)
  from ensure_spec [OF assms(1,2,3)] obtain x where
    x: "get_vm ?key p1 = Some x" "0 < ve_active_sessions x"
    by (auto simp: Let_def split: option.splits if_splits prod.splits result.splits)
  have "pool_inv p1" using ensure_inv [OF assms(1,3)] .
  moreover obtain n p2 w2 where "reap h' p1 (w\<lparr>os_clock := t\<rparr>) = (n, p2, w2)" by (metis prod.collapse)
  ultimately show ?thesis using reap_spec [of p1 h' "w\<lparr>os_clock := t\<rparr>" n p2 w2 ?key] x by (simp add: d')
qed

lemma lost_reply_leaks_session_witness:
  "\<exists>c d x. handle_request busy_codec plain_host (\<lambda>n. []) id (EnsureVm PROTOCOL_VERSION plain_config)
       \<lparr>cn_in = [], cn_out = \<lparr>w_out = [], w_faults = [Some (0, IoError BrokenPipe None [])], w_flushes = []\<rparr>\<rparr>
       busy_daemon = (Err (IoError BrokenPipe None []), c, d)
     \<and> get_vm busy_key (dm_pool d) = Some x \<and> 0 < ve_active_sessions x"
proof -
  let ?c = "\<lparr>cn_in = [], cn_out = \<lparr>w_out = [], w_faults = [Some (0, IoError BrokenPipe None [])], w_flushes = []\<rparr>\<rparr>"
  have "fst (conn_reply busy_codec (VmReady 100 ''/d'' False) ?c) = Err (IoError BrokenPipe None [])"
    by code_simp
  then obtain c1 where "conn_reply busy_codec (VmReady 100 ''/d'' False) ?c = (Err (IoError BrokenPipe None []), c1)"
    by (metis prod.collapse)
  then obtain c d where r: "handle_request busy_codec plain_host (\<lambda>n. []) id (EnsureVm PROTOCOL_VERSION plain_config)
       ?c busy_daemon = (Err (IoError BrokenPipe None []), c, d)"
    by (simp add: handle_request_def busy_ensure Let_def)
  from lost_reply_leaks_session [OF busy_inv _ busy_ensure r, where project = "''/p''" and h' = plain_host
      and w = "small_host []" and t = 0] r show ?thesis
    by (auto simp: plain_host_def plain_config_def busy_key_def)
qed

definition reap_period :: "nat \<Rightarrow> nat" where
  "reap_period interval = max 1 ((interval + reap_tick - 1) div reap_tick)"

lemma reaper_round_cases:
  assumes "j < reap_period interval"
  shows "reaper_round interval (j * reap_tick)
    = (if Suc j = reap_period interval then (0, True) else (Suc j * reap_tick, False))"
proof -
  have pos: "0 < reap_tick" by (simp add: reap_tick_def millis_def)
  have "interval \<le> Suc j * reap_tick \<longleftrightarrow> (interval + reap_tick - 1) div reap_tick \<le> Suc j"
  proof -
    have "(interval + reap_tick - 1) div reap_tick \<le> Suc j
        \<longleftrightarrow> interval + reap_tick - 1 < Suc (Suc j) * reap_tick"
      using pos by (simp add: less_Suc_eq_le [symmetric] div_less_iff_less_mult)
    also have "\<dots> \<longleftrightarrow> interval \<le> Suc j * reap_tick"
      using pos by (simp only: mult_Suc) linarith
    finally show ?thesis by simp
  qed
  also have "\<dots> \<longleftrightarrow> Suc j = reap_period interval"
    using assms by (auto simp: reap_period_def max_def split: if_splits)
  finally show ?thesis by (auto simp: reaper_round_def Let_def add.commute)
qed

lemma run_reaper_count:
  "j < reap_period interval \<Longrightarrow>
   length (fst (run_reaper h interval (j * reap_tick) (replicate n False) p w)) = (n + j) div reap_period interval"
proof (induction n arbitrary: j p w)
  case (Suc n)
  let ?k = "reap_period interval"
  show ?case
  proof (cases "Suc j = ?k")
    case True
    have "(Suc n + j) div ?k = Suc (n div ?k)"
      using True by (metis Suc.prems add.commute add_Suc_shift bot_nat_0.not_eq_extremum div_add_self2 less_nat_zero_code Suc_eq_plus1)
    with True Suc.IH [of 0] Suc.prems show ?thesis
      by (auto simp: reaper_round_cases Let_def split: prod.splits) (metis fst_conv)+
  next
    case False
    with Suc.IH [of "Suc j"] Suc.prems show ?thesis by (simp add: reaper_round_cases Let_def)
  qed
qed simp

text \<open>
  The reaper's schedule: starting fresh, after \<open>n\<close> ticks without a shutdown the pool has
  been reaped once per interval, the interval rounded up to whole ticks of 200 ms and at least
  one tick long; at the default minute that is every 300 ticks.
\<close>

theorem reaper_schedule:
  "length (fst (run_reaper h interval 0 (replicate n False) p w))
     = n div max 1 ((interval + millis 200 - 1) div millis 200)
   \<and> (DEFAULT_REAP_INTERVAL + millis 200 - 1) div millis 200 = 300"
  using run_reaper_count [of 0 interval h n p w]
  by (simp add: reap_period_def reap_tick_def) (simp add: DEFAULT_REAP_INTERVAL_def secs_def millis_def)

subsection \<open>Idle machines go\<close>

lemma remove_stale_ttl: "pl_idle_ttl (snd (remove_stale ks p)) = pl_idle_ttl p"
proof (induction ks arbitrary: p)
  case (Cons k ks)
  have "pl_idle_ttl (snd (remove_stale ks (remove_vm k p))) = pl_idle_ttl p"
    using Cons.IH [of "remove_vm k p"] by (simp add: remove_vm_def)
  with Cons.IH [of p] show ?case
    by (cases "remove_stale ks (remove_vm k p)") (simp split: option.splits)
qed simp

lemma drop_entries_clock:
  assumes "\<forall>q v. os_clock v \<le> os_clock (ph_drop h q v)"
  shows "os_clock w \<le> os_clock (drop_entries h es w)"
proof -
  have "os_clock v \<le> os_clock (fold (ph_drop h) qs v)" for qs v
    using assms by (induction qs arbitrary: v) (auto intro: order_trans)
  then show ?thesis by (simp add: drop_entries_def drop_all_def)
qed

text \<open>
  What one pass of the reaper does to an idle entry: it goes when its time is up and stays as
  it is otherwise; once gone it stays gone.
\<close>

lemma reap_idle:
  assumes "pool_inv p" and "\<forall>q v. os_clock v \<le> os_clock (ph_drop h q v)"
    and "get_vm k p \<in> {None, Some e}" "ve_active_sessions e = 0" "ve_state e = Running"
    and "reap h p w = (n, p', w')"
  shows "pool_inv p'" "pl_idle_ttl p' = pl_idle_ttl p" "os_clock w \<le> os_clock w'" "get_vm k p' \<in> {None, Some e}"
    and "pl_idle_ttl p < os_clock w - ve_last_used e \<or> get_vm k p = None \<Longrightarrow> get_vm k p' = None"
proof -
  have p': "p' = snd (remove_stale (stale_keys (os_clock w) p) p)"
    and w': "w' = drop_entries h (fst (remove_stale (stale_keys (os_clock w) p) p)) w"
    using assms(6) by (auto simp: reap_def reap_section_def split: prod.splits)
  show "pl_idle_ttl p' = pl_idle_ttl p" unfolding p' by (rule remove_stale_ttl)
  show "os_clock w \<le> os_clock w'" unfolding w' by (rule drop_entries_clock [OF assms(2)])
qed (use reap_spec [OF assms(1,6), of k] assms(3-5) in \<open>auto split: option.splits if_splits\<close>)

lemma run_reaper_gone:
  "pool_inv p \<Longrightarrow> get_vm k p = None \<Longrightarrow> get_vm k (fst (snd (run_reaper h interval elapsed stops p w))) = None"
proof (induction stops arbitrary: elapsed p w)
  case (Cons stop stops)
  obtain n p2 w2 where reap: "reap h p (sleep (ph_env h) reap_tick w) = (n, p2, w2)" by (metis surj_pair)
  from reap_spec [OF Cons.prems(1) reap, of k] Cons.prems(2) have "pool_inv p2" "get_vm k p2 = None" by auto
  with Cons reap show ?case by (auto simp: Let_def split: prod.splits bool.splits) (metis fst_conv snd_conv)
qed simp

text \<open>
  Rounds until the next pass of the reaper (\<open>reap_period interval - j\<close>) and rounds until the
  entry is old (\<open>m\<close>): one of them bounds the rounds that are enough.
\<close>

definition enough_rounds :: "nat \<Rightarrow> nat \<Rightarrow> nat \<Rightarrow> nat \<Rightarrow> bool" where
  "enough_rounds period j m n \<longleftrightarrow>
     (m \<le> period - j \<and> period - j \<le> n) \<or> (period - j < m \<and> m + period \<le> Suc n)"

lemma run_reaper_idle:
  assumes "\<forall>q v. os_clock v \<le> os_clock (ph_drop h q v)" "ve_active_sessions e = 0" "ve_state e = Running"
  shows "pool_inv p \<Longrightarrow> get_vm k p \<in> {None, Some e} \<Longrightarrow> pl_idle_ttl p = ttl
    \<Longrightarrow> ttl + ve_last_used e < os_clock w + m * Suc reap_tick \<Longrightarrow> j < reap_period interval
    \<Longrightarrow> enough_rounds (reap_period interval) j m n
    \<Longrightarrow> get_vm k (fst (snd (run_reaper h interval (j * reap_tick) (replicate n False) p w))) = None"
proof (induction n arbitrary: j m p w)
  case 0
  then show ?case by (auto simp: enough_rounds_def)
next
  case (Suc n)
  let ?w1 = "sleep (ph_env h) reap_tick w"
  have old: "ttl + ve_last_used e < os_clock ?w1 + (m - 1) * Suc reap_tick"
    using Suc.prems(4) sleep_clock [of w reap_tick "ph_env h"] by (cases m) auto
  show ?case
  proof (cases "Suc j = reap_period interval")
    case False
    then have "enough_rounds (reap_period interval) (Suc j) (m - 1) n"
      using Suc.prems(5,6) by (auto simp: enough_rounds_def)
    with False Suc.IH [OF Suc.prems(1-3) old, of "Suc j"] Suc.prems(5) show ?thesis
      by (simp add: reaper_round_cases Let_def)
  next
    case True
    obtain k' p2 w2 where reap: "reap h p ?w1 = (k', p2, w2)" by (metis surj_pair)
    note idle = reap_idle [OF Suc.prems(1) assms(1) Suc.prems(2) assms(2,3) reap]
    have "get_vm k (fst (snd (run_reaper h interval (0 * reap_tick) (replicate n False) p2 w2))) = None"
    proof (cases "m \<le> 1")
      case True
      with old Suc.prems(3) have "get_vm k p2 = None" by (intro idle(5)) auto
      then show ?thesis using run_reaper_gone idle(1) by blast
    next
      case m: False
      have "ttl + ve_last_used e < os_clock w2 + (m - 1) * Suc reap_tick" using old idle(3) by linarith
      moreover have "enough_rounds (reap_period interval) 0 (m - 1) n"
        using Suc.prems(6) True m by (auto simp: enough_rounds_def)
      moreover have "0 < reap_period interval" by (simp add: reap_period_def)
      ultimately show ?thesis using Suc.IH [OF idle(1,4)] idle(2) Suc.prems(3) by blast
    qed
    with True reap Suc.prems(5) show ?thesis by (auto simp: reaper_round_cases Let_def split: prod.splits)
  qed
qed

text \<open>
  (C11) An idle VM does not stay for ever: while nobody uses it and the daemon is not shut down,
  it is gone after as many ticks of 200 ms as its time to live and one reaping interval take
  together, whatever else the pool holds.
\<close>

theorem idle_vm_reaped:
  assumes "pool_inv p" and "get_vm k p = Some e" and "ve_active_sessions e = 0" "ve_state e = Running"
    and "ve_last_used e \<le> os_clock w" and "\<forall>q v. os_clock v \<le> os_clock (ph_drop h q v)"
    and "Suc (pl_idle_ttl p div reap_tick) + reap_period interval \<le> n"
  shows "get_vm k (fst (snd (run_reaper h interval 0 (replicate n False) p w))) = None"
proof -
  let ?m = "Suc (pl_idle_ttl p div reap_tick)"
  have "0 < reap_tick" by (simp add: reap_tick_def millis_def)
  then have "pl_idle_ttl p < ?m * reap_tick" using dividend_less_times_div [of reap_tick "pl_idle_ttl p"] by (simp add: mult.commute)
  then have "pl_idle_ttl p + ve_last_used e < os_clock w + ?m * Suc reap_tick" using assms(5) by simp
  moreover have "0 < reap_period interval" by (simp add: reap_period_def)
  moreover have "enough_rounds (reap_period interval) 0 ?m n" using assms(7) by (auto simp: enough_rounds_def)
  ultimately show ?thesis
    using run_reaper_idle [OF assms(6,3,4,1), of k "pl_idle_ttl p" w ?m 0 interval n] assms(2) by simp
qed

lemma idle_vm_reaped_witness:
  "get_vm ''k'' idle_pool \<noteq> None
   \<and> get_vm ''k'' (fst (snd (run_reaper plain_host DEFAULT_REAP_INTERVAL 0 (replicate 9301 False) idle_pool
        ((small_host [])\<lparr>os_clock := 5\<rparr>)))) = None"
proof -
  let ?e = "\<lparr>ve_project = ''/p'', ve_cid = 100, ve_run_dir = ''/s'', ve_state = Running,
     ve_network = Passt, ve_active_sessions = 0, ve_last_used = 5, ve_process = Some 1 :: nat option\<rparr>"
  have e: "get_vm ''k'' idle_pool = Some ?e" by (simp add: idle_pool_def vms.get_ins)
  have "Suc (pl_idle_ttl idle_pool div reap_tick) + reap_period DEFAULT_REAP_INTERVAL \<le> 9301"
    by code_simp
  moreover have "\<forall>q v. os_clock v \<le> os_clock (ph_drop plain_host q v)" by (simp add: plain_host_def)
  ultimately show ?thesis
    using idle_vm_reaped [OF idle_pool_inv e, of "(small_host [])\<lparr>os_clock := 5\<rparr>" plain_host DEFAULT_REAP_INTERVAL 9301] e
    by simp
qed

section \<open>One daemon per state directory\<close>

lemma fold_put_dir_other: "p \<notin> set as \<Longrightarrow> lookup_file p (fold (\<lambda>a. put_file a Dir) as w) = lookup_file p w"
  by (induction as arbitrary: w) simp_all

lemma fold_put_dir_faults: "os_fs_faults (fold (\<lambda>a. put_file a Dir) as w) = os_fs_faults w"
  by (induction as arbitrary: w) simp_all

lemma create_dir_all_keeps:
  assumes "lookup_file p w = Some (Regular s)" and "os_fs_faults w = []"
    and "create_dir_all d w = (r, w')"
  shows "lookup_file p w' = Some (Regular s) \<and> os_fs_faults w' = []"
proof (cases "list_ex (blocks_dir (w\<lparr>os_fs_faults := []\<rparr>)) (ancestors d)")
  case True
  with assms show ?thesis by (auto simp: create_dir_all_def fs_call_def)
next
  case False
  with assms(1) have "p \<notin> set (ancestors d)"
    by (auto simp: list_ex_iff blocks_dir_def)
  with False assms show ?thesis
    by (auto simp: create_dir_all_def fs_call_def fold_put_dir_other fold_put_dir_faults)
qed

lemma write_pidfile_content:
  "write_pidfile pid p w = (Ok (), w') \<Longrightarrow> lookup_file p w' = Some (Regular (show_nat (unat pid) @ [CHR 0x0A]))"
  by (auto simp: write_pidfile_def fs_write_def fs_call_def show_word_def split: prod.splits option.splits)

lemma read_pid_content:
  assumes "lookup_file p w = Some (Regular (show_nat (unat pid) @ [CHR 0x0A]))" and "os_fs_faults w = []"
  shows "\<exists>w'. read_pid p w = (Some pid, w') \<and> lookup_file p w' = lookup_file p w"
  using assms
  by (auto simp: read_pid_def read_to_string_def fs_call_def trim_show_nat_nl parse_u32_show)

text \<open>
  (C37) At most one daemon per state directory: once a daemon has started, a second start on a
  host without file-system faults, while the pid file is as the first one wrote it and the
  kernel still knows that process, fails with \<open>AlreadyExists\<close> or earlier, and leaves the pid
  file to its owner.
\<close>

theorem daemon_start_exclusive:
  assumes "daemon_start env kill pid config w = (Ok (), w1)" and "pid \<noteq> 0"
    and "lookup_file (path_join (dc_state_dir config) ''daemon.pid'') w2
       = lookup_file (path_join (dc_state_dir config) ''daemon.pid'') w1"
    and "os_fs_faults w2 = []"
    and "\<And>v. \<exists>ps. kill' (sint pid) 0 v = (None, ps)"
    and "daemon_start env' kill' pid' config w2 = (r, w3)"
  shows "\<not> is_ok r \<and> lookup_file (path_join (dc_state_dir config) ''daemon.pid'') w3
       = lookup_file (path_join (dc_state_dir config) ''daemon.pid'') w1"
proof -
  let ?pf = "path_join (dc_state_dir config) ''daemon.pid''"
  have "lookup_file ?pf w1 = Some (Regular (show_nat (unat pid) @ [CHR 0x0A]))"
    using assms(1) by (auto simp: daemon_start_def Let_def dest: write_pidfile_content
        split: prod.splits result.splits option.splits bool.splits)
  with assms(3) have f2: "lookup_file ?pf w2 = Some (Regular (show_nat (unat pid) @ [CHR 0x0A]))" by simp
  obtain ra wa where wa: "create_dir_all (dc_state_dir config) w2 = (ra, wa)" by fastforce
  note fa = create_dir_all_keeps [OF f2 assms(4) wa]
  obtain rb wb where wb: "(case path_parent (dc_socket_path config) of
      None \<Rightarrow> (Ok (), wa) | Some parent \<Rightarrow> create_dir_all parent wa) = (rb, wb)" by fastforce
  have fb: "lookup_file ?pf wb = Some (Regular (show_nat (unat pid) @ [CHR 0x0A])) \<and> os_fs_faults wb = []"
    using wb fa create_dir_all_keeps [OF fa [THEN conjunct1] fa [THEN conjunct2]]
    by (auto split: option.splits)
  from read_pid_content [OF fb [THEN conjunct1] fb [THEN conjunct2]] obtain wc where
    wc: "read_pid ?pf wb = (Some pid, wc)" "lookup_file ?pf wc = lookup_file ?pf wb" by blast
  obtain ps where "kill' (sint pid) 0 wc = (None, ps)" using assms(5) by blast
  then have "process_alive kill' pid wc = (True, wc\<lparr>os_procs := ps\<rparr>)"
    using assms(2) by (simp add: process_alive_def call_kill_def)
  moreover have "lookup_file ?pf (wc\<lparr>os_procs := ps\<rparr>) = lookup_file ?pf wc" by (simp add: lookup_file_def)
  ultimately show ?thesis
    using assms(6) wa wb wc fa fb f2 assms(3)
    by (cases ra; cases rb) (auto simp: daemon_start_def Let_def)
qed

lemma daemon_start_exclusive_witness:
  "\<exists>w1 r w3. daemon_start id (\<lambda>t s w. (None, [])) 41 \<lparr>dc_socket_path = ''/s/d.sock'', dc_state_dir = ''/s'',
       dc_reap_interval = 1\<rparr> (small_host []) = (Ok (), w1)
     \<and> daemon_start id (\<lambda>t s w. (None, [])) 42 \<lparr>dc_socket_path = ''/s/d.sock'', dc_state_dir = ''/s'',
       dc_reap_interval = 1\<rparr> w1 = (r, w3) \<and> \<not> is_ok r"
proof -
  let ?c = "\<lparr>dc_socket_path = ''/s/d.sock'', dc_state_dir = ''/s'', dc_reap_interval = 1\<rparr>"
  let ?kill = "\<lambda>t s w. (None, [])"
  have "fst (daemon_start id ?kill 41 ?c (small_host [])) = Ok ()
      \<and> os_fs_faults (snd (daemon_start id ?kill 41 ?c (small_host []))) = []"
    by code_simp
  then obtain w1 where w1: "daemon_start id ?kill 41 ?c (small_host []) = (Ok (), w1)" "os_fs_faults w1 = []"
    by (metis prod.collapse)
  obtain r w3 where w3: "daemon_start id ?kill 42 ?c w1 = (r, w3)" by fastforce
  from daemon_start_exclusive [OF w1(1) _ _ w1(2) _ w3] w1 w3 show ?thesis by auto
qed

text \<open>
  Shutdown is complete: when the listener has ended, whatever the connections did and
  whatever was left in the pool, a shutdown without further faults removes the socket and the
  pid file, and the result is the listener's.
\<close>

theorem daemon_shutdown_cleans:
  assumes "daemon_start (ph_env h) kill pid config w = (Ok (), w1)"
    and "bind_listener (dc_socket_path config) w1 = (Ok (), w2)"
    and "fst (listener_loop rounds) = Some res"
    and "serve (with_launcher (dc_state_dir config), w2) = (p3, w3)"
    and "os_fs_faults (snd (snd (pool_stop h None p3 w3))) = []"
    and "daemon_run h kill pid config rounds serve w = (r, w')"
  shows "r = Some res \<and> \<not> path_exists (dc_socket_path config) w'
    \<and> \<not> path_exists (path_join (dc_state_dir config) ''daemon.pid'') w'"
proof -
  obtain n p4 w4 where w4: "pool_stop h None p3 w3 = (n, p4, w4)" by (metis prod.collapse)
  with assms(5) have "os_fs_faults w4 = []" by simp
  with assms w4 show ?thesis
    by (auto simp: daemon_run_def Let_def no_fault_calls path_exists_def split: if_splits)
qed

lemma daemon_shutdown_cleans_witness:
  "\<exists>w'. daemon_run plain_host (\<lambda>t s w. (None, [])) 41 \<lparr>dc_socket_path = ''/s/d.sock'', dc_state_dir = ''/s'',
       dc_reap_interval = 1\<rparr> [(False, Err (IoError WouldBlock None [])), (True, Err not_found)] id (small_host [])
     = (Some (Ok ()), w') \<and> \<not> path_exists ''/s/d.sock'' w'"
proof -
  let ?c = "\<lparr>dc_socket_path = ''/s/d.sock'', dc_state_dir = ''/s'', dc_reap_interval = 1\<rparr>"
  let ?kill = "\<lambda>t s w. (None, [])"
  let ?rounds = "[(False, Err (IoError WouldBlock None [])), (True, Err not_found)] :: accept_round list"
  let ?start = "daemon_start (ph_env plain_host) ?kill 41 ?c (small_host [])"
  let ?bind = "bind_listener (dc_socket_path ?c) (snd ?start)"
  have "fst ?start = Ok ()" "fst ?bind = Ok ()" "os_fs_faults (snd ?bind) = []"
    by (code_simp, code_simp, code_simp)
  note eval = this
  have start: "?start = (Ok (), snd ?start)" by (rule prod_eqI) (simp_all only: eval(1) fst_conv snd_conv)
  have bind: "?bind = (Ok (), snd ?bind)" by (rule prod_eqI) (simp_all only: eval(2) fst_conv snd_conv)
  have faults: "os_fs_faults (snd (snd (pool_stop plain_host None (with_launcher (dc_state_dir ?c)) (snd ?bind)))) = []"
    using eval(3) by (simp add: pool_stop_def stop_all_def with_launcher_def drop_entries_def drop_all_def)
  obtain r w' where run: "daemon_run plain_host ?kill 41 ?c ?rounds id (small_host []) = (r, w')" by fastforce
  from daemon_shutdown_cleans [OF start bind _ _ faults run] run show ?thesis by simp
qed

end
