(* ===== verification/Guest_Monitors.thy ===== *)
theory Guest_Monitors
  imports Frame_Protocol Rust_Strings "HOL-Library.Multiset"
begin

text \<open>
  The two monitors of the guest agent: listening ports (fendd/src/port_monitor.rs) and
  outbound connections (fendd/src/network_monitor.rs). Each polls the kernel's TCP tables,
  computes what changed and broadcasts it to the subscribers that a listener thread adds.
  A \<open>HashSet\<close> is a list without duplicates, in the order its iterator happens to have; the
  theorems hold for every such order. \<open>to_vec\<close> is the JSON printer of serde_json, a parameter.
  Everything either thread does to the shared state happens under its mutex, so a run is a
  sequence of poll rounds and subscriptions.
\<close>

definition hash_insert :: "'a \<Rightarrow> 'a list \<Rightarrow> 'a list" where
  "hash_insert x xs = (if x \<in> set xs then xs else xs @ [x])"

definition hash_difference :: "'a list \<Rightarrow> 'a list \<Rightarrow> 'a list" where
  "hash_difference xs ys = filter (\<lambda>x. x \<notin> set ys) xs"

lemma set_hash_insert [simp]: "set (hash_insert x xs) = insert x (set xs)"
  by (auto simp: hash_insert_def)

lemma distinct_hash_insert [simp]: "distinct (hash_insert x xs) \<longleftrightarrow> distinct xs"
  by (simp add: hash_insert_def)

lemma set_hash_difference [simp]: "set (hash_difference xs ys) = set xs - set ys"
  by (auto simp: hash_difference_def)

section \<open>Broadcasting\<close>

text \<open>
  \<open>Vec::swap_remove\<close>: the last element takes the place of the removed one. It panics out of
  range; the loops below only pass indices of the vector.
\<close>

definition swap_remove :: "nat \<Rightarrow> 'a list \<Rightarrow> 'a list" where
  "swap_remove i xs = butlast (xs[i := last xs])"

text \<open>The send loops: events go out in order until one fails (\<open>False\<close>).\<close>

fun send_each :: "('e \<Rightarrow> writer \<Rightarrow> unit io_result \<times> writer) \<Rightarrow> 'e list \<Rightarrow> writer \<Rightarrow> bool \<times> writer" where
  "send_each send [] w = (True, w)"
| "send_each send (e # es) w =
     (case send e w of (Err _, w1) \<Rightarrow> (False, w1) | (Ok _, w1) \<Rightarrow> send_each send es w1)"

text \<open>The loop over the enumerated subscribers, collecting the indices of dead ones.\<close>

fun notify_loop ::
  "(nat \<Rightarrow> nat list \<Rightarrow> writer \<Rightarrow> nat list \<times> writer) \<Rightarrow> nat \<Rightarrow> nat list \<Rightarrow> writer list \<Rightarrow> nat list \<times> writer list" where
  "notify_loop body i dead [] = (dead, [])"
| "notify_loop body i dead (w # ws) =
     (let (dead1, w1) = body i dead w; (dead2, ws1) = notify_loop body (Suc i) dead1 ws
      in (dead2, w1 # ws1))"

definition broadcast :: "(nat \<Rightarrow> nat list \<Rightarrow> writer \<Rightarrow> nat list \<times> writer) \<Rightarrow> writer list \<Rightarrow> writer list" where
  "broadcast body subs =
     (let (dead, subs1) = notify_loop body 0 [] subs in fold swap_remove (rev dead) subs1)"

lemma swap_remove_mset: "i < length xs \<Longrightarrow> add_mset (xs ! i) (mset (swap_remove i xs)) = mset xs"
proof (cases xs rule: rev_cases)
  case (snoc ys y)
  assume "i < length xs"
  show ?thesis
  proof (cases "i = length ys")
    case True
    with snoc show ?thesis by (simp add: swap_remove_def)
  next
    case False
    with snoc \<open>i < length xs\<close> have i: "i < length ys" by simp
    with snoc have "swap_remove i xs = ys[i := y]"
      by (simp add: swap_remove_def list_update_append1 butlast_append)
    with snoc i show ?thesis by (simp add: mset_update nth_append)
  qed
qed simp

lemma swap_remove_nth: "j < i \<Longrightarrow> i < length xs \<Longrightarrow> swap_remove i xs ! j = xs ! j"
  by (simp add: swap_remove_def nth_butlast)

lemma length_swap_remove: "length (swap_remove i xs) = length xs - 1"
  by (simp add: swap_remove_def)

lemma fold_swap_remove_mset:
  "sorted_wrt (>) ds \<Longrightarrow> \<forall>d \<in> set ds. d < length xs \<Longrightarrow>
     mset (fold swap_remove ds xs) + mset (map ((!) xs) ds) = mset xs"
proof (induction ds arbitrary: xs)
  case (Cons d ds)
  let ?ys = "swap_remove d xs"
  have d: "d < length xs" and ds: "\<forall>j \<in> set ds. j < d" using Cons.prems by auto
  then have "\<forall>j \<in> set ds. j < length ?ys" by (fastforce simp: length_swap_remove)
  with Cons.IH [of ?ys] Cons.prems(1)
  have "mset (fold swap_remove ds ?ys) + mset (map ((!) ?ys) ds) = mset ?ys" by simp
  moreover have "map ((!) ?ys) ds = map ((!) xs) ds" using d ds by (auto simp: swap_remove_nth)
  ultimately have "mset (fold swap_remove ds ?ys) + mset (map ((!) xs) ds) = mset ?ys" by argo
  with swap_remove_mset [OF d] show ?case by simp
qed simp

text \<open>
  The interface of a notification body: whatever it does, its effect on a subscriber is
  \<open>deliver\<close>, and it records the subscriber's index exactly when the delivery failed. Its client
  is the broadcast, which keeps exactly the subscribers that got everything.
\<close>

locale notifier =
  fixes body :: "nat \<Rightarrow> nat list \<Rightarrow> writer \<Rightarrow> nat list \<times> writer"
    and deliver :: "writer \<Rightarrow> bool \<times> writer"
  assumes body_law: "i \<notin> set dead \<Longrightarrow>
    body i dead w = (if fst (deliver w) then dead else dead @ [i], snd (deliver w))"
begin

lemma notify_loop_eq:
  "\<forall>d \<in> set dead. d < i \<Longrightarrow> notify_loop body i dead ws =
     (dead @ map ((+) i) (filter (\<lambda>j. \<not> fst (deliver (ws ! j))) [0..<length ws]),
      map (snd \<circ> deliver) ws)"
proof (induction ws arbitrary: i dead)
  case (Cons w ws)
  let ?dead = "if fst (deliver w) then dead else dead @ [i]"
  have shift: "filter P [0..<Suc n] = filter P [0] @ map Suc (filter (\<lambda>j. P (Suc j)) [0..<n])" for P n
    by (simp add: upt_conv_Cons map_Suc_upt [symmetric] filter_map comp_def del: upt_Suc)
  have "\<forall>d \<in> set ?dead. d < Suc i" using Cons.prems by auto
  from Cons.IH [OF this] show ?case
    using Cons.prems by (auto simp: body_law shift simp del: upt_Suc)
qed simp

theorem broadcast_survivors:
  "mset (broadcast body subs) = image_mset (snd \<circ> deliver) (mset (filter (fst \<circ> deliver) subs))"
proof -
  let ?bad = "filter (\<lambda>j. \<not> fst (deliver (subs ! j))) [0..<length subs]"
  let ?new = "map (snd \<circ> deliver) subs"
  have loop: "notify_loop body 0 [] subs = (?bad, ?new)" using notify_loop_eq [of "[]" 0 subs] by (simp add: map_idI)
  have down: "sorted_wrt (>) (rev ?bad)" by (simp add: sorted_wrt_rev sorted_wrt_filter)
  have "\<forall>d \<in> set (rev ?bad). d < length ?new" by auto
  note fold_swap_remove_mset [OF down this]
  moreover have "map ((!) ?new) (rev ?bad) = rev (map (snd \<circ> deliver) (filter (\<lambda>w. \<not> fst (deliver w)) subs))"
  proof -
    have "map ((!) subs) ?bad = filter (\<lambda>w. \<not> fst (deliver w)) (map ((!) subs) [0..<length subs])"
      by (simp add: filter_map comp_def)
    then have "map ((!) subs) ?bad = filter (\<lambda>w. \<not> fst (deliver w)) subs" by (simp add: map_nth)
    moreover have "map ((!) ?new) ?bad = map (snd \<circ> deliver) (map ((!) subs) ?bad)" by simp
    ultimately show ?thesis by (simp add: rev_map [symmetric] del: map_map)
  qed
  moreover have "mset ?new = image_mset (snd \<circ> deliver) (mset (filter (fst \<circ> deliver) subs))
      + image_mset (snd \<circ> deliver) (mset (filter (\<lambda>w. \<not> fst (deliver w)) subs))"
    by (induction subs) auto
  ultimately show ?thesis by (simp add: broadcast_def loop)
qed

lemma broadcast_member:
  "w' \<in> set (broadcast body subs) \<longleftrightarrow> (\<exists>w \<in> set subs. deliver w = (True, w'))"
proof -
  have "w' \<in> set (broadcast body subs) \<longleftrightarrow> w' \<in># mset (broadcast body subs)" by simp
  then show ?thesis unfolding broadcast_survivors by (auto simp: prod_eq_iff image_iff)
qed

end

text \<open>
  The interface of an event sender: a successful send appends exactly the bytes of its event.
  Its client is the send loop.
\<close>

locale event_sender =
  fixes send :: "'e \<Rightarrow> writer \<Rightarrow> unit io_result \<times> writer"
    and enc :: "'e \<Rightarrow> byte list"
  assumes send_law: "send e w = (Ok (), w') \<Longrightarrow> w_out w' = w_out w @ enc e"
begin

lemma send_each_out:
  "send_each send es w = (True, w') \<Longrightarrow> w_out w' = w_out w @ concat (map enc es)"
  by (induction es arbitrary: w) (auto split: prod.splits result.splits dest!: send_law)

end


section \<open>The port monitor\<close>

record port_monitor_state =
  known_ports :: "u16 list"
  port_subscribers :: "writer list"

definition port_monitor_start :: port_monitor_state where
  "port_monitor_start = \<lparr>known_ports = [], port_subscribers = []\<rparr>"

definition port_of_line :: "string \<Rightarrow> u16 option" where
  "port_of_line line =
     (let fields = split_whitespace line
      in if length fields < 4 then None
         else if fields ! 3 \<noteq> ''0A'' then None
         else case split_on (CHR '':'') (fields ! 1) of
                _ # port_hex # _ \<Rightarrow>
                  (case parse_u16_radix 16 port_hex of
                     None \<Rightarrow> None
                   | Some port \<Rightarrow> if 0 < port then Some port else None)
              | _ \<Rightarrow> None)"

definition parse_listening_ports :: "string \<Rightarrow> u16 list" where
  "parse_listening_ports content =
     fold (\<lambda>line ports. case port_of_line line of None \<Rightarrow> ports | Some port \<Rightarrow> hash_insert port ports)
       (drop 1 (lines content)) []"

text \<open>\<open>read_to_string\<close> is the file system at the time of the scan.\<close>

definition scan_listening_ports :: "(path \<Rightarrow> string io_result) \<Rightarrow> u16 list" where
  "scan_listening_ports read_to_string =
     fold (\<lambda>path ports. case read_to_string path of
             Err _ \<Rightarrow> ports
           | Ok content \<Rightarrow> fold hash_insert (parse_listening_ports content) ports)
       [''/proc/net/tcp'', ''/proc/net/tcp6''] []"

definition send_port_event ::
  "(port_event_msg \<Rightarrow> (byte list, string) result) \<Rightarrow> string \<Rightarrow> u16 \<Rightarrow> writer \<Rightarrow> unit io_result \<times> writer" where
  "send_port_event to_vec event port stream =
     (case to_vec \<lparr>pe_port = port, pe_event = event\<rparr> of
        Err e \<Rightarrow> (Err (IoError OtherKind None e), stream)
      | Ok json \<Rightarrow> write_frame PortEvent json stream)"

text \<open>The loop body for one subscriber: openings first, then closings, also after a failure.\<close>

definition notify_ports ::
  "(port_event_msg \<Rightarrow> (byte list, string) result) \<Rightarrow> u16 list \<Rightarrow> u16 list
     \<Rightarrow> nat \<Rightarrow> nat list \<Rightarrow> writer \<Rightarrow> nat list \<times> writer" where
  "notify_ports to_vec opened closed i dead sub =
     (let (ok1, sub1) = send_each (send_port_event to_vec ''opened'') opened sub;
          dead1 = (if ok1 then dead else dead @ [i]);
          (ok2, sub2) = send_each (send_port_event to_vec ''closed'') closed sub1;
          dead2 = (if ok2 then dead1 else if i \<in> set dead1 then dead1 else dead1 @ [i])
      in (dead2, sub2))"

text \<open>One round of \<open>poll_loop\<close> after the scan: \<open>prev\<close> is the local set of the thread.\<close>

definition port_poll_round ::
  "(port_event_msg \<Rightarrow> (byte list, string) result) \<Rightarrow> u16 list \<Rightarrow> u16 list \<Rightarrow> port_monitor_state
     \<Rightarrow> u16 list \<times> port_monitor_state" where
  "port_poll_round to_vec prev current s =
     (let opened = hash_difference current prev; closed = hash_difference prev current
      in (current,
          if opened \<noteq> [] \<or> closed \<noteq> []
          then s\<lparr>known_ports := current,
                 port_subscribers := broadcast (notify_ports to_vec opened closed) (port_subscribers s)\<rparr>
          else s))"

text \<open>What \<open>event_listener\<close> does with an accepted connection.\<close>

definition port_subscribe ::
  "(port_event_msg \<Rightarrow> (byte list, string) result) \<Rightarrow> writer \<Rightarrow> port_monitor_state \<Rightarrow> port_monitor_state" where
  "port_subscribe to_vec conn s =
     (let (ok, conn1) = send_each (send_port_event to_vec ''opened'') (known_ports s) conn
      in if ok then s\<lparr>port_subscribers := port_subscribers s @ [conn1]\<rparr> else s)"

text \<open>The two threads interleaved: a scan may return any set of ports, in any order.\<close>

inductive port_step ::
  "(port_event_msg \<Rightarrow> (byte list, string) result) \<Rightarrow> u16 list \<times> port_monitor_state
     \<Rightarrow> u16 list \<times> port_monitor_state \<Rightarrow> bool"
  for to_vec where
  poll: "distinct current \<Longrightarrow> port_step to_vec (prev, s) (port_poll_round to_vec prev current s)"
| subscribe: "w_out conn = [] \<Longrightarrow> port_step to_vec (prev, s) (prev, port_subscribe to_vec conn s)"

inductive port_reachable ::
  "(port_event_msg \<Rightarrow> (byte list, string) result) \<Rightarrow> u16 list \<times> port_monitor_state \<Rightarrow> bool"
  for to_vec where
  start: "port_reachable to_vec ([], port_monitor_start)"
| step: "port_reachable to_vec c \<Longrightarrow> port_step to_vec c c' \<Longrightarrow> port_reachable to_vec c'"

inductive_cases port_stepE: "port_step to_vec c c'"

section \<open>What a subscriber has seen\<close>

text \<open>
  The specification of the event stream: events replayed from the empty set give the set of
  ports the subscriber believes to be open.
\<close>

definition replay :: "(string \<times> u16) list \<Rightarrow> u16 set \<Rightarrow> u16 set" where
  "replay evs S = fold (\<lambda>(e, p) S. if e = ''opened'' then insert p S else S - {p}) evs S"

definition port_event_bytes ::
  "(port_event_msg \<Rightarrow> (byte list, string) result) \<Rightarrow> string \<times> u16 \<Rightarrow> byte list" where
  "port_event_bytes to_vec e =
     (case to_vec \<lparr>pe_port = snd e, pe_event = fst e\<rparr> of
        Ok json \<Rightarrow> frame_bytes (message_type_as_u8 PortEvent) json | Err _ \<Rightarrow> [])"

definition has_history ::
  "(port_event_msg \<Rightarrow> (byte list, string) result) \<Rightarrow> u16 set \<Rightarrow> writer \<Rightarrow> bool" where
  "has_history to_vec S w \<longleftrightarrow>
     (\<exists>evs. w_out w = concat (map (port_event_bytes to_vec) evs) \<and> replay evs {} = S
          \<and> (\<forall>(e, p) \<in> set evs. e \<in> {''opened'', ''closed''}))"

definition deliver_ports ::
  "(port_event_msg \<Rightarrow> (byte list, string) result) \<Rightarrow> u16 list \<Rightarrow> u16 list \<Rightarrow> writer \<Rightarrow> bool \<times> writer" where
  "deliver_ports to_vec opened closed w =
     (let (ok1, w1) = send_each (send_port_event to_vec ''opened'') opened w;
          (ok2, w2) = send_each (send_port_event to_vec ''closed'') closed w1
      in (ok1 \<and> ok2, w2))"

interpretation ports: notifier "notify_ports to_vec opened closed" "deliver_ports to_vec opened closed"
  by unfold_locales (auto simp: notify_ports_def deliver_ports_def Let_def split: prod.splits)

interpretation port_events: event_sender "send_port_event to_vec event"
  "\<lambda>port. port_event_bytes to_vec (event, port)"
  by unfold_locales
    (auto simp: send_port_event_def port_event_bytes_def write_frame_session
      dest!: session_write_frame_Ok_out split: result.splits)

lemma replay_append: "replay (xs @ ys) S = replay ys (replay xs S)"
  by (simp add: replay_def)

lemma replay_opened: "replay (map (Pair ''opened'') ps) S = S \<union> set ps"
  unfolding replay_def by (induction ps arbitrary: S) auto

lemma replay_closed: "replay (map (Pair ''closed'') ps) S = S - set ps"
  unfolding replay_def by (induction ps arbitrary: S) auto

lemma deliver_ports_history:
  assumes "deliver_ports to_vec opened closed w = (True, w')" and "has_history to_vec S w"
  shows "has_history to_vec ((S \<union> set opened) - set closed) w'"
proof -
  let ?new = "map (Pair ''opened'') opened @ map (Pair ''closed'') closed"
  from assms(1) have "w_out w' = w_out w @ concat (map (port_event_bytes to_vec) ?new)"
    by (auto simp: deliver_ports_def Let_def comp_def split: prod.splits dest!: port_events.send_each_out)
  moreover obtain evs where evs: "w_out w = concat (map (port_event_bytes to_vec) evs)"
      "replay evs {} = S" "\<forall>(e, p) \<in> set evs. e \<in> {''opened'', ''closed''}"
    using assms(2) by (auto simp: has_history_def)
  ultimately show ?thesis
    by (auto simp: has_history_def replay_append replay_opened replay_closed intro!: exI [of _ "evs @ ?new"])
qed

text \<open>The invariant: the poller's set is the shared one, and every subscriber knows it.\<close>

definition port_inv ::
  "(port_event_msg \<Rightarrow> (byte list, string) result) \<Rightarrow> u16 list \<times> port_monitor_state \<Rightarrow> bool" where
  "port_inv to_vec c \<longleftrightarrow> set (known_ports (snd c)) = set (fst c)
     \<and> (\<forall>w \<in> set (port_subscribers (snd c)). has_history to_vec (set (fst c)) w)"

lemma port_poll_inv:
  assumes "port_inv to_vec (prev, s)"
  shows "port_inv to_vec (port_poll_round to_vec prev current s)"
proof -
  let ?opened = "hash_difference current prev" and ?closed = "hash_difference prev current"
  have quiet: "?opened = [] \<and> ?closed = [] \<Longrightarrow> set current = set prev"
    by (auto simp: hash_difference_def filter_empty_conv)
  have sets: "(set prev \<union> set ?opened) - set ?closed = set current" by auto
  have "has_history to_vec (set current) w'"
    if "w' \<in> set (broadcast (notify_ports to_vec ?opened ?closed) (port_subscribers s))" for w'
    using that assms deliver_ports_history [of to_vec ?opened ?closed _ w' "set prev", unfolded sets]
    by (auto simp: ports.broadcast_member port_inv_def)
  with assms quiet show ?thesis by (auto simp: port_inv_def port_poll_round_def Let_def)
qed

lemma port_subscribe_inv:
  assumes "port_inv to_vec (prev, s)" and "w_out conn = []"
  shows "port_inv to_vec (prev, port_subscribe to_vec conn s)"
proof (cases "send_each (send_port_event to_vec ''opened'') (known_ports s) conn")
  case (Pair ok conn1)
  have "has_history to_vec {} conn" using assms(2) by (auto simp: has_history_def replay_def intro: exI [of _ "[]"])
  then have "ok \<Longrightarrow> has_history to_vec (set (known_ports s)) conn1"
    using deliver_ports_history [of to_vec "known_ports s" "[]" conn conn1 "{}"] Pair
    by (simp add: deliver_ports_def)
  with Pair assms(1) show ?thesis by (auto simp: port_inv_def port_subscribe_def)
qed

lemma port_reachable_inv: "port_reachable to_vec c \<Longrightarrow> port_inv to_vec c"
proof (induction rule: port_reachable.induct)
  case start
  show ?case by (simp add: port_inv_def port_monitor_start_def)
next
  case (step c c')
  from step.hyps(2) step.IH show ?case
    by cases (simp_all add: port_poll_inv port_subscribe_inv)
qed

text \<open>
  (C22) In every state the port monitor can reach, by any interleaving of poll rounds (with any
  scan result) and subscriptions, and whatever writes fail, the shared set of known ports is
  the last scan, and the bytes every subscriber in the list has been sent are the frames of a
  history of \<open>opened\<close> and \<open>closed\<close> events that replays to exactly that set.
\<close>

theorem port_subscribers_in_sync:
  assumes "port_reachable to_vec (prev, s)"
  shows "set (known_ports s) = set prev
    \<and> (\<forall>w \<in> set (port_subscribers s). \<exists>evs. w_out w = concat (map (port_event_bytes to_vec) evs)
          \<and> replay evs {} = set prev)"
  using port_reachable_inv [OF assms] by (auto simp: port_inv_def has_history_def)

lemma port_subscribers_in_sync_witness:
  "let s = \<lparr>known_ports = [80], port_subscribers = [sink [5, 0, 0, 0, 1, 80]]\<rparr>
   in set (known_ports s) = set [80]
      \<and> (\<forall>w \<in> set (port_subscribers s). \<exists>evs.
            w_out w = concat (map (port_event_bytes (\<lambda>m. Ok [ucast (pe_port m)])) evs) \<and> replay evs {} = set [80])"
proof -
  let ?tv = "\<lambda>m. Ok [ucast (pe_port m)] :: (byte list, string) result"
  let ?s1 = "\<lparr>known_ports = [], port_subscribers = [sink []]\<rparr>"
  let ?s2 = "\<lparr>known_ports = [80], port_subscribers = [sink [5, 0, 0, 0, 1, 80]]\<rparr>"
  have "port_step ?tv ([], port_monitor_start) ([], port_subscribe ?tv (sink []) port_monitor_start)"
    by (rule port_step.subscribe) simp
  moreover have "port_subscribe ?tv (sink []) port_monitor_start = ?s1"
    by (simp add: port_subscribe_def port_monitor_start_def)
  ultimately have "port_reachable ?tv ([], ?s1)" using port_reachable.start port_reachable.step by fastforce
  moreover have "port_step ?tv ([], ?s1) (port_poll_round ?tv [] [80] ?s1)" by (rule port_step.poll) simp
  moreover have "port_poll_round ?tv [] [80] ?s1 = ([80], ?s2)"
    by (simp add: port_poll_round_def hash_difference_def broadcast_def notify_ports_def
        send_port_event_def write_frame_def u32_to_be_bytes_def Let_def)
  ultimately have "port_reachable ?tv ([80], ?s2)" using port_reachable.step by fastforce
  from port_subscribers_in_sync [OF this] show ?thesis by (simp only: Let_def port_monitor_state.simps simp_thms)
qed

text \<open>
  A poll round keeps exactly the subscribers to which every event was written, each with
  all of them, no matter which fail and although removal reorders the list; the others are dropped.
\<close>

theorem port_poll_survivors:
  assumes "set current \<noteq> set prev"
  shows "mset (port_subscribers (snd (port_poll_round to_vec prev current s))) =
    image_mset (snd \<circ> deliver_ports to_vec (hash_difference current prev) (hash_difference prev current))
      (mset (filter (fst \<circ> deliver_ports to_vec (hash_difference current prev) (hash_difference prev current))
        (port_subscribers s)))"
proof -
  from assms have "hash_difference current prev \<noteq> [] \<or> hash_difference prev current \<noteq> []"
    by (auto simp: hash_difference_def filter_empty_conv)
  then show ?thesis by (simp add: port_poll_round_def Let_def ports.broadcast_survivors)
qed

lemma port_poll_survivors_witness:
  "mset (port_subscribers (snd (port_poll_round (\<lambda>m. Ok [ucast (pe_port m)]) [22] [80]
      \<lparr>known_ports = [22], port_subscribers =
         [\<lparr>w_out = [], w_faults = [Some (0, eof_error)], w_flushes = []\<rparr>, sink [1], sink [2]]\<rparr>)))
   = {# sink [1, 5, 0, 0, 0, 1, 80, 5, 0, 0, 0, 1, 22], sink [2, 5, 0, 0, 0, 1, 80, 5, 0, 0, 0, 1, 22] #}"
  using port_poll_survivors [of "[80]" "[22]" "\<lambda>m. Ok [ucast (pe_port m)]"
      "\<lparr>known_ports = [22], port_subscribers =
         [\<lparr>w_out = [], w_faults = [Some (0, eof_error)], w_flushes = []\<rparr>, sink [1], sink [2]]\<rparr>"]
  by (simp add: hash_difference_def deliver_ports_def send_port_event_def write_frame_def
      u32_to_be_bytes_def write_all_def flush_def)


section \<open>The kernel's table\<close>

text \<open>
  A row of \<open>/proc/net/tcp\<close>: slot, local and remote address and port, state, and the columns
  after it, with the padding the kernel puts before each column.
\<close>

record tcp_row =
  tr_slot :: string
  tr_local :: string
  tr_local_port :: u16
  tr_remote :: string
  tr_remote_port :: u16
  tr_state :: string
  tr_rest :: "(nat \<times> string) list"
  tr_pads :: "nat list"

definition address_word :: "string \<Rightarrow> u16 \<Rightarrow> string" where
  "address_word ip port = ip @ CHR '':'' # hex_upper_fixed 4 (unat port)"

definition row_words :: "tcp_row \<Rightarrow> string list" where
  "row_words r =
     [tr_slot r, address_word (tr_local r) (tr_local_port r),
      address_word (tr_remote r) (tr_remote_port r), tr_state r]"

definition row_line :: "tcp_row \<Rightarrow> string" where
  "row_line r = padded (zip (tr_pads r) (row_words r) @ tr_rest r)"

definition row_ok :: "tcp_row \<Rightarrow> bool" where
  "row_ok r \<longleftrightarrow> word (tr_slot r) \<and> word (tr_state r) \<and> list_all (\<lambda>(n, w). word w) (tr_rest r)
     \<and> list_all (\<lambda>c. graphic c \<and> c \<noteq> CHR '':'') (tr_local r)
     \<and> list_all (\<lambda>c. graphic c \<and> c \<noteq> CHR '':'') (tr_remote r) \<and> length (tr_pads r) = 4"

definition tcp_table :: "string \<Rightarrow> tcp_row list \<Rightarrow> string" where
  "tcp_table header rows = concat (map (\<lambda>l. l @ [CHR 0x0A]) (header # map row_line rows))"

lemma hex_upper_fixed_graphic:
  "list_all graphic (hex_upper_fixed k n)" "CHR '':'' \<notin> set (hex_upper_fixed k n)"
  using set_hex_upper_fixed [of _ k n] hex_upper_props(2,4) by (fastforce simp: list_all_iff)+

lemma address_word_word:
  "list_all (\<lambda>c. graphic c \<and> c \<noteq> CHR '':'') ip \<Longrightarrow> word (address_word ip port)"
  using hex_upper_fixed_graphic(1) [of 4 "unat port"]
  by (auto simp: word_def address_word_def list_all_iff graphic_def Let_def)

lemma row_columns:
  assumes "row_ok r"
  shows "split_whitespace (row_line r) = row_words r @ map snd (tr_rest r)" and "plain_line (row_line r)"
proof -
  from assms obtain a b c d where pads: "tr_pads r = [a, b, c, d]"
    by (auto simp: row_ok_def length_Suc_conv numeral_eq_Suc)
  have words: "list_all (\<lambda>(n, w). word w) (zip (tr_pads r) (row_words r) @ tr_rest r)"
    using assms address_word_word by (simp add: pads row_words_def row_ok_def)
  show "split_whitespace (row_line r) = row_words r @ map snd (tr_rest r)"
    unfolding row_line_def split_whitespace_padded [OF words] by (simp add: pads row_words_def)
  show "plain_line (row_line r)" unfolding row_line_def by (rule padded_plain [OF words])
qed

lemma table_lines:
  assumes "plain_line header" and "list_all row_ok rows"
  shows "drop 1 (lines (tcp_table header rows)) = map row_line rows"
proof -
  have "list_all plain_line (header # map row_line rows)"
    using assms row_columns(2) by (auto simp: list_all_iff)
  then show ?thesis unfolding tcp_table_def by (simp add: lines_concat del: list.map concat.simps)
qed

lemma port_of_row:
  assumes "row_ok r"
  shows "port_of_line (row_line r) =
    (if tr_state r = ''0A'' \<and> tr_local_port r \<noteq> 0 then Some (tr_local_port r) else None)"
proof -
  have "CHR '':'' \<notin> set (tr_local r)" using assms by (auto simp: row_ok_def list_all_iff)
  then have "split_on (CHR '':'') (address_word (tr_local r) (tr_local_port r)) =
      [tr_local r, hex_upper_fixed 4 (unat (tr_local_port r))]"
    using hex_upper_fixed_graphic(2) by (simp add: address_word_def split_on_first split_on_none)
  then show ?thesis
    using parse_u16_hex_upper [of "tr_local_port r"]
    by (cases "tr_local_port r = 0")
      (simp_all add: port_of_line_def row_columns(1) [OF assms] row_words_def word_gt_0)
qed

lemma fold_collect:
  "set (fold (\<lambda>l ps. case f l of None \<Rightarrow> ps | Some p \<Rightarrow> hash_insert p ps) ls acc) =
     set acc \<union> {p. \<exists>l \<in> set ls. f l = Some p}"
  "distinct (fold (\<lambda>l ps. case f l of None \<Rightarrow> ps | Some p \<Rightarrow> hash_insert p ps) ls acc) \<longleftrightarrow> distinct acc"
  by (induction ls arbitrary: acc) (auto split: option.splits)




section \<open>The network monitor\<close>

record conn =
  c_remote :: string
  c_port :: u16
  c_state :: string

record network_monitor_state =
  known_connections :: "conn list"
  network_subscribers :: "writer list"

definition network_monitor_start :: network_monitor_state where
  "network_monitor_start = \<lparr>known_connections = [], network_subscribers = []\<rparr>"

text \<open>The slices of both address parsers panic off a character boundary; that is \<open>None\<close> outside.\<close>

definition parse_v4 :: "string \<Rightarrow> string option option" where
  "parse_v4 hex =
     (if length hex \<noteq> 8 then Some None
      else case those (map (\<lambda>i. str_slice (i * 2) (i * 2 + 2) hex) [0..<4]) of
             None \<Rightarrow> None
           | Some ss \<Rightarrow>
               (let bytes = map (\<lambda>s. unwrap_or (parse_u8_radix 16 s) 0) ss;
                    show = (\<lambda>i. show_nat (unat (bytes ! i)))
                in Some (Some (show 3 @ ''.'' @ show 2 @ ''.'' @ show 1 @ ''.'' @ show 0))))"

definition parse_v6_word :: "string \<Rightarrow> nat \<Rightarrow> string list option" where
  "parse_v6_word hex w =
     (case str_slice (w * 8) (w * 8 + 8) hex of
        None \<Rightarrow> None
      | Some chunk \<Rightarrow>
          (case those (map (\<lambda>i. str_slice (i * 2) (i * 2 + 2) chunk) [0..<4]) of
             None \<Rightarrow> None
           | Some bytes \<Rightarrow> Some [bytes ! 3 @ bytes ! 2, bytes ! 1 @ bytes ! 0]))"

definition parse_v6 :: "string \<Rightarrow> string option option" where
  "parse_v6 hex =
     (if length hex \<noteq> 32 then Some None
      else case those (map (parse_v6_word hex) [0..<4]) of
             None \<Rightarrow> None
           | Some parts \<Rightarrow> Some (Some (join_with '':'' (concat parts))))"

text \<open>One line of \<open>collect\<close>: outside \<open>None\<close> is a panic, inside it is \<open>continue\<close>.\<close>

definition conn_of_line :: "bool \<Rightarrow> string \<Rightarrow> conn option option" where
  "conn_of_line v6 line =
     (let parts = split_whitespace line
      in if length parts < 4 then Some None
         else case (if parts ! 3 = ''01'' then Some ''established''
                    else if parts ! 3 = ''02'' then Some ''syn_sent'' else None) of
                None \<Rightarrow> Some None
              | Some state \<Rightarrow>
                  (case split_once (CHR '':'') (parts ! 2) of
                     None \<Rightarrow> Some None
                   | Some (ip_hex, port_hex) \<Rightarrow>
                       (case parse_u16_radix 16 port_hex of
                          None \<Rightarrow> Some None
                        | Some port \<Rightarrow>
                            (case (if v6 then parse_v6 ip_hex else parse_v4 ip_hex) of
                               None \<Rightarrow> None
                             | Some None \<Rightarrow> Some None
                             | Some (Some ip) \<Rightarrow>
                                 if starts_with ''127.'' ip \<or> ip = ''::1'' \<or> starts_with ''0.0.0.0'' ip
                                 then Some None
                                 else Some (Some \<lparr>c_remote = ip, c_port = port, c_state = state\<rparr>)))))"

fun collect_lines :: "bool \<Rightarrow> string list \<Rightarrow> conn list \<Rightarrow> conn list option" where
  "collect_lines v6 [] out = Some out"
| "collect_lines v6 (line # ls) out =
     (case conn_of_line v6 line of
        None \<Rightarrow> None
      | Some None \<Rightarrow> collect_lines v6 ls out
      | Some (Some c) \<Rightarrow> collect_lines v6 ls (hash_insert c out))"

definition collect :: "string \<Rightarrow> bool \<Rightarrow> conn list \<Rightarrow> conn list option" where
  "collect data v6 out = collect_lines v6 (drop 1 (lines data)) out"

definition scan_connections :: "(path \<Rightarrow> string io_result) \<Rightarrow> conn list option" where
  "scan_connections read_to_string =
     (case (case read_to_string ''/proc/net/tcp'' of Ok data \<Rightarrow> collect data False [] | Err _ \<Rightarrow> Some []) of
        None \<Rightarrow> None
      | Some current \<Rightarrow>
          (case read_to_string ''/proc/net/tcp6'' of Ok data \<Rightarrow> collect data True current | Err _ \<Rightarrow> Some current))"

definition send_network_event ::
  "(network_event_msg \<Rightarrow> (byte list, string) result) \<Rightarrow> conn \<Rightarrow> writer \<Rightarrow> unit io_result \<times> writer" where
  "send_network_event to_vec c stream =
     (case to_vec \<lparr>ne_remote = c_remote c, ne_port = c_port c, ne_state = c_state c\<rparr> of
        Err e \<Rightarrow> (Err (IoError OtherKind None e), stream)
      | Ok json \<Rightarrow> write_frame NetworkEvent json stream)"

text \<open>The loop body for one subscriber. The diagnostic line it prints per event is not modelled.\<close>

definition notify_connections ::
  "(network_event_msg \<Rightarrow> (byte list, string) result) \<Rightarrow> conn list
     \<Rightarrow> nat \<Rightarrow> nat list \<Rightarrow> writer \<Rightarrow> nat list \<times> writer" where
  "notify_connections to_vec opened i dead sub =
     (let (ok, sub1) = send_each (send_network_event to_vec) opened sub
      in (if ok then dead else dead @ [i], sub1))"

definition network_poll_round ::
  "(network_event_msg \<Rightarrow> (byte list, string) result) \<Rightarrow> conn list \<Rightarrow> conn list \<Rightarrow> network_monitor_state
     \<Rightarrow> conn list \<times> network_monitor_state" where
  "network_poll_round to_vec seen current s =
     (let opened = hash_difference current seen
      in (current,
          if opened \<noteq> []
          then s\<lparr>known_connections := current,
                 network_subscribers := broadcast (notify_connections to_vec opened) (network_subscribers s)\<rparr>
          else s\<lparr>known_connections := current\<rparr>))"

definition network_subscribe :: "writer \<Rightarrow> network_monitor_state \<Rightarrow> network_monitor_state" where
  "network_subscribe conn s = s\<lparr>network_subscribers := network_subscribers s @ [conn]\<rparr>"

definition network_event_bytes ::
  "(network_event_msg \<Rightarrow> (byte list, string) result) \<Rightarrow> conn \<Rightarrow> byte list" where
  "network_event_bytes to_vec c =
     (case to_vec \<lparr>ne_remote = c_remote c, ne_port = c_port c, ne_state = c_state c\<rparr> of
        Ok json \<Rightarrow> frame_bytes (message_type_as_u8 NetworkEvent) json | Err _ \<Rightarrow> [])"

interpretation connections: notifier "notify_connections to_vec opened"
  "send_each (send_network_event to_vec) opened"
  by unfold_locales (auto simp: notify_connections_def Let_def split: prod.splits)

interpretation network_events: event_sender "send_network_event to_vec" "network_event_bytes to_vec"
  by unfold_locales
    (auto simp: send_network_event_def network_event_bytes_def write_frame_session
      dest!: session_write_frame_Ok_out split: result.splits)

text \<open>A run of poll rounds, each with its scan, from the thread's \<open>seen\<close> set.\<close>

fun network_polls ::
  "(network_event_msg \<Rightarrow> (byte list, string) result) \<Rightarrow> conn list list \<Rightarrow> conn list \<Rightarrow> network_monitor_state
     \<Rightarrow> conn list \<times> network_monitor_state" where
  "network_polls to_vec [] seen s = (seen, s)"
| "network_polls to_vec (current # scans) seen s =
     (let (seen1, s1) = network_poll_round to_vec seen current s in network_polls to_vec scans seen1 s1)"

text \<open>What appeared between consecutive scans, in order.\<close>

fun appeared :: "conn list \<Rightarrow> conn list list \<Rightarrow> conn list" where
  "appeared seen [] = []"
| "appeared seen (current # scans) = hash_difference current seen @ appeared current scans"

lemma network_poll_round_subscribers:
  assumes "w' \<in> set (network_subscribers (snd (network_poll_round to_vec seen current s)))"
  shows "\<exists>w \<in> set (network_subscribers s).
    w_out w' = w_out w @ concat (map (network_event_bytes to_vec) (hash_difference current seen))"
  using assms network_events.send_each_out
  by (fastforce simp: network_poll_round_def Let_def connections.broadcast_member split: if_splits)

lemma network_polls_subscribers:
  "w' \<in> set (network_subscribers (snd (network_polls to_vec scans seen s))) \<Longrightarrow>
   \<exists>w \<in> set (network_subscribers s).
     w_out w' = w_out w @ concat (map (network_event_bytes to_vec) (appeared seen scans))"
proof (induction scans arbitrary: seen s)
  case (Cons current scans)
  obtain s1 where s1: "network_poll_round to_vec seen current s = (current, s1)"
    by (simp add: network_poll_round_def Let_def)
  with Cons obtain w where "w \<in> set (network_subscribers s1)"
      "w_out w' = w_out w @ concat (map (network_event_bytes to_vec) (appeared current scans))"
    by auto
  with network_poll_round_subscribers [of w to_vec seen current s] s1 show ?case by auto
qed auto

text \<open>
  What a subscriber of the network monitor gets: over any number of poll rounds, whatever
  fails, every subscriber still in the list was sent exactly the connections that appeared
  from one scan to the next since it subscribed, in order, once each, and nothing else.
\<close>

theorem network_stream:
  assumes "w' \<in> set (network_subscribers (snd (network_polls to_vec scans seen s)))"
    and "\<forall>w \<in> set (network_subscribers s). w_out w = []"
  shows "w_out w' = concat (map (network_event_bytes to_vec) (appeared seen scans))"
  using network_polls_subscribers [OF assms(1)] assms(2) by auto


lemma network_stream_witness:
  "w_out (sink [9, 0, 0, 0, 1, 53]) =
     concat (map (network_event_bytes (\<lambda>m. Ok [ucast (ne_port m)]))
       (appeared [] [[\<lparr>c_remote = ''8.8.8.8'', c_port = 53, c_state = ''syn_sent''\<rparr>], []]))"
  by (rule network_stream [of _ _ _ _ "\<lparr>known_connections = [], network_subscribers = [sink []]\<rparr>"])
    (simp_all add: network_poll_round_def hash_difference_def broadcast_def notify_connections_def
      send_network_event_def write_frame_def u32_to_be_bytes_def Let_def)

lemma those_map_Some: "those (map (\<lambda>x. Some (f x)) xs) = Some (map f xs)"
  by (induction xs) simp_all

lemma parse_v6_graphic:
  assumes "list_all graphic hex" and "length hex = 32"
  shows "\<exists>a rest. parse_v6 hex = Some (Some (a @ CHR '':'' # rest)) \<and> length a = 4 \<and> set a \<subseteq> set hex"
proof -
  let ?part = "\<lambda>w i. take 2 (drop (w * 8 + i * 2) hex)"
  have slice: "str_slice (i * 2) (i * 2 + 2) (take 8 (drop (w * 8) hex)) = Some (?part w i)"
    if "i < 4" "w < 4" for i w
  proof -
    have "list_all graphic (take 8 (drop (w * 8) hex))"
      using assms(1) by (auto simp: list_all_iff dest: in_set_takeD in_set_dropD)
    then show ?thesis using that assms(2)
      by (subst str_slice_graphic) (simp add: drop_take min_def add.commute; arith)+
  qed
  have word: "parse_v6_word hex w = Some [?part w 3 @ ?part w 2, ?part w 1 @ ?part w 0]" if "w < 4" for w
  proof -
    have "str_slice (w * 8) (w * 8 + 8) hex = Some (take 8 (drop (w * 8) hex))"
      using that assms by (simp add: str_slice_graphic)
    moreover
    have "map (\<lambda>i. str_slice (i * 2) (i * 2 + 2) (take 8 (drop (w * 8) hex))) [0..<4]
        = map (\<lambda>i. Some (?part w i)) [0..<4]"
      using slice that by (intro map_cong) auto
    then have "those (map (\<lambda>i. str_slice (i * 2) (i * 2 + 2) (take 8 (drop (w * 8) hex))) [0..<4])
        = Some (map (?part w) [0..<4])" by (simp only: those_map_Some)
    ultimately show ?thesis unfolding parse_v6_word_def by simp
  qed
  then have "map (parse_v6_word hex) [0..<4]
      = map (\<lambda>w. Some [?part w 3 @ ?part w 2, ?part w 1 @ ?part w 0]) [0..<4]"
    by (intro map_cong) auto
  then have "those (map (parse_v6_word hex) [0..<4])
      = Some (map (\<lambda>w. [?part w 3 @ ?part w 2, ?part w 1 @ ?part w 0]) [0..<4])"
    by (simp only: those_map_Some)
  then have "parse_v6 hex = Some (Some ((?part 0 3 @ ?part 0 2) @ CHR '':'' #
      join_with '':'' ((?part 0 1 @ ?part 0 0) # concat (map (\<lambda>w. [?part w 3 @ ?part w 2, ?part w 1 @ ?part w 0]) [1, 2, 3]))))"
    using assms(2) unfolding parse_v6_def by (simp add: upt_rec)
  moreover have "length (?part 0 3 @ ?part 0 2) = 4" using assms(2) by simp
  moreover have "set (?part 0 3 @ ?part 0 2) \<subseteq> set hex" by (auto dest: in_set_takeD in_set_dropD)
  ultimately show ?thesis by blast
qed

text \<open>
  The loopback filter never applies to IPv6: every established row of \<open>/proc/net/tcp6\<close>
  with a 32-digit remote address is reported, \<open>::1\<close> included, because addresses are printed
  as eight full groups and compared with the short form.
\<close>

theorem v6_never_filtered:
  assumes "row_ok r" and "tr_state r = ''01''" and "length (tr_remote r) = 32" and "CHR ''.'' \<notin> set (tr_remote r)"
  shows "\<exists>ip. conn_of_line True (row_line r) =
    Some (Some \<lparr>c_remote = ip, c_port = tr_remote_port r, c_state = ''established''\<rparr>)"
proof -
  have remote: "list_all graphic (tr_remote r)" "CHR '':'' \<notin> set (tr_remote r)"
    using assms(1) by (auto simp: row_ok_def list_all_iff)
  from parse_v6_graphic [OF remote(1) assms(3)] obtain a rest where
    ip: "parse_v6 (tr_remote r) = Some (Some (a @ CHR '':'' # rest))" "length a = 4" "set a \<subseteq> set (tr_remote r)"
    by blast
  from ip(2) obtain c0 c1 c2 c3 where a: "a = [c0, c1, c2, c3]" by (auto simp: length_Suc_conv numeral_eq_Suc)
  have "c3 \<noteq> CHR ''.''" "c0 \<noteq> CHR '':''" using a ip(3) assms(4) remote(2) by auto
  then show ?thesis
    using ip(1) remote(2) assms(2) parse_u16_hex_upper [of "tr_remote_port r"]
    by (simp add: conn_of_line_def row_columns(1) [OF assms(1)] row_words_def address_word_def
        split_once_first a starts_with_def Let_def)
qed

lemma v6_never_filtered_witness:
  "\<exists>ip. conn_of_line True (row_line \<lparr>tr_slot = ''0:'', tr_local = ''00000000000000000000000001000000'',
       tr_local_port = 40000, tr_remote = ''00000000000000000000000001000000'', tr_remote_port = 5432,
       tr_state = ''01'', tr_rest = [], tr_pads = [2, 0, 0, 0]\<rparr>) =
     Some (Some \<lparr>c_remote = ip, c_port = 5432, c_state = ''established''\<rparr>)"
  using v6_never_filtered [of "\<lparr>tr_slot = ''0:'', tr_local = ''00000000000000000000000001000000'',
       tr_local_port = 40000, tr_remote = ''00000000000000000000000001000000'', tr_remote_port = 5432,
       tr_state = ''01'', tr_rest = [], tr_pads = [2, 0, 0, 0]\<rparr>"]
  by (simp add: row_ok_def word_def graphic_def Let_def)

end
