(* ===== verification/Guest_Process.thy ===== *)
theory Guest_Process
  imports Frame_Protocol Base64 Rust_Strings
begin

text \<open>
  Running a command in the guest (fendd/src/process.rs): the environment and identity of the
  command, the system calls between fork and exec, the two ways to spawn, the threads that
  carry its output to the host and the final exit status. What the kernel answers is the
  record \<open>spawn_os\<close>; \<open>to_vec\<close> is the JSON printer. The Linux branches of the conditionally
  compiled functions are modelled.
\<close>

section \<open>Environment and identity\<close>

definition resolve_command_identity :: "(string \<Rightarrow> (u32 \<times> u32) io_result) \<Rightarrow> string \<Rightarrow> u32 \<times> u32" where
  "resolve_command_identity metadata cwd = (case metadata cwd of Ok ids \<Rightarrow> ids | Err _ \<Rightarrow> (1000, 1000))"

text \<open>A \<open>HashMap\<close> as a map; \<open>path_var\<close> is the agent's own \<open>PATH\<close>, empty when unset.\<close>

definition or_insert :: "string \<Rightarrow> string \<Rightarrow> (string \<rightharpoonup> string) \<Rightarrow> string \<rightharpoonup> string" where
  "or_insert k v m = (case m k of None \<Rightarrow> m(k \<mapsto> v) | Some _ \<Rightarrow> m)"

definition build_env :: "string option \<Rightarrow> execute_command \<Rightarrow> u32 \<Rightarrow> string \<rightharpoonup> string" where
  "build_env path_var cmd target_uid =
     (let env0 = map_of (ec_env cmd);
          prepend = env0 ''FEND_TOOL_PATH_PREPEND'';
          env1 = env0(''FEND_TOOL_PATH_PREPEND'' := None);
          entries1 = (case prepend of Some v \<Rightarrow> if v \<noteq> [] then [v] else [] | None \<Rightarrow> []);
          entries2 = entries1 @ [''/home/user/.local/bin''];
          inherited = unwrap_or path_var [];
          entries3 = (if inherited \<noteq> [] then entries2 @ [inherited] else entries2);
          path = join_with '':'' entries3;
          (home, user, npm_cache) =
            (if target_uid = 0 then (''/root'', ''root'', ''/root/.npm'')
             else (''/home/user'', ''user'', ''/home/user/.npm''));
          env2 = env1(''PATH'' \<mapsto> path, ''HOME'' \<mapsto> home, ''USER'' \<mapsto> user);
          env3 = or_insert ''NPM_CONFIG_CACHE'' npm_cache env2;
          env4 = or_insert ''COREPACK_HOME'' (home @ ''/.cache/node/corepack'') env3
      in if ec_tty cmd then env4(''TERM'' \<mapsto> unwrap_or (env4 ''TERM'') ''xterm-256color'') else env4)"

section \<open>Between fork and exec\<close>

text \<open>
  The system calls of \<open>pre_exec\<close> and their documented effect on the credentials of the child.
\<close>

datatype syscall =
    UnshareNewnet | PrctlNoNewPrivs | SetgroupsEmpty | Setgid u32 | Setuid u32 | CapsetEmpty
  | Setsid | Tiocsctty

record cred =
  cr_uid :: u32
  cr_gid :: u32
  cr_groups :: "u32 list"
  cr_no_new_privs :: bool
  cr_caps :: bool
  cr_own_netns :: bool
  cr_session_leader :: bool
  cr_ctty :: bool
  cr_trace :: "syscall list"

fun syscall_effect :: "syscall \<Rightarrow> cred \<Rightarrow> cred" where
  "syscall_effect UnshareNewnet c = c\<lparr>cr_own_netns := True\<rparr>"
| "syscall_effect PrctlNoNewPrivs c = c\<lparr>cr_no_new_privs := True\<rparr>"
| "syscall_effect SetgroupsEmpty c = c\<lparr>cr_groups := []\<rparr>"
| "syscall_effect (Setgid g) c = c\<lparr>cr_gid := g\<rparr>"
| "syscall_effect (Setuid u) c = c\<lparr>cr_uid := u\<rparr>"
| "syscall_effect CapsetEmpty c = c\<lparr>cr_caps := False\<rparr>"
| "syscall_effect Setsid c = c\<lparr>cr_session_leader := True\<rparr>"
| "syscall_effect Tiocsctty c = c\<lparr>cr_ctty := True\<rparr>"

text \<open>\<open>fault s\<close> is the error the kernel returns for \<open>s\<close>, if any.\<close>

definition sys :: "(syscall \<Rightarrow> io_error option) \<Rightarrow> syscall \<Rightarrow> cred \<Rightarrow> unit io_result \<times> cred" where
  "sys fault s c =
     (let c1 = c\<lparr>cr_trace := cr_trace c @ [s]\<rparr>
      in case fault s of Some e \<Rightarrow> (Err e, c1) | None \<Rightarrow> (Ok (), syscall_effect s c1))"

definition apply_network_policy ::
  "(syscall \<Rightarrow> io_error option) \<Rightarrow> string option \<Rightarrow> cred \<Rightarrow> unit io_result \<times> cred" where
  "apply_network_policy fault network_mode c =
     (if network_mode = Some ''off'' then sys fault UnshareNewnet c else (Ok (), c))"

definition drop_root :: "(syscall \<Rightarrow> io_error option) \<Rightarrow> u32 \<Rightarrow> u32 \<Rightarrow> cred \<Rightarrow> unit io_result \<times> cred" where
  "drop_root fault uid gid c =
     (case sys fault PrctlNoNewPrivs c of
        (Err e, c1) \<Rightarrow> (Err e, c1)
      | (Ok _, c1) \<Rightarrow> (case sys fault SetgroupsEmpty c1 of
        (Err e, c2) \<Rightarrow> (Err e, c2)
      | (Ok _, c2) \<Rightarrow> (case sys fault (Setgid gid) c2 of
        (Err e, c3) \<Rightarrow> (Err e, c3)
      | (Ok _, c3) \<Rightarrow> (case sys fault (Setuid uid) c3 of
        (Err e, c4) \<Rightarrow> (Err e, c4)
      | (Ok _, c4) \<Rightarrow> (Ok (), snd (sys fault CapsetEmpty c4))))))"

definition prepare_child ::
  "(syscall \<Rightarrow> io_error option) \<Rightarrow> string option \<Rightarrow> u32 \<Rightarrow> u32 \<Rightarrow> cred \<Rightarrow> unit io_result \<times> cred" where
  "prepare_child fault network_mode uid gid c =
     (case apply_network_policy fault network_mode c of
        (Err e, c1) \<Rightarrow> (Err e, c1)
      | (Ok _, c1) \<Rightarrow> drop_root fault uid gid c1)"

text \<open>The closure of \<open>spawn_pty\<close>.\<close>

definition prepare_pty_child ::
  "(syscall \<Rightarrow> io_error option) \<Rightarrow> string option \<Rightarrow> u32 \<Rightarrow> u32 \<Rightarrow> cred \<Rightarrow> unit io_result \<times> cred" where
  "prepare_pty_child fault network_mode uid gid c =
     (case prepare_child fault network_mode uid gid c of
        (Err e, c1) \<Rightarrow> (Err e, c1)
      | (Ok _, c1) \<Rightarrow> (case sys fault Setsid c1 of
        (Err e, c2) \<Rightarrow> (Err e, c2)
      | (Ok _, c2) \<Rightarrow> sys fault Tiocsctty c2))"

section \<open>Output frames\<close>

definition send_output ::
  "(output_data \<Rightarrow> (byte list, string) result) \<Rightarrow> u64 \<Rightarrow> string \<Rightarrow> byte list \<Rightarrow> writer \<Rightarrow> unit io_result \<times> writer" where
  "send_output to_vec cid stream data w =
     (case to_vec \<lparr>od_id = cid, od_stream = stream, od_data = base64_encode data\<rparr> of
        Err e \<Rightarrow> (Err (IoError OtherKind None e), w)
      | Ok json \<Rightarrow> write_frame OutputData json w)"

definition send_exit ::
  "(exit_status_msg \<Rightarrow> (byte list, string) result) \<Rightarrow> u64 \<Rightarrow> int \<Rightarrow> writer \<Rightarrow> writer" where
  "send_exit to_vec cid code w =
     (case to_vec \<lparr>es_id = cid, es_code = code\<rparr> of
        Err _ \<Rightarrow> w
      | Ok json \<Rightarrow> snd (write_frame ExitStatus json w))"

definition OUTPUT_BUFFER :: nat where
  "OUTPUT_BUFFER = 8192"

text \<open>One iteration of the loop of \<open>stream_pipe\<close>; \<open>None\<close> leaves the loop.\<close>

definition stream_iter ::
  "(output_data \<Rightarrow> (byte list, string) result) \<Rightarrow> u64 \<Rightarrow> string \<Rightarrow> reader \<Rightarrow> writer \<Rightarrow> reader option \<times> writer" where
  "stream_iter to_vec cid stream r w =
     (case read_some OUTPUT_BUFFER r of
        (Err _, _) \<Rightarrow> (None, w)
      | (Ok data, r1) \<Rightarrow>
          if data = [] then (None, w)
          else (case send_output to_vec cid stream data w of
                  (Err _, w1) \<Rightarrow> (None, w1)
                | (Ok _, w1) \<Rightarrow> (Some r1, w1)))"

lemma stream_iter_smaller:
  "stream_iter to_vec cid stream r w = (Some r', w') \<Longrightarrow> reader_size r' < reader_size r"
  by (auto simp: stream_iter_def dest: read_some_smaller split: prod.splits result.splits if_splits)

function stream_pipe ::
  "(output_data \<Rightarrow> (byte list, string) result) \<Rightarrow> u64 \<Rightarrow> string \<Rightarrow> reader \<Rightarrow> writer \<Rightarrow> writer" where
  "stream_pipe to_vec cid stream r w =
     (case stream_iter to_vec cid stream r w of
        (None, w1) \<Rightarrow> w1
      | (Some r1, w1) \<Rightarrow> stream_pipe to_vec cid stream r1 w1)"
  by pat_completeness auto
termination
  by (relation "measure (\<lambda>(to_vec, cid, stream, r, w). reader_size r)") (auto dest: sym stream_iter_smaller)

declare stream_pipe.simps [simp del]

section \<open>Spawning\<close>

text \<open>
  What the machine answers: the owner of a path, the agent's \<open>PATH\<close>, the outcome of
  \<open>openpty\<close>, the faults of the system calls above, and the process id or error of fork and
  exec. A successful spawn is described by its \<open>child\<close>.
\<close>

record child =
  ch_pid :: u32
  ch_cmd :: string
  ch_args :: "string list"
  ch_env :: "string \<rightharpoonup> string"
  ch_cwd :: string
  ch_cred :: cred

record spawn_os =
  so_metadata :: "string \<Rightarrow> (u32 \<times> u32) io_result"
  so_path_var :: "string option"
  so_openpty :: "(int \<times> int) io_result"
  so_fault :: "syscall \<Rightarrow> io_error option"
  so_exec :: "string \<Rightarrow> u32 io_result"
  so_cred :: cred

datatype spawn_result = Piped child | Pty child int

text \<open>\<open>Command::spawn\<close>: the closure runs in the child, and its error is the error of the spawn.\<close>

definition command_spawn ::
  "spawn_os \<Rightarrow> execute_command \<Rightarrow> (string \<rightharpoonup> string) \<Rightarrow> (cred \<Rightarrow> unit io_result \<times> cred) \<Rightarrow> child io_result" where
  "command_spawn os cmd env pre_exec =
     (case pre_exec (so_cred os) of
        (Err e, _) \<Rightarrow> Err e
      | (Ok _, c) \<Rightarrow>
          (case so_exec os (ec_cmd cmd) of
             Err e \<Rightarrow> Err e
           | Ok pid \<Rightarrow> Ok \<lparr>ch_pid = pid, ch_cmd = ec_cmd cmd, ch_args = ec_args cmd, ch_env = env,
                            ch_cwd = ec_cwd cmd, ch_cred = c\<rparr>))"

definition spawn_error_text :: "(io_error \<Rightarrow> string) \<Rightarrow> execute_command \<Rightarrow> io_error \<Rightarrow> string" where
  "spawn_error_text show_error cmd e =
     (let newline = (if ec_tty cmd then [CHR 0x0D, CHR 0x0A] else [CHR 0x0A])
      in if io_kind e = NotFound then ''fendd: command not found: '' @ ec_cmd cmd @ newline
         else ''fendd: exec '' @ ec_cmd cmd @ '': '' @ show_error e @ newline)"

record agent_json =
  js_output :: "output_data \<Rightarrow> (byte list, string) result"
  js_exit :: "exit_status_msg \<Rightarrow> (byte list, string) result"

definition report_failure :: "agent_json \<Rightarrow> u64 \<Rightarrow> string \<Rightarrow> writer \<Rightarrow> writer" where
  "report_failure js cid msg w =
     send_exit (js_exit js) cid 127 (snd (send_output (js_output js) cid ''stderr'' (as_bytes msg) w))"

definition spawn ::
  "spawn_os \<Rightarrow> agent_json \<Rightarrow> (io_error \<Rightarrow> string) \<Rightarrow> execute_command \<Rightarrow> writer \<Rightarrow> (spawn_result, unit) result \<times> writer" where
  "spawn os js show_error cmd w =
     (let (uid, gid) = resolve_command_identity (so_metadata os) (ec_cwd cmd);
          env = build_env (so_path_var os) cmd uid;
          network_mode = env ''FEND_NETWORK_MODE''
      in case command_spawn os cmd env (prepare_child (so_fault os) network_mode uid gid) of
           Err e \<Rightarrow> (Err (), report_failure js (ec_id cmd) (spawn_error_text show_error cmd e) w)
         | Ok c \<Rightarrow> (Ok (Piped c), w))"

definition spawn_pty ::
  "spawn_os \<Rightarrow> agent_json \<Rightarrow> (io_error \<Rightarrow> string) \<Rightarrow> execute_command \<Rightarrow> writer \<Rightarrow> (spawn_result, unit) result \<times> writer" where
  "spawn_pty os js show_error cmd w =
     (let (uid, gid) = resolve_command_identity (so_metadata os) (ec_cwd cmd);
          env = build_env (so_path_var os) cmd uid;
          network_mode = env ''FEND_NETWORK_MODE''
      in case so_openpty os of
           Err e \<Rightarrow> (Err (), report_failure js (ec_id cmd) (''fendd: openpty: '' @ show_error e @ [CHR 0x0A]) w)
         | Ok (master, slave) \<Rightarrow>
             (case command_spawn os cmd env (prepare_pty_child (so_fault os) network_mode uid gid) of
                Err e \<Rightarrow> (Err (), report_failure js (ec_id cmd) (spawn_error_text show_error cmd e) w)
              | Ok c \<Rightarrow> (Ok (Pty c master), w)))"

definition exit_code :: "int option io_result \<Rightarrow> int" where
  "exit_code status = (case status of Ok (Some code) \<Rightarrow> code | Ok None \<Rightarrow> -1 | Err _ \<Rightarrow> -1)"

text \<open>The waiter thread, once the output threads have been joined; \<open>wait\<close> is the child's status.\<close>

definition waiter ::
  "agent_json \<Rightarrow> u64 \<Rightarrow> int option io_result \<Rightarrow> writer \<Rightarrow> writer" where
  "waiter js cid wait w = send_exit (js_exit js) cid (exit_code wait) w"


section \<open>The privileges of a command\<close>

lemma or_insert_lookup: "or_insert k v m j = (if j = k then Some (unwrap_or (m k) v) else m j)"
  by (simp add: or_insert_def unwrap_or_def split: option.split)

lemma build_env_network_mode [simp]:
  "build_env p cmd uid ''FEND_NETWORK_MODE'' = map_of (ec_env cmd) ''FEND_NETWORK_MODE''"
  by (cases "uid = 0") (simp_all add: build_env_def or_insert_lookup Let_def)

text \<open>Which variables a request cannot set, and what they are.\<close>

lemma build_env_fixed:
  "build_env p cmd uid ''HOME'' = Some (if uid = 0 then ''/root'' else ''/home/user'')"
  "build_env p cmd uid ''USER'' = Some (if uid = 0 then ''root'' else ''user'')"
  "build_env p cmd uid ''FEND_TOOL_PATH_PREPEND'' = None"
  by (cases "uid = 0"; simp add: build_env_def or_insert_lookup Let_def)+

text \<open>The calls of a complete \<open>prepare_child\<close>, in order.\<close>

definition prepare_trace :: "string option \<Rightarrow> u32 \<Rightarrow> u32 \<Rightarrow> syscall list" where
  "prepare_trace network_mode uid gid =
     (if network_mode = Some ''off'' then [UnshareNewnet] else [])
       @ [PrctlNoNewPrivs, SetgroupsEmpty, Setgid gid, Setuid uid, CapsetEmpty]"

definition confined :: "(syscall \<Rightarrow> io_error option) \<Rightarrow> string option \<Rightarrow> u32 \<Rightarrow> u32 \<Rightarrow> cred \<Rightarrow> cred \<Rightarrow> bool" where
  "confined fault network_mode uid gid c c' \<longleftrightarrow>
     cr_uid c' = uid \<and> cr_gid c' = gid \<and> cr_groups c' = [] \<and> cr_no_new_privs c'
     \<and> (cr_caps c' \<longrightarrow> fault CapsetEmpty \<noteq> None) \<and> (network_mode = Some ''off'' \<longrightarrow> cr_own_netns c')
     \<and> (\<exists>rest. cr_trace c' = cr_trace c @ prepare_trace network_mode uid gid @ rest)"

lemma prepare_child_confined:
  "prepare_child fault mode uid gid c = (Ok (), c') \<Longrightarrow> confined fault mode uid gid c c'"
  by (auto simp: prepare_child_def apply_network_policy_def drop_root_def sys_def confined_def
      prepare_trace_def Let_def split: option.splits if_splits)

lemma prepare_pty_child_confined:
  assumes "prepare_pty_child fault mode uid gid c = (Ok (), c')"
  shows "confined fault mode uid gid c c'"
proof -
  from assms obtain c1 where "prepare_child fault mode uid gid c = (Ok (), c1)"
    and c': "cr_trace c' = cr_trace c1 @ [Setsid, Tiocsctty]"
      "cr_uid c' = cr_uid c1" "cr_gid c' = cr_gid c1" "cr_groups c' = cr_groups c1"
      "cr_no_new_privs c' = cr_no_new_privs c1" "cr_caps c' = cr_caps c1" "cr_own_netns c' = cr_own_netns c1"
    by (auto simp: prepare_pty_child_def sys_def Let_def split: prod.splits result.splits option.splits)
  with prepare_child_confined show ?thesis by (fastforce simp: confined_def)
qed

text \<open>Every call but \<open>capset\<close> is mandatory.\<close>

definition mandatory :: "string option \<Rightarrow> u32 \<Rightarrow> u32 \<Rightarrow> syscall set" where
  "mandatory network_mode uid gid =
     (if network_mode = Some ''off'' then {UnshareNewnet} else {})
       \<union> {PrctlNoNewPrivs, SetgroupsEmpty, Setgid gid, Setuid uid}"

lemma prepare_child_fails:
  "s \<in> mandatory mode uid gid \<Longrightarrow> fault s \<noteq> None \<Longrightarrow> fst (prepare_child fault mode uid gid c) \<noteq> Ok ()"
  by (auto simp: mandatory_def prepare_child_def apply_network_policy_def drop_root_def sys_def Let_def
      split: if_splits option.splits)

lemma prepare_child_unit: "fst (prepare_child fault mode uid gid c) \<noteq> Ok () \<longleftrightarrow>
    (\<exists>e c'. prepare_child fault mode uid gid c = (Err e, c'))"
  by (cases "prepare_child fault mode uid gid c"; cases "fst (prepare_child fault mode uid gid c)") auto

lemma spawned_confined:
  assumes "fst (spawn os js show_error cmd w) = Ok (Piped c) \<or> fst (spawn_pty os js show_error cmd w) = Ok (Pty c master)"
  shows "confined (so_fault os) (map_of (ec_env cmd) ''FEND_NETWORK_MODE'')
           (fst (resolve_command_identity (so_metadata os) (ec_cwd cmd)))
           (snd (resolve_command_identity (so_metadata os) (ec_cwd cmd))) (so_cred os) (ch_cred c)"
  using assms
  by (cases "resolve_command_identity (so_metadata os) (ec_cwd cmd)")
    (auto simp: spawn_def spawn_pty_def command_spawn_def Let_def
      dest!: prepare_child_confined prepare_pty_child_confined split: result.splits prod.splits)

text \<open>
  (C6) A command that runs, piped or on a terminal, runs with the user and group that own its
  working directory (1000 when that cannot be read), without supplementary groups, with
  \<open>no_new_privs\<close>, with empty capability sets unless the kernel refused \<open>capset\<close>, and in
  a network namespace of its own when its request says network mode \<open>off\<close>; the calls that
  established this happened in the order network, privileges, group, user, capabilities.
\<close>

theorem command_confined:
  assumes "fst (spawn os js show_error cmd w) = Ok (Piped c) \<or> fst (spawn_pty os js show_error cmd w) = Ok (Pty c master)"
  shows "confined (so_fault os) (map_of (ec_env cmd) ''FEND_NETWORK_MODE'')
           (fst (resolve_command_identity (so_metadata os) (ec_cwd cmd)))
           (snd (resolve_command_identity (so_metadata os) (ec_cwd cmd))) (so_cred os) (ch_cred c)"
  using assms by (rule spawned_confined)

definition guest_os :: spawn_os where
  "guest_os =
     \<lparr>so_metadata = (\<lambda>p. if p = ''/workspace'' then Ok (1001, 1002) else Err (IoError NotFound (Some 2) '''')),
      so_path_var = Some ''/usr/bin'', so_openpty = Ok (7, 8), so_fault = (\<lambda>_. None),
      so_exec = (\<lambda>c. if c = ''node'' then Ok 321 else Err (IoError NotFound (Some 2) '''')),
      so_cred = \<lparr>cr_uid = 0, cr_gid = 0, cr_groups = [0], cr_no_new_privs = False, cr_caps = True,
        cr_own_netns = False, cr_session_leader = False, cr_ctty = False, cr_trace = []\<rparr>\<rparr>"

definition plain_json :: agent_json where
  "plain_json = \<lparr>js_output = (\<lambda>m. Ok (as_bytes (od_stream m @ od_data m))), js_exit = (\<lambda>m. Ok [of_int (es_code m)])\<rparr>"

definition node_command :: execute_command where
  "node_command = \<lparr>ec_id = 1, ec_cmd = ''node'', ec_args = [''-v''], ec_env = [(''FEND_NETWORK_MODE'', ''off'')],
     ec_cwd = ''/workspace'', ec_tty = False\<rparr>"

lemma command_confined_witness:
  "\<exists>c :: child. confined (so_fault guest_os) (Some ''off'') 1001 1002 (so_cred guest_os) (ch_cred c) \<and> ch_pid c = 321"
proof -
  let ?r = "spawn guest_os plain_json (\<lambda>_. '''') node_command (sink [])"
  obtain c where c: "fst ?r = Ok (Piped c)" "ch_pid c = 321"
    by (simp add: spawn_def command_spawn_def resolve_command_identity_def guest_os_def node_command_def
        prepare_child_def apply_network_policy_def drop_root_def sys_def)
  from command_confined [OF disjI1, OF c(1)] c(2) show ?thesis
    by (intro exI [of _ c]) (simp add: resolve_command_identity_def guest_os_def node_command_def)
qed


section \<open>Failing closed\<close>

definition working :: "writer \<Rightarrow> bool" where
  "working w \<longleftrightarrow> w_faults w = [] \<and> w_flushes w = []"

lemma write_frame_working:
  "working w \<Longrightarrow> write_frame t p w = (Ok (), w\<lparr>w_out := w_out w @ frame_bytes (message_type_as_u8 t) p\<rparr>)"
  by (cases w) (simp add: working_def write_frame_session session_write_frame_sink frame_bytes_def
      session_write_frame_def write_all_def flush_def Let_def)

lemma working_out [simp]: "working (w\<lparr>w_out := bs\<rparr>) \<longleftrightarrow> working w"
  by (simp add: working_def)

definition failure_bytes :: "agent_json \<Rightarrow> u64 \<Rightarrow> string \<Rightarrow> byte list" where
  "failure_bytes js cid msg =
     (case js_output js \<lparr>od_id = cid, od_stream = ''stderr'', od_data = base64_encode (as_bytes msg)\<rparr> of
        Ok json \<Rightarrow> frame_bytes (message_type_as_u8 OutputData) json | Err _ \<Rightarrow> [])
     @ (case js_exit js \<lparr>es_id = cid, es_code = 127\<rparr> of
          Ok json \<Rightarrow> frame_bytes (message_type_as_u8 ExitStatus) json | Err _ \<Rightarrow> [])"

lemma report_failure_out:
  "working w \<Longrightarrow> w_out (report_failure js cid msg w) = w_out w @ failure_bytes js cid msg"
  by (simp add: report_failure_def send_exit_def send_output_def failure_bytes_def write_frame_working
      split: result.split)

text \<open>
  (C18) A command never starts half confined: when the kernel refuses any of the mandatory calls
  (the network namespace in mode \<open>off\<close>, \<open>no_new_privs\<close>, the groups, the group, the user),
  both ways to spawn return an error, no child exists, and the host gets one message on
  \<open>stderr\<close> followed by the exit status 127 of that command.
\<close>

theorem spawn_fails_closed:
  assumes "resolve_command_identity (so_metadata os) (ec_cwd cmd) = (uid, gid)"
    and "s \<in> mandatory (map_of (ec_env cmd) ''FEND_NETWORK_MODE'') uid gid" and "so_fault os s \<noteq> None"
    and "working w" and "so_openpty os = Ok (master, slave)"
  shows "\<exists>msg w1 w2. spawn os js show_error cmd w = (Err (), w1) \<and> spawn_pty os js show_error cmd w = (Err (), w2)
    \<and> w_out w1 = w_out w @ failure_bytes js (ec_id cmd) msg \<and> w_out w2 = w_out w @ failure_bytes js (ec_id cmd) msg"
proof -
  let ?mode = "map_of (ec_env cmd) ''FEND_NETWORK_MODE''"
  obtain e c where "prepare_child (so_fault os) ?mode uid gid (so_cred os) = (Err e, c)"
    using prepare_child_fails [where fault = "so_fault os", OF assms(2,3)] prepare_child_unit by blast
  then have "spawn os js show_error cmd w = (Err (), report_failure js (ec_id cmd) (spawn_error_text show_error cmd e) w)"
    and "spawn_pty os js show_error cmd w = (Err (), report_failure js (ec_id cmd) (spawn_error_text show_error cmd e) w)"
    by (simp_all add: spawn_def spawn_pty_def assms(1,5) command_spawn_def prepare_pty_child_def)
  with report_failure_out [OF assms(4)] show ?thesis by blast
qed

lemma spawn_fails_closed_witness:
  "\<exists>msg w1 w2.
     spawn (guest_os\<lparr>so_fault := (\<lambda>s. if s = UnshareNewnet then Some (IoError PermissionDenied (Some 1) '''') else None)\<rparr>)
       plain_json (\<lambda>_. '''') node_command (sink []) = (Err (), w1)
     \<and> spawn_pty (guest_os\<lparr>so_fault := (\<lambda>s. if s = UnshareNewnet then Some (IoError PermissionDenied (Some 1) '''') else None)\<rparr>)
       plain_json (\<lambda>_. '''') node_command (sink []) = (Err (), w2)
     \<and> w_out w1 = failure_bytes plain_json 1 msg \<and> w_out w2 = failure_bytes plain_json 1 msg"
  using spawn_fails_closed [of
      "guest_os\<lparr>so_fault := (\<lambda>s. if s = UnshareNewnet then Some (IoError PermissionDenied (Some 1) '''') else None)\<rparr>"
      node_command 1001 1002 UnshareNewnet "sink []" 7 8 plain_json "\<lambda>_. ''''"]
  by (simp add: resolve_command_identity_def guest_os_def node_command_def mandatory_def working_def)

section \<open>The output threads\<close>

text \<open>
  The two threads of a piped command and the shared writer: each iteration sends one frame
  under the lock. \<open>None\<close> is a thread that has left its loop.
\<close>

type_synonym pumps = "reader option \<times> reader option \<times> writer"

inductive out_step ::
  "(output_data \<Rightarrow> (byte list, string) result) \<Rightarrow> u64 \<Rightarrow> pumps \<Rightarrow> pumps \<Rightarrow> bool"
  for to_vec cid where
  stdout: "stream_iter to_vec cid ''stdout'' r w = (p, w') \<Longrightarrow> out_step to_vec cid (Some r, q, w) (p, q, w')"
| stderr: "stream_iter to_vec cid ''stderr'' r w = (q, w') \<Longrightarrow> out_step to_vec cid (p, Some r, w) (p, q, w')"

inductive_cases out_stepE: "out_step to_vec cid s s'"

fun pump_work :: "reader option \<Rightarrow> nat" where
  "pump_work None = 0"
| "pump_work (Some r) = Suc (reader_size r)"

fun work :: "pumps \<Rightarrow> nat" where
  "work (p, q, w) = pump_work p + pump_work q"

lemma stream_iter_work: "stream_iter to_vec cid name r w = (p, w') \<Longrightarrow> pump_work p < Suc (reader_size r)"
  by (cases p) (auto dest: stream_iter_smaller)

lemma out_step_work: "out_step to_vec cid s s' \<Longrightarrow> work s' < work s"
  by (elim out_stepE) (auto dest: stream_iter_work)

lemma out_steps_work: "(out_step to_vec cid ^^ n) s s' \<Longrightarrow> n + work s' \<le> work s"
proof (induction n arbitrary: s')
  case (Suc n)
  then obtain t where "(out_step to_vec cid ^^ n) s t" "out_step to_vec cid t s'" by auto
  with Suc.IH [of t] out_step_work [of to_vec cid t s'] show ?case by simp
qed simp




text \<open>What the threads have sent: frames of output messages, with the bytes per stream.\<close>

definition output_frame :: "(output_data \<Rightarrow> (byte list, string) result) \<Rightarrow> output_data \<Rightarrow> byte list" where
  "output_frame to_vec m =
     (case to_vec m of Ok json \<Rightarrow> frame_bytes (message_type_as_u8 OutputData) json | Err _ \<Rightarrow> [])"

definition stream_bytes :: "string \<Rightarrow> output_data list \<Rightarrow> byte list" where
  "stream_bytes name ms =
     concat (map (\<lambda>m. unwrap_or (session_base64_decode (od_data m)) []) (filter (\<lambda>m. od_stream m = name) ms))"

definition pump_left :: "reader option \<Rightarrow> byte list" where
  "pump_left p = (case p of None \<Rightarrow> [] | Some r \<Rightarrow> bytes_of r)"

definition pump_ok :: "reader option \<Rightarrow> bool" where
  "pump_ok p = (case p of None \<Rightarrow> True | Some r \<Rightarrow> data_only r)"

lemma stream_bytes_append: "stream_bytes name (ms @ ns) = stream_bytes name ms @ stream_bytes name ns"
  by (simp add: stream_bytes_def)

text \<open>
  Every message the threads send: for the command, on one of the two streams, with at most the
  base64 text of a full buffer, which decodes.
\<close>

definition output_ok :: "u64 \<Rightarrow> output_data \<Rightarrow> bool" where
  "output_ok cid m \<longleftrightarrow> od_id m = cid \<and> od_stream m \<in> {''stdout'', ''stderr''} \<and> length (od_data m) \<le> 10924
     \<and> session_base64_decode (od_data m) \<noteq> None"

lemma OUTPUT_BUFFER_pos: "0 < OUTPUT_BUFFER"
  by (simp add: OUTPUT_BUFFER_def)

lemma stream_iter_sends:
  assumes "stream_iter to_vec cid name r w = (p, w')" and "data_only r" and "working w"
    and "\<And>m. is_ok (to_vec m)"
    and "name \<in> {''stdout'', ''stderr''}"
  shows "working w' \<and> pump_ok p \<and> (\<exists>ms. w_out w' = w_out w @ concat (map (output_frame to_vec) ms)
    \<and> (\<forall>m \<in> set ms. output_ok cid m \<and> od_stream m = name) \<and> stream_bytes name ms @ pump_left p = bytes_of r)"
proof -
  obtain bs r1 where r1: "read_some OUTPUT_BUFFER r = (Ok bs, r1)" "bytes_of r = bs @ bytes_of r1"
      "data_only r1" "bs = [] \<longrightarrow> bytes_of r = []"
    using read_some_data [OF assms(2) OUTPUT_BUFFER_pos] by blast
  let ?m = "\<lparr>od_id = cid, od_stream = name, od_data = base64_encode bs\<rparr>"
  obtain json where json: "to_vec ?m = Ok json" using assms(4) [of ?m] by (auto simp only: is_ok_iff)
  show ?thesis
  proof (cases "bs = []")
    case True
    with assms(1,3) r1 show ?thesis
      by (auto simp: stream_iter_def pump_ok_def pump_left_def stream_bytes_def intro!: exI [of _ "[]"])
  next
    case False
    with assms(1) r1(1) json assms(3)
    have p: "p = Some r1" "w' = w\<lparr>w_out := w_out w @ output_frame to_vec ?m\<rparr>"
      by (auto simp: stream_iter_def send_output_def write_frame_working output_frame_def)
    have "stream_bytes name [?m] = bs"
      by (simp add: stream_bytes_def session_base64_decode_encode_aux)
    moreover have "output_ok cid ?m"
    proof -
      have "length bs \<le> 8192" using read_some_length [OF r1(1)] by (simp add: OUTPUT_BUFFER_def)
      then have "length (base64_encode bs) \<le> 10924" by (simp add: base64_encode_length length_chunks)
      then show ?thesis using assms(5) by (simp add: output_ok_def session_base64_decode_encode_aux)
    qed
    ultimately show ?thesis using p r1 assms(3)
      by (auto simp: pump_ok_def pump_left_def intro!: exI [of _ "[?m]"])
  qed
qed

definition sent :: "(output_data \<Rightarrow> (byte list, string) result) \<Rightarrow> u64 \<Rightarrow> byte list \<Rightarrow> byte list \<Rightarrow> byte list \<Rightarrow> pumps \<Rightarrow> bool" where
  "sent to_vec cid out0 out err s \<longleftrightarrow>
     (case s of (p, q, w) \<Rightarrow> working w \<and> pump_ok p \<and> pump_ok q
        \<and> (\<exists>ms. w_out w = out0 @ concat (map (output_frame to_vec) ms) \<and> (\<forall>m \<in> set ms. output_ok cid m)
             \<and> stream_bytes ''stdout'' ms @ pump_left p = out \<and> stream_bytes ''stderr'' ms @ pump_left q = err))"

lemma stream_bytes_other: "\<forall>m \<in> set ms. od_stream m = a \<Longrightarrow> a \<noteq> b \<Longrightarrow> stream_bytes b ms = []"
  by (auto simp: stream_bytes_def filter_empty_conv)

lemma out_step_sent:
  assumes "out_step to_vec cid s s'" and "sent to_vec cid out0 out err s" and "\<And>m. is_ok (to_vec m)"
  shows "sent to_vec cid out0 out err s'"
  using assms(1)
proof cases
  case (stdout r w p w' q)
  from assms(2) stdout(1) obtain ms where ms: "w_out w = out0 @ concat (map (output_frame to_vec) ms)"
      "\<forall>m \<in> set ms. output_ok cid m" "stream_bytes ''stdout'' ms @ bytes_of r = out"
      "stream_bytes ''stderr'' ms @ pump_left q = err" "data_only r" "working w" "pump_ok q"
    by (auto simp: sent_def pump_left_def pump_ok_def)
  from stream_iter_sends [OF stdout(3) ms(5,6) assms(3)] obtain ns where
    "working w'" "pump_ok p" "w_out w' = w_out w @ concat (map (output_frame to_vec) ns)"
    "\<forall>m \<in> set ns. output_ok cid m \<and> od_stream m = ''stdout''" "stream_bytes ''stdout'' ns @ pump_left p = bytes_of r"
    by auto
  with ms stdout(2) stream_bytes_other [of ns "''stdout''" "''stderr''"] show ?thesis
    by (auto simp: sent_def stream_bytes_append intro!: exI [of _ "ms @ ns"])
next
  case (stderr r w q w' p)
  from assms(2) stderr(1) obtain ms where ms: "w_out w = out0 @ concat (map (output_frame to_vec) ms)"
      "\<forall>m \<in> set ms. output_ok cid m" "stream_bytes ''stderr'' ms @ bytes_of r = err"
      "stream_bytes ''stdout'' ms @ pump_left p = out" "data_only r" "working w" "pump_ok p"
    by (auto simp: sent_def pump_left_def pump_ok_def)
  from stream_iter_sends [OF stderr(3) ms(5,6) assms(3)] obtain ns where
    "working w'" "pump_ok q" "w_out w' = w_out w @ concat (map (output_frame to_vec) ns)"
    "\<forall>m \<in> set ns. output_ok cid m \<and> od_stream m = ''stderr''" "stream_bytes ''stderr'' ns @ pump_left q = bytes_of r"
    by auto
  with ms stderr(2) stream_bytes_other [of ns "''stderr''" "''stdout''"] show ?thesis
    by (auto simp: sent_def stream_bytes_append intro!: exI [of _ "ms @ ns"])
qed

lemma out_steps_sent:
  assumes "(out_step to_vec cid)\<^sup>*\<^sup>* s s'" and "sent to_vec cid out0 out err s" and "\<And>m. is_ok (to_vec m)"
  shows "sent to_vec cid out0 out err s'"
  using assms(1,2) by (induction rule: rtranclp_induct) (auto intro: out_step_sent assms(3))

lemma output_sent:
  assumes "(out_step to_vec cid)\<^sup>*\<^sup>* (Some r1, Some r2, w) (None, None, w')"
    and "data_only r1" and "data_only r2" and "working w" and "\<And>m. is_ok (to_vec m)"
  shows "\<exists>ms. w_out w' = w_out w @ concat (map (output_frame to_vec) ms) \<and> (\<forall>m \<in> set ms. output_ok cid m)
    \<and> stream_bytes ''stdout'' ms = bytes_of r1 \<and> stream_bytes ''stderr'' ms = bytes_of r2 \<and> working w'"
proof -
  have "sent to_vec cid (w_out w) (bytes_of r1) (bytes_of r2) (Some r1, Some r2, w)"
    using assms(2-4) by (auto simp: sent_def pump_ok_def pump_left_def stream_bytes_def intro!: exI [of _ "[]"])
  from out_steps_sent [OF assms(1) this assms(5)] show ?thesis by (auto simp: sent_def pump_left_def)
qed

end
