(* ===== verification/Guest_Connection.thy ===== *)
theory Guest_Connection
  imports Guest_Process
begin

text \<open>
  A connection from the host to the agent (fendd/src/connection.rs, with the accept loop of
  fendd/src/server.rs) and a forwarded port (fendd/src/port_forward.rs). The handler greets,
  takes one command, spawns it and then applies input, signals and window sizes to it until
  the stream ends. The JSON parsers are the record \<open>request_json\<close>. What the handler does to the
  machine is the record \<open>control\<close>: the child's standard input and the list of system calls on
  the terminal and the process, in order. The output threads of Guest_Process run beside the
  loop; they share no state with it but the process.
\<close>

record request_json =
  rj_command :: "byte list \<Rightarrow> (execute_command, string) result"
  rj_input :: "byte list \<Rightarrow> (input_data, string) result"
  rj_signal :: "byte list \<Rightarrow> (forward_signal, string) result"
  rj_window :: "byte list \<Rightarrow> (window_size_msg, string) result"

datatype action =
    PtyWrite int "byte list"
  | Kill int int
  | SetWinsize int u16 u16
  | CloseFd int

record control =
  ct_stdin :: "writer option"
  ct_actions :: "action list"

section \<open>The messages of a running command\<close>

text \<open>\<open>pid as i32\<close> reinterprets the process id.\<close>

definition handle_message ::
  "request_json \<Rightarrow> u64 \<Rightarrow> u32 \<Rightarrow> int option \<Rightarrow> message_type \<times> byte list \<Rightarrow> control \<Rightarrow> control" where
  "handle_message rj command_id pid master_fd m s =
     (case m of (msg_type, body) \<Rightarrow>
       (case msg_type of
          InputData \<Rightarrow>
            (case rj_input rj body of
               Err _ \<Rightarrow> s
             | Ok inp \<Rightarrow>
                 if in_id inp \<noteq> command_id then s
                 else if in_data inp = [] then s\<lparr>ct_stdin := None\<rparr>
                 else (case base64_decode (in_data inp) of
                         None \<Rightarrow> s
                       | Some bytes \<Rightarrow>
                           (case master_fd of
                              Some fd \<Rightarrow> s\<lparr>ct_actions := ct_actions s @ [PtyWrite fd bytes]\<rparr>
                            | None \<Rightarrow>
                                (case ct_stdin s of
                                   None \<Rightarrow> s
                                 | Some stdin \<Rightarrow>
                                     s\<lparr>ct_stdin := Some (snd (flush (snd (write_all bytes stdin))))\<rparr>))))
        | ForwardSignal \<Rightarrow>
            (case rj_signal rj body of
               Err _ \<Rightarrow> s
             | Ok sg \<Rightarrow>
                 if fs_id sg \<noteq> command_id then s
                 else s\<lparr>ct_actions := ct_actions s @ [Kill (sint pid) (fs_signal sg)]\<rparr>)
        | WindowSize \<Rightarrow>
            (case master_fd of
               None \<Rightarrow> s
             | Some fd \<Rightarrow>
                 (case rj_window rj body of
                    Err _ \<Rightarrow> s
                  | Ok ws \<Rightarrow>
                      if ws_id ws \<noteq> command_id then s
                      else s\<lparr>ct_actions := ct_actions s @ [SetWinsize fd (ws_rows ws) (ws_cols ws)]\<rparr>))
        | _ \<Rightarrow> s))"

lemma read_frame_smaller:
  "read_frame r = (Ok m, r') \<Longrightarrow> length (bytes_of r') < length (bytes_of r)"
proof -
  assume frame: "read_frame r = (Ok m, r')"
  then obtain h r1 where h: "read_exact 5 r = (Ok h, r1)"
    by (auto simp: read_frame_def split: prod.splits result.splits)
  with frame have "r' = r1 \<or> (\<exists>n p. read_exact n r1 = (Ok p, r'))"
    by (auto simp: read_frame_def Let_def split: prod.splits result.splits option.splits if_splits)
  then have "length (bytes_of r') \<le> length (bytes_of r1)" by (auto dest: read_exact_bytes)
  moreover have "length (bytes_of r) = 5 + length (bytes_of r1)"
    using read_exact_bytes [OF h] read_exact_length [OF h] by simp
  ultimately show ?thesis by simp
qed

function message_loop ::
  "request_json \<Rightarrow> u64 \<Rightarrow> u32 \<Rightarrow> int option \<Rightarrow> reader \<Rightarrow> control \<Rightarrow> control" where
  "message_loop rj command_id pid master_fd r s =
     (case read_frame r of
        (Err _, _) \<Rightarrow> s
      | (Ok m, r1) \<Rightarrow>
          message_loop rj command_id pid master_fd r1 (handle_message rj command_id pid master_fd m s))"
  by pat_completeness auto
termination
  by (relation "measure (\<lambda>(rj, i, pid, fd, r, s). length (bytes_of r))") (auto dest: sym read_frame_smaller)

declare message_loop.simps [simp del]

text \<open>What follows the loop: standard input is dropped and the terminal closed.\<close>

definition end_of_stream :: "int option \<Rightarrow> control \<Rightarrow> control" where
  "end_of_stream master_fd s =
     (let s1 = s\<lparr>ct_stdin := None\<rparr>
      in case master_fd of None \<Rightarrow> s1 | Some fd \<Rightarrow> s1\<lparr>ct_actions := ct_actions s1 @ [CloseFd fd]\<rparr>)"

section \<open>The handler\<close>

datatype handle_end =
    CloneFailed | ReadyFailed | NoCommand | UnexpectedType message_type | BadCommand string
  | SpawnFailed | Ran spawn_result control

text \<open>
  \<open>clone\<close> is the outcome of \<open>try_clone\<close>, \<open>stdin\<close> the pipe to the child of a piped command.
  The writer is the connection after the handler's own frames; the child's output follows.
\<close>

definition handle ::
  "spawn_os \<Rightarrow> agent_json \<Rightarrow> request_json \<Rightarrow> (io_error \<Rightarrow> string) \<Rightarrow> unit io_result \<Rightarrow> writer
     \<Rightarrow> reader \<Rightarrow> writer \<Rightarrow> handle_end \<times> writer" where
  "handle os js rj show_error clone stdin r w =
     (case clone of
        Err _ \<Rightarrow> (CloneFailed, w)
      | Ok _ \<Rightarrow>
     (case write_frame Ready (as_bytes ''{}'') w of
        (Err _, w1) \<Rightarrow> (ReadyFailed, w1)
      | (Ok _, w1) \<Rightarrow>
     (case read_frame r of
        (Err _, _) \<Rightarrow> (NoCommand, w1)
      | (Ok (msg_type, body), r1) \<Rightarrow>
          if msg_type \<noteq> ExecuteCommand then (UnexpectedType msg_type, w1)
          else (case rj_command rj body of
                  Err e \<Rightarrow> (BadCommand e, w1)
                | Ok cmd \<Rightarrow>
                    (case (if ec_tty cmd then spawn_pty os js show_error cmd w1 else spawn os js show_error cmd w1) of
                       (Err _, w2) \<Rightarrow> (SpawnFailed, w2)
                     | (Ok res, w2) \<Rightarrow>
                         (let (pid, child_stdin, master_fd) =
                                (case res of Piped c \<Rightarrow> (ch_pid c, Some stdin, None)
                                 | Pty c fd \<Rightarrow> (ch_pid c, None, Some fd));
                              s = message_loop rj (ec_id cmd) pid master_fd r1
                                    \<lparr>ct_stdin = child_stdin, ct_actions = []\<rparr>
                          in (Ran res (end_of_stream master_fd s), w2)))))))"

section \<open>Messages for other commands\<close>

text \<open>Whether a message is addressed to the running command, as far as it parses.\<close>

definition addressed :: "request_json \<Rightarrow> u64 \<Rightarrow> message_type \<times> byte list \<Rightarrow> bool" where
  "addressed rj command_id m =
     (case m of (t, body) \<Rightarrow>
       (case t of
          InputData \<Rightarrow> (case rj_input rj body of Ok i \<Rightarrow> in_id i = command_id | Err _ \<Rightarrow> False)
        | ForwardSignal \<Rightarrow> (case rj_signal rj body of Ok s \<Rightarrow> fs_id s = command_id | Err _ \<Rightarrow> False)
        | WindowSize \<Rightarrow> (case rj_window rj body of Ok w \<Rightarrow> ws_id w = command_id | Err _ \<Rightarrow> False)
        | _ \<Rightarrow> False))"

lemma handle_message_other: "\<not> addressed rj i m \<Longrightarrow> handle_message rj i pid fd m s = s"
  by (cases m) (auto simp: addressed_def handle_message_def split: message_type.splits result.splits option.splits)

lemma fold_addressed:
  "fold (handle_message rj i pid fd) ms s = fold (handle_message rj i pid fd) (filter (addressed rj i) ms) s"
  by (induction ms arbitrary: s) (simp_all add: handle_message_other)

text \<open>The loop on the bytes of a list of messages is the fold over the messages.\<close>

lemma message_loop_frames:
  assumes "clean r" and "list_all (\<lambda>(t, p). length p \<le> MAX_PAYLOAD) ms"
    and "bytes_of r = concat (map (\<lambda>(t, p). frame_bytes (message_type_as_u8 t) p) ms)"
  shows "message_loop rj i pid fd r s = fold (handle_message rj i pid fd) ms s"
  using assms
proof (induction ms arbitrary: r s)
  case Nil
  then have "\<exists>r1. read_exact 5 r = (Err eof_error, r1)" by (intro read_exact_short) simp_all
  then show ?case by (subst message_loop.simps) (auto simp: read_frame_def)
next
  case (Cons m ms)
  obtain t p where m: "m = (t, p)" by (cases m)
  with Cons.prems to_guest.dec_enc [of r m "concat (map (\<lambda>(t, p). frame_bytes (message_type_as_u8 t) p) ms)"]
  obtain r1 where r1: "read_frame r = (Ok m, r1)" "clean r1"
      "bytes_of r1 = concat (map (\<lambda>(t, p). frame_bytes (message_type_as_u8 t) p) ms)"
    by auto
  with Cons.IH [OF r1(2) _ r1(3)] Cons.prems(2) show ?case
    by (subst message_loop.simps) simp
qed

text \<open>
  (C20) A connection acts only for its own command: for any sequence of messages after the
  command, however the stream is cut, what the handler does to standard input, terminal and
  process is what it would do on the messages that carry the id of the running command, in
  the same order; stale ids, unparsable payloads and unexpected types change nothing.
\<close>

theorem stale_messages_ignored:
  assumes "clean r" and "list_all (\<lambda>(t, p). length p \<le> MAX_PAYLOAD) ms"
    and "bytes_of r = concat (map (\<lambda>(t, p). frame_bytes (message_type_as_u8 t) p) ms)"
  shows "message_loop rj i pid fd r s = fold (handle_message rj i pid fd) (filter (addressed rj i) ms) s"
  unfolding message_loop_frames [OF assms] by (rule fold_addressed)

definition simple_requests :: request_json where
  "simple_requests =
     \<lparr>rj_command = (\<lambda>_. Err ''''),
      rj_input = (\<lambda>b. case b of i # d \<Rightarrow> Ok \<lparr>in_id = ucast i, in_data = bytes_to_string d\<rparr> | [] \<Rightarrow> Err ''''),
      rj_signal = (\<lambda>b. case b of [i, s] \<Rightarrow> Ok \<lparr>fs_id = ucast i, fs_signal = uint s\<rparr> | _ \<Rightarrow> Err ''''),
      rj_window = (\<lambda>b. Err '''')\<rparr>"

lemma stale_messages_ignored_witness:
  "message_loop simple_requests 1 9 None [Chunk [2, 0, 0, 0, 2, 4], Chunk [15, 2, 0, 0, 0, 2, 1, 2]]
     \<lparr>ct_stdin = None, ct_actions = []\<rparr> = \<lparr>ct_stdin = None, ct_actions = [Kill 9 2]\<rparr>"
  using stale_messages_ignored [of "[Chunk [2, 0, 0, 0, 2, 4], Chunk [15, 2, 0, 0, 0, 2, 1, 2]]"
      "[(ForwardSignal, [4, 15]), (ForwardSignal, [1, 2])]" simple_requests 1 9 None "\<lparr>ct_stdin = None, ct_actions = []\<rparr>"]
  by (simp add: frame_bytes_def u32_to_be_bytes_def MAX_PAYLOAD_def addressed_def simple_requests_def handle_message_def)


section \<open>Standard input\<close>

lemma handle_input_piped:
  assumes "rj_input rj body = Ok \<lparr>in_id = i, in_data = base64_encode bs\<rparr>" and "bs \<noteq> []"
    and "ct_stdin s = Some stdin" and "working stdin"
  shows "handle_message rj i pid None (InputData, body) s =
    s\<lparr>ct_stdin := Some (stdin\<lparr>w_out := w_out stdin @ bs\<rparr>)\<rparr>"
proof -
  have "base64_encode bs \<noteq> []" using base64_decode_encode_aux [of bs] assms(2)
    by (auto simp: base64_decode_def chunks.simps)
  with assms show ?thesis
    by (simp add: handle_message_def base64_decode_encode_aux write_all_no_faults working_def flush_def)
qed

text \<open>The input messages a host prints with \<open>print\<close>: one per chunk, then the empty one.\<close>

definition input_message :: "(input_data \<Rightarrow> byte list) \<Rightarrow> u64 \<Rightarrow> byte list \<Rightarrow> message_type \<times> byte list" where
  "input_message print i bs = (InputData, print \<lparr>in_id = i, in_data = base64_encode bs\<rparr>)"

lemma fold_inputs:
  assumes "\<And>m. rj_input rj (print m) = Ok m"
  shows "list_all (\<lambda>bs. bs \<noteq> []) bss \<Longrightarrow> ct_stdin s = Some stdin \<Longrightarrow> working stdin \<Longrightarrow>
    fold (handle_message rj i pid None) (map (input_message print i) bss) s =
      s\<lparr>ct_stdin := Some (stdin\<lparr>w_out := w_out stdin @ concat bss\<rparr>)\<rparr>"
proof (induction bss arbitrary: s stdin)
  case (Cons bs bss)
  let ?stdin = "stdin\<lparr>w_out := w_out stdin @ bs\<rparr>"
  have "handle_message rj i pid None (input_message print i bs) s = s\<lparr>ct_stdin := Some ?stdin\<rparr>"
    using handle_input_piped [OF _ _ Cons.prems(2,3)] assms Cons.prems(1) by (simp add: input_message_def)
  with Cons.IH [of "s\<lparr>ct_stdin := Some ?stdin\<rparr>" ?stdin] Cons.prems show ?case by simp
qed simp

text \<open>
  (C21) Standard input of a piped command: from the frames of any sequence of non-empty chunks,
  cut into reads in any way, the child's pipe gets exactly the concatenation of the chunks; a
  message with empty data then closes the pipe. The hypothesis is that the agent's JSON parser
  reads back what the host printed.
\<close>

theorem input_reaches_child:
  assumes parse: "\<And>m. rj_input rj (print m) = Ok m"
    and "list_all (\<lambda>bs. bs \<noteq> [] \<and> length (print \<lparr>in_id = i, in_data = base64_encode bs\<rparr>) \<le> MAX_PAYLOAD) bss"
    and "working stdin" and "clean r"
    and "bytes_of r = concat (map (\<lambda>(t, p). frame_bytes (message_type_as_u8 t) p) (map (input_message print i) bss))"
  shows "message_loop rj i pid None r \<lparr>ct_stdin = Some stdin, ct_actions = acts\<rparr> =
      \<lparr>ct_stdin = Some (stdin\<lparr>w_out := w_out stdin @ concat bss\<rparr>), ct_actions = acts\<rparr>
    \<and> ct_stdin (handle_message rj i pid None (input_message print i []) s) = None"
proof -
  have "list_all (\<lambda>(t, p). length p \<le> MAX_PAYLOAD) (map (input_message print i) bss)"
    using assms(2) by (auto simp: list_all_iff input_message_def)
  from message_loop_frames [OF assms(4) this assms(5)]
  have "message_loop rj i pid None r \<lparr>ct_stdin = Some stdin, ct_actions = acts\<rparr> =
      fold (handle_message rj i pid None) (map (input_message print i) bss) \<lparr>ct_stdin = Some stdin, ct_actions = acts\<rparr>" .
  also have "\<dots> = \<lparr>ct_stdin = Some (stdin\<lparr>w_out := w_out stdin @ concat bss\<rparr>), ct_actions = acts\<rparr>"
    using fold_inputs [OF parse, of bss _ stdin] assms(2,3) by (simp add: list_all_iff)
  finally show ?thesis by (simp add: handle_message_def input_message_def parse base64_encode_def)
qed


lemma unat_of_char: "unat (of_char c :: byte) = of_char c"
proof (cases c)
  case (Char b0 b1 b2 b3 b4 b5 b6 b7)
  then show ?thesis
    by (cases b0; cases b1; cases b2; cases b3; cases b4; cases b5; cases b6; cases b7; simp add: of_char_def)
qed

lemma string_as_bytes: "bytes_to_string (as_bytes s) = s"
  by (simp add: bytes_to_string_def as_bytes_def comp_def unat_of_char)

definition print_input :: "input_data \<Rightarrow> byte list" where
  "print_input m = as_bytes (show_nat (unat (in_id m)) @ CHR '','' # in_data m)"

definition parse_input :: "byte list \<Rightarrow> (input_data, string) result" where
  "parse_input bs =
     (case split_once (CHR '','') (bytes_to_string bs) of
        Some (i, d) \<Rightarrow> (case parse_u64 i of Some n \<Rightarrow> Ok \<lparr>in_id = n, in_data = d\<rparr> | None \<Rightarrow> Err '''')
      | None \<Rightarrow> Err '''')"

lemma parse_print_input: "parse_input (print_input m) = Ok m"
proof -
  have "CHR '','' \<notin> set (show_nat (unat (in_id m)))" by (rule show_nat_not_in) (simp add: is_ascii_digit_def)
  then have "split_once (CHR '','') (show_nat (unat (in_id m)) @ CHR '','' # in_data m)
      = Some (show_nat (unat (in_id m)), in_data m)" by (rule split_once_first)
  then show ?thesis by (cases m) (simp only: parse_input_def print_input_def string_as_bytes parse_u64_show
      option.case prod.case input_data.simps)
qed

lemma input_reaches_child_witness:
  "message_loop (simple_requests\<lparr>rj_input := parse_input\<rparr>) 1 9 None
     [Chunk [7, 0, 0, 0, 6, 49, 44], Chunk [97, 71, 107, 61]] \<lparr>ct_stdin = Some (sink [33]), ct_actions = []\<rparr>
   = \<lparr>ct_stdin = Some (sink [33, 104, 105]), ct_actions = []\<rparr>"
proof -
  have "bytes_of [Chunk [7, 0, 0, 0, 6, 49, 44], Chunk [97, 71, 107, 61]] =
      concat (map (\<lambda>(t, p). frame_bytes (message_type_as_u8 t) p) (map (input_message print_input 1) [[104, 105]]))"
    by code_simp
  moreover have "print_input \<lparr>in_id = 1, in_data = base64_encode [104, 105]\<rparr> = [49, 44, 97, 71, 107, 61]" by code_simp
  then have "length (print_input \<lparr>in_id = 1, in_data = base64_encode [104, 105]\<rparr>) \<le> MAX_PAYLOAD"
    by (simp add: MAX_PAYLOAD_def)
  ultimately show ?thesis
    using input_reaches_child [of "simple_requests\<lparr>rj_input := parse_input\<rparr>" print_input 1 "[[104, 105]]" "sink [33]"
        "[Chunk [7, 0, 0, 0, 6, 49, 44], Chunk [97, 71, 107, 61]]"]
    by (simp add: parse_print_input working_def)
qed

section \<open>Forwarded ports\<close>

definition RELAY_BUFFER :: nat where
  "RELAY_BUFFER = 16384"

text \<open>
  \<open>relay\<close> between the vsock connection and the TCP socket, each with a reader and a writer.
  \<open>clones\<close> are the outcomes of the two \<open>try_clone\<close> calls. The two threads share nothing: the
  first copies from the vsock and then shuts down the TCP write side, the second copies back.
  The result is both writers and whether the TCP write side was shut down.
\<close>

definition guest_relay ::
  "unit io_result \<times> unit io_result \<Rightarrow> reader \<Rightarrow> writer \<Rightarrow> reader \<Rightarrow> writer \<Rightarrow> writer \<times> writer \<times> bool" where
  "guest_relay clones vsock_in vsock_out tcp_in tcp_out =
     (case clones of
        (Err _, _) \<Rightarrow> (vsock_out, tcp_out, False)
      | (Ok _, Err _) \<Rightarrow> (vsock_out, tcp_out, False)
      | (Ok _, Ok _) \<Rightarrow> (copy_loop RELAY_BUFFER tcp_in vsock_out, copy_loop RELAY_BUFFER vsock_in tcp_out, True))"

text \<open>
  \<open>connect\<close> is the guest's loopback: what connecting to a port yields. \<open>None\<close> is a connection
  that was given up.
\<close>

definition handle_forward ::
  "(u16 \<Rightarrow> (reader \<times> writer) io_result) \<Rightarrow> unit io_result \<times> unit io_result \<Rightarrow> reader \<Rightarrow> writer
     \<Rightarrow> (u16 \<times> writer \<times> writer \<times> bool) option" where
  "handle_forward connect clones r w =
     (case read_exact 2 r of
        (Err _, _) \<Rightarrow> None
      | (Ok port_buf, r1) \<Rightarrow>
          (let target_port = u16_from_be_bytes (port_buf ! 0) (port_buf ! 1)
           in case connect target_port of
                Err _ \<Rightarrow> None
              | Ok (tcp_in, tcp_out) \<Rightarrow> Some (target_port, guest_relay clones r1 w tcp_in tcp_out)))"

end
