(* ===== verification/Host_Session.thy ===== *)
theory Host_Session
  imports Host_Smoke
begin

text \<open>
  The attached session of the host (linux/src/session.rs): connecting to the agent, starting
  the command, printing its output until it exits, forwarding signals and window sizes, and
  forwarding the guest's listening ports to the host. Its stream, the terminal, the signals
  and the TCP sockets are readers, writers and lists of outcomes. The Linux branches of the
  conditionally compiled functions are modelled.
\<close>

section \<open>Errors and configuration\<close>

datatype session_error =
    Session_InvalidConfig string
  | Session_Io io_error
  | Session_Json string
  | Session_Protocol string
  | Session_ConnectionTimeout u32 u32 duration string
  | Session_StartupTimeout duration
  | Session_UnsupportedHost

fun session_error_text :: "formatters \<Rightarrow> session_error \<Rightarrow> string" where
  "session_error_text fm (Session_InvalidConfig message) = message"
| "session_error_text fm (Session_Io e) = fm_io fm e"
| "session_error_text fm (Session_Json e) = e"
| "session_error_text fm (Session_Protocol message) = message"
| "session_error_text fm (Session_ConnectionTimeout cid port timeout last_error) =
     connection_timeout_text cid port timeout last_error"
| "session_error_text fm (Session_StartupTimeout timeout) =
     ''timed out waiting for fendd session startup after '' @ show_nat (as_secs timeout) @ ''s''"
| "session_error_text fm Session_UnsupportedHost = ''attached sessions are only supported on Linux''"

definition session_error_to_io :: "formatters \<Rightarrow> session_error \<Rightarrow> io_error" where
  "session_error_to_io fm e =
     (case e of Session_Io e \<Rightarrow> e | other \<Rightarrow> IoError OtherKind None (session_error_text fm other))"

definition io_or_startup_timeout :: "io_error \<Rightarrow> duration \<Rightarrow> session_error" where
  "io_or_startup_timeout e timeout =
     (if io_kind e = TimedOut \<or> io_kind e = WouldBlock then Session_StartupTimeout timeout else Session_Io e)"

definition session_validate_config :: "smoke_config \<Rightarrow> (unit, session_error) result" where
  "session_validate_config config =
     (if sc_command config = [] then Err (Session_InvalidConfig ''session command cannot be empty'')
      else if sc_timeout config = 0 then Err (Session_InvalidConfig ''session timeout must be greater than 0'')
      else Ok ())"

section \<open>Connecting\<close>

definition connection_attempts :: "duration \<Rightarrow> nat" where
  "connection_attempts timeout =
     (let attempts = as_millis timeout div 250 + 1
      in if attempts \<le> USIZE_MAX then attempts else USIZE_MAX)"

fun session_connect_loop ::
  "formatters \<Rightarrow> (nat \<Rightarrow> ('s, session_error) result) \<Rightarrow> nat \<Rightarrow> nat \<Rightarrow> nat \<Rightarrow> string
     \<Rightarrow> ('s, session_error) result option \<times> string \<times> nat" where
  "session_connect_loop fm connect attempts attempt 0 last_error = (None, last_error, 0)"
| "session_connect_loop fm connect attempts attempt (Suc n) last_error =
     (case connect attempt of
        Ok stream \<Rightarrow> (Some (Ok stream), last_error, 0)
      | Err e \<Rightarrow>
          if e = Session_UnsupportedHost then (Some (Err Session_UnsupportedHost), last_error, 0)
          else (let (res, last, sleeps) =
                      session_connect_loop fm connect attempts (Suc attempt) n (session_error_text fm e)
                in (res, last, (if attempt + 1 < attempts then Suc sleeps else sleeps))))"

definition connect_vsock_with_retry ::
  "formatters \<Rightarrow> u32 \<Rightarrow> u32 \<Rightarrow> duration \<Rightarrow> (nat \<Rightarrow> ('s, session_error) result) \<Rightarrow> ('s, session_error) result \<times> nat" where
  "connect_vsock_with_retry fm cid port timeout connect =
     (let attempts = connection_attempts timeout
      in case session_connect_loop fm connect attempts 0 attempts ''unknown error'' of
           (Some res, _, sleeps) \<Rightarrow> (res, sleeps)
         | (None, last_error, sleeps) \<Rightarrow>
             (Err (Session_ConnectionTimeout cid port timeout last_error), sleeps))"

definition duration_to_timeval :: "duration option \<Rightarrow> nat \<times> nat" where
  "duration_to_timeval timeout =
     (case timeout of
        None \<Rightarrow> (0, 0)
      | Some timeout \<Rightarrow>
          (let micros = max (as_micros timeout) 1;
               seconds = (if micros div 1000000 \<le> I64_MAX then micros div 1000000 else I64_MAX);
               useconds = (if seconds = I64_MAX then 999999 else micros mod 1000000)
           in (seconds, useconds)))"

text \<open>\<open>set_socket_timeout\<close> sets the receive and then the send timeout; the outcomes are a parameter.\<close>

definition set_socket_timeout ::
  "(nat \<Rightarrow> nat \<times> nat \<Rightarrow> io_error option) \<Rightarrow> duration option \<Rightarrow> unit io_result" where
  "set_socket_timeout setsockopt timeout =
     (let timeval = duration_to_timeval timeout
      in case setsockopt 0 timeval of
           Some e \<Rightarrow> Err e
         | None \<Rightarrow> (case setsockopt 1 timeval of Some e \<Rightarrow> Err e | None \<Rightarrow> Ok ()))"

section \<open>Replies\<close>

definition json_u64 :: "'v json_api \<Rightarrow> formatters \<Rightarrow> 'v \<Rightarrow> string \<Rightarrow> (u64, session_error) result" where
  "json_u64 ja fm v key =
     ok_or (Session_Protocol (''guest reply missing numeric '' @ fm_debug fm key))
       (Option.bind (ja_get ja v key) (ja_as_u64 ja))"

definition json_i32 :: "'v json_api \<Rightarrow> formatters \<Rightarrow> 'v \<Rightarrow> string \<Rightarrow> (int, session_error) result" where
  "json_i32 ja fm v key =
     and_then (ok_or (Session_Protocol (''guest reply missing numeric '' @ fm_debug fm key))
                 (Option.bind (ja_get ja v key) (ja_as_i64 ja)))
       (\<lambda>n. if - (2 ^ 31) \<le> n \<and> n < 2 ^ 31 then Ok n
            else Err (Session_Protocol (fm_debug fm key @ '' is out of range'')))"

definition json_string :: "'v json_api \<Rightarrow> formatters \<Rightarrow> 'v \<Rightarrow> string \<Rightarrow> (string, session_error) result" where
  "json_string ja fm v key =
     ok_or (Session_Protocol (''guest reply missing string '' @ fm_debug fm key))
       (Option.bind (ja_get ja v key) (ja_as_str ja))"

definition parse_output_data :: "'v json_api \<Rightarrow> formatters \<Rightarrow> byte list \<Rightarrow> (output_data, session_error) result" where
  "parse_output_data ja fm body =
     and_then (map_err Session_Json (ja_from_slice ja body)) (\<lambda>v.
     and_then (json_u64 ja fm v ''id'') (\<lambda>i.
     and_then (json_string ja fm v ''stream'') (\<lambda>stream.
     and_then (json_string ja fm v ''data'') (\<lambda>data.
       Ok \<lparr>od_id = i, od_stream = stream, od_data = data\<rparr>))))"

definition parse_exit_status :: "'v json_api \<Rightarrow> formatters \<Rightarrow> byte list \<Rightarrow> (exit_status_msg, session_error) result" where
  "parse_exit_status ja fm body =
     and_then (map_err Session_Json (ja_from_slice ja body)) (\<lambda>v.
     and_then (json_u64 ja fm v ''id'') (\<lambda>i.
     and_then (json_i32 ja fm v ''code'') (\<lambda>code.
       Ok \<lparr>es_id = i, es_code = code\<rparr>)))"

definition parse_port_event :: "'v json_api \<Rightarrow> formatters \<Rightarrow> byte list \<Rightarrow> (port_event_msg, session_error) result" where
  "parse_port_event ja fm body =
     and_then (map_err Session_Json (ja_from_slice ja body)) (\<lambda>v.
     and_then (json_u64 ja fm v ''port'') (\<lambda>port.
     and_then (if unat port < 2 ^ 16 then Ok (ucast port :: u16)
               else Err (Session_Protocol (''port '' @ show_uword port @ '' is out of range''))) (\<lambda>p.
     and_then (json_string ja fm v ''event'') (\<lambda>event.
       Ok \<lparr>pe_port = p, pe_event = event\<rparr>))))"

definition ensure_command_id :: "u64 \<Rightarrow> (unit, session_error) result" where
  "ensure_command_id i =
     (if i = COMMAND_ID then Ok ()
      else Err (Session_Protocol (''guest replied for unexpected command id '' @ show_uword i)))"

section \<open>The session\<close>

text \<open>The terminal of the host: both streams, in the order of the source's writes.\<close>

record terminal =
  tm_stdout :: writer
  tm_stderr :: writer

definition flush_both :: "terminal \<Rightarrow> terminal" where
  "flush_both t = \<lparr>tm_stdout = snd (flush (tm_stdout t)), tm_stderr = snd (flush (tm_stderr t))\<rparr>"

datatype session_reply = Keep_reading | Session_exit int | Session_failed session_error

definition session_reply_step ::
  "'v json_api \<Rightarrow> formatters \<Rightarrow> frame \<Rightarrow> terminal \<Rightarrow> session_reply \<times> terminal" where
  "session_reply_step ja fm f t =
     (if kind f = 3 then
        (case and_then (parse_output_data ja fm (payload f)) (\<lambda>m.
              map_ok (\<lambda>_. m) (ensure_command_id (od_id m))) of
           Err e \<Rightarrow> (Session_failed e, t)
         | Ok m \<Rightarrow>
             (case session_base64_decode (od_data m) of
                None \<Rightarrow> (Session_failed (Session_Protocol ''guest sent invalid base64''), t)
              | Some bytes \<Rightarrow>
                  if od_stream m = ''stdout'' then
                    (case write_all bytes (tm_stdout t) of
                       (Err e, w) \<Rightarrow> (Session_failed (Session_Io e), t\<lparr>tm_stdout := w\<rparr>)
                     | (Ok _, w) \<Rightarrow> (Keep_reading, flush_both (t\<lparr>tm_stdout := w\<rparr>)))
                  else if od_stream m = ''stderr'' then
                    (case write_all bytes (tm_stderr t) of
                       (Err e, w) \<Rightarrow> (Session_failed (Session_Io e), t\<lparr>tm_stderr := w\<rparr>)
                     | (Ok _, w) \<Rightarrow> (Keep_reading, flush_both (t\<lparr>tm_stderr := w\<rparr>)))
                  else (Session_failed (Session_Protocol (''unknown output stream '' @ fm_debug fm (od_stream m))), t)))
      else if kind f = 4 then
        (case and_then (parse_exit_status ja fm (payload f)) (\<lambda>s.
              map_ok (\<lambda>_. s) (ensure_command_id (es_id s))) of
           Err e \<Rightarrow> (Session_failed e, t)
         | Ok s \<Rightarrow> (Session_exit (es_code s), t))
      else (Session_failed (Session_Protocol (''unexpected frame type '' @ show_uword (kind f))), t))"

function session_loop ::
  "'v json_api \<Rightarrow> formatters \<Rightarrow> reader \<Rightarrow> terminal \<Rightarrow> (int, session_error) result \<times> terminal" where
  "session_loop ja fm r t =
     (case session_read_frame r of
        (Err e, _) \<Rightarrow> (Err (Session_Io e), t)
      | (Ok f, r1) \<Rightarrow>
          (case session_reply_step ja fm f t of
             (Session_failed e, t1) \<Rightarrow> (Err e, t1)
           | (Session_exit code, t1) \<Rightarrow> (Ok code, t1)
           | (Keep_reading, t1) \<Rightarrow> session_loop ja fm r1 t1))"
  by pat_completeness auto
termination
  by (relation "measure (\<lambda>(ja, fm, r, t). length (bytes_of r))") (auto dest: sym session_read_frame_smaller)

declare session_loop.simps [simp del]

text \<open>The printers of the messages a session sends.\<close>

record session_json =
  sj_command :: "execute_command \<Rightarrow> (byte list, string) result"
  sj_signal :: "forward_signal \<Rightarrow> (byte list, string) result"
  sj_window :: "window_size_msg \<Rightarrow> (byte list, string) result"

definition send_signal ::
  "session_json \<Rightarrow> int \<Rightarrow> writer \<Rightarrow> (unit, session_error) result \<times> writer" where
  "send_signal sj signal w =
     (case sj_signal sj \<lparr>fs_id = COMMAND_ID, fs_signal = signal\<rparr> of
        Err e \<Rightarrow> (Err (Session_Json e), w)
      | Ok body \<Rightarrow> (case session_write_frame 2 body w of (res, w1) \<Rightarrow> (map_err Session_Io res, w1)))"

definition send_window_size ::
  "session_json \<Rightarrow> u16 \<Rightarrow> u16 \<Rightarrow> writer \<Rightarrow> (unit, session_error) result \<times> writer" where
  "send_window_size sj rows cols w =
     (case sj_window sj \<lparr>ws_id = COMMAND_ID, ws_rows = rows, ws_cols = cols\<rparr> of
        Err e \<Rightarrow> (Err (Session_Json e), w)
      | Ok body \<Rightarrow> (case session_write_frame 8 body w of (res, w1) \<Rightarrow> (map_err Session_Io res, w1)))"

text \<open>\<open>ioctl\<close> yields rows and columns, or fails.\<close>

definition current_window_size :: "(u16 \<times> u16) option \<Rightarrow> (u16 \<times> u16) option" where
  "current_window_size ioctl =
     (case ioctl of Some (rows, cols) \<Rightarrow> if 0 < rows \<and> 0 < cols then Some (rows, cols) else None | None \<Rightarrow> None)"

text \<open>
  What the machine answers during a session: whether both ends are terminals, the connection
  attempts, the socket options of the start and the end of the handshake, the window, and
  whether the signal forwarder could be started.
\<close>

record session_env =
  se_tty :: bool
  se_connect :: "nat \<Rightarrow> (reader \<times> writer, session_error) result"
  se_setsockopt :: "bool \<Rightarrow> nat \<Rightarrow> nat \<times> nat \<Rightarrow> io_error option"
  se_winsize :: "(u16 \<times> u16) option"
  se_signals :: "(unit, session_error) result"

text \<open>The handshake, up to the point where the loop starts: the reader and writer it leaves.\<close>

definition session_handshake ::
  "session_json \<Rightarrow> session_env \<Rightarrow> smoke_config \<Rightarrow> reader \<Rightarrow> writer \<Rightarrow> (reader, session_error) result \<times> writer" where
  "session_handshake sj se config r w =
     (case session_read_frame r of
        (Err e, _) \<Rightarrow> (Err (io_or_startup_timeout e (sc_timeout config)), w)
      | (Ok ready, r1) \<Rightarrow>
          if kind ready \<noteq> 6
          then (Err (Session_Protocol (''expected Ready frame, got type '' @ show_uword (kind ready))), w)
          else (case sj_command sj (host_command config (se_tty se)) of
                  Err e \<Rightarrow> (Err (Session_Json e), w)
                | Ok body \<Rightarrow>
                    (case session_write_frame 1 body w of
                       (Err e, w1) \<Rightarrow> (Err (io_or_startup_timeout e (sc_timeout config)), w1)
                     | (Ok _, w1) \<Rightarrow>
                         (case (if se_tty se
                                then (case current_window_size (se_winsize se) of
                                        Some (rows, cols) \<Rightarrow> send_window_size sj rows cols w1
                                      | None \<Rightarrow> (Ok (), w1))
                                else (Ok (), w1)) of
                            (Err e, w2) \<Rightarrow> (Err e, w2)
                          | (Ok _, w2) \<Rightarrow> (Ok r1, w2)))))"

definition run_attached ::
  "'v json_api \<Rightarrow> session_json \<Rightarrow> formatters \<Rightarrow> session_env \<Rightarrow> smoke_config \<Rightarrow> terminal
     \<Rightarrow> (int, session_error) result \<times> terminal" where
  "run_attached ja sj fm se config t =
     (case session_validate_config config of
        Err e \<Rightarrow> (Err e, t)
      | Ok _ \<Rightarrow>
     (case fst (connect_vsock_with_retry fm (sc_cid config) (sc_port config) (sc_timeout config) (se_connect se)) of
        Err e \<Rightarrow> (Err e, t)
      | Ok (r, w) \<Rightarrow>
     (case set_socket_timeout (se_setsockopt se True) (Some (sc_timeout config)) of
        Err e \<Rightarrow> (Err (Session_Io e), t)
      | Ok _ \<Rightarrow>
     (case session_handshake sj se config r w of
        (Err e, _) \<Rightarrow> (Err e, t)
      | (Ok r1, _) \<Rightarrow>
     (case set_socket_timeout (se_setsockopt se False) None of
        Err e \<Rightarrow> (Err (Session_Io e), t)
      | Ok _ \<Rightarrow>
     (case se_signals se of
        Err e \<Rightarrow> (Err e, t)
      | Ok _ \<Rightarrow> session_loop ja fm r1 t))))))"


section \<open>Signals\<close>

definition SIGINT :: int where "SIGINT = 2"
definition SIGTERM :: int where "SIGTERM = 15"
definition SIGWINCH :: int where "SIGWINCH = 28"

text \<open>
  The outcomes of the reads of the signal descriptor, each with the window size at that
  moment; the end of the list is the stop flag.
\<close>

datatype signal_read = Sig_would_block | Sig_error | Sig_short | Sig int

fun signal_loop ::
  "session_json \<Rightarrow> bool \<Rightarrow> (signal_read \<times> (u16 \<times> u16) option) list \<Rightarrow> writer \<Rightarrow> writer" where
  "signal_loop sj tty [] w = w"
| "signal_loop sj tty ((rd, winsize) # reads) w =
     (case rd of
        Sig_would_block \<Rightarrow> signal_loop sj tty reads w
      | Sig_error \<Rightarrow> w
      | Sig_short \<Rightarrow> signal_loop sj tty reads w
      | Sig signal \<Rightarrow>
          if signal = SIGINT \<or> signal = SIGTERM then
            (case send_signal sj signal w of
               (Err _, w1) \<Rightarrow> w1
             | (Ok _, w1) \<Rightarrow> signal_loop sj tty reads w1)
          else if signal = SIGWINCH \<and> tty then
            (case current_window_size winsize of
               Some (rows, cols) \<Rightarrow>
                 (case send_window_size sj rows cols w of
                    (Err _, w1) \<Rightarrow> w1
                  | (Ok _, w1) \<Rightarrow> signal_loop sj tty reads w1)
             | None \<Rightarrow> signal_loop sj tty reads w)
          else signal_loop sj tty reads w)"

text \<open>The signals a forwarder blocks and listens to.\<close>

definition forwarded_signals :: "bool \<Rightarrow> int list" where
  "forwarded_signals tty = [SIGINT, SIGTERM] @ (if tty then [SIGWINCH] else [])"

section \<open>Port forwarding\<close>

text \<open>
  The listeners of \<open>port_forward_loop\<close>, a map from port to running listener, as the list of
  its keys. \<open>bind k p\<close> is the outcome of the \<open>k\<close>-th start of a listener, on port \<open>p\<close>.
\<close>

record forwarding =
  pf_listeners :: "u16 list"
  pf_binds :: nat

definition apply_port_event ::
  "(nat \<Rightarrow> u16 \<Rightarrow> unit io_result) \<Rightarrow> port_event_msg \<Rightarrow> forwarding \<Rightarrow> forwarding" where
  "apply_port_event bind event s =
     (if pe_event event = ''opened'' then
        (if pe_port event \<in> set (pf_listeners s) then s
         else case bind (pf_binds s) (pe_port event) of
                Ok _ \<Rightarrow> s\<lparr>pf_listeners := pf_listeners s @ [pe_port event], pf_binds := Suc (pf_binds s)\<rparr>
              | Err _ \<Rightarrow> s\<lparr>pf_binds := Suc (pf_binds s)\<rparr>)
      else if pe_event event = ''closed'' then s\<lparr>pf_listeners := removeAll (pe_port event) (pf_listeners s)\<rparr>
      else s)"

definition port_frame_step ::
  "'v json_api \<Rightarrow> formatters \<Rightarrow> (nat \<Rightarrow> u16 \<Rightarrow> unit io_result) \<Rightarrow> frame \<Rightarrow> forwarding \<Rightarrow> forwarding" where
  "port_frame_step ja fm bind f s =
     (if kind f \<noteq> 5 then s
      else case parse_port_event ja fm (payload f) of
             Err _ \<Rightarrow> s
           | Ok event \<Rightarrow> apply_port_event bind event s)"

text \<open>The loop; each element of the list is the value of the stop flag at the top of a round.\<close>

fun port_event_rounds ::
  "'v json_api \<Rightarrow> formatters \<Rightarrow> (nat \<Rightarrow> u16 \<Rightarrow> unit io_result) \<Rightarrow> bool list \<Rightarrow> reader \<Rightarrow> forwarding \<Rightarrow> forwarding" where
  "port_event_rounds ja fm bind [] r s = s"
| "port_event_rounds ja fm bind (stop # stops) r s =
     (if stop then s
      else case session_read_frame r of
             (Ok f, r1) \<Rightarrow> port_event_rounds ja fm bind stops r1 (port_frame_step ja fm bind f s)
           | (Err e, r1) \<Rightarrow>
               if io_kind e = TimedOut \<or> io_kind e = WouldBlock
               then port_event_rounds ja fm bind stops r1 s
               else s)"

text \<open>
  The whole thread: what it forwarded when it left the loop. All listeners are stopped then.
\<close>

definition port_forward_loop ::
  "'v json_api \<Rightarrow> formatters \<Rightarrow> (nat \<Rightarrow> u16 \<Rightarrow> unit io_result) \<Rightarrow> u32 \<Rightarrow> duration
     \<Rightarrow> (nat \<Rightarrow> (reader, session_error) result) \<Rightarrow> (nat \<Rightarrow> nat \<times> nat \<Rightarrow> io_error option) \<Rightarrow> bool list \<Rightarrow> forwarding option" where
  "port_forward_loop ja fm bind cid timeout connect setsockopt stops =
     (case fst (connect_vsock_with_retry fm cid VSOCK_PORT_EVENTS timeout connect) of
        Err _ \<Rightarrow> None
      | Ok r \<Rightarrow>
          (case set_socket_timeout setsockopt (Some 250000000) of
             Err _ \<Rightarrow> None
           | Ok _ \<Rightarrow> Some (port_event_rounds ja fm bind stops r \<lparr>pf_listeners = [], pf_binds = 0\<rparr>)))"

text \<open>A forwarded connection: the port header, then both directions; as in the guest.\<close>

definition host_relay ::
  "unit io_result \<times> unit io_result \<Rightarrow> reader \<Rightarrow> writer \<Rightarrow> reader \<Rightarrow> writer \<Rightarrow> writer \<times> writer \<times> bool" where
  "host_relay clones vsock_in vsock_out tcp_in tcp_out =
     (case clones of
        (Err _, _) \<Rightarrow> (vsock_out, tcp_out, False)
      | (Ok _, Err _) \<Rightarrow> (vsock_out, tcp_out, False)
      | (Ok _, Ok _) \<Rightarrow> (copy_loop 16384 tcp_in vsock_out, copy_loop 16384 vsock_in tcp_out, True))"

definition relay_host_connection ::
  "formatters \<Rightarrow> (reader \<times> writer, session_error) result \<Rightarrow> unit io_result \<times> unit io_result \<Rightarrow> u16 \<Rightarrow> reader \<Rightarrow> writer
     \<Rightarrow> (writer \<times> writer \<times> bool) io_result" where
  "relay_host_connection fm connect clones port tcp_in tcp_out =
     (case map_err (session_error_to_io fm) connect of
        Err e \<Rightarrow> Err e
      | Ok (vsock_in, vsock_out) \<Rightarrow>
          (case write_all (u16_to_be_bytes port) vsock_out of
             (Err e, _) \<Rightarrow> Err e
           | (Ok _, vsock_out1) \<Rightarrow> Ok (host_relay clones vsock_in vsock_out1 tcp_in tcp_out)))"

section \<open>Timeouts\<close>

lemma timeval_zero: "duration_to_timeval t = (0, 0) \<longleftrightarrow> t = None"
proof (cases t)
  case (Some d)
  have "micros div 1000000 = 0 \<Longrightarrow> micros mod 1000000 = micros" for micros :: nat
    by (metis div_eq_0_iff mod_less zero_neq_numeral)
  with Some show ?thesis by (auto simp: duration_to_timeval_def I64_MAX_def Let_def split: if_splits)
qed (simp add: duration_to_timeval_def)

lemma timeval_exact:
  assumes "as_secs d < I64_MAX"
  shows "fst (duration_to_timeval (Some d)) * 1000000 + snd (duration_to_timeval (Some d)) = max (as_micros d) 1"
proof -
  have "as_micros d div 1000000 = as_secs d" by (simp add: as_micros_def as_secs_def div_mult2_eq [symmetric])
  then have "max (as_micros d) 1 div 1000000 = as_secs d" by (cases "as_micros d = 0") (auto simp: max_def)
  with assms have "duration_to_timeval (Some d) = (max (as_micros d) 1 div 1000000, max (as_micros d) 1 mod 1000000)"
    by (simp add: duration_to_timeval_def Let_def)
  then show ?thesis by (simp only: fst_conv snd_conv div_mult_mod_eq)
qed

text \<open>
  A finite timeout never turns into an infinite one: the kernel reads \<open>(0, 0)\<close> as no
  timeout, and only the absent timeout is converted to it. Seconds fit \<open>i64\<close>, microseconds are
  below one million, a timeout of less than \<open>i64::MAX\<close> seconds is converted exactly but for the
  minimum of one microsecond, and the two copies of the conversion agree.
\<close>

theorem timeval_bounds:
  assumes "as_secs d < I64_MAX"
  shows "(duration_to_timeval t = (0, 0) \<longleftrightarrow> t = None)
    \<and> fst (duration_to_timeval t) \<le> I64_MAX \<and> snd (duration_to_timeval t) < 1000000
    \<and> fst (duration_to_timeval (Some d)) * 1000000 + snd (duration_to_timeval (Some d)) = max (as_micros d) 1
    \<and> duration_to_timeval (Some d) = smoke_duration_to_timeval d"
proof (intro conjI)
  show "fst (duration_to_timeval t) \<le> I64_MAX" "snd (duration_to_timeval t) < 1000000"
    by (cases t; simp add: duration_to_timeval_def Let_def)+
  show "duration_to_timeval (Some d) = smoke_duration_to_timeval d"
    by (simp add: duration_to_timeval_def smoke_duration_to_timeval_def)
qed (simp_all add: timeval_zero timeval_exact [OF assms, simplified])

lemma timeval_bounds_witness:
  "fst (duration_to_timeval (Some 250000000)) * 1000000 + snd (duration_to_timeval (Some 250000000)) = 250000
   \<and> duration_to_timeval (Some 999) \<noteq> (0, 0)"
proof -
  have secs: "as_secs 250000000 < I64_MAX" by (simp add: as_secs_def I64_MAX_def)
  have "max (as_micros 250000000) 1 = 250000" by (simp add: as_micros_def)
  with timeval_bounds [OF secs, of "Some 999"] show ?thesis by (metis option.distinct(1))
qed

end
