(* ===== verification/Output_Client.thy ===== *)
theory Output_Client
  imports Guest_Process Host_Smoke
begin

text \<open>
  What the host's three readers of a command's output have in common: the attached session
  (linux/src/session.rs), the smoke client (linux/src/smoke.rs) and the stand-alone client
  (fendd/src/bin/fend-vsock-smoke.rs). The locale \<open>output_client\<close> is the contract of such a
  reader; its lemma joins it to the output threads and the waiter of the agent. The
  interpretations are with the readers: Agent_Session and Vsock_Smoke.
\<close>

section \<open>The agent's replies\<close>

text \<open>
  The law of the JSON library for the agent's replies: printing succeeds, stays below the frame
  limit, and the host's accessors find the printed fields.
\<close>

definition replies_law :: "'v json_api \<Rightarrow> agent_json \<Rightarrow> bool" where
  "replies_law ja js \<longleftrightarrow>
     (\<forall>m. is_ok (js_output js m)) \<and>
     (\<forall>m json. output_ok COMMAND_ID m \<and> js_output js m = Ok json \<longrightarrow>
        length json \<le> MAX_PAYLOAD \<and>
        (\<exists>v. ja_from_slice ja json = Ok v
           \<and> Option.bind (ja_get ja v ''id'') (ja_as_u64 ja) = Some (od_id m)
           \<and> Option.bind (ja_get ja v ''stream'') (ja_as_str ja) = Some (od_stream m)
           \<and> Option.bind (ja_get ja v ''data'') (ja_as_str ja) = Some (od_data m))) \<and>
     (\<forall>m. es_id m = COMMAND_ID \<and> - (2 ^ 31) \<le> es_code m \<and> es_code m < 2 ^ 31 \<longrightarrow>
        (\<exists>json v. js_exit js m = Ok json \<and> length json \<le> MAX_PAYLOAD \<and> ja_from_slice ja json = Ok v
           \<and> Option.bind (ja_get ja v ''id'') (ja_as_u64 ja) = Some (es_id m)
           \<and> Option.bind (ja_get ja v ''code'') (ja_as_i64 ja) = Some (es_code m)))"

definition exit_frame :: "agent_json \<Rightarrow> int \<Rightarrow> byte list" where
  "exit_frame js code =
     (case js_exit js \<lparr>es_id = COMMAND_ID, es_code = code\<rparr> of
        Ok json \<Rightarrow> frame_bytes (message_type_as_u8 ExitStatus) json | Err _ \<Rightarrow> [])"

lemma output_printed:
  assumes "replies_law ja js" and "output_ok COMMAND_ID m"
  obtains json v where "js_output js m = Ok json" "length json \<le> MAX_PAYLOAD"
    "output_frame (js_output js) m = frame_bytes 3 json" "ja_from_slice ja json = Ok v"
    "Option.bind (ja_get ja v ''id'') (ja_as_u64 ja) = Some COMMAND_ID"
    "Option.bind (ja_get ja v ''stream'') (ja_as_str ja) = Some (od_stream m)"
    "Option.bind (ja_get ja v ''data'') (ja_as_str ja) = Some (od_data m)"
proof -
  obtain json where json: "js_output js m = Ok json"
    using assms(1) unfolding replies_law_def is_ok_iff by blast
  with assms obtain v where "length json \<le> MAX_PAYLOAD" "ja_from_slice ja json = Ok v"
      "Option.bind (ja_get ja v ''id'') (ja_as_u64 ja) = Some (od_id m)"
      "Option.bind (ja_get ja v ''stream'') (ja_as_str ja) = Some (od_stream m)"
      "Option.bind (ja_get ja v ''data'') (ja_as_str ja) = Some (od_data m)"
    unfolding replies_law_def by blast
  with assms(2) json show ?thesis by (intro that) (simp_all add: output_frame_def output_ok_def)
qed

lemma exit_printed:
  assumes "replies_law ja js" and "- (2 ^ 31) \<le> code" "code < 2 ^ 31"
  obtains json v where "exit_frame js code = frame_bytes 4 json" "length json \<le> MAX_PAYLOAD" "ja_from_slice ja json = Ok v"
    "Option.bind (ja_get ja v ''id'') (ja_as_u64 ja) = Some COMMAND_ID"
    "Option.bind (ja_get ja v ''code'') (ja_as_i64 ja) = Some code"
proof -
  let ?m = "\<lparr>es_id = COMMAND_ID, es_code = code\<rparr>"
  from assms obtain json v where "js_exit js ?m = Ok json" "length json \<le> MAX_PAYLOAD" "ja_from_slice ja json = Ok v"
      "Option.bind (ja_get ja v ''id'') (ja_as_u64 ja) = Some COMMAND_ID"
      "Option.bind (ja_get ja v ''code'') (ja_as_i64 ja) = Some code"
    unfolding replies_law_def by (metis (no_types, lifting) exit_status_msg.select_convs)
  then show ?thesis by (intro that) (simp_all add: exit_frame_def)
qed

text \<open>The bytes of the two streams that some replies carry, as they come in.\<close>

lemma stream_bytes_take: "length (stream_bytes name (take k ms)) \<le> length (stream_bytes name ms)"
  using stream_bytes_append [of name "take k ms" "drop k ms"] by simp

section \<open>The contract of a reader\<close>

text \<open>
  \<open>client\<close> is the loop of the reader, on a stream and its own state; \<open>deliver\<close> is what one output
  message does to that state and \<open>finish\<close> the result at the exit status; \<open>ready\<close> says that the
  reader is able to go on (its terminal works, its limits are not exceeded).
\<close>

locale output_client =
  fixes client :: "reader \<Rightarrow> 's \<Rightarrow> 'r"
    and deliver :: "output_data \<Rightarrow> 's \<Rightarrow> 's"
    and finish :: "'s \<Rightarrow> int \<Rightarrow> 'r"
    and ready :: "'s \<Rightarrow> bool"
    and js :: agent_json
  assumes output_law: "\<lbrakk>ready s; ready (deliver m s); output_ok COMMAND_ID m; clean r;
      bytes_of r = output_frame (js_output js) m @ rest\<rbrakk>
    \<Longrightarrow> \<exists>r1. client r s = client r1 (deliver m s) \<and> clean r1 \<and> bytes_of r1 = rest"
    and exit_law: "\<lbrakk>ready s; - (2 ^ 31) \<le> code; code < 2 ^ 31; clean r; bytes_of r = exit_frame js code\<rbrakk>
    \<Longrightarrow> client r s = finish s code"
begin

text \<open>After any replies all of which leave it ready, the reader goes on with the rest of the stream.\<close>

lemma client_prefix:
  assumes "\<forall>k \<le> length ms. ready (fold deliver (take k ms) s)" and "\<forall>m \<in> set ms. output_ok COMMAND_ID m"
    and "clean r" and "bytes_of r = concat (map (output_frame (js_output js)) ms) @ rest"
  shows "\<exists>r1. client r s = client r1 (fold deliver ms s) \<and> clean r1 \<and> bytes_of r1 = rest"
  using assms
proof (induction ms arbitrary: r s)
  case (Cons m ms)
  have later: "ready (fold deliver (take k ms) (deliver m s))" if "k \<le> length ms" for k
    using that Cons.prems(1) [rule_format, of "Suc k"] by simp
  then have "ready s" "ready (deliver m s)" using Cons.prems(1) [rule_format, of 0] later [of 0] by simp_all
  with output_law [of s m r] Cons.prems(2-4) obtain r1 where r1: "client r s = client r1 (deliver m s)" "clean r1"
      "bytes_of r1 = concat (map (output_frame (js_output js)) ms) @ rest" by auto
  with Cons.IH [of "deliver m s" r1] later Cons.prems(2) show ?case by auto
qed auto

text \<open>
  A reader on the other end of the agent's output threads and waiter ends with the exit code of
  the command, after messages that carry exactly what the command wrote.
\<close>

lemma agent_output:
  assumes "(out_step (js_output js) COMMAND_ID)\<^sup>*\<^sup>* (Some out, Some err, w) (None, None, w1)"
    and "data_only out" and "data_only err" and "working w" and "\<And>m. is_ok (js_output js m)"
    and "- (2 ^ 31) \<le> exit_code wait" and "exit_code wait < 2 ^ 31"
    and "clean r" and "w_out w @ bytes_of r = w_out (waiter js COMMAND_ID wait w1)"
  obtains ms where "stream_bytes ''stdout'' ms = bytes_of out" "stream_bytes ''stderr'' ms = bytes_of err"
    "\<forall>m \<in> set ms. output_ok COMMAND_ID m"
    "bytes_of r = concat (map (output_frame (js_output js)) ms) @ exit_frame js (exit_code wait)"
    "\<And>s. \<forall>k \<le> length ms. ready (fold deliver (take k ms) s) \<Longrightarrow> client r s = finish (fold deliver ms s) (exit_code wait)"
proof -
  from output_sent [OF assms(1-5)] obtain ms where ms:
    "w_out w1 = w_out w @ concat (map (output_frame (js_output js)) ms)" "\<forall>m \<in> set ms. output_ok COMMAND_ID m"
    "stream_bytes ''stdout'' ms = bytes_of out" "stream_bytes ''stderr'' ms = bytes_of err" "working w1" by blast
  have bytes: "bytes_of r = concat (map (output_frame (js_output js)) ms) @ exit_frame js (exit_code wait)"
    using assms(9) ms(1,5) by (auto simp: waiter_def send_exit_def write_frame_working exit_frame_def split: result.splits)
  have "client r s = finish (fold deliver ms s) (exit_code wait)" if "\<forall>k \<le> length ms. ready (fold deliver (take k ms) s)" for s
  proof -
    from client_prefix [OF that ms(2) assms(8) bytes] obtain r1 where
      "client r s = client r1 (fold deliver ms s)" "clean r1" "bytes_of r1 = exit_frame js (exit_code wait)" by blast
    with exit_law [of "fold deliver ms s" _ r1] that [rule_format, of "length ms"] assms(6,7) show ?thesis by simp
  qed
  with ms(2-4) bytes show ?thesis by (intro that) auto
qed

end

end
