(* ===== verification/Agent_Session.thy ===== *)
theory Agent_Session
  imports Guest_Monitors Guest_Connection Host_Session Output_Client
begin

text \<open>
  The agent and the host's session together: a command's output and exit status from the
  guest's pipes to the host's terminal, the guest's listening ports to the host's listeners,
  and a forwarded connection from a host socket to a guest socket. Between the two sides stands
  serde_json; what each theorem needs of it is a named law on the two records of its functions.
\<close>

section \<open>Output and exit status\<close>

definition terminal_ok :: "terminal \<Rightarrow> bool" where
  "terminal_ok t \<longleftrightarrow> working (tm_stdout t) \<and> working (tm_stderr t)"

definition printed :: "terminal \<Rightarrow> byte list \<Rightarrow> byte list \<Rightarrow> terminal" where
  "printed t out err =
     \<lparr>tm_stdout = (tm_stdout t)\<lparr>w_out := w_out (tm_stdout t) @ out\<rparr>,
      tm_stderr = (tm_stderr t)\<lparr>w_out := w_out (tm_stderr t) @ err\<rparr>\<rparr>"

lemma flush_working: "working w \<Longrightarrow> flush w = (Ok (), w)"
  by (simp add: working_def flush_def)

lemma write_all_working: "working w \<Longrightarrow> write_all bs w = (Ok (), w\<lparr>w_out := w_out w @ bs\<rparr>)"
  by (simp add: working_def write_all_no_faults)

lemma terminal_ok_printed [simp]: "terminal_ok (printed t out err) \<longleftrightarrow> terminal_ok t"
  by (simp add: terminal_ok_def printed_def)

lemma printed_printed [simp]: "printed (printed t a b) c d = printed t (a @ c) (b @ d)"
  by (simp add: printed_def)

lemma session_parses:
  "ja_from_slice ja json = Ok v \<Longrightarrow> Option.bind (ja_get ja v ''id'') (ja_as_u64 ja) = Some COMMAND_ID \<Longrightarrow>
   Option.bind (ja_get ja v ''stream'') (ja_as_str ja) = Some (od_stream m) \<Longrightarrow>
   Option.bind (ja_get ja v ''data'') (ja_as_str ja) = Some (od_data m) \<Longrightarrow>
   od_id m = COMMAND_ID \<Longrightarrow> parse_output_data ja fm json = Ok m"
  by (simp add: parse_output_data_def json_u64_def json_string_def)

definition session_deliver :: "output_data \<Rightarrow> terminal \<Rightarrow> terminal" where
  "session_deliver m t = printed t (stream_bytes ''stdout'' [m]) (stream_bytes ''stderr'' [m])"

lemma session_deliver_fold:
  "fold session_deliver ms t = printed t (stream_bytes ''stdout'' ms) (stream_bytes ''stderr'' ms)"
proof (induction ms arbitrary: t)
  case (Cons m ms)
  then show ?case using stream_bytes_append [of _ "[m]" ms] by (simp add: session_deliver_def)
qed (simp add: printed_def stream_bytes_def)

lemma output_reply:
  assumes "parse_output_data ja fm json = Ok m" and "output_ok COMMAND_ID m" and "terminal_ok t"
  shows "session_reply_step ja fm \<lparr>kind = 3, payload = json\<rparr> t = (Keep_reading, session_deliver m t)"
proof -
  from assms(2) obtain bytes where bytes: "session_base64_decode (od_data m) = Some bytes"
    by (auto simp: output_ok_def)
  from assms(2) consider "od_stream m = ''stdout''" | "od_stream m = ''stderr''" by (auto simp: output_ok_def)
  then show ?thesis
    by cases (use assms in \<open>simp_all add: session_reply_step_def bytes output_ok_def ensure_command_id_def session_deliver_def
        write_all_working flush_working flush_both_def terminal_ok_def printed_def stream_bytes_def\<close>)
qed

text \<open>The next frame of the agent, and what the session does with it.\<close>

lemma session_reads_output:
  assumes "replies_law ja js" and "terminal_ok t" and m: "output_ok COMMAND_ID m" and "clean r"
    and "bytes_of r = output_frame (js_output js) m @ rest"
  obtains f r1 where "session_read_frame r = (Ok f, r1)" "clean r1" "bytes_of r1 = rest"
    "session_reply_step ja fm f t = (Keep_reading, session_deliver m t)"
proof -
  from output_printed [OF assms(1) m] obtain json v where
    json: "output_frame (js_output js) m = frame_bytes 3 json" "length json \<le> MAX_PAYLOAD"
    and v: "ja_from_slice ja json = Ok v" "Option.bind (ja_get ja v ''id'') (ja_as_u64 ja) = Some COMMAND_ID"
      "Option.bind (ja_get ja v ''stream'') (ja_as_str ja) = Some (od_stream m)"
      "Option.bind (ja_get ja v ''data'') (ja_as_str ja) = Some (od_data m)" by metis
  have "parse_output_data ja fm json = Ok m" using session_parses [OF v] m by (simp add: output_ok_def)
  from output_reply [OF this m assms(2)] session_read_frame_ok [OF assms(4) assms(5) [unfolded json(1)] json(2)]
  show ?thesis using that by blast
qed

lemma session_reads_exit:
  assumes "replies_law ja js" and code: "- (2 ^ 31) \<le> code" "code < 2 ^ 31" and "clean r" and "bytes_of r = exit_frame js code"
  obtains f r1 where "session_read_frame r = (Ok f, r1)" "session_reply_step ja fm f t = (Session_exit code, t)"
proof -
  from exit_printed [OF assms(1) code] obtain json v where json: "exit_frame js code = frame_bytes 4 json" "length json \<le> MAX_PAYLOAD"
    and v: "ja_from_slice ja json = Ok v" "Option.bind (ja_get ja v ''id'') (ja_as_u64 ja) = Some COMMAND_ID"
      "Option.bind (ja_get ja v ''code'') (ja_as_i64 ja) = Some code" by metis
  from v code have "parse_exit_status ja fm json = Ok \<lparr>es_id = COMMAND_ID, es_code = code\<rparr>"
    by (simp add: parse_exit_status_def json_u64_def json_i32_def)
  then have "session_reply_step ja fm \<lparr>kind = 4, payload = json\<rparr> t = (Session_exit code, t)"
    by (simp add: session_reply_step_def ensure_command_id_def)
  moreover have "bytes_of r = frame_bytes 4 json @ []" using assms(5) json(1) by simp
  from session_read_frame_ok [OF assms(4) this json(2)] have
    "\<exists>r1. session_read_frame r = (Ok \<lparr>kind = 4, payload = json\<rparr>, r1)" by blast
  ultimately show ?thesis using that by blast
qed

interpretation session: output_client "session_loop ja fm" session_deliver "\<lambda>t code. (Ok code, t)"
  "\<lambda>t. replies_law ja js \<and> terminal_ok t" js
proof unfold_locales
  fix t m r rest
  assume "replies_law ja js \<and> terminal_ok t" and "output_ok COMMAND_ID m" and "clean r"
    "bytes_of r = output_frame (js_output js) m @ rest"
  with session_reads_output [of ja js t m r rest fm] obtain f r1 where
    f: "session_read_frame r = (Ok f, r1)" "clean r1" "bytes_of r1 = rest"
      "session_reply_step ja fm f t = (Keep_reading, session_deliver m t)" by blast
  then show "\<exists>r1. session_loop ja fm r t = session_loop ja fm r1 (session_deliver m t) \<and> clean r1 \<and> bytes_of r1 = rest"
    by (intro exI [of _ r1]) (subst session_loop.simps, simp)
next
  fix t code r
  assume "replies_law ja js \<and> terminal_ok t" and "- (2 ^ 31) \<le> code" "code < 2 ^ 31" "clean r" "bytes_of r = exit_frame js code"
  with session_reads_exit [of ja js code r fm t] obtain f r1 where
    "session_read_frame r = (Ok f, r1)" "session_reply_step ja fm f t = (Session_exit code, t)" by blast
  then show "session_loop ja fm r t = (Ok code, t)" by (subst session_loop.simps) simp
qed

text \<open>
  (C3) End to end: however the two output threads of a piped command are interleaved and
  however the host's reads cut the stream, the bytes the command wrote to standard output and
  standard error appear on the host's standard output and standard error, complete and in
  order, and the session then returns the exit code of the command (\<open>-1\<close> for a signal). The
  hypotheses are a working connection and terminal, pipes that end without a read error, and
  the law of the JSON library.
\<close>

theorem output_end_to_end:
  assumes "replies_law ja js" and "terminal_ok t"
    and "(out_step (js_output js) COMMAND_ID)\<^sup>*\<^sup>* (Some out, Some err, w) (None, None, w1)"
    and "data_only out" and "data_only err" and "working w"
    and "- (2 ^ 31) \<le> exit_code wait" and "exit_code wait < 2 ^ 31"
    and "clean r" and "w_out w @ bytes_of r = w_out (waiter js COMMAND_ID wait w1)"
  shows "session_loop ja fm r t = (Ok (exit_code wait), printed t (bytes_of out) (bytes_of err))"
proof -
  have ok: "is_ok (js_output js m)" for m using assms(1) by (simp add: replies_law_def)
  obtain ms where "stream_bytes ''stdout'' ms = bytes_of out" "stream_bytes ''stderr'' ms = bytes_of err"
    "\<And>s. \<forall>k \<le> length ms. replies_law ja js \<and> terminal_ok (fold session_deliver (take k ms) s)
       \<Longrightarrow> session_loop ja fm r s = (Ok (exit_code wait), fold session_deliver ms s)"
    by (rule session.agent_output [OF assms(3-6) ok assms(7-10), of ja fm]) blast
  with assms(1,2) show ?thesis by (simp add: session_deliver_fold)
qed

text \<open>A JSON library for one instance: replies are a tag and the data, exit codes are decimal.\<close>

definition demo_json :: agent_json where
  "demo_json =
     \<lparr>js_output = (\<lambda>m. Ok (as_bytes ((if od_stream m = ''stdout'' then CHR ''1'' else CHR ''2'') # od_data m))),
      js_exit = (\<lambda>m. Ok (as_bytes (show_int (es_code m))))\<rparr>"

definition demo_api :: "string json_api" where
  "demo_api =
     \<lparr>ja_from_slice = (\<lambda>bs. Ok (bytes_to_string bs)),
      ja_get = (\<lambda>v k. Some (if k = ''id'' then ''1''
                   else if k = ''stream'' then (if hd v = CHR ''1'' then ''stdout'' else ''stderr'')
                   else if k = ''data'' then tl v else v)),
      ja_as_u64 = parse_u64, ja_as_i64 = parse_i64, ja_as_str = Some\<rparr>"

lemma length_show_i32:
  assumes "- (2 ^ 31) \<le> code" and "code < 2 ^ 31"
  shows "length (show_int code) \<le> 11"
proof -
  have "(10 :: nat) ^ Suc 9 = 10000000000" by simp
  moreover have "nat (- code) < 10000000000" "nat code < 10000000000" using assms by simp_all
  ultimately have "length (show_nat (nat (- code))) \<le> Suc 9" "length (show_nat (nat code)) \<le> Suc 9"
    by (metis length_show_nat)+
  then show ?thesis by (simp add: show_int_def)
qed

lemma demo_replies_law: "replies_law demo_api demo_json"
proof -
  have "show_nat 1 = ''1''" by (simp add: show_nat.simps char_of_small_eq)
  then have one: "parse_u64 ''1'' = Some COMMAND_ID" using parse_u64_show [of 1] by (simp add: COMMAND_ID_def)
  have "length (as_bytes (show_int code)) \<le> MAX_PAYLOAD \<and> parse_i64 (show_int code) = Some code"
    if "- (2 ^ 31) \<le> code" "code < 2 ^ 31" for code
    using length_show_i32 [OF that] parse_i64_show_int [of code] that
    by (simp add: as_bytes_def MAX_PAYLOAD_def)
  moreover have "length (as_bytes (c # od_data m)) \<le> MAX_PAYLOAD" if "output_ok COMMAND_ID m" for c m
    using that by (simp add: output_ok_def MAX_PAYLOAD_def)
  moreover have "od_id m = COMMAND_ID \<and> (od_stream m = ''stdout'' \<or> od_stream m = ''stderr'')" if "output_ok COMMAND_ID m" for m
    using that by (auto simp: output_ok_def)
  ultimately show ?thesis
    unfolding replies_law_def demo_api_def demo_json_def
    by (fastforce simp: string_as_bytes one simp del: as_bytes_simps)
qed

text \<open>A command that writes two bytes to standard output and exits with 7: its run and its stream.\<close>

definition demo_written :: writer where
  "demo_written = sink [3, 0, 0, 0, 5, 49, 97, 71, 107, 61]"

definition demo_stream :: reader where
  "demo_stream = [Chunk [3, 0, 0, 0], Chunk [5, 49, 97, 71, 107, 61, 4, 0, 0, 0, 1], Chunk [55]]"

lemma demo_run:
  "(out_step (js_output demo_json) COMMAND_ID)\<^sup>*\<^sup>* (Some [Chunk [104, 105]], Some [], sink []) (None, None, demo_written)"
proof -
  let ?tv = "js_output demo_json"
  have json: "?tv \<lparr>od_id = COMMAND_ID, od_stream = ''stdout'', od_data = base64_encode [104, 105]\<rparr>
      = Ok [49, 97, 71, 107, 61]" by code_simp
  have "stream_iter ?tv COMMAND_ID ''stdout'' [Chunk [104, 105]] (sink []) = (Some [], demo_written)"
    using json
    by (simp add: stream_iter_def OUTPUT_BUFFER_def send_output_def write_frame_def u32_to_be_bytes_def demo_written_def)
  then have "out_step ?tv COMMAND_ID (Some [Chunk [104, 105]], Some [], sink []) (Some [], Some [], demo_written)"
    by (rule out_step.stdout)
  moreover have "out_step ?tv COMMAND_ID (Some [], Some [], demo_written) (None, Some [], demo_written)"
    by (rule out_step.stdout) (simp add: stream_iter_def)
  moreover have "out_step ?tv COMMAND_ID (None, Some [], demo_written) (None, None, demo_written)"
    by (rule out_step.stderr) (simp add: stream_iter_def)
  ultimately show ?thesis by (meson converse_rtranclp_into_rtranclp rtranclp.rtrancl_refl)
qed

lemma demo_stream_bytes:
  "clean demo_stream" "w_out (sink []) @ bytes_of demo_stream = w_out (waiter demo_json COMMAND_ID (Ok (Some 7)) demo_written)"
proof -
  have "show_int 7 = ''7''" by code_simp
  then show "w_out (sink []) @ bytes_of demo_stream = w_out (waiter demo_json COMMAND_ID (Ok (Some 7)) demo_written)"
    by (simp add: waiter_def exit_code_def send_exit_def demo_json_def write_frame_def u32_to_be_bytes_def
        demo_written_def demo_stream_def)
qed (simp add: demo_stream_def clean_def)

lemma output_end_to_end_witness:
  "session_loop demo_api \<lparr>fm_debug = (\<lambda>s. s), fm_io = io_message\<rparr> demo_stream
     \<lparr>tm_stdout = sink [], tm_stderr = sink []\<rparr>
   = (Ok 7, \<lparr>tm_stdout = sink [104, 105], tm_stderr = sink []\<rparr>)"
  using output_end_to_end [OF demo_replies_law _ demo_run, of "\<lparr>tm_stdout = sink [], tm_stderr = sink []\<rparr>" "Ok (Some 7)" demo_stream]
    demo_stream_bytes
  by (simp add: terminal_ok_def working_def data_only_def exit_code_def printed_def)


section \<open>Listening ports\<close>

definition events_law :: "'v json_api \<Rightarrow> (port_event_msg \<Rightarrow> (byte list, string) result) \<Rightarrow> bool" where
  "events_law ja to_vec \<longleftrightarrow>
     (\<forall>m. pe_event m \<in> {''opened'', ''closed''} \<longrightarrow>
        (\<exists>json v. to_vec m = Ok json \<and> length json \<le> MAX_PAYLOAD \<and> ja_from_slice ja json = Ok v
        \<and> Option.bind (ja_get ja v ''port'') (ja_as_u64 ja) = Some (ucast (pe_port m))
        \<and> Option.bind (ja_get ja v ''event'') (ja_as_str ja) = Some (pe_event m)))"

lemma u16_through_u64: "ucast (ucast (p :: u16) :: u64) = p" "unat (ucast (p :: u16) :: u64) < 65536"
proof -
  show "ucast (ucast p :: u64) = p" by (rule bit_word_eqI) (auto simp: bit_simps)
  have p: "unat p < 65536" using unsigned_less [of p, where ?'a = nat] by simp
  then have "unat (ucast p :: u64) = unat p" by (simp add: unsigned_ucast_eq take_bit_nat_eq_self_iff)
  with p show "unat (ucast p :: u64) < 65536" by simp
qed

lemma port_frame:
  assumes "events_law ja to_vec" and "pe_event m \<in> {''opened'', ''closed''}"
  obtains json where "to_vec m = Ok json" "length json \<le> MAX_PAYLOAD"
    "port_frame_step ja fm bind \<lparr>kind = 5, payload = json\<rparr> s = apply_port_event bind m s"
proof -
  from assms obtain json v where json: "to_vec m = Ok json" "length json \<le> MAX_PAYLOAD" "ja_from_slice ja json = Ok v"
      "Option.bind (ja_get ja v ''port'') (ja_as_u64 ja) = Some (ucast (pe_port m))"
      "Option.bind (ja_get ja v ''event'') (ja_as_str ja) = Some (pe_event m)"
    unfolding events_law_def by blast
  then have "parse_port_event ja fm json = Ok m"
    by (simp add: parse_port_event_def json_u64_def json_string_def u16_through_u64)
  then have "port_frame_step ja fm bind \<lparr>kind = 5, payload = json\<rparr> s = apply_port_event bind m s"
    by (simp add: port_frame_step_def)
  with json(1,2) show ?thesis by (rule that)
qed

text \<open>The rounds of the host on the frames of an event list apply the events one by one.\<close>

definition event_msg :: "string \<times> u16 \<Rightarrow> port_event_msg" where
  "event_msg e = \<lparr>pe_port = snd e, pe_event = fst e\<rparr>"

lemma port_event_rounds_frames:
  assumes "events_law ja to_vec"
  shows "\<forall>(e, p) \<in> set evs. e \<in> {''opened'', ''closed''} \<Longrightarrow> clean r \<Longrightarrow>
    bytes_of r = concat (map (port_event_bytes to_vec) evs) \<Longrightarrow>
    port_event_rounds ja fm bind (replicate (length evs + k) False) r s = fold (apply_port_event bind) (map event_msg evs) s"
proof (induction evs arbitrary: r s)
  case Nil
  then have "\<exists>r1. read_exact 5 r = (Err eof_error, r1)" by (intro read_exact_short) simp_all
  then show ?case by (cases k) (auto simp: session_read_frame_def eof_error_def)
next
  case (Cons e evs)
  have "pe_event (event_msg e) \<in> {''opened'', ''closed''}" using Cons.prems(1) by (auto simp: event_msg_def)
  then obtain json where json: "to_vec (event_msg e) = Ok json" "length json \<le> MAX_PAYLOAD"
      "port_frame_step ja fm bind \<lparr>kind = 5, payload = json\<rparr> s = apply_port_event bind (event_msg e) s"
    using port_frame [OF assms] by blast
  with Cons.prems(3) have "bytes_of r = frame_bytes 5 json @ concat (map (port_event_bytes to_vec) evs)"
    by (simp add: port_event_bytes_def [of _ e] event_msg_def)
  from session_read_frame_ok [OF Cons.prems(2) this json(2)] obtain r1 where
    "session_read_frame r = (Ok \<lparr>kind = 5, payload = json\<rparr>, r1)" "clean r1"
    "bytes_of r1 = concat (map (port_event_bytes to_vec) evs)" by blast
  with Cons.IH [of r1] Cons.prems(1) json(3) show ?case by simp
qed

lemma apply_events_replay:
  assumes "\<And>k p. is_ok (bind k p)"
  shows "\<forall>(e, p) \<in> set evs. e \<in> {''opened'', ''closed''} \<Longrightarrow>
    set (pf_listeners (fold (apply_port_event bind) (map event_msg evs) s)) = replay evs (set (pf_listeners s))"
proof (induction evs arbitrary: s)
  case Nil
  show ?case by (simp add: replay_def)
next
  case (Cons ev evs)
  obtain e p where ev: "ev = (e, p)" by (cases ev)
  have "\<exists>u. bind (pf_binds s) p = Ok u" using assms is_ok_iff by blast
  then have "set (pf_listeners (apply_port_event bind (event_msg ev) s)) = replay [ev] (set (pf_listeners s))"
    using Cons.prems by (auto simp: ev event_msg_def apply_port_event_def replay_def)
  with Cons.IH [of "apply_port_event bind (event_msg ev) s"] Cons.prems replay_append [of "[ev]" evs]
  show ?case by simp
qed


definition demo_event_json :: "port_event_msg \<Rightarrow> (byte list, string) result" where
  "demo_event_json m = Ok (as_bytes (show_nat (unat (pe_port m)) @ CHR '','' # pe_event m))"

definition demo_event_api :: "string json_api" where
  "demo_event_api =
     \<lparr>ja_from_slice = (\<lambda>bs. Ok (bytes_to_string bs)),
      ja_get = (\<lambda>v k. map_option (\<lambda>(a, b). if k = ''port'' then a else b) (split_once (CHR '','') v)),
      ja_as_u64 = parse_u64, ja_as_i64 = parse_i64, ja_as_str = Some\<rparr>"

lemma demo_events_law: "events_law demo_event_api demo_event_json"
proof -
  have split: "split_once (CHR '','') (show_nat n @ CHR '','' # s) = Some (show_nat n, s)" for n s
    by (rule split_once_first) (simp add: show_nat_not_in is_ascii_digit_def)
  have port: "parse_u64 (show_nat (unat p)) = Some (ucast p)" for p :: u16
  proof -
    have "unat (ucast p :: u64) = unat p"
      using unsigned_less [of p, where ?'a = nat] by (simp add: unsigned_ucast_eq take_bit_nat_eq_self_iff)
    with parse_u64_show [of "ucast p"] show ?thesis by simp
  qed
  have len: "length (as_bytes (show_nat (unat p) @ CHR '','' # e)) \<le> MAX_PAYLOAD"
    if "e \<in> {''opened'', ''closed''}" for e and p :: u16
  proof -
    have "unat p < 10 ^ Suc 4" using unsigned_less [of p, where ?'a = nat] by simp
    then have "length (show_nat (unat p)) \<le> Suc 4" by (rule length_show_nat)
    with that show ?thesis by (auto simp: as_bytes_def MAX_PAYLOAD_def)
  qed
  show ?thesis
    unfolding events_law_def demo_event_api_def demo_event_json_def
    using len by (simp add: string_as_bytes split port del: as_bytes_simps)
qed


text \<open>
  (C40) A pause in the middle of an event header is fatal to the event stream: when the read
  timeout of 250 ms strikes after one to four bytes of a frame header, the loop goes on with
  the rest of the frame as if it were a new one; the bytes already taken are gone.
\<close>

theorem event_timeout_loses_bytes:
  assumes "0 < k" and "k < 5" and "io_kind e = TimedOut \<or> io_kind e = WouldBlock" and "k \<le> length bs"
  shows "port_event_rounds ja fm bind (False # stops) (Chunk (take k bs) # Fail e # Chunk (drop k bs) # r) s
    = port_event_rounds ja fm bind stops (Chunk (drop k bs) # r) s"
proof -
  have "io_kind e \<noteq> Interrupted" using assms(3) by auto
  then have "read_exact (5 - k) (Fail e # Chunk (drop k bs) # r) = (Err e, Chunk (drop k bs) # r)"
    using assms(2) by (subst read_exact_code) simp
  then have "read_exact 5 (Chunk (take k bs) # Fail e # Chunk (drop k bs) # r) = (Err e, Chunk (drop k bs) # r)"
    using assms by (subst read_exact_code) (auto simp: min_def)
  then have "session_read_frame (Chunk (take k bs) # Fail e # Chunk (drop k bs) # r) = (Err e, Chunk (drop k bs) # r)"
    by (simp add: session_read_frame_def)
  with assms(3) show ?thesis by simp
qed

lemma event_timeout_loses_bytes_witness:
  "pf_listeners (port_event_rounds demo_event_api \<lparr>fm_debug = (\<lambda>s. s), fm_io = io_message\<rparr> (\<lambda>_ _. Ok ())
     [False, False] [Chunk [5, 0], Fail (IoError WouldBlock (Some 11) ''''), Chunk [0, 0, 9, 56, 48, 44, 111, 112, 101, 110, 101, 100]]
     \<lparr>pf_listeners = [], pf_binds = 0\<rparr>) = []"
proof -
  let ?bs = "[5, 0, 0, 0, 9, 56, 48, 44, 111, 112, 101, 110, 101, 100] :: byte list"
  have "session_read_frame [Chunk [0, 0, 9, 56, 48, 44, 111, 112, 101, 110, 101, 100]]
      = (Err eof_error, [])"
    by (simp add: session_read_frame_def read_exact_code [of 5] read_exact_code [of 604208]
        read_exact_code [of 604201] u32_from_be_bytes_def MAX_PAYLOAD_def)
  with event_timeout_loses_bytes [of 2 "IoError WouldBlock (Some 11) ''''" ?bs demo_event_api
      "\<lparr>fm_debug = (\<lambda>s. s), fm_io = io_message\<rparr>" "\<lambda>_ _. Ok ()" "[False]" "[]" "\<lparr>pf_listeners = [], pf_binds = 0\<rparr>"]
  show ?thesis by (simp add: eof_error_def)
qed

section \<open>A forwarded connection\<close>

lemma data_only_clean: "data_only r \<Longrightarrow> clean r"
  by (induction r) (auto simp: data_only_def)

lemma data_only_read_exact: "read_exact n r = (res, r') \<Longrightarrow> data_only r \<Longrightarrow> data_only r'"
proof (induction n r arbitrary: res r' rule: read_exact.induct)
  case (4 n bs es)
  show ?case
  proof (cases "length bs < Suc n \<and> bs \<noteq> []")
    case True
    with "4.prems" obtain res1 where "read_exact (Suc n - length bs) es = (res1, r')"
      by (auto split: prod.splits result.splits)
    with "4.IH" True "4.prems"(2) show ?thesis by (auto simp: data_only_def)
  qed (use "4.prems" in \<open>auto simp: data_only_def split: if_splits\<close>)
qed (auto simp: data_only_def)

text \<open>
  (C35) A forwarded connection: what a host client sends on the forwarded port arrives at the
  guest on a connection to the same port, complete and in order, and what the guest's server
  answers arrives at the host client; the agent shuts down its side of the server's input
  once the client has finished.
\<close>

theorem forward_end_to_end:
  assumes "relay_host_connection fm (Ok (vin, vout)) (Ok (), Ok ()) port tcp_in tcp_out = Ok (vout1, tcp_out1, done)"
    and "data_only tcp_in" and "w_faults vout = []"
    and "data_only r" and "w_out vout @ bytes_of r = w_out vout1"
    and "connect port = Ok (gin, gout)" and "w_faults gout = []"
    and "data_only gin" and "w_faults w = []"
    and "data_only vin" and "w_out w @ bytes_of vin = w_out w1" and "w_faults tcp_out = []"
    and "handle_forward connect (Ok (), Ok ()) r w = Some (p, w1, gout1, shut)"
  shows "p = port \<and> w_out gout1 = w_out gout @ bytes_of tcp_in \<and> w_out tcp_out1 = w_out tcp_out @ bytes_of gin \<and> shut"
proof -
  have pos: "(0 :: nat) < 16384" "0 < RELAY_BUFFER" by (simp_all add: RELAY_BUFFER_def)
  let ?h = "u16_to_be_bytes port"
  from assms(1) have v1: "vout1 = vout\<lparr>w_out := w_out vout @ ?h @ bytes_of tcp_in\<rparr>"
    and t1: "tcp_out1 = tcp_out\<lparr>w_out := w_out tcp_out @ bytes_of vin\<rparr>"
    by (simp_all add: relay_host_connection_def write_all_no_faults [OF assms(3)] host_relay_def
        copy_loop_copies [OF pos(1)] assms(2,3,10,12))
  from assms(5) v1 have bytes: "bytes_of r = ?h @ bytes_of tcp_in" by simp
  obtain r1 where r1: "read_exact 2 r = (Ok ?h, r1)" "bytes_of r1 = bytes_of tcp_in"
    using read_exact_clean [OF data_only_clean [OF assms(4)], of 2] bytes by auto
  have "data_only r1" using data_only_read_exact [OF r1(1) assms(4)] .
  have port: "u16_from_be_bytes (?h ! 0) (?h ! 1) = port" by (simp add: u16_to_be_bytes_def)
  from assms(13) have res: "p = port" "w1 = copy_loop RELAY_BUFFER gin w" "gout1 = copy_loop RELAY_BUFFER r1 gout" "shut"
    by (simp_all add: handle_forward_def r1(1) port [unfolded One_nat_def] assms(6) guest_relay_def Let_def)
  with assms(11) have "bytes_of vin = bytes_of gin" by (simp add: copy_loop_copies [OF pos(2) assms(8,9)])
  with res t1 r1(2) show ?thesis by (simp add: copy_loop_copies [OF pos(2) \<open>data_only r1\<close> assms(7)])
qed

lemma forward_end_to_end_witness:
  "let vout1 = sink [31, 144, 104, 105]; w1 = sink [111, 107]
   in handle_forward (\<lambda>_. Ok ([Chunk [111, 107]], sink [])) (Ok (), Ok ()) [Chunk [31], Chunk [144, 104], Chunk [105]] (sink [])
        = Some (8080, w1, sink [104, 105], True) \<and> w_out (sink [111, 107]) = [111, 107]"
proof -
  let ?fm = "\<lparr>fm_debug = (\<lambda>s. s), fm_io = io_message\<rparr>"
  let ?r = "[Chunk [31], Chunk [144, 104], Chunk [105]] :: reader"
  have host: "relay_host_connection ?fm (Ok ([Chunk [111, 107]], sink [])) (Ok (), Ok ()) 8080 [Chunk [104, 105]] (sink [])
      = Ok (sink [31, 144, 104, 105], sink [111, 107], True)"
    by (simp add: relay_host_connection_def host_relay_def copy_loop_copies data_only_def u16_to_be_bytes_def)
  have r1: "read_exact 2 ?r = (Ok [31, 144], [Chunk [104], Chunk [105]])"
    by (simp add: read_exact_code [of 2] read_exact_code [of "Suc 0"])
  have guest: "handle_forward (\<lambda>_. Ok ([Chunk [111, 107]], sink [])) (Ok (), Ok ()) ?r (sink [])
      = Some (8080, sink [111, 107], sink [104, 105], True)"
    by (simp add: handle_forward_def r1 guest_relay_def RELAY_BUFFER_def copy_loop_copies data_only_def
        u16_from_be_bytes_def)
  from forward_end_to_end [OF host _ _ _ _ _ _ _ _ _ _ _ guest, of "[Chunk [111, 107]]" "sink []"]
  have "w_out (sink [104, 105]) = w_out (sink []) @ bytes_of [Chunk [104, 105]]"
    by (simp add: data_only_def)
  with guest show ?thesis by simp
qed

end
