(* ===== verification/Host_App.thy ===== *)
theory Host_App
  imports Host_Bootstrap Host_Daemon Agent_Session
begin

text \<open>
  The application (linux/src/app.rs): what each command of the command line does, composed of
  the components. The state is the world of the host together with what is printed, the
  terminal of an attached session and the actions of the runtime resolver. Everything outside
  the program enters through \<open>app_env\<close>: serialisation, the environment, the other end of the
  sockets, the programs of the host.
\<close>

type_synonym exit_code_u8 = u8

definition EXIT_SUCCESS :: exit_code_u8 where "EXIT_SUCCESS = 0"
definition EXIT_FAILURE :: exit_code_u8 where "EXIT_FAILURE = 1"

record 'v app_env =
  ae_jv :: "'v json_value"
  ae_sj :: session_json
  ae_fm :: formatters
  ae_jc :: json_codec
  ae_debug :: "response \<Rightarrow> string"
  ae_fmt_secs :: "nat \<Rightarrow> string"
  ae_version :: string
  ae_client :: client_proc
  ae_doctor :: doctor_env
  ae_boot :: boot_env
  ae_host :: "world \<Rightarrow> host_env"
  ae_session :: "smoke_config \<Rightarrow> session_env"
  ae_kill :: kill_call
  ae_smoke_clock :: smoke_clock
  ae_smoke_connect :: "nat \<Rightarrow> (reader \<times> writer, smoke_error) result"
  ae_command_to_vec :: "execute_command \<Rightarrow> (byte list, string) result"

record app_state =
  as_world :: world
  as_out :: string
  as_err :: string
  as_terminal :: terminal
  as_actions :: "host_action list"

type_synonym 'a app = "app_state \<Rightarrow> ('a, string) result \<times> app_state"

definition bind_app :: "'a app \<Rightarrow> ('a \<Rightarrow> 'b app) \<Rightarrow> 'b app" where
  "bind_app m f s = (case m s of (Err e, s1) \<Rightarrow> (Err e, s1) | (Ok x, s1) \<Rightarrow> f x s1)"

definition pure_app :: "('a, string) result \<Rightarrow> 'a app" where
  "pure_app r s = (r, s)"

definition print_out :: "string \<Rightarrow> unit app" where
  "print_out t s = (Ok (), s\<lparr>as_out := as_out s @ t\<rparr>)"

definition print_err :: "string \<Rightarrow> unit app" where
  "print_err t s = (Ok (), s\<lparr>as_err := as_err s @ t\<rparr>)"

definition on_world :: "(world \<Rightarrow> ('a, string) result \<times> world) \<Rightarrow> 'a app" where
  "on_world f s = (case f (as_world s) of (r, w) \<Rightarrow> (r, s\<lparr>as_world := w\<rparr>))"

text \<open>The file test of the environment and of the probe is that of the current world.\<close>

definition cli_at :: "'v app_env \<Rightarrow> world \<Rightarrow> cli_env" where
  "cli_at ae w = (de_cli (ae_doctor ae))\<lparr>ce_is_file := path_is_file w\<rparr>"

definition doctor_at :: "'v app_env \<Rightarrow> world \<Rightarrow> doctor_env" where
  "doctor_at ae w = (ae_doctor ae)\<lparr>de_cli := cli_at ae w\<rparr>"

section \<open>Small pieces\<close>

definition exit_code_from_i32 :: "int \<Rightarrow> exit_code_u8" where
  "exit_code_from_i32 code =
     (if code = 0 then EXIT_SUCCESS else word_of_int (max 1 (min 255 code)))"

definition format_duration :: "u64 \<Rightarrow> string" where
  "format_duration s =
     (if s < 60 then show_word s @ ''s''
      else if s < 3600 then show_word (s div 60) @ ''m'' @ show_word (s mod 60) @ ''s''
      else show_word (s div 3600) @ ''h'' @ show_word ((s mod 3600) div 60) @ ''m'')"

definition daemon_disabled :: "cli_env \<Rightarrow> bool" where
  "daemon_disabled ce = (ce_var_os ce ''FEND_NO_DAEMON'' \<in> {Some ''1'', Some ''true''})"

definition apply_network_fallback :: "launch_config \<Rightarrow> bool \<Rightarrow> host_probe \<Rightarrow> bool \<times> launch_config" where
  "apply_network_fallback config network_explicit probe =
     (if \<not> network_explicit \<and> lc_network config = Passt \<and> \<not> hp_passt_available probe
      then (True, config\<lparr>lc_network := User\<rparr>)
      else (False, config))"

definition fallback_notice :: "bool \<Rightarrow> unit app" where
  "fallback_notice fell_back =
     (if fell_back then print_err (writeln ''fend: passt not found, falling back to qemu user networking'')
      else pure_app (Ok ()))"

definition defaults_app :: "'v app_env \<Rightarrow> plan_defaults app" where
  "defaults_app ae s =
     (map_err (cli_error_text (ae_fm ae)) (plan_defaults_from_env (cli_at ae (as_world s))), s)"

definition probe_app :: "'v app_env \<Rightarrow> path \<Rightarrow> host_probe app" where
  "probe_app ae runtime_dir s = (Ok (current_launch_probe (doctor_at ae (as_world s)) runtime_dir), s)"

definition plan_app :: "launch_config \<Rightarrow> launch_plan app" where
  "plan_app config = pure_app (map_err plan_error_text (build_launch_plan config))"

definition bootstrap_app :: "'v app_env \<Rightarrow> bootstrap_options \<Rightarrow> bootstrap_report app" where
  "bootstrap_app ae options = on_world (ensure_linux_runtime (ae_boot ae) (ae_fm ae) options)"

definition setup_for :: "path \<Rightarrow> setup_options" where
  "setup_for runtime_dir =
     \<lparr>so_runtime_dir = Some runtime_dir, so_work_dir = None, so_rebuild_rootfs = False,
      so_force_downloads = False, so_skip_claude = False\<rparr>"

definition ensure_bootstrap_for_launch :: "'v app_env \<Rightarrow> plan_options \<Rightarrow> plan_defaults \<Rightarrow> unit app" where
  "ensure_bootstrap_for_launch ae options defaults s =
     (let runtime_dir = resolve_plan_runtime_dir options defaults
      in if \<not> runtime_missing (as_world s) runtime_dir then (Ok (), s)
         else bind_app (bootstrap_app ae (build_bootstrap_options (setup_for runtime_dir) defaults))
                (\<lambda>_. pure_app (Ok ())) s)"

section \<open>Sessions\<close>

definition attached_app :: "'v app_env \<Rightarrow> smoke_config \<Rightarrow> int app" where
  "attached_app ae config s =
     (case run_attached (json_api.truncate (ae_jv ae)) (ae_sj ae) (ae_fm ae) (ae_session ae config) config
             (as_terminal s) of
        (r, t) \<Rightarrow> (map_err (session_error_text (ae_fm ae)) r, s\<lparr>as_terminal := t\<rparr>))"

text \<open>The configuration of the session: the prepared command and its environment added.\<close>

definition session_config ::
  "run_options \<Rightarrow> launch_config \<Rightarrow> prepared_guest_command \<Rightarrow> smoke_config" where
  "session_config options config prepared =
     (let smoke = build_run_smoke_config options config
      in smoke\<lparr>sc_command := pg_command prepared, sc_env := btree_extend (sc_env smoke) (pg_env prepared)\<rparr>)"

text \<open>
  The virtual machine of \<open>run_disposable_direct\<close> is dropped when the function ends, also
  when the session failed.
\<close>

definition run_disposable_direct ::
  "'v app_env \<Rightarrow> run_options \<Rightarrow> launch_config \<Rightarrow> prepared_guest_command \<Rightarrow> exit_code_u8 app" where
  "run_disposable_direct ae options config prepared =
     bind_app (plan_app config) (\<lambda>plan s.
       let sup = default_options\<lparr>so_qemu_io := Log (path_join (lc_run_dir config) ''logs/qemu.log'')\<rparr>
       in case Supervisor.launch_plan (cp_env (ae_client ae)) sup plan (as_world s) of
            (Err e, w) \<Rightarrow> (Err (supervisor_error_text (ae_fmt_secs ae) e), s\<lparr>as_world := w\<rparr>)
          | (Ok vm, w) \<Rightarrow>
              (case attached_app ae (session_config options config prepared) (s\<lparr>as_world := w\<rparr>) of
                 (r, s1) \<Rightarrow>
                   (map_ok exit_code_from_i32 r, s1\<lparr>as_world := snd (vm_cleanup vm (as_world s1))\<rparr>)))"

datatype daemon_attempt_error = Recoverable string | Fatal string

definition vm_config_of :: "launch_config \<Rightarrow> path \<Rightarrow> vm_config" where
  "vm_config_of config runtime_dir =
     \<lparr>vc_project = lc_workspace config, vc_runtime_dir = runtime_dir, vc_cache_dir = lc_cache_dir config,
      vc_tools_dir = lc_tools_dir config, vc_guest_workspace = lc_guest_workspace config,
      vc_cpus = lc_cpus config, vc_memory_mib = lc_memory_mib config, vc_network = lc_network config,
      vc_epoch = lc_epoch config\<rparr>"

definition ensure_vm :: "'v app_env \<Rightarrow> path \<Rightarrow> vm_config \<Rightarrow> world \<Rightarrow> (session, client_error) result \<times> world" where
  "ensure_vm ae socket config w =
     (case connect_or_spawn (ae_client ae) socket w of
        (Err e, w1) \<Rightarrow> (Err e, w1)
      | (Ok c, w1) \<Rightarrow> (client_ensure_vm (ae_jc ae) (ae_debug ae) config c, w1))"

definition default_socket :: "'v app_env \<Rightarrow> path" where
  "default_socket ae = default_socket_path (cp_var_os (ae_client ae)) (cp_uid (ae_client ae))"

definition try_run_via_daemon ::
  "'v app_env \<Rightarrow> run_options \<Rightarrow> launch_config \<Rightarrow> prepared_guest_command \<Rightarrow> path \<Rightarrow> app_state
     \<Rightarrow> (exit_code_u8, daemon_attempt_error) result \<times> app_state" where
  "try_run_via_daemon ae options config prepared runtime_dir s =
     (case ensure_vm ae (default_socket ae) (vm_config_of config runtime_dir) (as_world s) of
        (Err e, w) \<Rightarrow>
          (Err (case e of DaemonError message \<Rightarrow> Fatal message | _ \<Rightarrow> Recoverable (client_error_text e)),
           s\<lparr>as_world := w\<rparr>)
      | (Ok session, w) \<Rightarrow>
          (case attached_app ae ((session_config options config prepared)\<lparr>sc_cid := ss_cid session\<rparr>)
                  (s\<lparr>as_world := w\<rparr>) of
             (r, s1) \<Rightarrow> (map_err Fatal (map_ok exit_code_from_i32 r), s1)))"

definition prepare_app ::
  "'v app_env \<Rightarrow> string list \<Rightarrow> path \<Rightarrow> path \<Rightarrow> prepared_guest_command app" where
  "prepare_app ae command workspace tools_dir s =
     (case prepare_guest_command (ae_jv ae) (ae_host ae (as_world s)) (ae_fm ae) command workspace tools_dir of
        (r, actions) \<Rightarrow> (r, s\<lparr>as_actions := as_actions s @ actions\<rparr>))"

definition run_disposable_command :: "'v app_env \<Rightarrow> run_options \<Rightarrow> exit_code_u8 app" where
  "run_disposable_command ae options =
     bind_app (defaults_app ae) (\<lambda>defaults s0.
       let config = build_run_launch_config (cli_at ae (as_world s0)) options defaults;
           runtime_dir = unwrap_or (path_parent (ra_kernel (lc_artifacts config))) ''.''
       in bind_app (bootstrap_app ae (build_bootstrap_options (setup_for runtime_dir) defaults)) (\<lambda>_.
          bind_app (prepare_app ae (ro_command options) (lc_workspace config) (lc_tools_dir config)) (\<lambda>prepared.
          bind_app (probe_app ae runtime_dir) (\<lambda>probe.
          (case apply_network_fallback config (ro_vm_network options \<noteq> None \<or> pd_network defaults \<noteq> None) probe of
             (fell_back, config1) \<Rightarrow>
               bind_app (fallback_notice fell_back) (\<lambda>_.
               (let report = evaluate_launch probe (lc_network config1)
                in if dr_issues report \<noteq> []
                   then bind_app (print_err (render_doctor_report report)) (\<lambda>_. pure_app (Ok EXIT_FAILURE))
                   else if daemon_disabled (de_cli (ae_doctor ae))
                   then run_disposable_direct ae options config1 prepared
                   else (\<lambda>s. case try_run_via_daemon ae options config1 prepared runtime_dir s of
                           (Ok code, s1) \<Rightarrow> (Ok code, s1)
                         | (Err (Fatal message), s1) \<Rightarrow> (Err message, s1)
                         | (Err (Recoverable message), s1) \<Rightarrow>
                             bind_app (print_err (writeln (''fend: daemon unavailable ('' @ message @ ''); using disposable VM'')))
                               (\<lambda>_. run_disposable_direct ae options config1 prepared) s1))))))) s0)"

section \<open>Stop and status\<close>

definition resolve_stop_project :: "'v app_env \<Rightarrow> stop_options \<Rightarrow> (path, string) result" where
  "resolve_stop_project ae options =
     (case st_project options of
        Some project \<Rightarrow> Ok project
      | None \<Rightarrow> map_err (\<lambda>e. ''cannot determine current directory: '' @ fm_io (ae_fm ae) e)
                  (ce_current_dir (de_cli (ae_doctor ae))))"

definition run_stop_legacy :: "'v app_env \<Rightarrow> stop_options \<Rightarrow> exit_code_u8 app" where
  "run_stop_legacy ae options =
     bind_app (defaults_app ae) (\<lambda>defaults.
       let run_dir = resolve_stop_run_dir options defaults;
           timeout = duration_from_secs (unwrap_or (st_timeout_secs options) 3)
       in bind_app (on_world (\<lambda>w. case stop_run_dir (cp_env (ae_client ae)) (ae_kill ae) run_dir timeout w of
              (r, w1) \<Rightarrow> (map_err (supervisor_error_text (ae_fmt_secs ae)) r, w1))) (\<lambda>report.
          bind_app (print_out
            (writeln ''fend linux stop''
             @ writeln (''  run dir    '' @ run_dir)
             @ writeln (''  stopped    '' @ show_nat (length (sr_terminated report)))
             @ writeln (''  stale      '' @ show_nat (length (sr_stale report)))
             @ (if sr_terminated report = [] then []
                else writeln (''  labels     '' @ join_with '', '' (sr_terminated report)))
             @ (if sr_stale report = [] then []
                else writeln (''  stale ids  '' @ join_with '', '' (sr_stale report))))) (\<lambda>_.
            pure_app (Ok EXIT_SUCCESS))))"

definition run_stop_command :: "'v app_env \<Rightarrow> stop_options \<Rightarrow> exit_code_u8 app" where
  "run_stop_command ae options s =
     (if st_run_dir options \<noteq> None \<or> daemon_disabled (de_cli (ae_doctor ae)) then run_stop_legacy ae options s
      else
        let socket = default_socket ae
        in if \<not> path_exists socket (as_world s)
           then bind_app (print_out (writeln ''fend stop'' @ writeln ''  daemon     not running''))
                  (\<lambda>_. pure_app (Ok EXIT_SUCCESS)) s
           else bind_app (pure_app (if st_all options then Ok None
                                    else map_ok Some (resolve_stop_project ae options))) (\<lambda>project.
                bind_app (on_world (\<lambda>w. case call_connect (cp_connect (ae_client ae)) socket w of
                    (stream, w1) \<Rightarrow>
                      (map_err client_error_text (client_stop (ae_jc ae) (ae_debug ae) project stream), w1))) (\<lambda>count.
                bind_app (print_out
                  (writeln ''fend stop''
                   @ (case project of
                        Some path \<Rightarrow> writeln (''  project    '' @ path)
                      | None \<Rightarrow> writeln ''  scope      all'')
                   @ writeln (''  stopped    '' @ show_nat count))) (\<lambda>_.
                  pure_app (Ok EXIT_SUCCESS)))) s)"

definition status_line :: "vm_status \<Rightarrow> string" where
  "status_line vm =
     (let idle = (if 0 < vs_active_sessions vm then ''-'' else format_duration (vs_idle_secs vm))
      in writeln (pad_right 6 (show_word (vs_cid vm)) @ ''  '' @ pad_right 10 (vs_state vm) @ ''  ''
           @ pad_right 10 (show_nat (vs_active_sessions vm)) @ ''  '' @ pad_right 10 idle @ ''  '' @ vs_project vm))"

definition run_status_command :: "'v app_env \<Rightarrow> exit_code_u8 app" where
  "run_status_command ae s =
     (let socket = default_socket ae
      in if \<not> path_exists socket (as_world s)
         then bind_app (print_out (writeln ''fend status'' @ writeln ''  daemon     not running''))
                (\<lambda>_. pure_app (Ok EXIT_SUCCESS)) s
         else bind_app (on_world (\<lambda>w. case call_connect (cp_connect (ae_client ae)) socket w of
                (stream, w1) \<Rightarrow> (map_err client_error_text (client_status (ae_jc ae) (ae_debug ae) stream), w1))) (\<lambda>vms.
              if vms = []
              then bind_app (print_out (writeln ''fend status'' @ writeln ''  no warm VMs''))
                     (\<lambda>_. pure_app (Ok EXIT_SUCCESS))
              else bind_app (print_out
                     (writeln (pad_right 6 ''CID'' @ ''  '' @ pad_right 10 ''STATE'' @ ''  '' @ pad_right 10 ''SESSIONS''
                        @ ''  '' @ pad_right 10 ''IDLE'' @ ''  PROJECT'')
                      @ concat (map status_line vms))) (\<lambda>_. pure_app (Ok EXIT_SUCCESS))) s)"

section \<open>The commands\<close>

definition help_text :: "string \<Rightarrow> help_topic \<Rightarrow> string" where
  "help_text program topic =
     (case topic of
        Topic_General \<Rightarrow> usage_for program
      | Topic_Doctor \<Rightarrow> doctor_usage_for program
      | Topic_Setup \<Rightarrow> setup_usage_for program
      | Topic_Plan \<Rightarrow> plan_usage_for program
      | Topic_Launch \<Rightarrow> launch_usage_for program
      | Topic_Run \<Rightarrow> run_usage_for program
      | Topic_Stop \<Rightarrow> stop_usage_for program
      | Topic_Status \<Rightarrow> status_usage_for program
      | Topic_Smoke \<Rightarrow> smoke_usage_for program)"

definition run_doctor :: "'v app_env \<Rightarrow> doctor_options \<Rightarrow> exit_code_u8 app" where
  "run_doctor ae options =
     bind_app (defaults_app ae) (\<lambda>defaults s.
       let report = evaluate (current_probe (doctor_at ae (as_world s)) (resolve_doctor_runtime_dir options defaults))
       in bind_app (print_out (render_doctor_report report)) (\<lambda>_.
            pure_app (Ok (if dr_issues report = [] then EXIT_SUCCESS else EXIT_FAILURE))) s)"

definition run_setup :: "'v app_env \<Rightarrow> setup_options \<Rightarrow> exit_code_u8 app" where
  "run_setup ae options =
     bind_app (defaults_app ae) (\<lambda>defaults.
       let bootstrap = build_bootstrap_options options defaults
       in bind_app (bootstrap_app ae bootstrap) (\<lambda>report.
          bind_app (print_out
            (writeln ''fend setup''
             @ writeln (''  runtime    '' @ bo_runtime_dir bootstrap)
             @ writeln (''  work dir   '' @ bo_work_dir bootstrap)
             @ writeln (''  metadata   '' @ br_metadata_path report)
             @ writeln (''  status     '' @ (if br_bootstrapped report then ''prepared'' else ''already ready'')))) (\<lambda>_.
            pure_app (Ok EXIT_SUCCESS))))"

definition run_plan :: "'v app_env \<Rightarrow> plan_options \<Rightarrow> exit_code_u8 app" where
  "run_plan ae options =
     bind_app (defaults_app ae) (\<lambda>defaults s.
       (let config = build_launch_config (cli_at ae (as_world s)) options defaults
        in bind_app (probe_app ae (resolve_plan_runtime_dir options defaults)) (\<lambda>probe.
           (case apply_network_fallback config (po_network options \<noteq> None \<or> pd_network defaults \<noteq> None) probe of
              (fell_back, config1) \<Rightarrow>
                bind_app (fallback_notice fell_back) (\<lambda>_.
                bind_app (plan_app config1) (\<lambda>plan.
                bind_app (print_out (render_launch_plan plan)) (\<lambda>_.
                  pure_app (Ok EXIT_SUCCESS)))))) s))"

text \<open>The virtual machine is dropped after QEMU has ended or could not be waited for.\<close>

definition launch_and_wait :: "'v app_env \<Rightarrow> launch_plan \<Rightarrow> exit_code_u8 app" where
  "launch_and_wait ae plan s =
     (case Supervisor.launch_plan (cp_env (ae_client ae)) default_options plan (as_world s) of
        (Err e, w) \<Rightarrow> (Err (supervisor_error_text (ae_fmt_secs ae) e), s\<lparr>as_world := w\<rparr>)
      | (Ok vm, w) \<Rightarrow>
          (case wait_for_qemu vm w of
             (r, vm1, w1) \<Rightarrow>
               (map_ok (\<lambda>status. if status = Some 0 then EXIT_SUCCESS else EXIT_FAILURE) (map_err io_error_text r),
                s\<lparr>as_world := snd (vm_cleanup vm1 w1)\<rparr>)))"

definition run_launch :: "'v app_env \<Rightarrow> plan_options \<Rightarrow> exit_code_u8 app" where
  "run_launch ae options =
     bind_app (defaults_app ae) (\<lambda>defaults.
     bind_app (ensure_bootstrap_for_launch ae options defaults) (\<lambda>_.
     bind_app (probe_app ae (resolve_plan_runtime_dir options defaults)) (\<lambda>probe s.
       (let config = build_supervised_launch_config (cli_at ae (as_world s)) options defaults
        in case apply_network_fallback config (po_network options \<noteq> None \<or> pd_network defaults \<noteq> None) probe of
             (fell_back, config1) \<Rightarrow>
               bind_app (fallback_notice fell_back) (\<lambda>_.
               (let report = evaluate_launch probe (lc_network config1)
                in if dr_issues report \<noteq> []
                   then bind_app (print_err (render_doctor_report report)) (\<lambda>_. pure_app (Ok EXIT_FAILURE))
                   else bind_app (plan_app config1) (\<lambda>plan.
                        bind_app (print_out (render_launch_summary config1 @ writeln [])) (\<lambda>_.
                          launch_and_wait ae plan)))) s))))"

definition write_out :: "byte list \<Rightarrow> writer \<Rightarrow> (unit, string) result \<times> writer" where
  "write_out bytes w = (case write_all bytes w of (r, w1) \<Rightarrow> (map_err io_error_text r, w1))"

definition run_smoke_command :: "'v app_env \<Rightarrow> smoke_options \<Rightarrow> exit_code_u8 app" where
  "run_smoke_command ae options =
     bind_app (defaults_app ae) (\<lambda>defaults.
       let config = build_smoke_config options defaults
       in bind_app (pure_app (map_err (smoke_error_text (ae_fm ae))
            (run_smoke (json_api.truncate (ae_jv ae)) (ae_command_to_vec ae) (ae_fm ae) (ae_smoke_clock ae) config
               (ae_smoke_connect ae)))) (\<lambda>result.
          bind_app (\<lambda>s. case write_out (sr_stdout result) (tm_stdout (as_terminal s)) of
              (r, w) \<Rightarrow> (r, s\<lparr>as_terminal := (as_terminal s)\<lparr>tm_stdout := w\<rparr>\<rparr>)) (\<lambda>_.
          bind_app (\<lambda>s. case write_out (sr_stderr result) (tm_stderr (as_terminal s)) of
              (r, w) \<Rightarrow> (r, s\<lparr>as_terminal := (as_terminal s)\<lparr>tm_stderr := w\<rparr>\<rparr>)) (\<lambda>_.
            if sr_exit_code result = 0
            then bind_app (print_err (writeln ''ok    vsock smoke passed'')) (\<lambda>_. pure_app (Ok EXIT_SUCCESS))
            else bind_app (print_err (writeln (''fail  vsock smoke exited '' @ show_int (sr_exit_code result))))
                   (\<lambda>_. pure_app (Ok EXIT_FAILURE))))))"

definition run :: "'v app_env \<Rightarrow> string \<Rightarrow> string list \<Rightarrow> exit_code_u8 app" where
  "run ae program args =
     bind_app (pure_app (map_err (\<lambda>e. cli_error_text (ae_fm ae) e @ [CHR 0x0A, CHR 0x0A] @ usage_for program)
         (parse_args args))) (\<lambda>command.
       case command of
         Cli_Help topic \<Rightarrow> bind_app (print_out (help_text program topic)) (\<lambda>_. pure_app (Ok EXIT_SUCCESS))
       | Cli_Version \<Rightarrow>
           bind_app (print_out (writeln (program @ '' '' @ ae_version ae))) (\<lambda>_. pure_app (Ok EXIT_SUCCESS))
       | Cli_Doctor options \<Rightarrow> run_doctor ae options
       | Cli_Setup options \<Rightarrow> run_setup ae options
       | Cli_Plan options \<Rightarrow> run_plan ae options
       | Cli_Launch options \<Rightarrow> run_launch ae options
       | Cli_Run options \<Rightarrow> run_disposable_command ae options
       | Cli_Stop options \<Rightarrow> run_stop_command ae options
       | Cli_Status \<Rightarrow> run_status_command ae
       | Cli_Smoke options \<Rightarrow> run_smoke_command ae options)"

definition main_entry_named :: "'v app_env \<Rightarrow> string \<Rightarrow> string list \<Rightarrow> app_state \<Rightarrow> exit_code_u8 \<times> app_state" where
  "main_entry_named ae program args s =
     (case run ae program args s of
        (Ok code, s1) \<Rightarrow> (code, s1)
      | (Err e, s1) \<Rightarrow> (2, snd (print_err (writeln (''error: '' @ e)) s1)))"

definition main_entry :: "'v app_env \<Rightarrow> string list \<Rightarrow> app_state \<Rightarrow> exit_code_u8 \<times> app_state" where
  "main_entry ae = main_entry_named ae ''fend-linux''"

section \<open>Properties\<close>

lemma attached_app_world [simp]: "as_world (snd (attached_app ae config s)) = as_world s"
  by (simp add: attached_app_def split: prod.splits)

lemma launched_not_cleaned: "Supervisor.launch_plan env options plan w = (Ok vm, w') \<Longrightarrow> \<not> rv_cleaned_up vm"
  by (auto simp: Supervisor.launch_plan_def Let_def split: prod.splits result.splits)

text \<open>
  (C14) A run in a VM of its own leaves no process behind, however it ends: the plan is refused,
  the launch fails, the session fails or the command exits. Every child that is running or
  waiting to be reaped afterwards was so before; the one exception is the failure to start a
  virtiofsd.
\<close>

theorem direct_run_leaves_no_child:
  assumes "quiet (cp_env (ae_client ae))" and "os_proc_faults (as_world s) = []"
    and "run_disposable_direct ae options config prepared s = (r, s')"
  shows "unreaped (as_world s') \<subseteq> unreaped (as_world s)
     \<or> (\<exists>e. spawn_failure e \<and> r = Err (supervisor_error_text (ae_fmt_secs ae) e))"
proof (cases "build_launch_plan config")
  case (Err e)
  with assms(3) show ?thesis by (auto simp: run_disposable_direct_def bind_app_def plan_app_def pure_app_def)
next
  case (Ok plan)
  note planned = Ok
  define sup where "sup = default_options\<lparr>so_qemu_io := Log (path_join (lc_run_dir config) ''logs/qemu.log'')\<rparr>"
  obtain l w where launch: "Supervisor.launch_plan (cp_env (ae_client ae)) sup plan (as_world s) = (l, w)" by fastforce
  have conf: "conf (unreaped (as_world s)) (as_world s)" using assms(2) by (simp add: conf_def)
  note account = launch_plan_account [OF assms(1) conf launch]
  show ?thesis
  proof (cases l)
    case (Err e)
    with assms(3) Ok launch account show ?thesis
      by (auto simp: run_disposable_direct_def bind_app_def plan_app_def pure_app_def sup_def Let_def conf_def)
  next
    case (Ok vm)
    with launch account have "conf (unreaped (as_world s)) (snd (vm_cleanup vm w))"
      by (intro vm_cleanup_account) (simp_all add: launched_not_cleaned)
    moreover obtain a s1 where att: "attached_app ae (session_config options config prepared) (s\<lparr>as_world := w\<rparr>) = (a, s1)"
      by fastforce
    moreover have "as_world s1 = w"
      using attached_app_world [of ae "session_config options config prepared" "s\<lparr>as_world := w\<rparr>"] att by simp
    ultimately show ?thesis
      using assms(3) planned launch Ok
      by (auto simp: run_disposable_direct_def bind_app_def plan_app_def pure_app_def sup_def Let_def conf_def)
  qed
qed

text \<open>
  The exit code of a run: it is zero exactly when the command's is, the codes a process can
  have pass through, and any other becomes a failure, never a success.
\<close>

theorem exit_code_faithful:
  "(exit_code_from_i32 code = EXIT_SUCCESS \<longleftrightarrow> code = 0)
   \<and> (0 \<le> code \<longrightarrow> code \<le> 255 \<longrightarrow> uint (exit_code_from_i32 code) = code)
   \<and> (code < 0 \<longrightarrow> exit_code_from_i32 code = EXIT_FAILURE)
   \<and> (255 < code \<longrightarrow> exit_code_from_i32 code = 255)"
proof -
  have u: "uint (word_of_int c :: u8) = c" if "0 \<le> c" "c \<le> 255" for c
    using that by (simp add: unsigned_of_int take_bit_int_eq_self)
  have "exit_code_from_i32 code \<noteq> EXIT_SUCCESS" if "code \<noteq> 0"
  proof
    assume "exit_code_from_i32 code = EXIT_SUCCESS"
    then have "uint (word_of_int (max 1 (min 255 code)) :: u8) = 0"
      using that by (simp add: exit_code_from_i32_def EXIT_SUCCESS_def)
    then show False using u [of "max 1 (min 255 code)"] by simp
  qed
  moreover have "uint (exit_code_from_i32 code) = code" if "0 \<le> code" "code \<le> 255"
    using that u [of code] by (auto simp: exit_code_from_i32_def EXIT_SUCCESS_def min_def max_def)
  ultimately show ?thesis
    by (auto simp: exit_code_from_i32_def EXIT_SUCCESS_def EXIT_FAILURE_def min_def max_def)
qed

lemma exit_code_faithful_witness:
  "uint (exit_code_from_i32 130) = 130 \<and> exit_code_from_i32 (- 9) = EXIT_FAILURE \<and> exit_code_from_i32 256 = 255"
  using exit_code_faithful [of 130] exit_code_faithful [of "- 9"] exit_code_faithful [of 256] by simp

text \<open>
  An application on a small host: the shares exist, their sockets appear, and nobody answers
  on the agent's port.
\<close>

definition sockets_of :: "path \<Rightarrow> path list" where
  "sockets_of run_dir = map (\<lambda>n. path_join run_dir (n @ ''.sock'')) [''workspace'', ''cache'', ''tools'']"

definition appearing :: "world \<Rightarrow> world" where
  "appearing w = appear (take (length (os_procs w)) (sockets_of ''/run'')) w"

lemma quiet_appearing: "quiet appearing"
  using quiet_appear by (simp add: quiet_def appearing_def)

definition demo_app :: "unit app_env" where
  "demo_app =
     \<lparr>ae_jv = no_json,
      ae_sj = \<lparr>sj_command = (\<lambda>_. Ok []), sj_signal = (\<lambda>_. Ok []), sj_window = (\<lambda>_. Ok [])\<rparr>,
      ae_fm = plain_formatters, ae_jc = busy_codec, ae_debug = (\<lambda>_. []), ae_fmt_secs = (\<lambda>n. show_nat (n div secs 1)),
      ae_version = ''0.1.0'',
      ae_client = \<lparr>cp_var_os = (\<lambda>_. None), cp_uid = 1000, cp_current_exe = Err not_found, cp_env = appearing,
                   cp_connect = (\<lambda>_ w. (Err not_found, w))\<rparr>,
      ae_doctor = ready_host, ae_boot = full_boot, ae_host = (\<lambda>_. bare_host),
      ae_session = (\<lambda>_. \<lparr>se_tty = False, se_connect = (\<lambda>_. Err (Session_Protocol ''refused'')),
          se_setsockopt = (\<lambda>_ _ _. None), se_winsize = None, se_signals = Ok ()\<rparr>),
      ae_kill = (\<lambda>_ _ w. (None, os_procs w)),
      ae_smoke_clock = \<lparr>ck_elapsed = (\<lambda>n. n), ck_set_timeout = (\<lambda>_. None)\<rparr>,
      ae_smoke_connect = (\<lambda>_. Err (Smoke_Protocol ''refused'')),
      ae_command_to_vec = (\<lambda>_. Ok [])\<rparr>"

definition demo_state :: app_state where
  "demo_state =
     \<lparr>as_world = \<lparr>os_files = [(''/p'', Dir), (''/c'', Dir), (''/t'', Dir)], os_procs = [],
         os_pids = [(10, None), (11, None), (12, None), (13, None)],
         os_fs_faults = [], os_spawn_faults = [], os_proc_faults = [], os_clock = 0\<rparr>,
      as_out = [], as_err = [], as_terminal = \<lparr>tm_stdout = sink [], tm_stderr = sink []\<rparr>, as_actions = []\<rparr>"

definition demo_config :: launch_config where
  "demo_config = new_launch_config (from_runtime_dir ''/rt'') ''/p'' ''/c'' ''/t'' ''/run'' 1700000000"

definition demo_run :: run_options where
  "demo_run = default_run_options\<lparr>ro_timeout_secs := Some 1, ro_network := Some Net_Off, ro_command := [''ls'']\<rparr>"

definition demo_prepared :: prepared_guest_command where
  "demo_prepared = \<lparr>pg_command = [''ls''], pg_env = []\<rparr>"

lemma attached_app_fst: "fst (attached_app ae config (s\<lparr>as_world := w\<rparr>)) = fst (attached_app ae config s)"
  by (simp add: attached_app_def split: prod.splits)

lemma demo_launch:
  "\<exists>plan vm w. build_launch_plan demo_config = Ok plan
     \<and> Supervisor.launch_plan appearing (default_options\<lparr>so_qemu_io := Log (path_join ''/run'' ''logs/qemu.log'')\<rparr>)
         plan (as_world demo_state) = (Ok vm, w)"
proof -
  let ?plan = "case build_launch_plan demo_config of Ok p \<Rightarrow> p"
  let ?launch = "Supervisor.launch_plan appearing (default_options\<lparr>so_qemu_io := Log (path_join ''/run'' ''logs/qemu.log'')\<rparr>)
         ?plan (as_world demo_state)"
  have "is_ok (build_launch_plan demo_config)"
    by (simp add: build_launch_plan_def validate_def demo_config_def new_launch_config_def Let_def)
  moreover have "is_ok (fst ?launch)" by code_simp
  ultimately show ?thesis by (cases ?launch) (auto simp: is_ok_iff)
qed

lemma demo_session:
  "\<exists>e. fst (attached_app demo_app (session_config demo_run demo_config demo_prepared) demo_state) = Err e
     \<and> take 5 e = ''timed''"
proof -
  have "take 5 (case fst (attached_app demo_app (session_config demo_run demo_config demo_prepared) demo_state) of
      Err e \<Rightarrow> e | Ok _ \<Rightarrow> []) = ''timed''" by code_simp
  then show ?thesis by (simp split: result.splits)
qed

lemma direct_run_leaves_no_child_witness:
  "\<exists>e. fst (run_disposable_direct demo_app demo_run demo_config demo_prepared demo_state) = Err e \<and> take 5 e = ''timed''
   \<and> unreaped (as_world (snd (run_disposable_direct demo_app demo_run demo_config demo_prepared demo_state))) = {}"
proof -
  let ?run = "run_disposable_direct demo_app demo_run demo_config demo_prepared demo_state"
  have quiet: "quiet (cp_env (ae_client demo_app))" by (simp add: demo_app_def quiet_appearing)
  have init: "unreaped (as_world demo_state) = {}" "os_proc_faults (as_world demo_state) = []"
    by (simp_all add: demo_state_def unreaped_def run_of_def lookup_proc_def)
  obtain plan vm w where launch: "build_launch_plan demo_config = Ok plan"
    "Supervisor.launch_plan (cp_env (ae_client demo_app))
       (default_options\<lparr>so_qemu_io := Log (path_join (lc_run_dir demo_config) ''logs/qemu.log'')\<rparr>)
       plan (as_world demo_state) = (Ok vm, w)"
    using demo_launch by (auto simp: demo_app_def demo_config_def new_launch_config_def)
  obtain e where e: "fst (attached_app demo_app (session_config demo_run demo_config demo_prepared)
      (demo_state\<lparr>as_world := w\<rparr>)) = Err e" "take 5 e = ''timed''"
    using demo_session attached_app_fst by metis
  then have run: "fst ?run = Err e"
    using launch by (auto simp: run_disposable_direct_def bind_app_def plan_app_def pure_app_def Let_def split: prod.splits)
  have spawn_text: "take 5 (supervisor_error_text f (SupIo ''spawn virtiofsd'' p x)) = ''spawn''" for f p x
    by (cases p) simp_all
  have "\<not> (\<exists>x. spawn_failure x \<and> Err e = (Err (supervisor_error_text (ae_fmt_secs demo_app) x) :: (u8, string) result))"
    using e(2) spawn_text by (auto simp: spawn_failure_def split: supervisor_error.splits)
  with direct_run_leaves_no_child [OF quiet init(2), of demo_run demo_config demo_prepared "fst ?run" "snd ?run", OF prod.collapse [symmetric]]
    run init e(2)
  show ?thesis by auto
qed

end
