(* ===== verification/Guest_Init.thy ===== *)
theory Guest_Init
  imports Base64 Rust_Strings Rust_IO "HOL-Library.List_Lexorder" "HOL-Library.Char_ord" "HOL-Library.Product_Lexorder"
begin

text \<open>
  The start of the guest (fendd/src/init.rs): file systems, clock, modules, shares, network and
  environment. What the machine answers is the record \<open>guest\<close>; what the agent does to it is a
  list of actions in order. The agent ignores the outcome of almost every action, so the list
  is determined by the answers. A panic is \<open>None\<close>.
\<close>

datatype guest_action =
    Mount string path string
  | BindMount path
  | RemountReadonly path
  | CreateDirs path
  | SetHostname string
  | SetClock int
  | RunCommand "string list"
  | SpawnCommand "string list"
  | LoadModule path
  | WriteFile path string
  | Chmod path nat
  | Symlink path path
  | Chown path u32 u32
  | SetVar string string

record guest =
  gu_read :: "path \<Rightarrow> string option"
  gu_exists :: "path \<Rightarrow> bool"
  gu_is_dir :: "path \<Rightarrow> bool"
  gu_entries :: "path \<Rightarrow> string list option"
  gu_ok :: "guest_action \<Rightarrow> bool"

section \<open>Characters\<close>

text \<open>\<open>u8 as char\<close> is the code point of the byte; pushing it writes its UTF-8 encoding.\<close>

definition push_byte_as_char :: "nat \<Rightarrow> string" where
  "push_byte_as_char n = (if n < 128 then [char_of n] else [char_of (192 + n div 64), char_of (128 + n mod 64)])"

text \<open>\<open>String::from_utf8\<close> accepts exactly the well-formed sequences of the Unicode standard.\<close>

fun utf8_valid :: "nat list \<Rightarrow> bool" where
  "utf8_valid [] = True"
| "utf8_valid (a # r) =
     (let cont = (\<lambda>b. 128 \<le> b \<and> b < 192)
      in if a < 128 then utf8_valid r
         else case r of
           [] \<Rightarrow> False
         | b # r1 \<Rightarrow>
             if 194 \<le> a \<and> a < 224 then cont b \<and> utf8_valid r1
             else (case r1 of
               [] \<Rightarrow> False
             | c # r2 \<Rightarrow>
                 if 224 \<le> a \<and> a < 240
                 then cont b \<and> (a = 224 \<longrightarrow> 160 \<le> b) \<and> (a = 237 \<longrightarrow> b < 160) \<and> cont c \<and> utf8_valid r2
                 else (case r2 of
                   [] \<Rightarrow> False
                 | d # r3 \<Rightarrow>
                     240 \<le> a \<and> a < 245 \<and> cont b \<and> (a = 240 \<longrightarrow> 144 \<le> b) \<and> (a = 244 \<longrightarrow> b < 144)
                     \<and> cont c \<and> cont d \<and> utf8_valid r3)))"

definition from_utf8 :: "byte list \<Rightarrow> string option" where
  "from_utf8 bs = (if utf8_valid (map unat bs) then Some (bytes_to_string bs) else None)"

section \<open>Mounts\<close>

definition octal_digit :: "char \<Rightarrow> bool" where
  "octal_digit c = (let n = of_char c :: nat in 48 \<le> n \<and> n \<le> 55)"

text \<open>The loop at \<open>index\<close>; the slice panics off a character boundary.\<close>

function unescape_from :: "string \<Rightarrow> nat \<Rightarrow> string \<Rightarrow> string option" where
  "unescape_from value index output =
     (if length value \<le> index then Some output
      else let plain = unescape_from value (index + 1) (output @ push_byte_as_char (of_char (value ! index)))
           in if value ! index = CHR 0x5C \<and> index + 3 < length value then
                (case str_slice (index + 1) (index + 4) value of
                   None \<Rightarrow> None
                 | Some octal \<Rightarrow>
                     if list_all octal_digit octal then
                       (case parse_u8_radix 8 octal of
                          Some decoded \<Rightarrow> unescape_from value (index + 4) (output @ push_byte_as_char (unat decoded))
                        | None \<Rightarrow> plain)
                     else plain)
              else plain)"
  by pat_completeness auto
termination
  by (relation "measure (\<lambda>(value, index, output). length value - index)") auto

declare unescape_from.simps [simp del]

definition unescape_mount_field :: "string \<Rightarrow> string option" where
  "unescape_mount_field value = unescape_from value 0 []"

text \<open>One line: outside \<open>None\<close> is a panic, inside it is no match.\<close>

definition fstype_of_line :: "string \<Rightarrow> string \<Rightarrow> string option option" where
  "fstype_of_line target line =
     (case split_whitespace line of
        source # field # rest \<Rightarrow>
          (case unescape_mount_field field of
             None \<Rightarrow> None
           | Some mount_point \<Rightarrow>
               (case rest of
                  [] \<Rightarrow> Some None
                | fstype # _ \<Rightarrow> Some (if mount_point = target then Some fstype else None)))
      | _ \<Rightarrow> Some None)"

fun find_fstype :: "string \<Rightarrow> string list \<Rightarrow> string option option" where
  "find_fstype target [] = Some None"
| "find_fstype target (l # ls) =
     (case fstype_of_line target l of
        None \<Rightarrow> None
      | Some None \<Rightarrow> find_fstype target ls
      | Some (Some t) \<Rightarrow> Some (Some t))"

definition mount_fstype_from_proc_mounts :: "string \<Rightarrow> string \<Rightarrow> string option option" where
  "mount_fstype_from_proc_mounts mounts target = find_fstype target (lines mounts)"

text \<open>
  What \<open>mount\<close> reports: \<open>EBUSY\<close> (16) is success when the same type is mounted there already. The
  outcome is only printed; \<open>errno\<close> is the answer of the kernel.
\<close>

datatype mount_report = Mounted | AlreadyMounted | MountFailed int

definition current_mount_fstype :: "guest \<Rightarrow> path \<Rightarrow> string option option" where
  "current_mount_fstype g target =
     (case gu_read g ''/proc/mounts'' of None \<Rightarrow> Some None | Some mounts \<Rightarrow> mount_fstype_from_proc_mounts mounts target)"

definition mount :: "guest \<Rightarrow> int option \<Rightarrow> path \<Rightarrow> string \<Rightarrow> mount_report option" where
  "mount g errno target fstype =
     (case errno of
        None \<Rightarrow> Some Mounted
      | Some e \<Rightarrow>
          if e = 16 then
            (case current_mount_fstype g target of
               None \<Rightarrow> None
             | Some t \<Rightarrow> Some (if t = Some fstype then AlreadyMounted else MountFailed e))
          else Some (MountFailed e))"

definition init_filesystems :: "guest_action list" where
  "init_filesystems =
     [Mount ''proc'' ''/proc'' ''proc'', Mount ''sysfs'' ''/sys'' ''sysfs'', Mount ''devtmpfs'' ''/dev'' ''devtmpfs'',
      CreateDirs ''/dev/pts'', Mount ''devpts'' ''/dev/pts'' ''devpts'', CreateDirs ''/tmp'']"

section \<open>The kernel command line\<close>

definition set_clock_from_cmdline :: "guest \<Rightarrow> guest_action list" where
  "set_clock_from_cmdline g =
     (case gu_read g ''/proc/cmdline'' of
        None \<Rightarrow> []
      | Some cmdline \<Rightarrow>
          concat (map (\<lambda>param. case strip_prefix ''fend.epoch='' param of
                                 None \<Rightarrow> []
                               | Some epoch_str \<Rightarrow>
                                   (case parse_i64 epoch_str of None \<Rightarrow> [] | Some epoch \<Rightarrow> [SetClock epoch]))
                   (split_whitespace cmdline)))"

fun cwd_of_params :: "string list \<Rightarrow> string option" where
  "cwd_of_params [] = None"
| "cwd_of_params (param # params) =
     (case strip_prefix ''fend.cwd='' param of
        None \<Rightarrow> cwd_of_params params
      | Some b64 \<Rightarrow> (case base64_decode b64 of None \<Rightarrow> cwd_of_params params | Some bytes \<Rightarrow> from_utf8 bytes))"

definition read_cwd_from_cmdline :: "guest \<Rightarrow> string option" where
  "read_cwd_from_cmdline g =
     (case gu_read g ''/proc/cmdline'' of None \<Rightarrow> None | Some cmdline \<Rightarrow> cwd_of_params (split_whitespace cmdline))"

section \<open>Modules and shares\<close>

definition module_names :: "string list" where
  "module_names = [''fuse'', ''virtiofs'', ''virtio_net'', ''vsock'', ''vmw_vsock_virtio_transport_common'',
     ''vmw_vsock_virtio_transport'']"

text \<open>\<open>modprobe_module\<close>: whether a \<open>modprobe\<close> was found, and the command it ran.\<close>

definition modprobe_module :: "guest \<Rightarrow> string \<Rightarrow> bool \<times> guest_action list" where
  "modprobe_module g name =
     (case List.find (gu_exists g) [''/usr/sbin/modprobe'', ''/sbin/modprobe'', ''/bin/modprobe''] of
        None \<Rightarrow> (False, [])
      | Some modprobe \<Rightarrow> (True, [RunCommand [modprobe, name]]))"

definition load_module_named :: "guest \<Rightarrow> string \<Rightarrow> guest_action list" where
  "load_module_named g name =
     (case modprobe_module g name of
        (True, acts) \<Rightarrow> acts
      | (False, acts) \<Rightarrow>
          (let path = ''/lib/modules/'' @ name @ ''.ko''
           in acts @ (if gu_exists g path then [LoadModule path] else [])))"

definition load_modules :: "guest \<Rightarrow> guest_action list" where
  "load_modules g = concat (map (load_module_named g) module_names)"

definition bind_mount_readonly :: "guest \<Rightarrow> path \<Rightarrow> guest_action list" where
  "bind_mount_readonly g path =
     (if gu_ok g (BindMount path) then [BindMount path, RemountReadonly path] else [BindMount path])"

definition guest_workspace :: "guest \<Rightarrow> path" where
  "guest_workspace g = unwrap_or (read_cwd_from_cmdline g) ''/workspace''"

definition mount_virtiofs :: "guest \<Rightarrow> guest_action list" where
  "mount_virtiofs g =
     (let workspace = guest_workspace g; git_dir = workspace @ ''/.git''
      in [CreateDirs workspace, Mount ''workspace'' workspace ''virtiofs'']
         @ (if gu_exists g git_dir then bind_mount_readonly g git_dir else [])
         @ [CreateDirs ''/home/user/.npm'', Mount ''cache'' ''/home/user/.npm'' ''virtiofs'',
            CreateDirs ''/opt/tools'', Mount ''tools'' ''/opt/tools'' ''virtiofs''])"

section \<open>Network\<close>

definition network_interface_priority :: "string \<Rightarrow> nat" where
  "network_interface_priority name =
     (if starts_with ''en'' name \<or> starts_with ''eth'' name then 0
      else if starts_with ''wl'' name \<or> starts_with ''ww'' name then 1
      else 2)"

definition select_primary_network_interface :: "string list \<Rightarrow> string option" where
  "select_primary_network_interface names =
     (case sort_key (\<lambda>name. (network_interface_priority name, name))
             (filter (\<lambda>name. name \<noteq> [] \<and> name \<noteq> ''lo'') (map trim names)) of
        [] \<Rightarrow> None | name # _ \<Rightarrow> Some name)"

definition primary_network_interface :: "guest \<Rightarrow> string option" where
  "primary_network_interface g =
     (case gu_entries g ''/sys/class/net'' of
        None \<Rightarrow> None
      | Some names \<Rightarrow> select_primary_network_interface (filter (\<lambda>n. n \<noteq> []) (map trim names)))"

definition setup_networking :: "guest \<Rightarrow> guest_action list" where
  "setup_networking g =
     RunCommand [''/bin/ip'', ''link'', ''set'', ''lo'', ''up''] #
     (case primary_network_interface g of
        None \<Rightarrow> []
      | Some interface \<Rightarrow>
          RunCommand [''/bin/ip'', ''link'', ''set'', interface, ''up''] #
          (if gu_exists g ''/sbin/dhclient'' then [SpawnCommand [''/sbin/dhclient'', ''-1'', ''-q'', interface]]
           else if gu_exists g ''/bin/udhcpc''
           then [SpawnCommand [''/bin/udhcpc'', ''-i'', interface, ''-q'', ''-s'', ''/bin/simple_dhcp.sh'']]
           else []))"

section \<open>Environment\<close>

text \<open>The directory \<open>/opt/tools\<close>, sorted by name.\<close>

definition tool_entries :: "guest \<Rightarrow> string list" where
  "tool_entries g = (case gu_entries g ''/opt/tools'' of None \<Rightarrow> [] | Some names \<Rightarrow> sort names)"

definition tool_dir :: "string \<Rightarrow> path" where
  "tool_dir name = path_join ''/opt/tools'' name"

definition tool_path_entry :: "guest \<Rightarrow> string \<Rightarrow> string list" where
  "tool_path_entry g name =
     (if starts_with ''node-'' name then
        (let bin = path_join (tool_dir name) ''bin'' in if gu_exists g bin then [bin] else [])
      else if starts_with ''bun-'' name then
        (if gu_exists g (path_join (tool_dir name) ''bun'') then [tool_dir name] else [])
      else if (name = ''claude'' \<or> starts_with ''claude-'' name) \<and> gu_exists g (path_join (tool_dir name) ''claude'')
      then [tool_dir name]
      else [])"

definition build_tools_path :: "guest \<Rightarrow> string" where
  "build_tools_path g =
     join_with '':'' (concat (map (tool_path_entry g) (tool_entries g))
       @ [''/usr/local/sbin'', ''/usr/local/bin'', ''/usr/sbin'', ''/usr/bin'', ''/sbin'', ''/bin''])"

definition find_claude_bin :: "guest \<Rightarrow> path option" where
  "find_claude_bin g =
     map_option (\<lambda>name. path_join (tool_dir name) ''claude'')
       (List.find (\<lambda>name. (name = ''claude'' \<or> starts_with ''claude-'' name)
                         \<and> gu_exists g (path_join (tool_dir name) ''claude'')) (tool_entries g))"

definition find_tool_bin :: "guest \<Rightarrow> string \<Rightarrow> path option" where
  "find_tool_bin g tool =
     (case gu_entries g ''/opt/tools'' of
        None \<Rightarrow> None
      | Some names \<Rightarrow>
          List.find (gu_exists g) (map (\<lambda>name. path_join (path_join (tool_dir name) ''bin'') tool) names))"

text \<open>
  \<open>chown_recursive\<close>; the kernel bounds the depth of the walk (a path through symbolic links
  stops resolving), which is the first argument.
\<close>

fun chown_recursive :: "nat \<Rightarrow> guest \<Rightarrow> path \<Rightarrow> u32 \<Rightarrow> u32 \<Rightarrow> guest_action list" where
  "chown_recursive depth g path uid gid =
     Chown path uid gid #
     (case depth of
        0 \<Rightarrow> []
      | Suc d \<Rightarrow>
          (case gu_entries g path of
             None \<Rightarrow> []
           | Some names \<Rightarrow>
               concat (map (\<lambda>name. let p = path_join path name
                                   in if gu_is_dir g p then chown_recursive d g p uid gid else [Chown p uid gid]) names)))"

definition nl :: string where "nl = [CHR 0x0A]"

definition setup_environment :: "nat \<Rightarrow> guest \<Rightarrow> guest_action list" where
  "setup_environment depth g =
     [CreateDirs ''/home/user'', CreateDirs ''/etc'']
     @ (if (case gu_read g ''/etc/passwd'' of Some content \<Rightarrow> \<not> contains_str ''user:x:1000:'' content | None \<Rightarrow> True)
        then [WriteFile ''/etc/passwd''
                (''root:x:0:0:root:/root:/bin/sh'' @ nl @ ''user:x:1000:1000::/home/user:/bin/bash'' @ nl),
              WriteFile ''/etc/group'' (''root:x:0:'' @ nl @ ''user:x:1000:'' @ nl)]
        else [])
     @ (if (case gu_read g ''/etc/hosts'' of Some content \<Rightarrow> \<not> contains_str ''localhost'' content | None \<Rightarrow> True)
        then [WriteFile ''/etc/hosts''
                (''127.0.0.1 localhost fend'' @ nl @ ''::1 localhost ip6-localhost ip6-loopback'' @ nl)]
        else [])
     @ [Chmod ''/tmp'' 0x3FF]
     @ (case find_claude_bin g of
          Some claude_path \<Rightarrow> [CreateDirs ''/home/user/.local/bin'', Symlink claude_path ''/home/user/.local/bin/claude'']
        | None \<Rightarrow> [])
     @ [CreateDirs ''/home/user/.cache'']
     @ chown_recursive depth g ''/home/user'' 1000 1000
     @ [SetVar ''PATH'' (build_tools_path g), SetVar ''HOME'' ''/home/user'', SetVar ''TERM'' ''xterm-256color'',
        SetVar ''LANG'' ''C.UTF-8'']
     @ (case find_tool_bin g ''corepack'' of
          Some corepack_path \<Rightarrow>
            [CreateDirs ''/usr/local/bin'', RunCommand [corepack_path, ''enable'', ''--install-directory'', ''/usr/local/bin'']]
            @ chown_recursive depth g ''/home/user'' 1000 1000
        | None \<Rightarrow> [])"

definition initialize :: "nat \<Rightarrow> guest \<Rightarrow> guest_action list" where
  "initialize depth g =
     init_filesystems @ [SetHostname ''fend''] @ set_clock_from_cmdline g @ load_modules g @ mount_virtiofs g
     @ setup_networking g @ setup_environment depth g"


section \<open>Mount points\<close>

text \<open>How the kernel prints a mount point: blanks and backslashes as three octal digits.\<close>

definition mount_escape_char :: "char \<Rightarrow> string" where
  "mount_escape_char c =
     (if c = CHR 0x20 then CHR 0x5C # ''040'' else if c = CHR 0x09 then CHR 0x5C # ''011''
      else if c = CHR 0x0A then CHR 0x5C # ''012'' else if c = CHR 0x5C then CHR 0x5C # ''134'' else [c])"

definition mount_escape :: "string \<Rightarrow> string" where
  "mount_escape s = concat (map mount_escape_char s)"

definition ascii :: "char \<Rightarrow> bool" where
  "ascii c = ((of_char c :: nat) < 128)"

lemma mount_escape_ascii: "list_all ascii s \<Longrightarrow> list_all ascii (mount_escape s)"
proof (induction s)
  case (Cons c s)
  have "ascii c \<Longrightarrow> list_all ascii (mount_escape_char c)" by (simp add: mount_escape_char_def ascii_def)
  with Cons show ?case by (simp add: mount_escape_def)
qed (simp add: mount_escape_def)

lemma ascii_boundary:
  assumes "list_all ascii t" and "j \<le> length t"
  shows "is_char_boundary (length pre + j) (pre @ t)"
  using assms by (cases "j = length t") (auto simp: is_char_boundary_def ascii_def list_all_length nth_append Let_def)

lemma unescape_octal:
  assumes "list_all ascii (d @ t)" and "length d = 3" and "list_all octal_digit d" and "parse_u8_radix 8 d = Some b"
  shows "unescape_from (pre @ CHR 0x5C # d @ t) (length pre) out =
    unescape_from (pre @ CHR 0x5C # d @ t) (length pre + 4) (out @ push_byte_as_char (unat b))"
proof -
  let ?v = "pre @ CHR 0x5C # d @ t"
  have bounds: "is_char_boundary (length pre + 1) ?v" "is_char_boundary (length pre + 4) ?v"
    using ascii_boundary [OF assms(1), of 0 "pre @ [CHR 0x5C]"] ascii_boundary [OF assms(1), of 3 "pre @ [CHR 0x5C]"] assms(2)
    by (simp_all add: eval_nat_numeral)
  have "take 3 (drop (length pre + 1) ?v) = d" using assms(2) by simp
  with bounds have "str_slice (length pre + 1) (length pre + 4) ?v = Some d" by (simp add: str_slice_def)
  then show ?thesis using assms(2-4) by (subst unescape_from.simps) simp
qed

lemma unescape_plain:
  assumes "ascii c" and "c \<noteq> CHR 0x5C"
  shows "unescape_from (pre @ c # t) (length pre) out = unescape_from (pre @ c # t) (length pre + 1) (out @ [c])"
  using assms by (subst unescape_from.simps) (simp add: push_byte_as_char_def ascii_def)

lemma octal_values:
  "parse_u8_radix 8 ''040'' = Some 32" "parse_u8_radix 8 ''011'' = Some 9"
  "parse_u8_radix 8 ''012'' = Some 10" "parse_u8_radix 8 ''134'' = Some 92"
  by (simp_all add: parse_u8_radix_def parse_unsigned_def digit_val_def)

lemma unescape_escaped:
  "list_all ascii s \<Longrightarrow> unescape_from (pre @ mount_escape s) (length pre) out = Some (out @ s)"
proof (induction s arbitrary: pre out)
  case Nil
  show ?case by (subst unescape_from.simps) (simp add: mount_escape_def)
next
  case (Cons c s)
  let ?t = "mount_escape s"
  have t: "list_all ascii ?t" using Cons.prems by (simp add: mount_escape_ascii)
  show ?case
  proof (cases "mount_escape_char c = [c]")
    case True
    then have "c \<noteq> CHR 0x5C" by (auto simp: mount_escape_char_def split: if_splits)
    with True Cons unescape_plain [of c pre ?t out] show ?thesis
      using Cons.IH [of "pre @ [c]" "out @ [c]"] by (simp add: mount_escape_def)
  next
    case False
    then obtain d b where d: "mount_escape_char c = CHR 0x5C # d" "length d = 3" "list_all octal_digit d"
        "list_all ascii d" "parse_u8_radix 8 d = Some b" "push_byte_as_char (unat b) = [c]"
      by (auto simp: mount_escape_char_def octal_values octal_digit_def ascii_def push_byte_as_char_def
          char_of_small_eq eq_char_of_small split: if_splits)
    have "mount_escape (c # s) = CHR 0x5C # d @ ?t" by (simp add: mount_escape_def d(1))
    then show ?thesis
      using unescape_octal [of d ?t b pre out] t d Cons.IH [of "pre @ CHR 0x5C # d" "out @ [c]"] Cons.prems by simp
  qed
qed

text \<open>
  For every ASCII mount point, with blanks and backslashes in any place, the agent reads
  the kernel's escaped form back to the mount point itself; a byte above 127 instead becomes
  two, so that no other path is ever found in \<open>/proc/mounts\<close>.
\<close>

theorem mount_point_round_trip:
  assumes "list_all ascii s"
  shows "unescape_mount_field (mount_escape s) = Some s
    \<and> unescape_mount_field [char_of (195 :: nat), char_of (169 :: nat)]
        = Some (map char_of [195, 131, 194, 169 :: nat])"
proof
  show "unescape_mount_field (mount_escape s) = Some s"
    using unescape_escaped [OF assms, of "[]" "[]"] by (simp add: unescape_mount_field_def)
  show "unescape_mount_field [char_of (195 :: nat), char_of (169 :: nat)] = Some (map char_of [195, 131, 194, 169 :: nat])"
    by (simp add: unescape_mount_field_def unescape_from.simps push_byte_as_char_def char_of_small_eq)
qed

lemma mount_point_round_trip_witness:
  "unescape_mount_field (mount_escape ''/my dir'') = Some ''/my dir''"
  using mount_point_round_trip [of "''/my dir''"] by (simp add: ascii_def)

section \<open>Network interface\<close>

text \<open>
  The interface that is configured: none exactly when every name is blank or \<open>lo\<close>,
  otherwise one of the names, never \<open>lo\<close>, of the best kind that occurs and the first in
  byte order among those.
\<close>

theorem primary_interface_best:
  "(select_primary_network_interface names = None \<longleftrightarrow> (\<forall>n \<in> set names. trim n = [] \<or> trim n = ''lo''))
   \<and> (select_primary_network_interface names = Some i \<longrightarrow>
        i \<in> trim ` set names \<and> i \<noteq> [] \<and> i \<noteq> ''lo''
        \<and> (\<forall>n \<in> trim ` set names. n \<noteq> [] \<and> n \<noteq> ''lo'' \<longrightarrow>
             (network_interface_priority i, i) \<le> (network_interface_priority n, n)))"
proof -
  let ?key = "\<lambda>name. (network_interface_priority name, name)"
  let ?cands = "filter (\<lambda>name. name \<noteq> [] \<and> name \<noteq> ''lo'') (map trim names)"
  have sorted: "sorted (map ?key (sort_key ?key ?cands))" by (rule sorted_sort_key)
  have members: "set (sort_key ?key ?cands) = set ?cands" by simp
  show ?thesis
  proof (cases "sort_key ?key ?cands")
    case Nil
    then have "set ?cands = {}" using members by (metis empty_set)
    with Nil show ?thesis by (auto simp: select_primary_network_interface_def filter_empty_conv)
  next
    case (Cons n ns)
    then have sel: "select_primary_network_interface names = Some n" by (simp add: select_primary_network_interface_def)
    have n: "n \<in> set ?cands" using Cons members by (metis list.set_intros(1))
    have "\<forall>m \<in> set ?cands. ?key n \<le> ?key m" using sorted members unfolding Cons by auto
    with n sel show ?thesis by auto
  qed
qed

lemma primary_interface_best_witness:
  "select_primary_network_interface [''lo''] = None"
proof -
  have "trim ''lo'' = ''lo''"
    by (simp add: trim_def trim_start.simps trim_end.simps ws_end_len_def ws_len_def Let_def)
  with primary_interface_best [of "[''lo'']"] show ?thesis by simp
qed

section \<open>The repository of the project\<close>

text \<open>
  The agent's protection of \<open>.git\<close>: the start mounts the workspace, then binds its
  \<open>.git\<close> over itself and asks for a read-only remount, all before the network and the
  environment are set up; but when the bind is refused the start goes on without the
  read-only mount, with every later step unchanged.
\<close>

theorem git_protection:
  assumes "gu_exists g (guest_workspace g @ ''/.git'')"
  shows "\<exists>before after. initialize depth g =
      before @ [Mount ''workspace'' (guest_workspace g) ''virtiofs'', BindMount (guest_workspace g @ ''/.git'')]
        @ (if gu_ok g (BindMount (guest_workspace g @ ''/.git'')) then [RemountReadonly (guest_workspace g @ ''/.git'')] else [])
        @ after @ setup_networking g @ setup_environment depth g"
  unfolding initialize_def mount_virtiofs_def Let_def bind_mount_readonly_def using assms
  by (intro exI [of _ "init_filesystems @ [SetHostname ''fend''] @ set_clock_from_cmdline g @ load_modules g
          @ [CreateDirs (guest_workspace g)]"]
      exI [of _ "[CreateDirs ''/home/user/.npm'', Mount ''cache'' ''/home/user/.npm'' ''virtiofs'',
          CreateDirs ''/opt/tools'', Mount ''tools'' ''/opt/tools'' ''virtiofs'']"]) simp

lemma git_protection_witness:
  "\<exists>before after. initialize 0 \<lparr>gu_read = (\<lambda>_. None), gu_exists = (\<lambda>p. p = ''/workspace/.git''),
       gu_is_dir = (\<lambda>_. False), gu_entries = (\<lambda>_. None), gu_ok = (\<lambda>_. False)\<rparr> =
     before @ [Mount ''workspace'' ''/workspace'' ''virtiofs'', BindMount ''/workspace/.git''] @ after"
proof -
  let ?g = "\<lparr>gu_read = (\<lambda>_. None), gu_exists = (\<lambda>p. p = ''/workspace/.git''),
       gu_is_dir = (\<lambda>_. False), gu_entries = (\<lambda>_. None), gu_ok = (\<lambda>_. False)\<rparr> :: guest"
  have ws: "guest_workspace ?g = ''/workspace''" by (simp add: guest_workspace_def read_cwd_from_cmdline_def)
  from git_protection [of ?g 0] ws obtain b a where
    "initialize 0 ?g = b @ [Mount ''workspace'' ''/workspace'' ''virtiofs'', BindMount ''/workspace/.git'']
       @ a @ setup_networking ?g @ setup_environment 0 ?g" by auto
  then show ?thesis by blast
qed

end
