(* ===== verification/Vsock_Socket.thy ===== *)
theory Vsock_Socket
  imports Rust_IO
begin

text \<open>
  The system calls that open a vsock: the listening socket of the agent (\<open>VsockListener::bind\<close>
  of fendd/src/vsock.rs) and the connecting socket of the clients (\<open>connect\<close> of
  fendd/src/bin/fend-vsock-smoke.rs; \<open>connect_vsock\<close> of linux/src/session.rs is its copy). What
  the kernel answers is the record \<open>vsock_os\<close>; the calls that succeeded, and the close of a
  dropped descriptor, are listed in order.
\<close>

record sockaddr_vm =
  svm_family :: u16
  svm_port :: u32
  svm_cid :: u32

definition AF_VSOCK :: int where "AF_VSOCK = 40"

definition VMADDR_CID_ANY :: u32 where "VMADDR_CID_ANY = 0xFFFFFFFF"

record vsock_os =
  vo_socket :: "int io_result"
  vo_bind :: "int \<Rightarrow> sockaddr_vm \<Rightarrow> unit io_result"
  vo_listen :: "int \<Rightarrow> nat \<Rightarrow> unit io_result"
  vo_connect :: "int \<Rightarrow> sockaddr_vm \<Rightarrow> unit io_result"

datatype socket_action =
    Open_socket int
  | Bind_socket int sockaddr_vm
  | Listen_socket int nat
  | Connect_socket int sockaddr_vm
  | Close_socket int

text \<open>An early return drops the owned descriptor, which closes it.\<close>

definition vsock_bind :: "vsock_os \<Rightarrow> u32 \<Rightarrow> int io_result \<times> socket_action list" where
  "vsock_bind os port =
     (case vo_socket os of
        Err e \<Rightarrow> (Err e, [])
      | Ok fd \<Rightarrow>
          (let addr = \<lparr>svm_family = of_int AF_VSOCK, svm_port = port, svm_cid = VMADDR_CID_ANY\<rparr>
           in case vo_bind os fd addr of
                Err e \<Rightarrow> (Err e, [Open_socket fd, Close_socket fd])
              | Ok _ \<Rightarrow>
                  (case vo_listen os fd 8 of
                     Err e \<Rightarrow> (Err e, [Open_socket fd, Bind_socket fd addr, Close_socket fd])
                   | Ok _ \<Rightarrow> (Ok fd, [Open_socket fd, Bind_socket fd addr, Listen_socket fd 8]))))"

definition vsock_connect :: "vsock_os \<Rightarrow> u32 \<Rightarrow> u32 \<Rightarrow> int io_result \<times> socket_action list" where
  "vsock_connect os cid port =
     (case vo_socket os of
        Err e \<Rightarrow> (Err e, [])
      | Ok fd \<Rightarrow>
          (let addr = \<lparr>svm_family = of_int AF_VSOCK, svm_port = port, svm_cid = cid\<rparr>
           in case vo_connect os fd addr of
                Err e \<Rightarrow> (Err e, [Open_socket fd, Close_socket fd])
              | Ok _ \<Rightarrow> (Ok fd, [Open_socket fd, Connect_socket fd addr])))"

text \<open>The descriptors a list of actions leaves open.\<close>

definition open_sockets :: "socket_action list \<Rightarrow> int set" where
  "open_sockets acts = {fd. Open_socket fd \<in> set acts} - {fd. Close_socket fd \<in> set acts}"

text \<open>
  Neither call leaks a descriptor: after a failure none is open, after a success exactly the
  returned one.
\<close>

lemma vsock_bind_no_leak:
  "open_sockets (snd (vsock_bind os port)) = (case fst (vsock_bind os port) of Err _ \<Rightarrow> {} | Ok fd \<Rightarrow> {fd})"
  by (auto simp: vsock_bind_def open_sockets_def Let_def split: result.splits)

lemma vsock_connect_no_leak:
  "open_sockets (snd (vsock_connect os cid port)) = (case fst (vsock_connect os cid port) of Err _ \<Rightarrow> {} | Ok fd \<Rightarrow> {fd})"
  by (auto simp: vsock_connect_def open_sockets_def Let_def split: result.splits)

text \<open>A listener is on the given port for every address; a connection goes to the given machine and port.\<close>

lemma vsock_bind_address:
  "fst (vsock_bind os port) = Ok fd \<Longrightarrow>
     \<exists>addr. Bind_socket fd addr \<in> set (snd (vsock_bind os port)) \<and> svm_port addr = port \<and> svm_cid addr = VMADDR_CID_ANY"
  by (auto simp: vsock_bind_def Let_def split: result.splits)

lemma vsock_connect_address:
  "fst (vsock_connect os cid port) = Ok fd \<Longrightarrow>
     \<exists>addr. Connect_socket fd addr \<in> set (snd (vsock_connect os cid port)) \<and> svm_port addr = port \<and> svm_cid addr = cid"
  by (auto simp: vsock_connect_def Let_def split: result.splits)

section \<open>Streams\<close>

text \<open>
  The calls on a connection hand through the return value of the system call: negative is the
  error in \<open>errno\<close>, otherwise a descriptor or a number of bytes. \<open>buf\<close> is what the kernel put
  into the buffer of a read.
\<close>

definition os_result :: "int \<Rightarrow> io_error \<Rightarrow> int io_result" where
  "os_result rc errno = (if rc < 0 then Err errno else Ok rc)"

definition vsock_accept :: "(int \<Rightarrow> int \<times> io_error) \<Rightarrow> int \<Rightarrow> int io_result" where
  "vsock_accept accept listener = (case accept listener of (rc, errno) \<Rightarrow> os_result rc errno)"

definition vsock_try_clone :: "(int \<Rightarrow> int \<times> io_error) \<Rightarrow> int \<Rightarrow> int io_result" where
  "vsock_try_clone dup fd = (case dup fd of (rc, errno) \<Rightarrow> os_result rc errno)"

definition vsock_read :: "(int \<Rightarrow> nat \<Rightarrow> (int \<times> io_error) \<times> byte list) \<Rightarrow> int \<Rightarrow> nat \<Rightarrow> byte list io_result" where
  "vsock_read sys_read fd len =
     (case sys_read fd len of ((rc, errno), buf) \<Rightarrow> map_ok (\<lambda>n. take (nat n) buf) (os_result rc errno))"

definition vsock_write :: "(int \<Rightarrow> byte list \<Rightarrow> int \<times> io_error) \<Rightarrow> int \<Rightarrow> byte list \<Rightarrow> nat io_result" where
  "vsock_write sys_write fd buf = (case sys_write fd buf of (rc, errno) \<Rightarrow> map_ok nat (os_result rc errno))"

text \<open>
  The readers of Rust_IO are what such a stream shows: on a kernel that answers the first event
  of a reader, a read of the stream is a read of the reader. The answers are those of
  \<open>read(2)\<close>: the end of the stream is 0, an error is -1, and a read takes at most \<open>len\<close> bytes.
\<close>

definition kernel_read :: "reader \<Rightarrow> int \<Rightarrow> nat \<Rightarrow> (int \<times> io_error) \<times> byte list" where
  "kernel_read r fd len =
     (case fst (read_some len r) of
        Ok bs \<Rightarrow> ((int (length bs), IoError OtherKind None []), bs)
      | Err e \<Rightarrow> ((-1, e), []))"

lemma vsock_read_some: "vsock_read (kernel_read r) fd len = fst (read_some len r)"
  by (simp add: vsock_read_def kernel_read_def os_result_def split: result.splits)

end
