(* ===== verification/Guest_Main.thy ===== *)
theory Guest_Main
  imports Guest_Init Guest_Connection Vsock_Socket
begin

text \<open>
  The agent's main program (fendd/src/main.rs), the listener it serves (fendd/src/server.rs) and
  the listener of forwarded ports (\<open>start\<close> of fendd/src/port_forward.rs). What the main
  thread does is a list of actions in order: those of the guest's start, the system calls on the
  socket, the start of the other threads, and one handler per accepted connection. The outcomes
  of \<open>accept\<close> are a list; the loop itself never ends.
\<close>

section \<open>The main program\<close>

datatype agent_action =
    Init guest_action
  | Sock socket_action
  | Start_port_monitor
  | Start_port_forward
  | Start_network_monitor
  | Handle_connection int
  | Handle_forward int
  | Accept_pause nat
  | Exec path

definition server_bind :: "vsock_os \<Rightarrow> int io_result \<times> socket_action list" where
  "server_bind os = vsock_bind os VSOCK_PORT"

text \<open>An error of \<open>accept\<close> pauses the loop for 100 ms.\<close>

fun server_run :: "int io_result list \<Rightarrow> agent_action list" where
  "server_run [] = []"
| "server_run (Ok conn # accepts) = Handle_connection conn # server_run accepts"
| "server_run (Err e # accepts) = Accept_pause 100 # server_run accepts"

text \<open>The thread of the forwarded ports; without its socket it ends at once.\<close>

fun forward_run :: "int io_result list \<Rightarrow> agent_action list" where
  "forward_run [] = []"
| "forward_run (Ok conn # accepts) = Handle_forward conn # forward_run accepts"
| "forward_run (Err e # accepts) = Accept_pause 100 # forward_run accepts"

definition port_forward_start :: "vsock_os \<Rightarrow> int io_result list \<Rightarrow> agent_action list" where
  "port_forward_start os accepts =
     (case vsock_bind os VSOCK_PORT_FORWARD of
        (Err e, acts) \<Rightarrow> map Sock acts
      | (Ok listener, acts) \<Rightarrow> map Sock acts @ forward_run accepts)"

definition exec_shell :: "guest \<Rightarrow> agent_action list" where
  "exec_shell g = [Exec (if gu_exists g ''/bin/bash'' then ''/bin/bash'' else ''/bin/sh'')]"

definition agent_main :: "nat \<Rightarrow> guest \<Rightarrow> vsock_os \<Rightarrow> int io_result list \<Rightarrow> agent_action list" where
  "agent_main depth g os accepts =
     map Init (initialize depth g)
     @ (case server_bind os of
          (Err e, acts) \<Rightarrow> map Sock acts @ exec_shell g
        | (Ok listener, acts) \<Rightarrow>
            map Sock acts @ [Start_port_monitor, Start_port_forward, Start_network_monitor] @ server_run accepts)"

lemma server_run_actions: "a \<in> set (server_run accepts) \<Longrightarrow> (\<exists>c. a = Handle_connection c) \<or> (\<exists>n. a = Accept_pause n)"
  by (induction accepts rule: server_run.induct) auto

text \<open>Every accepted connection is handled, in order, also after errors of \<open>accept\<close>.\<close>

lemma server_run_handles:
  "filter (\<lambda>a. \<exists>c. a = Handle_connection c) (server_run accepts)
     = map Handle_connection (concat (map (\<lambda>a. case a of Ok c \<Rightarrow> [c] | Err _ \<Rightarrow> []) accepts))"
  by (induction accepts rule: server_run.induct) auto

lemma agent_main_init:
  "\<exists>rest. agent_main depth g os accepts = map Init (initialize depth g) @ rest \<and> (\<forall>a \<in> set rest. \<forall>i. a \<noteq> Init i)"
  unfolding agent_main_def
  by (rule exI, rule conjI, rule refl)
    (cases "server_bind os", cases "fst (server_bind os)", auto simp: exec_shell_def dest: server_run_actions)

text \<open>What stands before a handled connection includes the whole start of the guest.\<close>

lemma handled_after_init:
  assumes "agent_main depth g os accepts = pre @ Handle_connection c # post"
  shows "\<exists>mid. pre = map Init (initialize depth g) @ mid" "\<forall>a \<in> set post. \<forall>i. a \<noteq> Init i"
proof -
  let ?is = "map Init (initialize depth g)"
  obtain rest where rest: "agent_main depth g os accepts = ?is @ rest" "\<forall>a \<in> set rest. \<forall>i. a \<noteq> Init i"
    using agent_main_init by blast
  have "\<not> length pre < length ?is"
  proof
    assume "length pre < length ?is"
    then have "(?is @ rest) ! length pre \<in> set ?is" by (simp add: nth_append)
    moreover have "(?is @ rest) ! length pre = Handle_connection c"
      unfolding rest(1) [symmetric] assms by simp
    ultimately show False by auto
  qed
  moreover from assms rest(1) have eq: "pre @ Handle_connection c # post = ?is @ rest" by simp
  ultimately have mid: "pre = ?is @ drop (length ?is) pre" "rest = drop (length ?is) pre @ Handle_connection c # post"
    by (metis append_eq_append_conv_if append_take_drop_id le_eq_less_or_eq linorder_neqE_nat nat_less_le)+
  from mid(1) show "\<exists>mid. pre = map Init (initialize depth g) @ mid" ..
  from mid(2) rest(2) show "\<forall>a \<in> set post. \<forall>i. a \<noteq> Init i" by simp
qed


definition demo_guest :: guest where
  "demo_guest = \<lparr>gu_read = (\<lambda>_. None), gu_exists = (\<lambda>p. p = ''/workspace/.git''),
     gu_is_dir = (\<lambda>_. False), gu_entries = (\<lambda>_. None), gu_ok = (\<lambda>_. True)\<rparr>"

definition demo_vsock :: vsock_os where
  "demo_vsock = \<lparr>vo_socket = Ok 3, vo_bind = (\<lambda>_ _. Ok ()), vo_listen = (\<lambda>_ _. Ok ()), vo_connect = (\<lambda>_ _. Ok ())\<rparr>"


end
