(* ===== verification/Agent_Command.thy ===== *)
theory Agent_Command
  imports Guest_Connection Host_Session
begin

text \<open>
  A command from the host's session to the agent: the bytes the handshake of linux/src/session.rs
  sends are read by the handler of fendd/src/connection.rs as the same command, which it then
  spawns, and the size of the host's window is set on the terminal of the command. Between the
  two sides stands serde_json; \<open>requests_law\<close> is what the theorem needs of it.
\<close>

section \<open>What the handshake sends\<close>

definition host_window :: "session_env \<Rightarrow> (u16 \<times> u16) option" where
  "host_window se = (if se_tty se then current_window_size (se_winsize se) else None)"

definition window_frame :: "session_json \<Rightarrow> session_env \<Rightarrow> (message_type \<times> byte list) list" where
  "window_frame sj se =
     (case host_window se of
        None \<Rightarrow> []
      | Some (rows, cols) \<Rightarrow>
          (case sj_window sj \<lparr>ws_id = COMMAND_ID, ws_rows = rows, ws_cols = cols\<rparr> of
             Ok body \<Rightarrow> [(WindowSize, body)] | Err _ \<Rightarrow> []))"

lemma handshake_sends:
  assumes "session_handshake sj se config r w = (Ok r1, w1)"
  obtains body where "sj_command sj (host_command config (se_tty se)) = Ok body"
    "w_out w1 = w_out w @ frame_bytes (message_type_as_u8 ExecuteCommand) body
       @ concat (map (\<lambda>(t, p). frame_bytes (message_type_as_u8 t) p) (window_frame sj se))"
proof -
  from assms obtain body w2 where body: "sj_command sj (host_command config (se_tty se)) = Ok body"
    and cmd: "session_write_frame 1 body w = (Ok (), w2)"
    and window: "(if se_tty se
        then (case current_window_size (se_winsize se) of
                Some (rows, cols) \<Rightarrow> send_window_size sj rows cols w2 | None \<Rightarrow> (Ok (), w2))
        else (Ok (), w2)) = (Ok (), w1)"
    by (auto simp: session_handshake_def split: prod.splits result.splits if_splits)
  from window have "w_out w1 = w_out w2 @ concat (map (\<lambda>(t, p). frame_bytes (message_type_as_u8 t) p) (window_frame sj se))"
    by (auto simp: window_frame_def host_window_def send_window_size_def dest!: session_write_frame_Ok_out
        split: if_splits option.splits prod.splits result.splits)
  with session_write_frame_Ok_out [OF cmd] body show ?thesis by (intro that) simp_all
qed

section \<open>What the agent reads\<close>

text \<open>
  The agent keeps the environment in a hash map: it reads the same variables, perhaps in another
  order.
\<close>

definition same_command :: "execute_command \<Rightarrow> execute_command \<Rightarrow> bool" where
  "same_command c d \<longleftrightarrow> c\<lparr>ec_env := []\<rparr> = d\<lparr>ec_env := []\<rparr> \<and> map_of (ec_env c) = map_of (ec_env d)"

definition requests_law :: "session_json \<Rightarrow> request_json \<Rightarrow> bool" where
  "requests_law sj rj \<longleftrightarrow>
     (\<forall>c body. sj_command sj c = Ok body \<longrightarrow>
        length body \<le> MAX_PAYLOAD \<and> (\<exists>d. rj_command rj body = Ok d \<and> same_command c d))
     \<and> (\<forall>m body. sj_window sj m = Ok body \<longrightarrow> length body \<le> MAX_PAYLOAD \<and> rj_window rj body = Ok m)"

definition spawn_command ::
  "spawn_os \<Rightarrow> agent_json \<Rightarrow> (io_error \<Rightarrow> string) \<Rightarrow> execute_command \<Rightarrow> writer \<Rightarrow> (spawn_result, unit) result \<times> writer" where
  "spawn_command os js show_error cmd w =
     (if ec_tty cmd then spawn_pty os js show_error cmd w else spawn os js show_error cmd w)"

text \<open>What the loop starts with for a spawned command, and the terminal it controls.\<close>

definition spawned_control :: "spawn_result \<Rightarrow> writer \<Rightarrow> control" where
  "spawned_control res stdin =
     \<lparr>ct_stdin = (case res of Piped _ \<Rightarrow> Some stdin | Pty _ _ \<Rightarrow> None), ct_actions = []\<rparr>"

definition spawned_terminal :: "spawn_result \<Rightarrow> int option" where
  "spawned_terminal res = (case res of Piped _ \<Rightarrow> None | Pty _ fd \<Rightarrow> Some fd)"

definition spawned_child :: "spawn_result \<Rightarrow> child" where
  "spawned_child res = (case res of Piped c \<Rightarrow> c | Pty c _ \<Rightarrow> c)"

lemma handle_command:
  assumes "write_frame Ready (as_bytes ''{}'') aw = (Ok (), aw1)"
    and "read_frame ar = (Ok (ExecuteCommand, body), ar1)" and "rj_command rj body = Ok cmd"
  shows "handle os js rj show_error (Ok ()) stdin ar aw =
    (case spawn_command os js show_error cmd aw1 of
       (Err _, aw2) \<Rightarrow> (SpawnFailed, aw2)
     | (Ok res, aw2) \<Rightarrow>
         (Ran res (end_of_stream (spawned_terminal res)
            (message_loop rj (ec_id cmd) (ch_pid (spawned_child res)) (spawned_terminal res) ar1 (spawned_control res stdin))), aw2))"
  using assms
  by (auto simp: handle_def spawn_command_def spawned_control_def spawned_terminal_def spawned_child_def
      split: prod.splits result.splits spawn_result.splits)

text \<open>A handler that runs something runs the command of the first frame.\<close>

lemma handle_ran:
  assumes "handle os js rj show_error clone stdin ar aw = (Ran res ct, aw2)"
  obtains body cmd ar1 aw1 where "read_frame ar = (Ok (ExecuteCommand, body), ar1)" "rj_command rj body = Ok cmd"
    "spawn_command os js show_error cmd aw1 = (Ok res, aw2)"
  using assms
  by (auto simp: handle_def spawn_command_def Let_def split: result.splits prod.splits if_splits spawn_result.splits)

lemma sent_command_read:
  assumes "requests_law sj rj" and "session_handshake sj se config r w = (Ok r1, w1)" and "w_out w = []"
    and "clean ar" and "bytes_of ar = w_out w1 @ later"
  obtains body cmd ar1 where "read_frame ar = (Ok (ExecuteCommand, body), ar1)" "rj_command rj body = Ok cmd"
    "same_command (host_command config (se_tty se)) cmd" "clean ar1"
    "bytes_of ar1 = concat (map (\<lambda>(t, p). frame_bytes (message_type_as_u8 t) p) (window_frame sj se)) @ later"
proof -
  from handshake_sends [OF assms(2)] obtain body where body: "sj_command sj (host_command config (se_tty se)) = Ok body"
    and out: "w_out w1 = w_out w @ frame_bytes (message_type_as_u8 ExecuteCommand) body
       @ concat (map (\<lambda>(t, p). frame_bytes (message_type_as_u8 t) p) (window_frame sj se))" .
  from body assms(1) obtain cmd where cmd: "length body \<le> MAX_PAYLOAD" "rj_command rj body = Ok cmd"
    "same_command (host_command config (se_tty se)) cmd" unfolding requests_law_def by blast
  from to_guest.dec_enc [OF assms(4), of "(ExecuteCommand, body)"] cmd(1) out assms(3,5) obtain ar1 where
    "read_frame ar = (Ok (ExecuteCommand, body), ar1)" "clean ar1"
    "bytes_of ar1 = concat (map (\<lambda>(t, p). frame_bytes (message_type_as_u8 t) p) (window_frame sj se)) @ later" by auto
  with cmd show ?thesis by (intro that) auto
qed


text \<open>The process of a sent command is a child of the agent for that command.\<close>

lemma spawned_from_session:
  assumes "requests_law sj rj" and "session_handshake sj se config r w = (Ok r1, w1)" and "w_out w = []"
    and "clean ar" and "bytes_of ar = w_out w1 @ later"
    and "handle os js rj show_error clone stdin ar aw = (Ran res ct, aw2)"
  obtains cmd aw1 where "same_command (host_command config (se_tty se)) cmd"
    "fst (spawn os js show_error cmd aw1) = Ok (Piped (spawned_child res))
     \<or> (\<exists>master. fst (spawn_pty os js show_error cmd aw1) = Ok (Pty (spawned_child res) master))"
proof -
  from handle_ran [OF assms(6)] obtain body cmd ar1 aw1 where
    ran: "read_frame ar = (Ok (ExecuteCommand, body), ar1)" "rj_command rj body = Ok cmd"
      "spawn_command os js show_error cmd aw1 = (Ok res, aw2)" .
  with sent_command_read [OF assms(1-5)] have "same_command (host_command config (se_tty se)) cmd" by fastforce
  moreover from ran(3) have "fst (spawn os js show_error cmd aw1) = Ok (Piped (spawned_child res))
     \<or> (\<exists>master. fst (spawn_pty os js show_error cmd aw1) = Ok (Pty (spawned_child res) master))"
    by (auto simp: spawn_command_def spawned_child_def spawn_def spawn_pty_def Let_def
        split: if_splits result.splits prod.splits spawn_result.splits)
  ultimately show ?thesis by (rule that)
qed

text \<open>What the process is: the program, arguments and directory of the command, in its environment.\<close>

lemma spawned_child_fields:
  assumes "fst (spawn os js show_error cmd w) = Ok (Piped c) \<or> fst (spawn_pty os js show_error cmd w) = Ok (Pty c master)"
  shows "ch_cmd c = ec_cmd cmd" "ch_args c = ec_args cmd" "ch_cwd c = ec_cwd cmd"
    "\<exists>uid. ch_env c = build_env (so_path_var os) cmd uid"
  using assms
  by (auto simp: spawn_def spawn_pty_def command_spawn_def Let_def split: prod.splits result.splits)

lemma same_command_fields:
  assumes "same_command c d"
  shows "ec_cmd d = ec_cmd c" "ec_args d = ec_args c" "ec_cwd d = ec_cwd c" "map_of (ec_env d) = map_of (ec_env c)"
    "build_env path_var d uid = build_env path_var c uid"
proof -
  from assms show "ec_cmd d = ec_cmd c" "ec_args d = ec_args c" "ec_cwd d = ec_cwd c" and env: "map_of (ec_env d) = map_of (ec_env c)"
    by (cases c, cases d, simp add: same_command_def)+
  moreover from assms have "ec_tty d = ec_tty c" by (cases c, cases d) (simp add: same_command_def)
  ultimately show "build_env path_var d uid = build_env path_var c uid" by (simp only: build_env_def)
qed

text \<open>The process the agent runs for a session is the session's command.\<close>

lemma session_process:
  assumes "requests_law sj rj" and "session_handshake sj se config r w = (Ok r1, w1)" and "w_out w = []"
    and "clean ar" and "bytes_of ar = w_out w1 @ later"
    and "handle os js rj show_error clone stdin ar aw = (Ran res ct, aw2)"
  shows "ch_cmd (spawned_child res) = hd (sc_command config)" "ch_args (spawned_child res) = tl (sc_command config)"
    "ch_cwd (spawned_child res) = sc_cwd config"
    "\<exists>uid. ch_env (spawned_child res) = build_env (so_path_var os) (host_command config (se_tty se)) uid"
proof -
  from spawned_from_session [OF assms] obtain cmd aw1 where
    cmd: "same_command (host_command config (se_tty se)) cmd"
    and spawned: "fst (spawn os js show_error cmd aw1) = Ok (Piped (spawned_child res))
      \<or> (\<exists>master. fst (spawn_pty os js show_error cmd aw1) = Ok (Pty (spawned_child res) master))" .
  then obtain master where "fst (spawn os js show_error cmd aw1) = Ok (Piped (spawned_child res))
      \<or> fst (spawn_pty os js show_error cmd aw1) = Ok (Pty (spawned_child res) master)" by blast
  note child = spawned_child_fields [OF this]
  show "ch_cmd (spawned_child res) = hd (sc_command config)" "ch_args (spawned_child res) = tl (sc_command config)"
    "ch_cwd (spawned_child res) = sc_cwd config"
    using child(1-3) same_command_fields(1-3) [OF cmd] by (simp_all add: host_command_def)
  show "\<exists>uid. ch_env (spawned_child res) = build_env (so_path_var os) (host_command config (se_tty se)) uid"
    using child(4) same_command_fields(5) [OF cmd] by simp
qed

section \<open>An instance\<close>

text \<open>A JSON library that prints one command and one window size.\<close>

definition one_session :: "execute_command \<Rightarrow> window_size_msg \<Rightarrow> session_json" where
  "one_session c m =
     \<lparr>sj_command = (\<lambda>d. if d = c then Ok [1] else Err ''too long''), sj_signal = (\<lambda>_. Err ''too long''),
      sj_window = (\<lambda>n. if n = m then Ok [2] else Err ''too long'')\<rparr>"

definition one_request :: "execute_command \<Rightarrow> window_size_msg \<Rightarrow> request_json" where
  "one_request c m =
     \<lparr>rj_command = (\<lambda>b. if b = [1] then Ok c else Err ''unknown''), rj_input = (\<lambda>_. Err ''unknown''),
      rj_signal = (\<lambda>_. Err ''unknown''), rj_window = (\<lambda>b. if b = [2] then Ok m else Err ''unknown'')\<rparr>"

lemma one_requests_law: "requests_law (one_session c m) (one_request c m)"
  by (simp add: requests_law_def one_session_def one_request_def same_command_def MAX_PAYLOAD_def)

definition tty_env :: session_env where
  "tty_env = \<lparr>se_tty = True, se_connect = (\<lambda>_. Err Session_UnsupportedHost), se_setsockopt = (\<lambda>_ _ _. None),
     se_winsize = Some (24, 80), se_signals = Ok ()\<rparr>"

definition tty_config :: smoke_config where
  "tty_config = \<lparr>sc_cid = 100, sc_port = 1024, sc_timeout = 30000000000, sc_max_output_bytes = 0,
     sc_cwd = ''/workspace'', sc_env = [(''A'', ''b'')], sc_command = [''node'', ''-v'']\<rparr>"

definition tty_window :: window_size_msg where
  "tty_window = \<lparr>ws_id = COMMAND_ID, ws_rows = 24, ws_cols = 80\<rparr>"

definition ready_stream :: reader where
  "ready_stream = [Chunk [6, 0, 0, 0, 2, 123, 125]]"


end
