(* ===== verification/Agent_Smoke.thy ===== *)
theory Agent_Smoke
  imports Agent_Session
begin

text \<open>
  The agent and the smoke client of the host (linux/src/smoke.rs) together: the client meets the
  contract of an output reader as long as its output limit is not exceeded and its deadline has
  not passed, and it fails with the limit error exactly when a stream is longer than the limit.
\<close>

type_synonym smoke_state = "nat \<times> byte list \<times> byte list"

fun smoke_client ::
  "'v json_api \<Rightarrow> formatters \<Rightarrow> smoke_clock \<Rightarrow> smoke_config \<Rightarrow> reader \<Rightarrow> smoke_state \<Rightarrow> (smoke_result, smoke_error) result" where
  "smoke_client ja fm ck config r (k, out, err) = smoke_loop ja fm ck config k r out err"

fun smoke_deliver :: "output_data \<Rightarrow> smoke_state \<Rightarrow> smoke_state" where
  "smoke_deliver m (k, out, err) = (Suc k, out @ stream_bytes ''stdout'' [m], err @ stream_bytes ''stderr'' [m])"

fun smoke_finish :: "smoke_state \<Rightarrow> int \<Rightarrow> (smoke_result, smoke_error) result" where
  "smoke_finish (k, out, err) code = Ok \<lparr>sr_exit_code = code, sr_stdout = out, sr_stderr = err\<rparr>"

text \<open>The deadline is not reached and the socket accepts its timeouts.\<close>

definition in_time :: "smoke_clock \<Rightarrow> smoke_config \<Rightarrow> bool" where
  "in_time ck config \<longleftrightarrow> (\<forall>k. ck_elapsed ck k < sc_timeout config \<and> ck_set_timeout ck k = None)"

fun within_limit :: "nat \<Rightarrow> smoke_state \<Rightarrow> bool" where
  "within_limit limit (k, out, err) \<longleftrightarrow> length out \<le> limit \<and> length err \<le> limit"

lemma smoke_deliver_fold:
  "fold smoke_deliver ms (k, out, err) = (k + length ms, out @ stream_bytes ''stdout'' ms, err @ stream_bytes ''stderr'' ms)"
proof (induction ms arbitrary: k out err)
  case (Cons m ms)
  then show ?case using stream_bytes_append [of _ "[m]" ms] by simp
qed (simp add: stream_bytes_def)

lemma read_in_time:
  assumes "in_time ck config" and "session_read_frame r = (Ok f, r1)"
  shows "read_frame_with_deadline ck (sc_timeout config) k r = (Ok f, r1)"
proof -
  have "ck_elapsed ck k < sc_timeout config" "ck_set_timeout ck k = None" using assms(1) by (simp_all add: in_time_def)
  with assms(2) show ?thesis by (simp add: read_frame_with_deadline_def remaining_def smoke_read_frame_session)
qed

text \<open>One output message: the buffers grow, or the limit error, for the stream of the message.\<close>

lemma smoke_output_reply:
  assumes "smoke_parse_output_data ja fm json = Ok m" and "output_ok COMMAND_ID m"
  shows "within_limit limit (smoke_deliver m (k, out, err)) \<Longrightarrow>
      smoke_reply ja fm limit \<lparr>kind = 3, payload = json\<rparr> out err
        = Continue (out @ stream_bytes ''stdout'' [m]) (err @ stream_bytes ''stderr'' [m])"
    and "limit < USIZE_MAX \<Longrightarrow> within_limit limit (k, out, err) \<Longrightarrow> \<not> within_limit limit (smoke_deliver m (k, out, err)) \<Longrightarrow>
      smoke_reply ja fm limit \<lparr>kind = 3, payload = json\<rparr> out err = Failed (Smoke_OutputLimitExceeded (od_stream m) limit)
      \<and> limit < length (if od_stream m = ''stdout'' then out @ stream_bytes ''stdout'' [m] else err @ stream_bytes ''stderr'' [m])"
proof -
  from assms(2) obtain bytes where bytes: "session_base64_decode (od_data m) = Some bytes" by (auto simp: output_ok_def)
  then have decode: "smoke_base64_decode (od_data m) = Some bytes"
    by (simp add: smoke_base64_decode_def session_base64_decode_def smoke_decode_quad_session)
  note defs = smoke_reply_def assms(1) decode bytes output_ok_def smoke_ensure_command_id_def stream_bytes_def append_output_def
  from assms(2) consider "od_stream m = ''stdout''" | "od_stream m = ''stderr''" by (auto simp: output_ok_def)
  note streams = this
  show "within_limit limit (smoke_deliver m (k, out, err)) \<Longrightarrow>
      smoke_reply ja fm limit \<lparr>kind = 3, payload = json\<rparr> out err
        = Continue (out @ stream_bytes ''stdout'' [m]) (err @ stream_bytes ''stderr'' [m])"
    using streams by cases (use assms(2) in \<open>auto simp: defs\<close>)
  show "limit < USIZE_MAX \<Longrightarrow> within_limit limit (k, out, err) \<Longrightarrow> \<not> within_limit limit (smoke_deliver m (k, out, err)) \<Longrightarrow>
      smoke_reply ja fm limit \<lparr>kind = 3, payload = json\<rparr> out err = Failed (Smoke_OutputLimitExceeded (od_stream m) limit)
      \<and> limit < length (if od_stream m = ''stdout'' then out @ stream_bytes ''stdout'' [m] else err @ stream_bytes ''stderr'' [m])"
    using streams by cases (use assms(2) in \<open>auto simp: defs\<close>)
qed

lemma smoke_reads_output:
  assumes "replies_law ja js" and "output_ok COMMAND_ID m" and "in_time ck config"
    and "clean r" and "bytes_of r = output_frame (js_output js) m @ rest"
  obtains json r1 where "read_frame_with_deadline ck (sc_timeout config) k r = (Ok \<lparr>kind = 3, payload = json\<rparr>, r1)"
    "smoke_parse_output_data ja fm json = Ok m" "clean r1" "bytes_of r1 = rest"
proof -
  from output_printed [OF assms(1,2)] obtain json v where
    json: "output_frame (js_output js) m = frame_bytes 3 json" "length json \<le> MAX_PAYLOAD"
    and v: "ja_from_slice ja json = Ok v" "Option.bind (ja_get ja v ''id'') (ja_as_u64 ja) = Some COMMAND_ID"
      "Option.bind (ja_get ja v ''stream'') (ja_as_str ja) = Some (od_stream m)"
      "Option.bind (ja_get ja v ''data'') (ja_as_str ja) = Some (od_data m)" by metis
  from v assms(2) have "smoke_parse_output_data ja fm json = Ok m"
    by (simp add: smoke_parse_output_data_def smoke_json_u64_def smoke_json_string_def output_ok_def)
  moreover from session_read_frame_ok [OF assms(4) assms(5) [unfolded json(1)] json(2)] obtain r1 where
    "session_read_frame r = (Ok \<lparr>kind = 3, payload = json\<rparr>, r1)" "clean r1" "bytes_of r1 = rest" by blast
  ultimately show ?thesis using read_in_time [OF assms(3)] that by blast
qed

interpretation smoke: output_client "smoke_client ja fm ck config" smoke_deliver smoke_finish
  "\<lambda>s. replies_law ja js \<and> in_time ck config \<and> within_limit (sc_max_output_bytes config) s" js
proof unfold_locales
  fix s m r rest
  assume "replies_law ja js \<and> in_time ck config \<and> within_limit (sc_max_output_bytes config) s"
    and limit: "replies_law ja js \<and> in_time ck config \<and> within_limit (sc_max_output_bytes config) (smoke_deliver m s)"
    and m: "output_ok COMMAND_ID m" and r: "clean r" "bytes_of r = output_frame (js_output js) m @ rest"
  obtain k out err where s: "s = (k, out, err)" by (cases s)
  from limit smoke_reads_output [OF _ m _ r, of ja ck config k fm] obtain json r1 where
    r1: "read_frame_with_deadline ck (sc_timeout config) k r = (Ok \<lparr>kind = 3, payload = json\<rparr>, r1)"
    "smoke_parse_output_data ja fm json = Ok m" "clean r1" "bytes_of r1 = rest" by blast
  have "within_limit (sc_max_output_bytes config) (smoke_deliver m (k, out, err))" using limit by (simp add: s)
  from smoke_output_reply(1) [OF r1(2) m this] r1(1,3,4) show
    "\<exists>r1. smoke_client ja fm ck config r s = smoke_client ja fm ck config r1 (smoke_deliver m s) \<and> clean r1 \<and> bytes_of r1 = rest"
    unfolding s by (intro exI [of _ r1]) (simp, subst smoke_loop.simps, simp)
next
  fix s code r
  assume ready: "replies_law ja js \<and> in_time ck config \<and> within_limit (sc_max_output_bytes config) s"
    and code: "- (2 ^ 31) \<le> code" "code < 2 ^ 31" and r: "clean r" "bytes_of r = exit_frame js code"
  obtain k out err where s: "s = (k, out, err)" by (cases s)
  from ready exit_printed [OF _ code, of ja js] obtain json v where json: "exit_frame js code = frame_bytes 4 json" "length json \<le> MAX_PAYLOAD"
    and v: "ja_from_slice ja json = Ok v" "Option.bind (ja_get ja v ''id'') (ja_as_u64 ja) = Some COMMAND_ID"
      "Option.bind (ja_get ja v ''code'') (ja_as_i64 ja) = Some code" by metis
  from v code have "smoke_parse_exit_status ja fm json = Ok \<lparr>es_id = COMMAND_ID, es_code = code\<rparr>"
    by (simp add: smoke_parse_exit_status_def smoke_json_u64_def smoke_json_i32_def)
  moreover have "bytes_of r = frame_bytes 4 json @ []" using r(2) json(1) by simp
  from session_read_frame_ok [OF r(1) this json(2)] obtain r1 where
    "session_read_frame r = (Ok \<lparr>kind = 4, payload = json\<rparr>, r1)" by blast
  with ready read_in_time have "read_frame_with_deadline ck (sc_timeout config) k r = (Ok \<lparr>kind = 4, payload = json\<rparr>, r1)" by blast
  ultimately show "smoke_client ja fm ck config r s = smoke_finish s code"
    unfolding s by simp (subst smoke_loop.simps, simp add: smoke_reply_def smoke_ensure_command_id_def)
qed

section \<open>The limit\<close>

text \<open>When the limit is exceeded: the first message that goes beyond it ends the session.\<close>

lemma first_beyond:
  assumes "P (fold f [] s)" and "\<not> P (fold f xs s)"
  obtains k where "k < length xs" "\<forall>j \<le> k. P (fold f (take j xs) s)" "\<not> P (fold f (take (Suc k) xs) s)"
proof -
  define n where "n = (LEAST n. \<not> P (fold f (take n xs) s))"
  have "\<not> P (fold f (take (length xs) xs) s)" using assms(2) by simp
  then have n: "\<not> P (fold f (take n xs) s)" "n \<le> length xs" unfolding n_def by (rule LeastI, rule Least_le)
  with assms(1) obtain k where k: "n = Suc k" by (cases n) auto
  have "P (fold f (take j xs) s)" if "j \<le> k" for j
    using not_less_Least [of j "\<lambda>n. \<not> P (fold f (take n xs) s)"] that k unfolding n_def by auto
  with n k show ?thesis by (intro that [of k]) auto
qed

lemma smoke_beyond_limit:
  assumes "replies_law ja js" and "in_time ck config" and "sc_max_output_bytes config < USIZE_MAX"
    and m: "output_ok COMMAND_ID m" and "clean r" and "bytes_of r = output_frame (js_output js) m @ rest"
    and "within_limit (sc_max_output_bytes config) (j, out, err)"
    and "\<not> within_limit (sc_max_output_bytes config) (smoke_deliver m (j, out, err))"
  shows "smoke_client ja fm ck config r (j, out, err) = Err (Smoke_OutputLimitExceeded (od_stream m) (sc_max_output_bytes config))"
    and "sc_max_output_bytes config
      < length (if od_stream m = ''stdout'' then out @ stream_bytes ''stdout'' [m] else err @ stream_bytes ''stderr'' [m])"
proof -
  from smoke_reads_output [OF assms(1) m assms(2,5,6), of j fm] obtain json r1 where
    r1: "read_frame_with_deadline ck (sc_timeout config) j r = (Ok \<lparr>kind = 3, payload = json\<rparr>, r1)"
      "smoke_parse_output_data ja fm json = Ok m" by blast
  note reply = smoke_output_reply(2) [OF r1(2) m assms(3,7,8)]
  show "smoke_client ja fm ck config r (j, out, err) = Err (Smoke_OutputLimitExceeded (od_stream m) (sc_max_output_bytes config))"
    using r1(1) reply by simp (subst smoke_loop.simps, simp)
  from reply show "sc_max_output_bytes config
      < length (if od_stream m = ''stdout'' then out @ stream_bytes ''stdout'' [m] else err @ stream_bytes ''stderr'' [m])" ..
qed

lemma smoke_limit_exceeded:
  assumes law: "replies_law ja js" and time: "in_time ck config" and limit: "sc_max_output_bytes config < USIZE_MAX"
    and ms: "\<forall>m \<in> set ms. output_ok COMMAND_ID m" and r: "clean r"
      "bytes_of r = concat (map (output_frame (js_output js)) ms) @ rest"
    and beyond: "\<not> within_limit (sc_max_output_bytes config) (fold smoke_deliver ms (k0, [], []))"
  shows "\<exists>name. name \<in> {''stdout'', ''stderr''} \<and> sc_max_output_bytes config < length (stream_bytes name ms)
    \<and> smoke_client ja fm ck config r (k0, [], []) = Err (Smoke_OutputLimitExceeded name (sc_max_output_bytes config))"
proof -
  let ?limit = "sc_max_output_bytes config"
  have "within_limit ?limit (fold smoke_deliver [] (k0, [], []))" by simp
  from first_beyond [of "within_limit ?limit" smoke_deliver, OF this beyond] obtain k where
    k: "k < length ms" "\<forall>j \<le> k. within_limit ?limit (fold smoke_deliver (take j ms) (k0, [], []))"
      "\<not> within_limit ?limit (fold smoke_deliver (take (Suc k) ms) (k0, [], []))" .
  obtain j out err where st: "fold smoke_deliver (take k ms) (k0, [], []) = (j, out, err)" by (rule prod_cases3)
  have m: "output_ok COMMAND_ID (ms ! k)" using ms k(1) by simp
  let ?rest = "concat (map (output_frame (js_output js)) (drop (Suc k) ms)) @ rest"
  have ms_split: "ms = take k ms @ ms ! k # drop (Suc k) ms" using k(1) by (rule id_take_nth_drop)
  then have "map (output_frame (js_output js)) ms = map (output_frame (js_output js)) (take k ms)
      @ output_frame (js_output js) (ms ! k) # map (output_frame (js_output js)) (drop (Suc k) ms)"
    by (metis list.simps(9) map_append)
  then have bytes: "bytes_of r = concat (map (output_frame (js_output js)) (take k ms)) @ (output_frame (js_output js) (ms ! k) @ ?rest)"
    using r(2) by simp
  have ready: "\<forall>i \<le> length (take k ms). replies_law ja js \<and> in_time ck config
      \<and> within_limit ?limit (fold smoke_deliver (take i (take k ms)) (k0, [], []))"
    using k(1,2) law time by (simp add: min_def)
  have "\<forall>m \<in> set (take k ms). output_ok COMMAND_ID m" using ms by (meson in_set_takeD)
  from smoke.client_prefix [OF ready this r(1) bytes, of fm] obtain r1 where
    r1: "smoke_client ja fm ck config r (k0, [], []) = smoke_client ja fm ck config r1 (j, out, err)" "clean r1"
      "bytes_of r1 = output_frame (js_output js) (ms ! k) @ ?rest" unfolding st by blast
  have within: "within_limit ?limit (j, out, err)" using k(2) st by (metis le_refl)
  have "\<not> within_limit ?limit (smoke_deliver (ms ! k) (j, out, err))"
    using k(3) st k(1) by (simp add: take_Suc_conv_app_nth)
  note failed = smoke_beyond_limit [OF law time limit m r1(2,3) within this]
  have "smoke_client ja fm ck config r (k0, [], []) = Err (Smoke_OutputLimitExceeded (od_stream (ms ! k)) ?limit)"
    unfolding r1(1) by (rule failed(1))
  moreover have "out = stream_bytes ''stdout'' (take k ms)" "err = stream_bytes ''stderr'' (take k ms)"
    using st by (simp_all add: smoke_deliver_fold)
  with failed(2) m have "?limit < length (stream_bytes (od_stream (ms ! k)) (take (Suc k) ms))"
    using k(1) by (auto simp: take_Suc_conv_app_nth stream_bytes_append output_ok_def split: if_splits)
  then have "?limit < length (stream_bytes (od_stream (ms ! k)) ms)"
    using stream_bytes_take [of "od_stream (ms ! k)" "Suc k" ms] by linarith
  moreover have "od_stream (ms ! k) \<in> {''stdout'', ''stderr''}" using m by (simp add: output_ok_def)
  ultimately show ?thesis by blast
qed

text \<open>
  (C17) The smoke client reports a command exactly: when the output of the command is within the
  limit on both streams the result has it, complete and in order, with the exit code; otherwise
  the client fails with the limit error and names a stream that is longer than the limit. This
  holds for every interleaving of the output threads and every cut of the stream, before the
  deadline.
\<close>

theorem smoke_output_exact:
  assumes "replies_law ja js" and "in_time ck config" and "sc_max_output_bytes config < USIZE_MAX"
    and "(out_step (js_output js) COMMAND_ID)\<^sup>*\<^sup>* (Some out, Some err, w) (None, None, w1)"
    and "data_only out" and "data_only err" and "working w"
    and "- (2 ^ 31) \<le> exit_code wait" and "exit_code wait < 2 ^ 31"
    and "clean r" and "w_out w @ bytes_of r = w_out (waiter js COMMAND_ID wait w1)"
  shows "if length (bytes_of out) \<le> sc_max_output_bytes config \<and> length (bytes_of err) \<le> sc_max_output_bytes config
    then smoke_loop ja fm ck config k r [] []
      = Ok \<lparr>sr_exit_code = exit_code wait, sr_stdout = bytes_of out, sr_stderr = bytes_of err\<rparr>
    else \<exists>name. sc_max_output_bytes config < length (bytes_of (if name = ''stdout'' then out else err))
      \<and> smoke_loop ja fm ck config k r [] [] = Err (Smoke_OutputLimitExceeded name (sc_max_output_bytes config))"
proof -
  let ?limit = "sc_max_output_bytes config"
  have ok: "is_ok (js_output js m)" for m using assms(1) by (simp add: replies_law_def)
  obtain ms where ms: "stream_bytes ''stdout'' ms = bytes_of out" "stream_bytes ''stderr'' ms = bytes_of err"
    "\<forall>m \<in> set ms. output_ok COMMAND_ID m"
    "bytes_of r = concat (map (output_frame (js_output js)) ms) @ exit_frame js (exit_code wait)"
    and run: "\<And>s. \<forall>k \<le> length ms. replies_law ja js \<and> in_time ck config \<and> within_limit ?limit (fold smoke_deliver (take k ms) s)
       \<Longrightarrow> smoke_client ja fm ck config r s = smoke_finish (fold smoke_deliver ms s) (exit_code wait)"
    by (rule smoke.agent_output [OF assms(4-7) ok assms(8-11), of ja ck config fm]) blast
  show ?thesis
  proof (cases "length (bytes_of out) \<le> ?limit \<and> length (bytes_of err) \<le> ?limit")
    case True
    then have "within_limit ?limit (fold smoke_deliver (take j ms) (k, [], []))" for j
      using stream_bytes_take [of "''stdout''" j ms] stream_bytes_take [of "''stderr''" j ms] ms(1,2)
      by (simp add: smoke_deliver_fold)
    with run [of "(k, [], [])"] assms(1,2) True ms(1,2) show ?thesis by (simp add: smoke_deliver_fold)
  next
    case False
    then have "\<not> within_limit ?limit (fold smoke_deliver ms (k, [], []))" using ms(1,2) by (simp add: smoke_deliver_fold)
    from smoke_limit_exceeded [OF assms(1-3) ms(3) assms(10) ms(4) this, of fm] obtain name where
      "name \<in> {''stdout'', ''stderr''}" "?limit < length (stream_bytes name ms)"
      "smoke_loop ja fm ck config k r [] [] = Err (Smoke_OutputLimitExceeded name ?limit)" by auto
    with ms(1,2) False show ?thesis by (intro if_not_P [THEN iffD2] exI [of _ name]) auto
  qed
qed

text \<open>A command that writes two bytes, under a limit of two bytes and under a limit of one.\<close>

definition demo_smoke :: "nat \<Rightarrow> smoke_config" where
  "demo_smoke limit = \<lparr>sc_cid = 3, sc_port = 1024, sc_timeout = 1000, sc_max_output_bytes = limit,
     sc_cwd = ''/'', sc_env = [], sc_command = [''echo'']\<rparr>"

definition demo_clock :: smoke_clock where
  "demo_clock = \<lparr>ck_elapsed = (\<lambda>_. 5), ck_set_timeout = (\<lambda>_. None)\<rparr>"

lemma smoke_output_exact_witness:
  "smoke_loop demo_api \<lparr>fm_debug = (\<lambda>s. s), fm_io = io_message\<rparr> demo_clock (demo_smoke 2) 2 demo_stream [] []
     = Ok \<lparr>sr_exit_code = 7, sr_stdout = [104, 105], sr_stderr = []\<rparr>
   \<and> (\<exists>name. smoke_loop demo_api \<lparr>fm_debug = (\<lambda>s. s), fm_io = io_message\<rparr> demo_clock (demo_smoke 1) 2 demo_stream [] []
     = Err (Smoke_OutputLimitExceeded name 1))"
proof -
  have ready: "in_time demo_clock (demo_smoke n)" "2 < USIZE_MAX" "data_only [Chunk [104, 105]]" "data_only []"
      "working (sink [])" "- (2 ^ 31) \<le> exit_code (Ok (Some 7))" "exit_code (Ok (Some 7)) < 2 ^ 31" for n
    by (simp_all add: in_time_def demo_clock_def demo_smoke_def USIZE_MAX_def data_only_def working_def exit_code_def)
  have small: "sc_max_output_bytes (demo_smoke n) < USIZE_MAX" if "n \<le> 2" for n
    using that ready(2) by (simp add: demo_smoke_def)
  note run = smoke_output_exact [OF demo_replies_law ready(1) small demo_run ready(3-7) demo_stream_bytes, of _ "\<lparr>fm_debug = (\<lambda>s. s), fm_io = io_message\<rparr>" 2]
  show ?thesis using run [of 2] run [of 1] by (auto simp: demo_smoke_def exit_code_def)
qed

end
