(* ===== verification/Vsock_Smoke.thy ===== *)
theory Vsock_Smoke
  imports Agent_Session Host_Cli
begin

text \<open>
  The stand-alone smoke client (fendd/src/bin/fend-vsock-smoke.rs): its options, and one command
  run in a VM that is already up, with the output copied to the terminal. The socket is the
  outcome of \<open>connect\<close>; the JSON printer and parsers are the record \<open>vs_json\<close>. Its frame codec
  and its base64 decoder are in Frame_Protocol and Base64. The last theorems relate it to the
  attached session of the host and to the agent.
\<close>

record vs_options =
  vs_cid :: u32
  vs_port :: u32
  vs_cwd :: string
  vs_env :: btree
  vs_command :: "string list"

text \<open>How the parser ends; \<open>Missing_command\<close> and \<open>Show_usage\<close> print the usage first.\<close>

datatype vs_parsed = Parsed vs_options | Show_usage | Missing_command | Bad_option string

definition vs_usage :: string where
  "vs_usage = ''usage: fend-vsock-smoke [--cid N] [--port N] [--cwd PATH] [--env KEY=VALUE] -- command [args...]'' @ [CHR 0x0A]"

text \<open>The text of the \<open>ParseIntError\<close> of a rejected \<open>u32\<close>: the first reason the parser meets.\<close>

fun u32_digits_error :: "nat \<Rightarrow> string \<Rightarrow> string" where
  "u32_digits_error n [] = []"
| "u32_digits_error n (c # cs) =
     (case digit_val 10 c of
        None \<Rightarrow> ''invalid digit found in string''
      | Some d \<Rightarrow>
          if 2 ^ 32 \<le> n * 10 + d then ''number too large to fit in target type''
          else u32_digits_error (n * 10 + d) cs)"

definition u32_parse_error :: "string \<Rightarrow> string" where
  "u32_parse_error s =
     (case s of
        [] \<Rightarrow> ''cannot parse integer from empty string''
      | c # cs \<Rightarrow>
          if c = CHR ''+'' then (if cs = [] then ''invalid digit found in string'' else u32_digits_error 0 cs)
          else u32_digits_error 0 s)"

fun vs_parse_loop :: "formatters \<Rightarrow> vs_options \<Rightarrow> string list \<Rightarrow> vs_parsed" where
  "vs_parse_loop fm opts [] = (if vs_command opts = [] then Missing_command else Parsed opts)"
| "vs_parse_loop fm opts (arg # rest) =
     (if arg = ''--cid'' then
        (case rest of
           [] \<Rightarrow> Bad_option ''--cid requires a value''
         | v # rest \<Rightarrow>
             (case parse_u32 v of
                None \<Rightarrow> Bad_option (u32_parse_error v)
              | Some n \<Rightarrow> vs_parse_loop fm (opts\<lparr>vs_cid := n\<rparr>) rest))
      else if arg = ''--port'' then
        (case rest of
           [] \<Rightarrow> Bad_option ''--port requires a value''
         | v # rest \<Rightarrow>
             (case parse_u32 v of
                None \<Rightarrow> Bad_option (u32_parse_error v)
              | Some n \<Rightarrow> vs_parse_loop fm (opts\<lparr>vs_port := n\<rparr>) rest))
      else if arg = ''--cwd'' then
        (case rest of
           [] \<Rightarrow> Bad_option ''--cwd requires a value''
         | v # rest \<Rightarrow> vs_parse_loop fm (opts\<lparr>vs_cwd := v\<rparr>) rest)
      else if arg = ''--env'' then
        (case rest of
           [] \<Rightarrow> Bad_option ''--env requires KEY=VALUE''
         | v # rest \<Rightarrow>
             (case split_once CHR ''='' v of
                None \<Rightarrow> Bad_option ''--env requires KEY=VALUE''
              | Some (key, val) \<Rightarrow> vs_parse_loop fm (opts\<lparr>vs_env := btree_insert key val (vs_env opts)\<rparr>) rest))
      else if arg = ''--help'' \<or> arg = ''-h'' then Show_usage
      else if arg = ''--'' then
        (let opts = opts\<lparr>vs_command := vs_command opts @ rest\<rparr>
         in if vs_command opts = [] then Missing_command else Parsed opts)
      else if starts_with ''-'' arg then Bad_option (''unknown option '' @ fm_debug fm arg)
      else (let opts = opts\<lparr>vs_command := vs_command opts @ arg # rest\<rparr>
            in if vs_command opts = [] then Missing_command else Parsed opts))"

text \<open>\<open>cid_var\<close> is \<open>FEND_QEMU_CID\<close>, when it is set and UTF-8.\<close>

definition vs_parse_args :: "formatters \<Rightarrow> string option \<Rightarrow> string list \<Rightarrow> vs_parsed" where
  "vs_parse_args fm cid_var args =
     vs_parse_loop fm \<lparr>vs_cid = unwrap_or (Option.bind cid_var parse_u32) 42, vs_port = VSOCK_PORT,
       vs_cwd = ''/workspace'', vs_env = [], vs_command = []\<rparr> args"

section \<open>Running the command\<close>

record vs_json =
  vj_command :: "execute_command \<Rightarrow> (byte list, string) result"
  vj_output :: "byte list \<Rightarrow> (string \<times> string, string) result"
  vj_exit :: "byte list \<Rightarrow> (int, string) result"

datatype vs_outcome = Vs_exit int | Vs_error string

datatype vs_reply = Vs_more | Vs_done vs_outcome

definition vs_reply_step :: "vs_json \<Rightarrow> formatters \<Rightarrow> frame \<Rightarrow> terminal \<Rightarrow> vs_reply \<times> terminal" where
  "vs_reply_step vj fm f t =
     (if kind f = 3 then
        (case vj_output vj (payload f) of
           Err e \<Rightarrow> (Vs_done (Vs_error e), t)
         | Ok (stream, data) \<Rightarrow>
             (case vsock_smoke_base64_decode data of
                None \<Rightarrow> (Vs_done (Vs_error ''guest sent invalid base64 output payload''), t)
              | Some bytes \<Rightarrow>
                  if stream = ''stdout'' then
                    (case write_all bytes (tm_stdout t) of
                       (Err e, w) \<Rightarrow> (Vs_done (Vs_error (fm_io fm e)), t\<lparr>tm_stdout := w\<rparr>)
                     | (Ok _, w) \<Rightarrow> (Vs_more, t\<lparr>tm_stdout := w\<rparr>))
                  else if stream = ''stderr'' then
                    (case write_all bytes (tm_stderr t) of
                       (Err e, w) \<Rightarrow> (Vs_done (Vs_error (fm_io fm e)), t\<lparr>tm_stderr := w\<rparr>)
                     | (Ok _, w) \<Rightarrow> (Vs_more, t\<lparr>tm_stderr := w\<rparr>))
                  else (Vs_done (Vs_error (''unknown output stream '' @ fm_debug fm stream)), t)))
      else if kind f = 4 then
        (case vj_exit vj (payload f) of
           Err e \<Rightarrow> (Vs_done (Vs_error e), t)
         | Ok code \<Rightarrow> (Vs_done (Vs_exit code), t))
      else (Vs_done (Vs_error (''unexpected frame type '' @ show_uword (kind f))), t))"

lemma vsock_smoke_read_frame_session: "vsock_smoke_read_frame = session_read_frame"
  by (intro ext) (simp add: vsock_smoke_read_frame_def smoke_read_frame_session [symmetric] smoke_read_frame_def)

lemma vsock_smoke_read_frame_smaller:
  "vsock_smoke_read_frame r = (Ok f, r') \<Longrightarrow> length (bytes_of r') < length (bytes_of r)"
  unfolding vsock_smoke_read_frame_session by (rule session_read_frame_smaller)

function vs_loop :: "vs_json \<Rightarrow> formatters \<Rightarrow> reader \<Rightarrow> terminal \<Rightarrow> vs_outcome \<times> terminal" where
  "vs_loop vj fm r t =
     (case vsock_smoke_read_frame r of
        (Err e, _) \<Rightarrow> (Vs_error (fm_io fm e), t)
      | (Ok f, r1) \<Rightarrow>
          (case vs_reply_step vj fm f t of
             (Vs_done outcome, t1) \<Rightarrow> (outcome, t1)
           | (Vs_more, t1) \<Rightarrow> vs_loop vj fm r1 t1))"
  by pat_completeness auto
termination
  by (relation "measure (\<lambda>(vj, fm, r, t). length (bytes_of r))") (auto dest: sym vsock_smoke_read_frame_smaller)

declare vs_loop.simps [simp del]

definition vs_execute_command :: "vs_options \<Rightarrow> execute_command" where
  "vs_execute_command opts =
     \<lparr>ec_id = 1, ec_cmd = hd (vs_command opts), ec_args = tl (vs_command opts), ec_env = vs_env opts,
      ec_cwd = vs_cwd opts, ec_tty = False\<rparr>"

text \<open>The command with its connection; the writer is what the VM receives.\<close>

definition vs_session ::
  "vs_json \<Rightarrow> formatters \<Rightarrow> vs_options \<Rightarrow> reader \<Rightarrow> writer \<Rightarrow> terminal \<Rightarrow> vs_outcome \<times> terminal \<times> writer" where
  "vs_session vj fm opts r w t =
     (case vsock_smoke_read_frame r of
        (Err e, _) \<Rightarrow> (Vs_error (fm_io fm e), t, w)
      | (Ok ready, r1) \<Rightarrow>
          if kind ready \<noteq> 6 then (Vs_error (''expected Ready frame, got type '' @ show_uword (kind ready)), t, w)
          else (case vj_command vj (vs_execute_command opts) of
                  Err e \<Rightarrow> (Vs_error e, t, w)
                | Ok body \<Rightarrow>
                    (case vsock_smoke_write_frame 1 body w of
                       (Err e, w1) \<Rightarrow> (Vs_error (fm_io fm e), t, w1)
                     | (Ok _, w1) \<Rightarrow> (let (outcome, t1) = vs_loop vj fm r1 t in (outcome, t1, w1)))))"

text \<open>
  The whole program: the exit code, the terminal, and what was sent. The usage and the error
  message go to standard error, whose failures \<open>eprintln\<close> does not survive and which are not
  modelled here.
\<close>

definition eprint :: "string \<Rightarrow> terminal \<Rightarrow> terminal" where
  "eprint s t = t\<lparr>tm_stderr := snd (write_all (as_bytes s) (tm_stderr t))\<rparr>"

definition vs_fail :: "string \<Rightarrow> terminal \<Rightarrow> int \<times> terminal" where
  "vs_fail e t = (1, eprint (''fend-vsock-smoke: '' @ e @ [CHR 0x0A]) t)"

definition vs_main ::
  "vs_json \<Rightarrow> formatters \<Rightarrow> (u32 \<Rightarrow> u32 \<Rightarrow> (reader \<times> writer) io_result) \<Rightarrow> string option \<Rightarrow> string list
     \<Rightarrow> terminal \<Rightarrow> int \<times> terminal" where
  "vs_main vj fm connect cid_var args t =
     (case vs_parse_args fm cid_var args of
        Show_usage \<Rightarrow> (0, eprint vs_usage t)
      | Missing_command \<Rightarrow> vs_fail ''missing command'' (eprint vs_usage t)
      | Bad_option e \<Rightarrow> vs_fail e t
      | Parsed opts \<Rightarrow>
          (case connect (vs_cid opts) (vs_port opts) of
             Err e \<Rightarrow> vs_fail (fm_io fm e) t
           | Ok (r, w) \<Rightarrow>
               (case vs_session vj fm opts r w t of
                  (Vs_exit code, t1, _) \<Rightarrow> (code, t1)
                | (Vs_error e, t1, _) \<Rightarrow> vs_fail e t1)))"

section \<open>Properties\<close>

text \<open>The parsed options always have a command, so \<open>options.command[0]\<close> does not panic.\<close>

lemma vs_parse_loop_command: "vs_parse_loop fm opts args = Parsed opts' \<Longrightarrow> vs_command opts' \<noteq> []"
  by (induction fm opts args rule: vs_parse_loop.induct)
    (fastforce simp: Let_def split: if_splits list.splits option.splits prod.splits)+

lemma vs_parse_args_command: "vs_parse_args fm cid_var args = Parsed opts \<Longrightarrow> vs_command opts \<noteq> []"
  unfolding vs_parse_args_def by (rule vs_parse_loop_command)

text \<open>The error text is defined exactly for the strings the \<open>u32\<close> parser rejects.\<close>

lemma u32_digits_error_iff:
  "n < 2 ^ 32 \<Longrightarrow> u32_digits_error n cs = [] \<longleftrightarrow> (\<exists>m. digits_val 10 n cs = Some m \<and> m < 2 ^ 32)"
proof (induction n cs rule: u32_digits_error.induct)
  case (2 n c cs)
  have mono: "digits_val 10 k ds = Some m \<Longrightarrow> k \<le> m" for k ds m
    by (induction ds arbitrary: k) (fastforce split: option.splits)+
  show ?case
  proof (cases "digit_val 10 c")
    case (Some d)
    with 2 show ?thesis using mono [of "n * 10 + d" cs] by (auto simp: mult.commute)
  qed simp
qed simp

lemma u32_parse_error_iff: "u32_parse_error s = [] \<longleftrightarrow> parse_u32 s \<noteq> None"
proof (cases s)
  case (Cons c cs)
  then show ?thesis
    using u32_digits_error_iff [of 0 cs] u32_digits_error_iff [of 0 s]
    by (auto simp: u32_parse_error_def parse_u32_def parse_unsigned_def Let_def split: option.splits)
qed (simp add: u32_parse_error_def parse_u32_def parse_unsigned_def)

text \<open>
  The parsers of the two programs agree: what the session's accessors find is what the derived
  deserialisers of this one find.
\<close>

definition same_replies :: "'v json_api \<Rightarrow> formatters \<Rightarrow> vs_json \<Rightarrow> bool" where
  "same_replies ja fm vj \<longleftrightarrow>
     (\<forall>body m. parse_output_data ja fm body = Ok m \<longrightarrow> vj_output vj body = Ok (od_stream m, od_data m))
     \<and> (\<forall>body s. parse_exit_status ja fm body = Ok s \<longrightarrow> vj_exit vj body = Ok (es_code s))"

lemma vs_decode: "vsock_smoke_base64_decode = session_base64_decode"
  by (intro ext) (simp add: vsock_smoke_base64_decode_def session_base64_decode_def smoke_decode_quad_session)

lemma vs_reply_follows:
  assumes "same_replies ja fm vj" and "terminal_ok t" and "session_reply_step ja fm f t = (res, t1)"
  shows "res = Keep_reading \<Longrightarrow> vs_reply_step vj fm f t = (Vs_more, t1) \<and> terminal_ok t1"
    and "res = Session_exit code \<Longrightarrow> vs_reply_step vj fm f t = (Vs_done (Vs_exit code), t1)"
  using assms
  by (auto simp: session_reply_step_def vs_reply_step_def same_replies_def vs_decode terminal_ok_def
      flush_both_def flush_working write_all_working split: if_splits result.splits option.splits prod.splits)

text \<open>
  The smoke client shows what the attached session shows: whenever a session on some stream
  ends with an exit code, the client on the same stream and terminal prints the same bytes and
  ends with the same code.
\<close>

theorem vsock_smoke_follows_session:
  assumes "same_replies ja fm vj" and "terminal_ok t" and "session_loop ja fm r t = (Ok code, t1)"
  shows "vs_loop vj fm r t = (Vs_exit code, t1)"
  using assms
proof (induction ja fm r t rule: session_loop.induct)
  case (1 ja fm r t)
  from "1.prems"(3) obtain f r1 where f: "session_read_frame r = (Ok f, r1)"
    by (subst (asm) session_loop.simps) (auto split: prod.splits result.splits)
  obtain res t2 where step: "session_reply_step ja fm f t = (res, t2)" by (cases "session_reply_step ja fm f t")
  show ?case
  proof (cases res)
    case Keep_reading
    with vs_reply_follows(1) [OF "1.prems"(1,2) step]
    have more: "vs_reply_step vj fm f t = (Vs_more, t2)" "terminal_ok t2" by simp_all
    have "session_loop ja fm r1 t2 = (Ok code, t1)"
      using "1.prems"(3) f step Keep_reading by (subst (asm) session_loop.simps) simp
    then have "vs_loop vj fm r1 t2 = (Vs_exit code, t1)"
      using "1.IH" [of "Ok f" r1 f res t2] f step Keep_reading more(2) "1.prems"(1) by simp
    with f more(1) show ?thesis
      by (subst vs_loop.simps) (simp add: vsock_smoke_read_frame_session)
  next
    case (Session_exit c)
    with vs_reply_follows(2) [OF "1.prems"(1,2) step]
    have "vs_reply_step vj fm f t = (Vs_done (Vs_exit c), t2)" by simp
    moreover have "c = code" "t2 = t1"
      using "1.prems"(3) f step Session_exit by (subst (asm) session_loop.simps, simp)+
    ultimately show ?thesis using f
      by (subst vs_loop.simps) (simp add: vsock_smoke_read_frame_session)
  next
    case (Session_failed e)
    then show ?thesis using "1.prems"(3) f step by (subst (asm) session_loop.simps) simp
  qed
qed

text \<open>So the client meets the contract of an output reader too, and shows a command's output end to end.\<close>

interpretation vsock_smoke: output_client "vs_loop vj fm" session_deliver "\<lambda>t code. (Vs_exit code, t)"
  "\<lambda>t. replies_law ja js \<and> same_replies ja fm vj \<and> terminal_ok t" js
proof unfold_locales
  fix t m r rest
  assume ready: "replies_law ja js \<and> same_replies ja fm vj \<and> terminal_ok t" and m: "output_ok COMMAND_ID m"
    "clean r" "bytes_of r = output_frame (js_output js) m @ rest"
  with session_reads_output [of ja js t m r rest fm] obtain f r1 where
    f: "session_read_frame r = (Ok f, r1)" "clean r1" "bytes_of r1 = rest"
      "session_reply_step ja fm f t = (Keep_reading, session_deliver m t)" by blast
  from vs_reply_follows(1) [OF _ _ f(4)] ready have "vs_reply_step vj fm f t = (Vs_more, session_deliver m t)" by blast
  with f show "\<exists>r1. vs_loop vj fm r t = vs_loop vj fm r1 (session_deliver m t) \<and> clean r1 \<and> bytes_of r1 = rest"
    by (intro exI [of _ r1]) (subst vs_loop.simps, simp add: vsock_smoke_read_frame_session)
next
  fix t code r
  assume ready: "replies_law ja js \<and> same_replies ja fm vj \<and> terminal_ok t" and
    "- (2 ^ 31) \<le> code" "code < 2 ^ 31" "clean r" "bytes_of r = exit_frame js code"
  with session_reads_exit [of ja js code r fm t] obtain f r1 where
    f: "session_read_frame r = (Ok f, r1)" "session_reply_step ja fm f t = (Session_exit code, t)" by blast
  from vs_reply_follows(2) [OF _ _ f(2)] ready have "vs_reply_step vj fm f t = (Vs_done (Vs_exit code), t)" by blast
  with f(1) show "vs_loop vj fm r t = (Vs_exit code, t)"
    by (subst vs_loop.simps) (simp add: vsock_smoke_read_frame_session)
qed

theorem vsock_smoke_output:
  assumes "replies_law ja js" and "same_replies ja fm vj" and "terminal_ok t"
    and "(out_step (js_output js) COMMAND_ID)\<^sup>*\<^sup>* (Some out, Some err, w) (None, None, w1)"
    and "data_only out" and "data_only err" and "working w"
    and "- (2 ^ 31) \<le> exit_code wait" and "exit_code wait < 2 ^ 31"
    and "clean r" and "w_out w @ bytes_of r = w_out (waiter js COMMAND_ID wait w1)"
  shows "vs_loop vj fm r t = (Vs_exit (exit_code wait), printed t (bytes_of out) (bytes_of err))"
proof -
  have ok: "is_ok (js_output js m)" for m using assms(1) by (simp add: replies_law_def)
  obtain ms where "stream_bytes ''stdout'' ms = bytes_of out" "stream_bytes ''stderr'' ms = bytes_of err"
    "\<And>s. \<forall>k \<le> length ms. replies_law ja js \<and> same_replies ja fm vj \<and> terminal_ok (fold session_deliver (take k ms) s)
       \<Longrightarrow> vs_loop vj fm r s = (Vs_exit (exit_code wait), fold session_deliver ms s)"
    by (rule vsock_smoke.agent_output [OF assms(4-7) ok assms(8-11), of ja fm vj]) blast
  with assms(1-3) show ?thesis by (simp add: session_deliver_fold)
qed

end
