(* ===== verification/Session_Threads.thy ===== *)
theory Session_Threads
  imports Host_Session Vsock_Socket
begin

text \<open>
  The resources an attached session holds beside its stream (linux/src/session.rs): the signal
  forwarder with its signal mask and descriptor, and the listeners of forwarded ports with
  their accept threads. \<open>se_signals\<close> of Host_Session is the outcome of \<open>start_forwarder\<close>, and
  \<open>bind\<close> there the outcome of \<open>port_listener_start\<close>.
\<close>

definition session_connect_vsock ::
  "vsock_os \<Rightarrow> u32 \<Rightarrow> u32 \<Rightarrow> (int, session_error) result \<times> socket_action list" where
  "session_connect_vsock os cid port =
     (case vo_socket os of
        Err e \<Rightarrow> (Err (Session_Io e), [])
      | Ok fd \<Rightarrow>
          (let addr = \<lparr>svm_family = of_int AF_VSOCK, svm_port = port, svm_cid = cid\<rparr>
           in case vo_connect os fd addr of
                Err e \<Rightarrow> (Err (Session_Io e), [Open_socket fd, Close_socket fd])
              | Ok _ \<Rightarrow> (Ok fd, [Open_socket fd, Connect_socket fd addr])))"

lemma session_connect_vsock_copy:
  "session_connect_vsock os cid port = (case vsock_connect os cid port of (res, acts) \<Rightarrow> (map_err Session_Io res, acts))"
  by (simp add: session_connect_vsock_def vsock_connect_def Let_def split: result.splits)

section \<open>The signal forwarder\<close>

text \<open>
  The state of the process the forwarder changes: the signals the main thread blocks, the open
  signal descriptors and the number of forwarding threads.
\<close>

record signal_state =
  sg_blocked :: "int set"
  sg_fds :: "int set"
  sg_threads :: nat

record signal_os =
  go_sigaddset :: "int \<Rightarrow> io_error option"
  go_block :: "io_error option"
  go_signalfd :: "int io_result"
  go_clone :: "unit io_result"

record signal_forwarder =
  sf_fd :: int
  sf_old_mask :: "int set"

fun add_signals :: "signal_os \<Rightarrow> int list \<Rightarrow> unit io_result" where
  "add_signals os [] = Ok ()"
| "add_signals os (s # ss) = (case go_sigaddset os s of Some e \<Rightarrow> Err e | None \<Rightarrow> add_signals os ss)"

definition start_forwarder ::
  "signal_os \<Rightarrow> bool \<Rightarrow> signal_state \<Rightarrow> (signal_forwarder, session_error) result \<times> signal_state" where
  "start_forwarder os tty s =
     (case add_signals os (forwarded_signals tty) of
        Err e \<Rightarrow> (Err (Session_Io e), s)
      | Ok _ \<Rightarrow>
     (case go_block os of
        Some e \<Rightarrow> (Err (Session_Io e), s)
      | None \<Rightarrow>
          (let old_mask = sg_blocked s;
               s1 = s\<lparr>sg_blocked := old_mask \<union> set (forwarded_signals tty)\<rparr>
           in case go_signalfd os of
                Err e \<Rightarrow> (Err (Session_Io e), s1\<lparr>sg_blocked := old_mask\<rparr>)
              | Ok fd \<Rightarrow>
                  (let s2 = s1\<lparr>sg_fds := insert fd (sg_fds s1)\<rparr>
                   in case go_clone os of
                        Err e \<Rightarrow> (Err (Session_Io e), s2)
                      | Ok _ \<Rightarrow> (Ok \<lparr>sf_fd = fd, sf_old_mask = old_mask\<rparr>, s2\<lparr>sg_threads := Suc (sg_threads s2)\<rparr>)))))"

text \<open>Dropping it joins the thread, which owns the descriptor, and sets the old mask.\<close>

definition drop_forwarder :: "signal_forwarder \<Rightarrow> signal_state \<Rightarrow> signal_state" where
  "drop_forwarder f s =
     s\<lparr>sg_threads := sg_threads s - 1, sg_fds := sg_fds s - {sf_fd f}, sg_blocked := sf_old_mask f\<rparr>"

text \<open>
  A forwarder that starts and is dropped leaves no trace: mask, descriptors and threads are as
  before (the descriptor of \<open>signalfd\<close> was not open before).
\<close>

theorem forwarder_restores:
  assumes "start_forwarder os tty s = (Ok f, s1)" and "\<forall>fd. go_signalfd os = Ok fd \<longrightarrow> fd \<notin> sg_fds s"
  shows "drop_forwarder f s1 = s" "sg_blocked s1 = sg_blocked s \<union> set (forwarded_signals tty)"
  using assms by (auto simp: start_forwarder_def drop_forwarder_def Let_def split: result.splits option.splits)

text \<open>
  A start that fails leaves the state alone, with one exception: when the stream cannot be
  cloned, the signals stay blocked and the descriptor stays open, since the error is returned
  before anything owns them.
\<close>

theorem forwarder_failure:
  assumes "start_forwarder os tty s = (Err e, s1)"
  shows "s1 = s \<or> (\<exists>err fd. go_clone os = Err err \<and> go_signalfd os = Ok fd
      \<and> s1 = s\<lparr>sg_blocked := sg_blocked s \<union> set (forwarded_signals tty), sg_fds := insert fd (sg_fds s)\<rparr>)"
  using assms by (auto simp: start_forwarder_def Let_def split: result.splits option.splits)

definition failing_clone :: signal_os where
  "failing_clone = \<lparr>go_sigaddset = (\<lambda>_. None), go_block = None, go_signalfd = Ok 7,
     go_clone = Err (IoError OtherKind (Some 24) ''too many open files'')\<rparr>"

lemma forwarder_leaves_signals_blocked:
  "sg_blocked (snd (start_forwarder failing_clone False \<lparr>sg_blocked = {}, sg_fds = {}, sg_threads = 0\<rparr>)) = {SIGINT, SIGTERM}"
  by (simp add: start_forwarder_def failing_clone_def forwarded_signals_def Let_def)

section \<open>Listeners\<close>

definition port_listener_start :: "(u16 \<Rightarrow> unit io_result) \<Rightarrow> unit io_result \<Rightarrow> u16 \<Rightarrow> unit io_result" where
  "port_listener_start bind_tcp set_nonblocking port =
     (case bind_tcp port of Err e \<Rightarrow> Err e | Ok _ \<Rightarrow> set_nonblocking)"

text \<open>
  The accept thread of a listener: each round is the stop flag and the outcome of \<open>accept\<close>.
  The result is the connections that get a relay thread of their own, in order.
\<close>

fun accept_loop :: "(bool \<times> 'c io_result) list \<Rightarrow> 'c list" where
  "accept_loop [] = []"
| "accept_loop ((stop, outcome) # rounds) =
     (if stop then []
      else case outcome of
             Ok conn \<Rightarrow> conn # accept_loop rounds
           | Err e \<Rightarrow> if io_kind e = WouldBlock then accept_loop rounds else [])"

definition accepted :: "(bool \<times> 'c io_result) list \<Rightarrow> 'c list" where
  "accepted rounds = concat (map (\<lambda>(_, outcome). case outcome of Ok c \<Rightarrow> [c] | Err _ \<Rightarrow> []) rounds)"

definition quiet_round :: "bool \<times> 'c io_result \<Rightarrow> bool" where
  "quiet_round round = (case round of (stop, outcome) \<Rightarrow>
     \<not> stop \<and> (case outcome of Ok _ \<Rightarrow> True | Err e \<Rightarrow> io_kind e = WouldBlock))"

text \<open>
  The thread relays every connection accepted before it is stopped or its socket fails, and
  none after.
\<close>

theorem accept_loop_exact: "accept_loop rounds = accepted (takeWhile quiet_round rounds)"
  by (induction rounds rule: accept_loop.induct) (auto simp: accepted_def quiet_round_def split: result.splits)

end
