(* ===== verification/Daemon_Main.thy ===== *)
theory Daemon_Main
  imports Host_Daemon
begin

text \<open>
  The main function of the daemon binary (linux/src/bin/fend-daemon.rs): what it prints and its
  exit code for each outcome of the option parser and of the daemon.
\<close>

definition daemon_usage :: string where
  "daemon_usage = concat (map (\<lambda>l. l @ [CHR 0x0A])
     [''usage: fend-daemon [options]'',
      [],
      ''options:'',
      ''  --socket path        Unix socket path. Default: $FEND_DAEMON_SOCKET, then'',
      ''  $XDG_RUNTIME_DIR/fend/daemon.sock, then $FEND_HOME/run/daemon.sock.'',
      ''  --state-dir path     State directory for VM run dirs and pidfile.'',
      ''  --reap-interval sec  Idle-VM reaper tick in seconds. Default: 60.'',
      ''  -h, --help           Show this help.'',
      ''  -V, --version        Show version.'',
      [],
      ''The daemon keeps one QEMU instance per project workspace and serves'',
      ''CLI requests over the Unix socket. Idle VMs are stopped after'',
      ''30 minutes with zero active sessions.''])"

record daemon_exit =
  dx_code :: nat
  dx_stdout :: string
  dx_stderr :: string

text \<open>\<open>run\<close> is the daemon on its configuration; \<open>None\<close> while it serves. \<open>version\<close> is the package version.\<close>

definition daemon_main ::
  "(string \<Rightarrow> string) \<Rightarrow> string \<Rightarrow> daemon_config \<Rightarrow> (daemon_config \<Rightarrow> world \<Rightarrow> unit io_result option \<times> world)
     \<Rightarrow> string list \<Rightarrow> world \<Rightarrow> daemon_exit option \<times> world" where
  "daemon_main debug version config run args w =
     (case daemon_parse_args debug config args of
        Ok (DaemonRun config) \<Rightarrow>
          (case run config w of
             (None, w1) \<Rightarrow> (None, w1)
           | (Some (Ok _), w1) \<Rightarrow> (Some \<lparr>dx_code = 0, dx_stdout = [], dx_stderr = []\<rparr>, w1)
           | (Some (Err e), w1) \<Rightarrow>
               (Some \<lparr>dx_code = 1, dx_stdout = [], dx_stderr = ''fend-daemon: '' @ io_error_text e @ [CHR 0x0A]\<rparr>, w1))
      | Ok DaemonHelp \<Rightarrow> (Some \<lparr>dx_code = 0, dx_stdout = daemon_usage, dx_stderr = []\<rparr>, w)
      | Ok DaemonVersion \<Rightarrow>
          (Some \<lparr>dx_code = 0, dx_stdout = ''fend-daemon '' @ version @ [CHR 0x0A], dx_stderr = []\<rparr>, w)
      | Err e \<Rightarrow>
          (Some \<lparr>dx_code = 2, dx_stdout = [],
             dx_stderr = ''error: '' @ e @ [CHR 0x0A, CHR 0x0A] @ daemon_usage @ [CHR 0x0A]\<rparr>, w))"

text \<open>
  An option the parser refuses, and a request for help or the version, leave the host untouched;
  the exit code tells the three kinds of outcome apart.
\<close>

lemma daemon_main_no_run:
  assumes "\<forall>c. daemon_parse_args debug config args \<noteq> Ok (DaemonRun c)"
  shows "snd (daemon_main debug version config run args w) = w"
    and "map_option dx_code (fst (daemon_main debug version config run args w))
      = Some (if is_ok (daemon_parse_args debug config args) then 0 else 2)"
  using assms by (auto simp: daemon_main_def split: result.splits daemon_command.splits)

lemma daemon_main_code:
  "fst (daemon_main debug version config run args w) = Some x \<Longrightarrow> dx_code x = 1 \<longleftrightarrow>
     (\<exists>c e. daemon_parse_args debug config args = Ok (DaemonRun c) \<and> fst (run c w) = Some (Err e))"
  by (auto simp: daemon_main_def split: result.splits daemon_command.splits option.splits prod.splits)

end
