(* ===== verification/Spec2Isabelle.thy ===== *)
theory Spec2Isabelle
  imports Host_App Guest_Main Agent_Command Agent_Smoke Vsock_Smoke Session_Threads Daemon_Main
begin

text \<open>
  \<^bold>\<open>A verification library for fend\<close>

  fend runs a project's commands in a small virtual machine. On the host, the command line
  (linux/src/cli.rs, app.rs) finds the guest runtime (bootstrap.rs), checks the host (doctor.rs),
  resolves the language runtime of the project (runtime.rs) and plans a QEMU launch (qemu.rs,
  tools.rs). The supervisor (supervisor.rs) starts virtiofsd and QEMU; usually it does so for the
  daemon (daemon.rs, client.rs, ipc.rs), whose pool (pool.rs) keeps one VM per project. In the
  guest, fendd is the init process: it sets the machine up (fendd/src/init.rs), listens on vsock
  ports (vsock.rs, server.rs, main.rs), runs one command per connection (connection.rs,
  process.rs), reports listening ports and outbound connections (port_monitor.rs,
  network_monitor.rs) and forwards ports (port_forward.rs). The host's session (session.rs) and
  smoke client (smoke.rs, fendd/src/bin/fend-vsock-smoke.rs) speak the frame protocol
  (fendd/src/protocol.rs) with it.

  \<^bold>\<open>Theories\<close>

  \<^item> Prelude. \<^verbatim>\<open>Rust_Base\<close>: results, \<open>std::io\<close> errors, machine integers and their byte order, the
    collections of rewrite rules. \<^verbatim>\<open>Rust_Strings\<close>: the functions of \<open>str\<close> and \<open>Path\<close> and the number
    parsers. \<^verbatim>\<open>Rust_IO\<close>: readers as lists of chunks and failures, writers with failing calls, copy
    loops, and the locale \<^verbatim>\<open>message_channel\<close> (a decoder that undoes an encoder reads back any
    sequence of messages, however the stream is cut), interpreted in \<^verbatim>\<open>Frame_Protocol\<close> for both
    directions. \<^verbatim>\<open>Host_OS\<close>: the world of the host, with files, processes, a clock and scripted
    failures. \<^verbatim>\<open>Vsock_Socket\<close>: the system calls that open a vsock.
  \<^item> Wire. \<^verbatim>\<open>Frame_Protocol\<close> and \<^verbatim>\<open>Base64\<close>: protocol.rs and the copies on the host. The copies
    agree, frames and data round-trip, malformed headers are refused before anything is read
    from the body.
  \<^item> Launch. \<^verbatim>\<open>Host_Tools\<close> (tools.rs), \<^verbatim>\<open>Qemu_Plan\<close> (qemu.rs), \<^verbatim>\<open>Supervisor\<close> (supervisor.rs): what a
    plan contains, that no failed launch leaves a child behind (but for one path), that a drop
    undoes a launch.
  \<^item> Daemon. \<^verbatim>\<open>Ipc\<close> (ipc.rs), \<^verbatim>\<open>Vm_Pool\<close> (pool.rs), \<^verbatim>\<open>Host_Daemon\<close> (daemon.rs, client.rs),
    \<^verbatim>\<open>Daemon_Main\<close> (bin/fend-daemon.rs). The pool's operations are its critical sections; the
    inductive relation \<^verbatim>\<open>pool_step\<close> interleaves the sections of any number of threads, and the
    invariants hold in all reachable states. The locale \<^verbatim>\<open>slot_map\<close> is what the sections need of
    the \<open>HashMap\<close>. A request through the daemon is the pool's operation; an idle VM is reaped in time.
  \<^item> Guest. \<^verbatim>\<open>Guest_Init\<close> (init.rs), \<^verbatim>\<open>Guest_Main\<close> (main.rs, server.rs), \<^verbatim>\<open>Guest_Connection\<close>
    (connection.rs, port_forward.rs), \<^verbatim>\<open>Guest_Process\<close> (process.rs), \<^verbatim>\<open>Guest_Monitors\<close>
    (port_monitor.rs, network_monitor.rs). The order of the start, the confinement of every
    command, the output threads as the relation \<^verbatim>\<open>out_step\<close>, the monitor's subscribers as
    \<^verbatim>\<open>port_step\<close>; the locales \<^verbatim>\<open>notifier\<close> and \<^verbatim>\<open>event_sender\<close> are interpreted for both monitors.
  \<^item> Sessions. \<^verbatim>\<open>Host_Smoke\<close> (smoke.rs), \<^verbatim>\<open>Host_Session\<close> and \<^verbatim>\<open>Session_Threads\<close> (session.rs),
    \<^verbatim>\<open>Vsock_Smoke\<close> (bin/fend-vsock-smoke.rs). \<^verbatim>\<open>Output_Client\<close> is the contract the three readers of a
    command's output share, the locale \<^verbatim>\<open>output_client\<close>, with its lemma that joins a reader to the
    agent's output threads; it is interpreted for the session (\<^verbatim>\<open>Agent_Session\<close>), the smoke client
    (\<^verbatim>\<open>Agent_Smoke\<close>) and the stand-alone client (\<^verbatim>\<open>Vsock_Smoke\<close>). \<^verbatim>\<open>Agent_Command\<close> is the other
    direction, a command from the session to its process; \<^verbatim>\<open>Agent_Session\<close> also has the ports and
    the forwarded connections from end to end.
  \<^item> Runtimes. \<^verbatim>\<open>Semver\<close> and \<^verbatim>\<open>Runtime_Resolver\<close> (runtime.rs): the choice of a version, compared with
    the rules of npm ranges, and the rewriting of the command.
  \<^item> Command line. \<^verbatim>\<open>Cli_Usage\<close> and \<^verbatim>\<open>Host_Cli\<close> (cli.rs), \<^verbatim>\<open>Host_Doctor\<close> (doctor.rs),
    \<^verbatim>\<open>Host_Bootstrap\<close> (bootstrap.rs), \<^verbatim>\<open>Host_App\<close> (app.rs): parsing and printing as inverses, the
    preflight, verified downloads, each command as the composition of the components.
  \<^item> This theory: the properties that go from the host's command line to the guest's processes.

  \<^bold>\<open>Conventions\<close>

  A struct is a record, an enum a datatype, a fallible function returns \<open>result\<close>, and the order
  of the case distinctions is that of the early returns of the source. Integers have their widths where the
  code computes with them (words wrap as in a release build); durations are natural numbers of nanoseconds.
  A path, a string and an environment value is a list of bytes in UTF-8. Loops over finite input are recursive
  functions with termination proofs; a loop that polls takes the list of what each round
  observes, so the theorems hold for every number of rounds. The one depth bound is that of
  \<^verbatim>\<open>chown_recursive\<close>, whose recursion follows the directory tree: the theorems hold for every
  depth. The walk up from the executable in the bootstrap has as many rounds as the path has components.

  Code outside the sources is a parameter: the printers and parsers of serde_json (records of
  functions; a theorem that joins two sides names the law it needs, with an instance in its
  witness), the standard hasher, \<open>{:?}\<close> and error texts of the system (\<^verbatim>\<open>formatters\<close>), the kernel's
  answers (\<^verbatim>\<open>spawn_os\<close>, \<^verbatim>\<open>guest\<close>, \<^verbatim>\<open>vsock_os\<close>, \<^verbatim>\<open>signal_os\<close>), and the programs run on the host
  (curl, tar, docker, sha256sum). The Linux branches of conditionally compiled functions are modelled.

  \<^bold>\<open>Not modelled\<close>

  Diagnostics on standard error where the program goes on unchanged, permission bits, signal
  handlers (they set a flag the loops read), the tests. The Swift host and the scripts and packages are other programs.
\<close>

section \<open>From the launcher to the start of the guest\<close>

lemma split_words_line:
  assumes "list_all word ws" "ws \<noteq> []"
  shows "split_whitespace (join_with '' '' ws @ [CHR 0x0A]) = ws"
proof -
  have nl: "split_ws_aux acc [CHR 0x0A] = flush_word acc" for acc
    by (subst split_ws_aux.simps) (simp add: ws_len_def flush_word_def)
  have "split_ws_aux [] (join_with '' '' ws @ [CHR 0x0A]) = ws"
    using assms
  proof (induction "'' ''" ws rule: join_with.induct)
    case (2 s)
    then show ?case using split_ws_aux_word [of s "[]" "[CHR 0x0A]"] by (simp add: word_def flush_word_def nl)
  next
    case (3 s t ts)
    then show ?case
      using split_ws_aux_word [of s "[]" "CHR 0x20 # join_with '' '' (t # ts) @ [CHR 0x0A]"]
      by (simp add: split_ws_aux_space word_def flush_word_def)
  qed simp
  then show ?thesis by (simp add: split_whitespace_def)
qed

definition cmdline_words :: "int \<Rightarrow> string \<Rightarrow> string list" where
  "cmdline_words epoch workspace =
     [''console=ttyS0'', ''root=/dev/vda'', ''rootwait'', ''rw'', ''init=/usr/local/bin/fendd'', ''quiet'',
      ''fend.epoch='' @ show_int epoch, ''fend.cwd='' @ qemu_base64 (as_bytes workspace)]"

lemma kernel_cmdline_words: "kernel_cmdline epoch workspace = join_with '' '' (cmdline_words epoch workspace)"
  by (simp add: kernel_cmdline_def cmdline_words_def)

lemma cmdline_words_word: "list_all word (cmdline_words epoch workspace)"
proof -
  have "list_all graphic (show_int epoch)"
    using show_nat_graphic by (auto simp: show_int_def graphic_def)
  moreover have "c \<in> insert (CHR ''='') (set B64) \<Longrightarrow> graphic c" for c
    unfolding B64_def by (auto simp: graphic_def)
  then have "list_all graphic (qemu_base64 (as_bytes workspace))"
    using base64_encode_shape [of "as_bytes workspace"] unfolding qemu_base64_encode list_all_iff by blast
  ultimately show ?thesis by (simp add: cmdline_words_def word_def) (simp add: graphic_def)
qed

text \<open>
  (C8) What the launcher puts on the kernel command line is what the guest's start reads back:
  the clock is set once, to the configured time, and the workspace is mounted at the
  configured path, whatever characters that path has (the kernel shows the command line with a
  newline at the end).
\<close>

theorem kernel_cmdline_end_to_end:
  assumes "build_launch_plan config = Ok plan"
    and "gu_read g ''/proc/cmdline'' = Some (lp_kernel_cmdline plan @ [CHR 0x0A])"
    and "- (2 ^ 63) \<le> lc_epoch config" "lc_epoch config < 2 ^ 63"
    and "utf8_valid (map unat (as_bytes (lc_guest_workspace config)))"
  shows "set_clock_from_cmdline g = [SetClock (lc_epoch config)]
     \<and> Mount ''workspace'' (lc_guest_workspace config) ''virtiofs'' \<in> set (initialize depth g)"
proof -
  have "lp_kernel_cmdline plan = kernel_cmdline (lc_epoch config) (lc_guest_workspace config)"
    using assms(1) by (auto simp: build_launch_plan_def Let_def split: result.splits)
  then have words: "gu_read g ''/proc/cmdline'' = Some (join_with '' '' (cmdline_words (lc_epoch config) (lc_guest_workspace config)) @ [CHR 0x0A])"
    using assms(2) by (simp add: kernel_cmdline_words)
  have split: "split_whitespace (join_with '' '' (cmdline_words (lc_epoch config) (lc_guest_workspace config)) @ [CHR 0x0A])
      = cmdline_words (lc_epoch config) (lc_guest_workspace config)"
    by (rule split_words_line [OF cmdline_words_word]) (simp add: cmdline_words_def)
  have clock: "set_clock_from_cmdline g = [SetClock (lc_epoch config)]"
    unfolding set_clock_from_cmdline_def words option.case split
    using parse_i64_show_int [OF assms(3,4)] by (simp add: cmdline_words_def strip_prefix_def)
  have "read_cwd_from_cmdline g = Some (lc_guest_workspace config)"
    unfolding read_cwd_from_cmdline_def words option.case split
    using assms(5) base64_decode_encode_aux [of "as_bytes (lc_guest_workspace config)"]
    by (simp add: cmdline_words_def strip_prefix_def qemu_base64_encode from_utf8_def string_as_bytes)
  then have "guest_workspace g = lc_guest_workspace config" by (simp add: guest_workspace_def)
  then have "Mount ''workspace'' (lc_guest_workspace config) ''virtiofs'' \<in> set (initialize depth g)"
    by (simp add: initialize_def mount_virtiofs_def Let_def)
  with clock show ?thesis ..
qed

lemma kernel_cmdline_end_to_end_witness:
  "\<exists>plan g. build_launch_plan (demo_config\<lparr>lc_guest_workspace := ''/my project''\<rparr>) = Ok plan
     \<and> gu_read g ''/proc/cmdline'' = Some (lp_kernel_cmdline plan @ [CHR 0x0A])
     \<and> set_clock_from_cmdline g = [SetClock 1700000000]
     \<and> Mount ''workspace'' ''/my project'' ''virtiofs'' \<in> set (initialize 3 g)"
proof -
  let ?config = "demo_config\<lparr>lc_guest_workspace := ''/my project''\<rparr>"
  obtain plan where plan: "build_launch_plan ?config = Ok plan"
    by (simp add: build_launch_plan_def validate_def demo_config_def new_launch_config_def Let_def)
  define g where "g = \<lparr>gu_read = (\<lambda>p. if p = ''/proc/cmdline'' then Some (lp_kernel_cmdline plan @ [CHR 0x0A]) else None),
      gu_exists = (\<lambda>_. False), gu_is_dir = (\<lambda>_. False), gu_entries = (\<lambda>_. None), gu_ok = (\<lambda>_. True)\<rparr>"
  have "utf8_valid (map unat (as_bytes ''/my project''))" by code_simp
  moreover have read: "gu_read g ''/proc/cmdline'' = Some (lp_kernel_cmdline plan @ [CHR 0x0A])"
    by (simp add: g_def)
  moreover have "lc_epoch ?config = 1700000000" "lc_guest_workspace ?config = ''/my project''"
    by (simp_all add: demo_config_def new_launch_config_def)
  ultimately show ?thesis
    using kernel_cmdline_end_to_end [OF plan read, of 3] plan by (intro exI [of _ plan] exI [of _ g]) simp
qed

section \<open>From the command line to the process in the guest\<close>

text \<open>The environment a prepared command brings along.\<close>

lemma prepared_env:
  assumes "fst (prepare_guest_command jv he fm command workspace tools_dir) = Ok prepared"
  shows "distinct (map fst (pg_env prepared))" "''FEND_NETWORK_MODE'' \<notin> set (map fst (pg_env prepared))"
  using assms
  by (auto simp: prepare_guest_command_def prepare_node_command_def prepare_bun_command_def bind_host_def pure_host_def
      GUEST_TOOL_PATH_PREPEND_ENV_def split: if_splits option.splits guest_tool.splits result.splits prod.splits)

lemma session_env_lookup:
  assumes "fst (prepare_guest_command jv he fm command workspace tools_dir) = Ok prepared"
  shows "map_of (ec_env (host_command (session_config options config prepared) tty))
     = map_of (sc_env (build_run_smoke_config options config)) ++ map_of (pg_env prepared)"
  using prepared_env(1) [OF assms]
  by (simp add: host_command_def session_config_def Let_def map_of_btree_extend)

lemma network_off_env:
  assumes "ro_network options = Some Net_Off"
    and "fst (prepare_guest_command jv he fm (ro_command options) workspace tools_dir) = Ok prepared"
    and "sc = session_config options config prepared \<or> sc = (session_config options config prepared)\<lparr>sc_cid := cid\<rparr>"
  shows "map_of (ec_env (host_command sc tty)) ''FEND_NETWORK_MODE'' = Some ''off''"
proof -
  have "ec_env (host_command sc tty) = ec_env (host_command (session_config options config prepared) tty)"
    using assms(3) by (auto simp: host_command_def)
  moreover have "map_of (pg_env prepared) ''FEND_NETWORK_MODE'' = None"
    using prepared_env(2) [OF assms(2)] by (simp add: map_of_eq_None_iff)
  ultimately show ?thesis
    using run_network_off [OF assms(1)] by (simp add: session_env_lookup [OF assms(2)] map_add_def)
qed


text \<open>A run with the network off that also tries to switch it on through the environment.\<close>

definition offline_args :: "string list" where
  "offline_args = [''--network'', ''off'', ''--env'', ''FEND_NETWORK_MODE=on'', ''--'', ''node'', ''-v'']"

definition offline_options :: run_options where
  "offline_options = default_run_options\<lparr>ro_network := Some Net_Off, ro_env := [(''FEND_NETWORK_MODE'', ''on'')],
     ro_command := [''node'', ''-v'']\<rparr>"

definition node_host :: host_env where
  "node_host = bare_host\<lparr>he_exists := (\<lambda>_. True),
     he_run := (\<lambda>_ _. Ok \<lparr>po_success = True, po_status = [], po_stdout = [], po_stdout_text = ''v20.1.0'', po_stderr_text = []\<rparr>)\<rparr>"

definition offline_prepared :: prepared_guest_command where
  "offline_prepared = \<lparr>pg_command = [''/opt/tools/node-20.1.0-linux-x64/bin/node'', ''-v''],
     pg_env = [(''FEND_TOOL_PATH_PREPEND'', ''/opt/tools/node-20.1.0-linux-x64/bin'')]\<rparr>"

lemma offline_parsed: "parse_args offline_args = Ok (Cli_Run offline_options)"
  by code_simp

lemma offline_prepares:
  "fst (prepare_guest_command no_json node_host plain_formatters (ro_command offline_options) ''/p'' ''/t'') = Ok offline_prepared"
  by code_simp

definition piped_env :: session_env where
  "piped_env = tty_env\<lparr>se_tty := False\<rparr>"

definition offline_session :: smoke_config where
  "offline_session = session_config offline_options demo_config offline_prepared"

lemma offline_handshake:
  "\<exists>r1. session_handshake (one_session (host_command offline_session False) tty_window) piped_env offline_session ready_stream (sink [])
     = (Ok r1, sink [1, 0, 0, 0, 1, 1])"
proof -
  from session_read_frame_ok [of ready_stream 6 "[123, 125]" "[]"] obtain r1 where
    "session_read_frame ready_stream = (Ok \<lparr>kind = 6, payload = [123, 125]\<rparr>, r1)"
    by (auto simp: ready_stream_def clean_def frame_bytes_def u32_to_be_bytes_def MAX_PAYLOAD_def)
  then show ?thesis
    by (simp add: session_handshake_def one_session_def session_write_frame_sink frame_bytes_def
        u32_to_be_bytes_def piped_env_def tty_env_def)
qed

text \<open>The handler of the agent on the bytes of that session.\<close>

lemma offline_handled:
  "\<exists>c ct w. handle (guest_os\<lparr>so_exec := (\<lambda>_. Ok 321)\<rparr>) plain_json (one_request (host_command offline_session False) tty_window)
     (\<lambda>_. []) (Ok ()) (sink []) [Chunk [1, 0, 0, 0], Chunk [1, 1]] (sink []) = (Ran (Piped c) ct, w) \<and> ch_pid c = 321"
proof -
  let ?cmd = "host_command offline_session False" and ?os = "guest_os\<lparr>so_exec := (\<lambda>_. Ok 321)\<rparr>"
  from to_guest.dec_enc [of "[Chunk [1, 0, 0, 0], Chunk [1, 1]]" "(ExecuteCommand, [1])" "[]"] obtain r1 where
    "read_frame [Chunk [1, 0, 0, 0], Chunk [1, 1]] = (Ok (ExecuteCommand, [1]), r1)"
    by (auto simp: clean_def frame_bytes_def u32_to_be_bytes_def MAX_PAYLOAD_def)
  moreover obtain w1 where "write_frame Ready (as_bytes ''{}'') (sink []) = (Ok (), w1)"
    by (simp add: write_frame_session session_write_frame_sink)
  moreover have "rj_command (one_request ?cmd tty_window) [1] = Ok ?cmd" by (simp add: one_request_def)
  ultimately have run: "handle ?os plain_json (one_request ?cmd tty_window) (\<lambda>_. []) (Ok ()) (sink []) [Chunk [1, 0, 0, 0], Chunk [1, 1]] (sink []) =
      (case spawn_command ?os plain_json (\<lambda>_. []) ?cmd w1 of
         (Err _, w2) \<Rightarrow> (SpawnFailed, w2)
       | (Ok res, w2) \<Rightarrow>
           (Ran res (end_of_stream (spawned_terminal res)
              (message_loop (one_request ?cmd tty_window) (ec_id ?cmd) (ch_pid (spawned_child res)) (spawned_terminal res) r1
                 (spawned_control res (sink [])))), w2))"
    by (intro handle_command)
  have "case fst (spawn_command ?os plain_json (\<lambda>_. []) ?cmd (sink [])) of Ok (Piped c) \<Rightarrow> ch_pid c = 321 | _ \<Rightarrow> False" by code_simp
  then obtain c where "fst (spawn_command ?os plain_json (\<lambda>_. []) ?cmd (sink [])) = Ok (Piped c)" "ch_pid c = 321"
    by (auto split: result.splits spawn_result.splits)
  then have "\<exists>w2. spawn_command ?os plain_json (\<lambda>_. []) ?cmd w1 = (Ok (Piped c), w2)"
    by (auto simp: spawn_command_def host_command_def spawn_def Let_def split: prod.splits result.splits)
  with run \<open>ch_pid c = 321\<close> show ?thesis by auto
qed

lemma offline_stream:
  "w_out (sink []) = []" "clean [Chunk [1, 0, 0, 0], Chunk [1, 1]]"
  "bytes_of [Chunk [1, 0, 0, 0], Chunk [1, 1]] = w_out (sink [1, 0, 0, 0, 1, 1]) @ []"
  by (simp_all add: clean_def)




end
